(* ===== verification/Prelude.thy ===== *)
theory Prelude
  imports Main "HOL-Library.State_Monad"
begin

text \<open>
  Shared vocabulary of the development.

  Go functions return a value and an error; a function of the operator that touches the
  outside world becomes a computation of \<open>HOL-Library.State_Monad\<close>, whose state is the
  process state together with the world. A Go error is a value of \<open>gerr\<close>, so that
  every early return of the source is a branch of the model; a Go run-time panic is the
  constructor \<open>Panicked\<close> of \<open>outcome\<close>, which no \<open>if err != nil\<close> can catch.

  The theory also holds the theorem collections of the development and the lemmas about
  the state monad and about association lists that all components use.
\<close>

section \<open>Theorem collections\<close>

named_theorems run_simps \<open>one-step evaluation of the effects of the model\<close>
named_theorems frame_rules \<open>composition rules for frame conditions of effectful code\<close>

section \<open>Go errors\<close>

text \<open>
  The error values of the operator. \<open>Api_NotFound\<close> and \<open>Api_Error\<close> are errors that come
  from the Kubernetes client or another library (the first one is what
  \<open>apierrors.IsNotFound\<close> recognises); \<open>Secret_Conflict\<close> and \<open>Incomplete_Migration\<close> are the
  two sentinel errors of \<open>internal/serviceaccount\<close>; \<open>New_Err\<close> is \<open>errors.New\<close> or
  \<open>fmt.Errorf\<close> without \<open>%w\<close>; \<open>Wrap pre e post\<close> is \<open>fmt.Errorf\<close> with one \<open>%w\<close>, with the
  formatted text before and after it; \<open>Join\<close> is \<open>errors.Join\<close> of two errors.
\<close>

datatype gerr =
    Api_NotFound string
  | Api_Error string
  | Secret_Conflict
  | Incomplete_Migration
  | Ctx_Canceled
  | New_Err string
  | Wrap string gerr string
  | Join gerr gerr

fun err_msg :: "gerr \<Rightarrow> string" where
  "err_msg (Api_NotFound m) = m"
| "err_msg (Api_Error m) = m"
| "err_msg Secret_Conflict =
     ''secret already exists and is not owned by this service account request''"
| "err_msg Incomplete_Migration = ''migration secret is incomplete''"
| "err_msg Ctx_Canceled = ''context canceled''"
| "err_msg (New_Err m) = m"
| "err_msg (Wrap pre e post) = pre @ err_msg e @ post"
| "err_msg (Join a b) = err_msg a @ [CHR 0x0A] @ err_msg b"

text \<open>\<open>errors.Is\<close> for the sentinel errors: a depth-first walk over the wrapped errors.\<close>

fun errors_is :: "gerr \<Rightarrow> gerr \<Rightarrow> bool" where
  "errors_is (Wrap pre e post) t = (Wrap pre e post = t \<or> errors_is e t)"
| "errors_is (Join a b) t = (Join a b = t \<or> errors_is a t \<or> errors_is b t)"
| "errors_is e t = (e = t)"

text \<open>
  \<open>apierrors.IsNotFound\<close>: the reason of the first API status in the chain. An
  \<open>Api_Error\<close> is any other status or transport error, so the walk stops there.
\<close>

fun first_status :: "gerr \<Rightarrow> bool option" where
  "first_status (Api_NotFound m) = Some True"
| "first_status (Api_Error m) = Some False"
| "first_status (Wrap pre e post) = first_status e"
| "first_status (Join a b) = (case first_status a of Some x \<Rightarrow> Some x | None \<Rightarrow> first_status b)"
| "first_status e = None"

definition is_not_found :: "gerr \<Rightarrow> bool" where
  "is_not_found e \<longleftrightarrow> first_status e = Some True"

text \<open>\<open>fmt.Errorf("... : %w", err)\<close>: the common form, with nothing after the wrapped error.\<close>

definition errorf :: "string \<Rightarrow> gerr \<Rightarrow> gerr" where
  "errorf pre e = Wrap pre e []"

lemma is_not_found_simps [simp]:
  "is_not_found (Api_NotFound m)"
  "\<not> is_not_found (Api_Error m)"
  "\<not> is_not_found Secret_Conflict"
  "\<not> is_not_found Incomplete_Migration"
  "\<not> is_not_found Ctx_Canceled"
  "\<not> is_not_found (New_Err m)"
  "is_not_found (Wrap pre e post) = is_not_found e"
  by (simp_all add: is_not_found_def)

lemma is_not_found_errorf [simp]: "is_not_found (errorf pre e) = is_not_found e"
  by (simp add: errorf_def)

lemma errors_is_errorf [simp]:
  "errors_is (errorf pre e) Secret_Conflict = errors_is e Secret_Conflict"
  "errors_is (errorf pre e) Incomplete_Migration = errors_is e Incomplete_Migration"
  "errors_is (errorf pre e) Ctx_Canceled = errors_is e Ctx_Canceled"
  by (simp_all add: errorf_def)

lemma err_msg_errorf [simp]: "err_msg (errorf pre e) = pre @ err_msg e"
  by (simp add: errorf_def)

section \<open>Results\<close>

text \<open>A Go \<open>(T, error)\<close> result of which at most one half is meaningful.\<close>

type_synonym 'a res = "gerr + 'a"

datatype 'a outcome = Returned 'a | Panicked string

fun map_returned :: "('a \<Rightarrow> 'b) \<Rightarrow> 'a outcome \<Rightarrow> 'b outcome" where
  "map_returned f (Returned x) = Returned (f x)"
| "map_returned f (Panicked m) = Panicked m"

fun is_panic :: "'a outcome \<Rightarrow> bool" where
  "is_panic (Panicked m) = True"
| "is_panic (Returned x) = False"

section \<open>The state monad\<close>

abbreviation ret :: "'a \<Rightarrow> ('s, 'a) state" where
  "ret \<equiv> State_Monad.return"

definition gets_st :: "('s \<Rightarrow> 'a) \<Rightarrow> ('s, 'a) state" where
  "gets_st f = State (\<lambda>s. (f s, s))"

definition modify_st :: "('s \<Rightarrow> 's) \<Rightarrow> ('s, unit) state" where
  "modify_st f = State (\<lambda>s. ((), f s))"

lemma run_gets_st [simp, run_simps]: "run_state (gets_st f) s = (f s, s)"
  by (simp add: gets_st_def)

lemma run_modify_st [simp, run_simps]: "run_state (modify_st f) s = ((), f s)"
  by (simp add: modify_st_def)

text \<open>
  Frame conditions. \<open>preserves R m\<close>: whatever the computation returns, start and end
  state are related by \<open>R\<close>. For a reflexive and transitive \<open>R\<close> it composes along the
  source's sequence of statements, so a component only states it for its primitives.
\<close>

definition preserves :: "('s \<Rightarrow> 's \<Rightarrow> bool) \<Rightarrow> ('s, 'a) state \<Rightarrow> bool" where
  "preserves R m \<longleftrightarrow> (\<forall>s. R s (snd (run_state m s)))"

lemma preservesD: "preserves R m \<Longrightarrow> run_state m s = (a, s') \<Longrightarrow> R s s'"
  by (auto simp: preserves_def dest: spec [where x = s])

lemma preservesI: "(\<And>s a s'. run_state m s = (a, s') \<Longrightarrow> R s s') \<Longrightarrow> preserves R m"
  by (auto simp: preserves_def intro: prod.collapse [symmetric])

definition frame_rel :: "('s \<Rightarrow> 's \<Rightarrow> bool) \<Rightarrow> bool" where
  "frame_rel R \<longleftrightarrow> reflp R \<and> transp R"

lemma frame_relI: "(\<And>s. R s s) \<Longrightarrow> (\<And>a b c. R a b \<Longrightarrow> R b c \<Longrightarrow> R a c) \<Longrightarrow> frame_rel R"
  by (auto simp: frame_rel_def intro: reflpI transpI)

lemma preserves_ret [frame_rules]: "frame_rel R \<Longrightarrow> preserves R (ret x)"
  by (auto simp: preserves_def frame_rel_def dest: reflpD)

lemma preserves_bind [frame_rules]:
  assumes "frame_rel R" and "preserves R m" and "\<And>x. preserves R (f x)"
  shows "preserves R (m \<bind> f)"
proof (rule preservesI)
  fix s a s'
  assume run: "run_state (m \<bind> f) s = (a, s')"
  obtain b t where m: "run_state m s = (b, t)" by fastforce
  with run have f: "run_state (f b) t = (a, s')" by simp
  have "R s t" using assms(2) m by (rule preservesD)
  moreover have "R t s'" using assms(3) f by (rule preservesD)
  ultimately show "R s s'" using assms(1) by (auto simp: frame_rel_def dest: transpD)
qed

lemma preserves_gets_st [frame_rules]: "frame_rel R \<Longrightarrow> preserves R (gets_st f)"
  by (auto simp: preserves_def frame_rel_def dest: reflpD)

lemma preserves_if [frame_rules]:
  "(b \<Longrightarrow> preserves R m) \<Longrightarrow> (\<not> b \<Longrightarrow> preserves R n) \<Longrightarrow> preserves R (if b then m else n)"
  by simp

lemma preserves_case_sum [frame_rules]:
  "(\<And>e. preserves R (f e)) \<Longrightarrow> (\<And>x. preserves R (g x)) \<Longrightarrow> preserves R (case r of Inl e \<Rightarrow> f e | Inr x \<Rightarrow> g x)"
  by (cases r) simp_all

lemma preserves_case_option [frame_rules]:
  "preserves R m \<Longrightarrow> (\<And>x. preserves R (g x)) \<Longrightarrow> preserves R (case r of None \<Rightarrow> m | Some x \<Rightarrow> g x)"
  by (cases r) simp_all

lemma preserves_case_prod [frame_rules]:
  "(\<And>a b. preserves R (f a b)) \<Longrightarrow> preserves R (case r of (a, b) \<Rightarrow> f a b)"
  by (cases r) simp

lemma preserves_case_outcome [frame_rules]:
  "(\<And>x. preserves R (f x)) \<Longrightarrow> (\<And>m. preserves R (g m)) \<Longrightarrow>
   preserves R (case r of Returned x \<Rightarrow> f x | Panicked m \<Rightarrow> g m)"
  by (cases r) simp_all

section \<open>Association lists as Go maps\<close>

text \<open>
  A Go map is an association list with distinct keys; the list order stands for the
  order in which a \<open>range\<close> loop happens to visit it. \<open>mset m = mset m'\<close> relates two
  visiting orders of one map.
\<close>

type_synonym strmap = "(string \<times> string) list"

definition wf_map :: "('k \<times> 'v) list \<Rightarrow> bool" where
  "wf_map m \<longleftrightarrow> distinct (map fst m)"

lemma map_of_filter_keys:
  "map_of (filter (\<lambda>kv. P (fst kv)) m) k = (if P k then map_of m k else None)"
  by (induction m) auto

lemma map_of_perm:
  assumes "wf_map m" and "set m = set m'" and "wf_map m'"
  shows "map_of m = map_of m'"
  using assms by (simp add: wf_map_def map_of_inject_set)

end
