(* ===== verification/Go_Std.thy ===== *)
theory Go_Std
  imports Prelude "HOL-Library.AList" "HOL-Library.List_Lexorder" "HOL-Library.Char_ord"
begin

text \<open>
  The parts of Go's standard library the operator calls, as executable functions on byte
  strings (\<open>string\<close> is a list of bytes here, as a Go string is): \<open>strings.HasPrefix\<close>,
  \<open>CutPrefix\<close>, \<open>Cut\<close> and \<open>Join\<close>, \<open>slices.Sort\<close> on strings, \<open>strconv.Quote\<close> (the verb
  \<open>%q\<close>), \<open>%d\<close>, \<open>strconv.ParseBool\<close>, \<open>strconv.ParseInt(s, 10, 32)\<close> and the conversion
  to \<open>int32\<close>, and \<open>time.Since\<close> with its saturation at the ends of \<open>time.Duration\<close>.

  \<open>goQuote\<close> is exact for ASCII and passes bytes from 0x80 on through, as \<open>strconv.Quote\<close>
  does for printable runes of valid UTF-8.
\<close>

section \<open>Bytes\<close>

definition code :: "char \<Rightarrow> int" where
  "code c = of_char c"

definition is_digit :: "char \<Rightarrow> bool" where
  "is_digit c \<longleftrightarrow> 48 \<le> code c \<and> code c \<le> 57"

definition is_lower :: "char \<Rightarrow> bool" where
  "is_lower c \<longleftrightarrow> 97 \<le> code c \<and> code c \<le> 122"

definition is_upper :: "char \<Rightarrow> bool" where
  "is_upper c \<longleftrightarrow> 65 \<le> code c \<and> code c \<le> 90"

definition digit_val :: "char \<Rightarrow> int" where
  "digit_val c = code c - 48"

definition digit_char :: "int \<Rightarrow> char" where
  "digit_char n = char_of (n + 48)"

definition hex_char :: "int \<Rightarrow> char" where
  "hex_char n = (if n < 10 then char_of (n + 48) else char_of (n + 87))"

definition to_lower :: "string \<Rightarrow> string" where
  "to_lower = map (\<lambda>c. if is_upper c then char_of (code c + 32) else c)"

section \<open>strings\<close>

fun hasPrefix :: "string \<Rightarrow> string \<Rightarrow> bool" where
  "hasPrefix s [] = True"
| "hasPrefix [] (p # ps) = False"
| "hasPrefix (c # s) (p # ps) = (c = p \<and> hasPrefix s ps)"

fun cutPrefix :: "string \<Rightarrow> string \<Rightarrow> string option" where
  "cutPrefix s [] = Some s"
| "cutPrefix [] (p # ps) = None"
| "cutPrefix (c # s) (p # ps) = (if c = p then cutPrefix s ps else None)"

text \<open>\<open>strings.Cut\<close> at a one-byte separator: what is before it and, if it occurs, after it.\<close>

fun cut :: "char \<Rightarrow> string \<Rightarrow> string \<times> string option" where
  "cut sep [] = ([], None)"
| "cut sep (c # s) =
     (if c = sep then ([], Some s)
      else case cut sep s of (before, after) \<Rightarrow> (c # before, after))"

fun join :: "string \<Rightarrow> string list \<Rightarrow> string" where
  "join sep [] = []"
| "join sep [x] = x"
| "join sep (x # y # xs) = x @ sep @ join sep (y # xs)"

lemma hasPrefix_iff: "hasPrefix s p \<longleftrightarrow> (\<exists>t. s = p @ t)"
  by (induction s p rule: hasPrefix.induct) auto

lemma cutPrefix_Some: "cutPrefix s p = Some t \<longleftrightarrow> s = p @ t"
  by (induction s p rule: cutPrefix.induct) auto

lemma cutPrefix_append [simp]: "cutPrefix (p @ t) p = Some t"
  by (simp add: cutPrefix_Some)

lemma cutPrefix_None: "cutPrefix s p = None \<longleftrightarrow> \<not> hasPrefix s p"
  by (induction s p rule: cutPrefix.induct) auto

lemma fst_cut: "fst (cut sep s) = takeWhile (\<lambda>c. c \<noteq> sep) s"
  by (induction s) (auto split: prod.splits)

lemma cut_no_sep: "sep \<notin> set (fst (cut sep s))"
  by (auto simp: fst_cut dest: set_takeWhileD)

lemma cut_some: "cut sep s = (a, Some b) \<Longrightarrow> s = a @ sep # b"
  by (induction s arbitrary: a) (auto split: if_splits prod.splits)

lemma cut_none: "cut sep s = (a, None) \<Longrightarrow> a = s \<and> sep \<notin> set s"
  by (induction s arbitrary: a) (auto split: if_splits prod.splits)

lemma cut_absent: "c \<notin> set s \<Longrightarrow> cut c s = (s, None)"
  by (induction s) auto

lemma cut_at: "c \<notin> set a \<Longrightarrow> cut c (a @ c # b) = (a, Some b)"
  by (induction a) auto

section \<open>strconv.Quote and decimal numbers\<close>

definition quoteByte :: "char \<Rightarrow> string" where
  "quoteByte c =
     (let n = code c; bs = CHR 0x5C in
      if n = 34 \<or> n = 92 then [bs, c]
      else if n = 7 then [bs, CHR ''a'']
      else if n = 8 then [bs, CHR ''b'']
      else if n = 12 then [bs, CHR ''f'']
      else if n = 10 then [bs, CHR ''n'']
      else if n = 13 then [bs, CHR ''r'']
      else if n = 9 then [bs, CHR ''t'']
      else if n = 11 then [bs, CHR ''v'']
      else if n < 32 \<or> n = 127 then [bs, CHR ''x'', hex_char (n div 16), hex_char (n mod 16)]
      else [c])"

definition goQuote :: "string \<Rightarrow> string" where
  "goQuote s = [CHR 0x22] @ concat (map quoteByte s) @ [CHR 0x22]"

function digits_of :: "int \<Rightarrow> string" where
  "digits_of n = (if n < 10 then [digit_char n] else digits_of (n div 10) @ [digit_char (n mod 10)])"
  by pat_completeness auto
termination
  by (relation "measure nat") auto

declare digits_of.simps [simp del]

definition itoa :: "int \<Rightarrow> string" where
  "itoa i = (if i < 0 then CHR ''-'' # digits_of (- i) else digits_of i)"

section \<open>strconv.ParseBool and strconv.ParseInt\<close>

definition num_error :: "string \<Rightarrow> string \<Rightarrow> string \<Rightarrow> gerr" where
  "num_error fn s what = New_Err (''strconv.'' @ fn @ '': parsing '' @ goQuote s @ '': '' @ what)"

definition parseBool :: "string \<Rightarrow> bool res" where
  "parseBool s =
     (if s \<in> set [''1'', ''t'', ''T'', ''true'', ''TRUE'', ''True''] then Inr True
      else if s \<in> set [''0'', ''f'', ''F'', ''false'', ''FALSE'', ''False''] then Inr False
      else Inl (num_error ''ParseBool'' s ''invalid syntax''))"

datatype num_failure = Syntax_Failure | Range_Failure

text \<open>\<open>ParseUint\<close> with a largest value: digits are consumed from the left, and the first
  problem met decides the error.\<close>

fun parse_digits :: "int \<Rightarrow> int \<Rightarrow> string \<Rightarrow> num_failure + int" where
  "parse_digits mx n [] = Inr n"
| "parse_digits mx n (c # cs) =
     (if \<not> is_digit c then Inl Syntax_Failure
      else let n1 = n * 10 + digit_val c in
        if n1 > mx then Inl Range_Failure else parse_digits mx n1 cs)"

fun num_failure_text :: "num_failure \<Rightarrow> string" where
  "num_failure_text Syntax_Failure = ''invalid syntax''"
| "num_failure_text Range_Failure = ''value out of range''"

definition parseInt32 :: "string \<Rightarrow> int res" where
  "parseInt32 s =
     (if s = [] then Inl (num_error ''ParseInt'' s ''invalid syntax'')
      else let neg = (hd s = CHR ''-'');
               ds = (if hd s = CHR ''-'' \<or> hd s = CHR ''+'' then tl s else s) in
        if ds = [] then Inl (num_error ''ParseInt'' s ''invalid syntax'')
        else case parse_digits (2 ^ 32 - 1) 0 ds of
            Inl f \<Rightarrow> Inl (num_error ''ParseInt'' s (num_failure_text f))
          | Inr un \<Rightarrow>
              if \<not> neg \<and> un \<ge> 2 ^ 31 then Inl (num_error ''ParseInt'' s ''value out of range'')
              else if neg \<and> un > 2 ^ 31 then Inl (num_error ''ParseInt'' s ''value out of range'')
              else Inr (if neg then - un else un))"

text \<open>The value of a digit string, without any bound.\<close>

fun digits_value :: "int \<Rightarrow> string \<Rightarrow> int" where
  "digits_value n [] = n"
| "digits_value n (c # cs) = digits_value (n * 10 + digit_val c) cs"

lemma digit_val_nonneg: "is_digit c \<Longrightarrow> 0 \<le> digit_val c"
  by (simp add: is_digit_def digit_val_def)

lemma digits_value_mono: "\<forall>c \<in> set cs. is_digit c \<Longrightarrow> 0 \<le> n \<Longrightarrow> n \<le> digits_value n cs"
proof (induction cs arbitrary: n)
  case Nil
  then show ?case by simp
next
  case (Cons c cs)
  have "0 \<le> digit_val c" using Cons.prems by (simp add: digit_val_nonneg)
  with Cons.prems have "n \<le> n * 10 + digit_val c" and "0 \<le> n * 10 + digit_val c" by simp_all
  with Cons have "n * 10 + digit_val c \<le> digits_value (n * 10 + digit_val c) cs" by simp
  with \<open>n \<le> n * 10 + digit_val c\<close> show ?case by simp
qed

lemma parse_digits_eq:
  assumes "\<forall>c \<in> set cs. is_digit c" and "0 \<le> n" and "n \<le> mx"
  shows "parse_digits mx n cs = (if digits_value n cs \<le> mx then Inr (digits_value n cs) else Inl Range_Failure)"
  using assms
proof (induction cs arbitrary: n)
  case Nil
  then show ?case by simp
next
  case (Cons c cs)
  have nn: "0 \<le> n * 10 + digit_val c" using Cons.prems by (simp add: digit_val_nonneg)
  show ?case
  proof (cases "n * 10 + digit_val c \<le> mx")
    case True
    with Cons nn show ?thesis by (simp add: Let_def)
  next
    case False
    with digits_value_mono [of cs "n * 10 + digit_val c"] Cons.prems nn
    have "\<not> digits_value n (c # cs) \<le> mx" by simp
    with Cons.prems False show ?thesis by (simp add: Let_def)
  qed
qed

lemma parse_digits_nonneg: "0 \<le> n \<Longrightarrow> parse_digits mx n cs = Inr v \<Longrightarrow> 0 \<le> v"
proof (induction cs arbitrary: n)
  case Nil
  then show ?case by simp
next
  case (Cons c cs)
  then have "is_digit c" and "parse_digits mx (n * 10 + digit_val c) cs = Inr v"
    by (auto simp: Let_def split: if_splits)
  moreover from this Cons.prems have "0 \<le> n * 10 + digit_val c"
    using digit_val_nonneg [of c] by simp
  ultimately show ?case using Cons.IH by blast
qed

lemma parseInt32_range: "parseInt32 s = Inr i \<Longrightarrow> - (2 ^ 31) \<le> i \<and> i < 2 ^ 31"
  by (auto simp: parseInt32_def Let_def split: if_splits sum.splits dest: parse_digits_nonneg [rotated])

section \<open>time\<close>

text \<open>
  Instants and durations are counted in nanoseconds. \<open>time.Since(t)\<close> subtracts and
  saturates at the ends of \<open>time.Duration\<close>, an \<open>int64\<close>.
\<close>

definition max_duration :: int where
  "max_duration = 2 ^ 63 - 1"

definition min_duration :: int where
  "min_duration = - (2 ^ 63)"

definition time_since :: "int \<Rightarrow> int \<Rightarrow> int" where
  "time_since now t = max min_duration (min max_duration (now - t))"

lemma time_since_gt:
  "d < max_duration \<Longrightarrow> min_duration \<le> d \<Longrightarrow> time_since now t > d \<longleftrightarrow> now - t > d"
  by (auto simp: time_since_def)

end
