(* ===== verification/Api_Types.thy ===== *)
theory Api_Types
  imports Go_Std "HOL-Library.Word"
begin

text \<open>
  The Kubernetes objects the operator reads and writes, restricted to the fields its code
  names: \<open>ServiceAccountRequest\<close> (SARE) and \<open>ServiceAccountProducer\<close> (SAPR) of the
  \<open>k8s-serviceaccount-lib\<close> API, core \<open>Secret\<close> and \<open>Service\<close>, \<open>NetworkPolicy\<close>, and the status
  conditions. A pointer that may be nil is an \<open>option\<close>. A \<open>DeletionTimestamp\<close> is
  \<open>None\<close> when it is nil or the zero time, which is what \<open>IsZero\<close> asks.
\<close>

type_synonym int32 = "32 word"

record nname =
  nnNamespace :: string
  nnName :: string

abbreviation nn :: "string \<Rightarrow> string \<Rightarrow> nname" where
  "nn ns name \<equiv> \<lparr>nnNamespace = ns, nnName = name\<rparr>"

definition nn_string :: "nname \<Rightarrow> string" where
  "nn_string n = nnNamespace n @ ''/'' @ nnName n"

section \<open>Conditions\<close>

datatype cond_status = ConditionTrue | ConditionFalse | ConditionUnknown

record condition =
  condType :: string
  condStatus :: cond_status
  condReason :: string
  condMessage :: string
  condObservedGeneration :: int

section \<open>ServiceAccountRequest\<close>

record rotation_spec =
  rotEnabled :: bool
  rotRotation :: string

record sare_spec =
  srProducer :: string
  srConsumer :: string
  srOptional :: bool
  srParams :: strmap
  srSecretRef :: "string option"
  srRotation :: "rotation_spec option"

record sare_status =
  ssConditions :: "condition list"
  ssSecretRef :: "string option"
  ssLastRotation :: "int option"

record sare =
  sareName :: string
  sareNamespace :: string
  sareUID :: string
  sareLabels :: strmap
  sareGeneration :: int
  sareDeletionTimestamp :: "int option"
  sareFinalizers :: "string list"
  sareSpec :: sare_spec
  sareStatus :: sare_status

section \<open>ServiceAccountProducer\<close>

record http_producer =
  hpEndpoint :: string
  hpAuthSecretName :: string
  hpAuthSecretKey :: string
  hpReturn :: "string list"

record sapr_status =
  psConditions :: "condition list"
  psLastExecution :: "int option"

record sapr =
  saprName :: string
  saprNamespace :: string
  saprUID :: string
  saprGeneration :: int
  saprHTTP :: "http_producer option"
  saprStatus :: sapr_status

section \<open>Owner references, secrets, services, network policies\<close>

record owner_ref =
  orKind :: string
  orName :: string
  orUID :: string
  orController :: bool

text \<open>\<open>secData\<close> is \<open>data\<close>; \<open>secStringData\<close> is the write-only \<open>stringData\<close> (nil: \<open>None\<close>).\<close>

record secret =
  secName :: string
  secNamespace :: string
  secResourceVersion :: string
  secOwners :: "owner_ref list"
  secData :: strmap
  secStringData :: "strmap option"

datatype int_or_string = IntPort int32 | NamedPort string

record service_port =
  svcPort :: int32
  svcTargetPort :: int_or_string

record service =
  svcName :: string
  svcSelector :: strmap
  svcPorts :: "service_port list"

datatype protocol = TCP | UDP | SCTP

record netpol_port =
  npProtocol :: protocol
  npPort :: int_or_string

record netpol_peer =
  peerPodLabels :: strmap
  peerNamespaceLabels :: strmap

record ingress_rule =
  irPorts :: "netpol_port list"
  irFrom :: "netpol_peer list"

datatype policy_type = PolicyIngress | PolicyEgress

record netpol_spec =
  npPodSelector :: strmap
  npPolicyTypes :: "policy_type list"
  npIngress :: "ingress_rule list"

record netpol =
  npName :: string
  npNamespace :: string
  npResourceVersion :: string
  npLabels :: strmap
  npAnnotations :: strmap
  npOwners :: "owner_ref list"
  npSpec :: netpol_spec

section \<open>Operator configuration\<close>

record operator_config =
  cfgNamespace :: string
  cfgDeletionTimeout :: int
  cfgReconcileInterval :: int
  cfgNetworkPoliciesEnabled :: bool
  cfgSelectorLabels :: strmap

text \<open>\<open>ctrl.Result\<close>: only \<open>RequeueAfter\<close> is used; 0 asks for no requeue.\<close>

record ctrl_result =
  requeueAfter :: int

definition no_result :: ctrl_result where
  "no_result = \<lparr>requeueAfter = 0\<rparr>"

end
