(* ===== verification/World.thy ===== *)
theory World
  imports Api_Types
begin

text \<open>
  Everything the operator's code calls that is not under \<open>src/\<close>: the Kubernetes client and
  controller-runtime helpers, apimachinery, the cron library, the YAML parser, the clock and
  the network. Those are the fields of the record \<open>env\<close>, an argument of every definition
  that uses them; nothing is assumed about them here. The type \<open>'w\<close> is the state of the
  world they act on (the cluster, the producers, the clock), so an answer may change from
  one call to the next, whether because of the operator or of anybody else.

  The process state \<open>st\<close> holds that world, the heap of SARE objects that reconciles
  allocate (a rotation job keeps the pointer of the reconcile that created it), the rotation
  watchers of the request controller, the table of cron tasks, and the trace: the list of
  the calls made so far, each with its answer, the oldest first.
\<close>

section \<open>HTTP messages\<close>

record http_request =
  hrMethod :: string
  hrUrl :: string
  hrHeaders :: strmap
  hrBody :: string

text \<open>\<open>respReadErr\<close> is the error that ends the reading of the body before its end, if any.\<close>

record http_response =
  respCode :: int
  respStatus :: string
  respBody :: string
  respReadErr :: "gerr option"

section \<open>The environment\<close>

text \<open>String constants that \<open>k8s-serviceaccount-lib\<close> defines.\<close>

record lib_consts =
  typeServiceAccountReady :: string
  reasonReadyProducerNotFound :: string
  reasonReadyCreated :: string
  reasonReadyFailed :: string
  typeReady :: string
  reasonInvalidConfiguration :: string
  reasonAuthSecretNotFound :: string
  reasonConnectionFailed :: string

record 'w env =
  e_consts :: lib_consts
  e_get_sare :: "nname \<Rightarrow> 'w \<Rightarrow> sare res \<times> 'w"
  e_update_sare :: "sare \<Rightarrow> 'w \<Rightarrow> (gerr option \<times> sare) \<times> 'w"
  e_patch_sare_status :: "sare \<Rightarrow> sare \<Rightarrow> 'w \<Rightarrow> (gerr option \<times> sare) \<times> 'w"
  e_list_sares :: "string \<Rightarrow> 'w \<Rightarrow> sare list res \<times> 'w"
  e_get_sapr :: "nname \<Rightarrow> 'w \<Rightarrow> sapr res \<times> 'w"
  e_patch_sapr_status :: "sapr \<Rightarrow> sapr \<Rightarrow> 'w \<Rightarrow> (gerr option \<times> sapr) \<times> 'w"
  e_get_secret :: "nname \<Rightarrow> 'w \<Rightarrow> secret res \<times> 'w"
  e_delete_secret :: "nname \<Rightarrow> 'w \<Rightarrow> gerr option \<times> 'w"
  e_create_or_update_secret :: "secret \<Rightarrow> (secret \<Rightarrow> secret res) \<Rightarrow> 'w \<Rightarrow> secret res \<times> 'w"
  e_get_service :: "nname \<Rightarrow> 'w \<Rightarrow> service res \<times> 'w"
  e_delete_netpol :: "nname \<Rightarrow> 'w \<Rightarrow> gerr option \<times> 'w"
  e_create_or_update_netpol :: "netpol \<Rightarrow> (netpol \<Rightarrow> netpol res) \<Rightarrow> 'w \<Rightarrow> netpol res \<times> 'w"
  e_http_do :: "http_request \<Rightarrow> 'w \<Rightarrow> http_response res \<times> 'w"
  e_now :: "'w \<Rightarrow> int \<times> 'w"
  e_add_finalizer :: "sare \<Rightarrow> string \<Rightarrow> sare \<times> bool"
  e_contains_finalizer :: "sare \<Rightarrow> string \<Rightarrow> bool"
  e_remove_finalizer :: "sare \<Rightarrow> string \<Rightarrow> sare"
  e_is_controlled_by :: "secret \<Rightarrow> sare \<Rightarrow> bool"
  e_set_controller_reference :: "sare \<Rightarrow> secret \<Rightarrow> secret res"
  e_set_owner_reference :: "sapr \<Rightarrow> netpol \<Rightarrow> netpol res"
  e_set_status_condition :: "condition list \<Rightarrow> condition \<Rightarrow> condition list"
  e_is_status_condition :: "condition list \<Rightarrow> string \<Rightarrow> cond_status \<Rightarrow> bool"
  e_cron_is_valid :: "string \<Rightarrow> bool"
  e_title :: "string \<Rightarrow> string"

section \<open>Calls and process state\<close>

datatype event_type = EventNormal | EventWarning

record k8s_event =
  evRegarding :: string
  evRelated :: string
  evType :: event_type
  evReason :: string
  evAction :: string
  evNote :: string

datatype call =
    Get_Sare nname "sare res"
  | Update_Sare sare "gerr option \<times> sare"
  | Patch_Sare_Status sare sare "gerr option \<times> sare"
  | List_Sares string "sare list res"
  | Get_Sapr nname "sapr res"
  | Patch_Sapr_Status sapr sapr "gerr option"
  | Get_Secret nname "secret res"
  | Delete_Secret nname "gerr option"
  | Upsert_Secret nname "secret res"
  | Get_Service nname "service res"
  | Delete_Netpol nname "gerr option"
  | Upsert_Netpol nname "netpol res"
  | Http_Do http_request "http_response res"
  | Read_Clock int
  | Emit_Event k8s_event
  | Go_Run nat
  | Stop_Runner nat

text \<open>A cron task: its expression and the SARE pointer its job has captured.\<close>

record cron_task =
  taskExpr :: string
  taskSare :: nat

record 'w st =
  world :: 'w
  heap :: "nat \<Rightarrow> sare"
  next_ptr :: nat
  watchers :: "(string \<times> nat) list"
  tasks :: "cron_task list"
  trace :: "call list"

type_synonym ('w, 'a) op = "('w st, 'a) state"

text \<open>An outside call: it acts on the world and leaves its answer in the trace.\<close>

definition io :: "('w \<Rightarrow> 'r \<times> 'w) \<Rightarrow> ('r \<Rightarrow> call) \<Rightarrow> ('w, 'r) op" where
  "io f ev = State (\<lambda>s. case f (world s) of (r, w) \<Rightarrow> (r, s\<lparr>world := w, trace := trace s @ [ev r]\<rparr>))"

definition emit :: "call \<Rightarrow> ('w, unit) op" where
  "emit ev = modify_st (\<lambda>s. s\<lparr>trace := trace s @ [ev]\<rparr>)"

definition getSare :: "'w env \<Rightarrow> nname \<Rightarrow> ('w, sare res) op" where
  "getSare E n = io (e_get_sare E n) (Get_Sare n)"

definition updateSare :: "'w env \<Rightarrow> sare \<Rightarrow> ('w, gerr option \<times> sare) op" where
  "updateSare E x = io (e_update_sare E x) (Update_Sare x)"

definition patchSareStatus :: "'w env \<Rightarrow> sare \<Rightarrow> sare \<Rightarrow> ('w, gerr option \<times> sare) op" where
  "patchSareStatus E base x = io (e_patch_sare_status E base x) (Patch_Sare_Status base x)"

definition listSares :: "'w env \<Rightarrow> string \<Rightarrow> ('w, sare list res) op" where
  "listSares E ns = io (e_list_sares E ns) (List_Sares ns)"

definition getSapr :: "'w env \<Rightarrow> nname \<Rightarrow> ('w, sapr res) op" where
  "getSapr E n = io (e_get_sapr E n) (Get_Sapr n)"

definition patchSaprStatus :: "'w env \<Rightarrow> sapr \<Rightarrow> sapr \<Rightarrow> ('w, gerr option \<times> sapr) op" where
  "patchSaprStatus E base x = io (e_patch_sapr_status E base x) (\<lambda>r. Patch_Sapr_Status base x (fst r))"

definition getSecret :: "'w env \<Rightarrow> nname \<Rightarrow> ('w, secret res) op" where
  "getSecret E n = io (e_get_secret E n) (Get_Secret n)"

definition deleteSecret :: "'w env \<Rightarrow> nname \<Rightarrow> ('w, gerr option) op" where
  "deleteSecret E n = io (e_delete_secret E n) (Delete_Secret n)"

definition createOrUpdateSecret :: "'w env \<Rightarrow> secret \<Rightarrow> (secret \<Rightarrow> secret res) \<Rightarrow> ('w, secret res) op" where
  "createOrUpdateSecret E x f =
     io (e_create_or_update_secret E x f) (Upsert_Secret (nn (secNamespace x) (secName x)))"

definition getService :: "'w env \<Rightarrow> nname \<Rightarrow> ('w, service res) op" where
  "getService E n = io (e_get_service E n) (Get_Service n)"

definition deleteNetpol :: "'w env \<Rightarrow> nname \<Rightarrow> ('w, gerr option) op" where
  "deleteNetpol E n = io (e_delete_netpol E n) (Delete_Netpol n)"

definition createOrUpdateNetpol :: "'w env \<Rightarrow> netpol \<Rightarrow> (netpol \<Rightarrow> netpol res) \<Rightarrow> ('w, netpol res) op" where
  "createOrUpdateNetpol E x f =
     io (e_create_or_update_netpol E x f) (Upsert_Netpol (nn (npNamespace x) (npName x)))"

definition httpDo :: "'w env \<Rightarrow> http_request \<Rightarrow> ('w, http_response res) op" where
  "httpDo E r = io (e_http_do E r) (Http_Do r)"

definition readClock :: "'w env \<Rightarrow> ('w, int) op" where
  "readClock E = io (e_now E) Read_Clock"

lemmas call_defs = getSare_def updateSare_def patchSareStatus_def listSares_def getSapr_def
  patchSaprStatus_def getSecret_def deleteSecret_def createOrUpdateSecret_def getService_def
  deleteNetpol_def createOrUpdateNetpol_def httpDo_def readClock_def

text \<open>The heap of SARE objects.\<close>

definition load :: "nat \<Rightarrow> ('w, sare) op" where
  "load p = gets_st (\<lambda>s. heap s p)"

definition store :: "nat \<Rightarrow> sare \<Rightarrow> ('w, unit) op" where
  "store p x = modify_st (\<lambda>s. s\<lparr>heap := (heap s)(p := x)\<rparr>)"

definition new_sare :: "sare \<Rightarrow> ('w, nat) op" where
  "new_sare x = State (\<lambda>s. (next_ptr s, s\<lparr>heap := (heap s)(next_ptr s := x), next_ptr := Suc (next_ptr s)\<rparr>))"

section \<open>Evaluation\<close>

text \<open>\<open>io_st f ev s\<close> is the state after the outside call \<open>f\<close>; its fields are simp rules.\<close>

definition io_st :: "('w \<Rightarrow> 'r \<times> 'w) \<Rightarrow> ('r \<Rightarrow> call) \<Rightarrow> 'w st \<Rightarrow> 'w st" where
  "io_st f ev s = s\<lparr>world := snd (f (world s)), trace := trace s @ [ev (fst (f (world s)))]\<rparr>"

lemma io_st_fields [simp]:
  "world (io_st f ev s) = snd (f (world s))"
  "heap (io_st f ev s) = heap s"
  "next_ptr (io_st f ev s) = next_ptr s"
  "watchers (io_st f ev s) = watchers s"
  "tasks (io_st f ev s) = tasks s"
  "trace (io_st f ev s) = trace s @ [ev (fst (f (world s)))]"
  by (simp_all add: io_st_def)

lemma run_io [run_simps]: "run_state (io f ev) s = (fst (f (world s)), io_st f ev s)"
  by (simp add: io_def io_st_def split: prod.split)

lemma run_emit [run_simps]: "run_state (emit ev) s = ((), s\<lparr>trace := trace s @ [ev]\<rparr>)"
  by (simp add: emit_def)

lemma run_load [run_simps]: "run_state (load p) s = (heap s p, s)"
  by (simp add: load_def)

lemma run_store [run_simps]: "run_state (store p x) s = ((), s\<lparr>heap := (heap s)(p := x)\<rparr>)"
  by (simp add: store_def)

lemma run_new_sare [run_simps]:
  "run_state (new_sare x) s = (next_ptr s, s\<lparr>heap := (heap s)(next_ptr s := x), next_ptr := Suc (next_ptr s)\<rparr>)"
  by (simp add: new_sare_def)

section \<open>Frame conditions\<close>

text \<open>
  \<open>emits P\<close>: the calls a computation adds to the trace all satisfy \<open>P\<close>, and it takes none
  away. \<open>same_process\<close>: the computation only talks to the outside, the fields of the
  process other than world and trace stay as they are.
\<close>

definition emits :: "(call \<Rightarrow> bool) \<Rightarrow> 'w st \<Rightarrow> 'w st \<Rightarrow> bool" where
  "emits P s t \<longleftrightarrow> (\<exists>cs. trace t = trace s @ cs \<and> list_all P cs)"

definition same_process :: "'w st \<Rightarrow> 'w st \<Rightarrow> bool" where
  "same_process s t \<longleftrightarrow> heap t = heap s \<and> next_ptr t = next_ptr s \<and> watchers t = watchers s \<and> tasks t = tasks s"

definition same_watchers :: "'w st \<Rightarrow> 'w st \<Rightarrow> bool" where
  "same_watchers s t \<longleftrightarrow> watchers t = watchers s \<and> tasks t = tasks s"

lemma frame_emits [frame_rules]: "frame_rel (emits P)"
proof (rule frame_relI)
  show "emits P s s" for s :: "'a st" by (auto simp: emits_def)
  show "emits P a b \<Longrightarrow> emits P b c \<Longrightarrow> emits P a c" for a b c :: "'a st"
    by (force simp: emits_def)
qed

lemma frame_same_process [frame_rules]: "frame_rel same_process"
  by (rule frame_relI) (auto simp: same_process_def)

lemma frame_same_watchers [frame_rules]: "frame_rel same_watchers"
  by (rule frame_relI) (auto simp: same_watchers_def)

lemma emits_io [frame_rules]: "(\<And>r. P (ev r)) \<Longrightarrow> preserves (emits P) (io f ev)"
  by (rule preservesI) (auto simp: run_io emits_def)

lemma emits_emit [frame_rules]: "P ev \<Longrightarrow> preserves (emits P) (emit ev)"
  by (rule preservesI) (auto simp: run_emit emits_def)

lemma emits_load [frame_rules]: "preserves (emits P) (load p)"
  by (rule preservesI) (auto simp: run_load emits_def)

lemma emits_store [frame_rules]: "preserves (emits P) (store p x)"
  by (rule preservesI) (auto simp: run_store emits_def)

lemma emits_new_sare [frame_rules]: "preserves (emits P) (new_sare x)"
  by (rule preservesI) (auto simp: run_new_sare emits_def)

lemma emits_mono:
  assumes "preserves (emits P) m" and "\<And>c. P c \<Longrightarrow> Q c"
  shows "preserves (emits Q) m"
proof (rule preservesI)
  fix s a t
  assume "run_state m s = (a, t)"
  with assms(1) have "emits P s t" by (rule preservesD)
  with assms(2) show "emits Q s t" by (auto simp: emits_def list_all_iff)
qed

lemma same_process_io [frame_rules]: "preserves same_process (io f ev)"
  by (rule preservesI) (auto simp: run_io same_process_def)

lemma same_process_emit [frame_rules]: "preserves same_process (emit ev)"
  by (rule preservesI) (auto simp: run_emit same_process_def)

lemma same_process_load [frame_rules]: "preserves same_process (load p)"
  by (rule preservesI) (auto simp: run_load same_process_def)

lemma same_watchers_io [frame_rules]: "preserves same_watchers (io f ev)"
  by (rule preservesI) (auto simp: run_io same_watchers_def)

lemma same_watchers_emit [frame_rules]: "preserves same_watchers (emit ev)"
  by (rule preservesI) (auto simp: run_emit same_watchers_def)

lemma same_watchers_load [frame_rules]: "preserves same_watchers (load p)"
  by (rule preservesI) (auto simp: run_load same_watchers_def)

lemma same_watchers_store [frame_rules]: "preserves same_watchers (store p x)"
  by (rule preservesI) (auto simp: run_store same_watchers_def)

lemma same_watchers_new_sare [frame_rules]: "preserves same_watchers (new_sare x)"
  by (rule preservesI) (auto simp: run_new_sare same_watchers_def)

lemma emitsE:
  assumes "preserves (emits P) m" and "run_state m s = (a, t)"
  obtains cs where "trace t = trace s @ cs" "list_all P cs"
  using preservesD [OF assms] by (auto simp: emits_def)

text \<open>The calls a computation adds to the trace, as a list.\<close>

definition new_calls :: "'w st \<Rightarrow> 'w st \<Rightarrow> call list" where
  "new_calls s t = drop (length (trace s)) (trace t)"

lemma new_calls_append: "trace t = trace s @ cs \<Longrightarrow> new_calls s t = cs"
  by (simp add: new_calls_def)

section \<open>Kinds of calls\<close>

fun is_http :: "call \<Rightarrow> bool" where
  "is_http (Http_Do r a) = True"
| "is_http c = False"

fun_cases is_httpE: "is_http c"

text \<open>A call that happens before any HTTP request.\<close>

definition read_before :: "call \<Rightarrow> call list \<Rightarrow> bool" where
  "read_before c cs \<longleftrightarrow> (\<exists>us vs. cs = us @ c # vs \<and> filter is_http us = [])"

lemma read_beforeI: "cs = us @ c # vs \<Longrightarrow> filter is_http us = [] \<Longrightarrow> read_before c cs"
  by (auto simp: read_before_def)

lemma read_before_first [simp]: "read_before c (c # cs)"
  by (rule read_beforeI [of _ "[]"]) simp_all

lemma read_before_grow:
  assumes "read_before c cs" and "filter is_http us = []"
  shows "read_before c (us @ cs @ vs)"
proof -
  from assms(1) obtain as bs where "cs = as @ c # bs" "filter is_http as = []" by (auto simp: read_before_def)
  with assms(2) show ?thesis by (intro read_beforeI [of _ "us @ as" _ "bs @ vs"]) auto
qed

lemma read_before_request:
  assumes "read_before c (us @ r # vs)" and "is_http r" and "\<not> is_http c"
  shows "c \<in> set us"
proof -
  from assms(1) obtain as bs where "us @ r # vs = as @ c # bs" "filter is_http as = []" by (auto simp: read_before_def)
  with assms(2,3) show ?thesis by (auto simp: append_eq_append_conv2 Cons_eq_append_conv append_eq_Cons_conv filter_empty_conv)
qed

fun is_secret_write :: "call \<Rightarrow> bool" where
  "is_secret_write (Upsert_Secret n a) = True"
| "is_secret_write c = False"

fun is_secret_delete :: "call \<Rightarrow> bool" where
  "is_secret_delete (Delete_Secret n a) = True"
| "is_secret_delete c = False"

fun_cases is_secret_deleteE: "is_secret_delete c"

fun is_status_patch :: "call \<Rightarrow> bool" where
  "is_status_patch (Patch_Sare_Status b x a) = True"
| "is_status_patch c = False"

fun is_sare_update :: "call \<Rightarrow> bool" where
  "is_sare_update (Update_Sare x a) = True"
| "is_sare_update c = False"

fun_cases is_sare_updateE: "is_sare_update c"

fun is_sare_read :: "call \<Rightarrow> bool" where
  "is_sare_read (Get_Sare n a) = True"
| "is_sare_read c = False"

section \<open>What an operation leaves of the outside\<close>

text \<open>\<open>keeps_view V\<close>: the part of the world \<open>V\<close> looks at is unchanged.\<close>

definition keeps_view :: "('w \<Rightarrow> 'v) \<Rightarrow> 'w st \<Rightarrow> 'w st \<Rightarrow> bool" where
  "keeps_view V s t \<longleftrightarrow> V (world t) = V (world s)"

definition keeps_entry :: "('w \<Rightarrow> 'k \<Rightarrow> 'v option) \<Rightarrow> 'k \<Rightarrow> 'v \<Rightarrow> 'w st \<Rightarrow> 'w st \<Rightarrow> bool" where
  "keeps_entry V k x s t \<longleftrightarrow> (V (world s) k = Some x \<longrightarrow> V (world t) k = Some x)"

lemma frame_keeps_view [frame_rules]: "frame_rel (keeps_view V)"
  by (rule frame_relI) (auto simp: keeps_view_def)

lemma frame_keeps_entry [frame_rules]: "frame_rel (keeps_entry V k x)"
  by (rule frame_relI) (auto simp: keeps_entry_def)

lemma keeps_view_entry: "preserves (keeps_view V) m \<Longrightarrow> preserves (keeps_entry V k x) m"
  by (auto simp: preserves_def keeps_view_def keeps_entry_def)

lemma keeps_view_io: "(\<And>w. V (snd (f w)) = V w) \<Longrightarrow> preserves (keeps_view V) (io f ev)"
  by (rule preservesI) (auto simp: run_io keeps_view_def)

lemma keeps_view_emit [frame_rules]: "preserves (keeps_view V) (emit ev)"
  by (rule preservesI) (auto simp: run_emit keeps_view_def)

lemma keeps_view_load [frame_rules]: "preserves (keeps_view V) (load p)"
  by (rule preservesI) (auto simp: run_load keeps_view_def)

lemma keeps_view_store [frame_rules]: "preserves (keeps_view V) (store p x)"
  by (rule preservesI) (auto simp: run_store keeps_view_def)

lemma keeps_entry_emit [frame_rules]: "preserves (keeps_entry V k x) (emit ev)"
  by (rule keeps_view_entry) (rule keeps_view_emit)

end
