(* ===== verification/Cluster_Laws.thy ===== *)
theory Cluster_Laws
  imports World
begin

text \<open>
  What the documentation of Kubernetes and controller-runtime promises about secrets, as
  predicates on an environment and a view \<open>V\<close> of the secrets a world holds. They are
  hypotheses of the theorems that need them, never assumed globally. A call that fails may
  still have taken effect (a lost answer), so an error only excludes other effects.

  \<^item> a read changes nothing and answers what the cluster holds, or fails; NotFound means absent;
  \<^item> a delete removes the named secret or fails; NotFound means absent;
  \<^item> \<open>controllerutil.CreateOrUpdate\<close> applies the callback to the stored secret, or to the
    given one when none is stored, and stores what the callback returns, the string data
    merged into the data by the API server; an error of the callback stops it;
  \<^item> a stored object has a resource version, an owner reference set by
    \<open>SetControllerReference\<close> is what \<open>IsControlledBy\<close> looks for, and that only depends on
    the owner references;
  \<^item> no other call of the operator changes a secret.
\<close>

definition kept :: "('w \<Rightarrow> 'v) \<Rightarrow> ('w \<Rightarrow> 'r \<times> 'w) \<Rightarrow> bool" where
  "kept V f \<longleftrightarrow> (\<forall>w. V (snd (f w)) = V w)"

text \<open>What the API server stores of a secret it is sent.\<close>

fun merge_map :: "strmap \<Rightarrow> strmap \<Rightarrow> strmap" where
  "merge_map data [] = data"
| "merge_map data ((k, v) # kvs) = merge_map (AList.update k v data) kvs"

definition persisted :: "string \<Rightarrow> secret \<Rightarrow> secret" where
  "persisted rv x = x\<lparr>secResourceVersion := rv, secStringData := None,
     secData := merge_map (secData x) (case secStringData x of None \<Rightarrow> [] | Some m \<Rightarrow> m)\<rparr>"

type_synonym secret_view = "nname \<Rightarrow> secret option"

definition read_law :: "'w env \<Rightarrow> ('w \<Rightarrow> secret_view) \<Rightarrow> bool" where
  "read_law E V \<longleftrightarrow> (\<forall>n w. V (snd (e_get_secret E n w)) = V w \<and>
     (\<forall>x. fst (e_get_secret E n w) = Inr x \<longrightarrow> V w n = Some x) \<and>
     (\<forall>e. fst (e_get_secret E n w) = Inl e \<longrightarrow> is_not_found e \<longrightarrow> V w n = None))"

definition delete_law :: "'w env \<Rightarrow> ('w \<Rightarrow> secret_view) \<Rightarrow> bool" where
  "delete_law E V \<longleftrightarrow> (\<forall>n w.
     (fst (e_delete_secret E n w) = None \<longrightarrow> V (snd (e_delete_secret E n w)) = (V w)(n := None)) \<and>
     (\<forall>e. fst (e_delete_secret E n w) = Some e \<longrightarrow>
        (if is_not_found e then V w n = None \<and> V (snd (e_delete_secret E n w)) = V w
         else V (snd (e_delete_secret E n w)) = V w \<or> V (snd (e_delete_secret E n w)) = (V w)(n := None))))"

text \<open>What \<open>CreateOrUpdate\<close> hands to its callback: the stored secret, if there is one.\<close>

definition upsert_base :: "('w \<Rightarrow> secret_view) \<Rightarrow> secret \<Rightarrow> 'w \<Rightarrow> secret" where
  "upsert_base V x w = (case V w (nn (secNamespace x) (secName x)) of None \<Rightarrow> x | Some c \<Rightarrow> c)"

definition upsert_law :: "'w env \<Rightarrow> ('w \<Rightarrow> secret_view) \<Rightarrow> bool" where
  "upsert_law E V \<longleftrightarrow> (\<forall>x f w.
     (\<forall>e. f (upsert_base V x w) = Inl e \<longrightarrow>
        (\<exists>e'. fst (e_create_or_update_secret E x f w) = Inl e') \<and>
        V (snd (e_create_or_update_secret E x f w)) = V w) \<and>
     (\<forall>y. f (upsert_base V x w) = Inr y \<longrightarrow>
        ((\<exists>e'. fst (e_create_or_update_secret E x f w) = Inl e') \<and>
           V (snd (e_create_or_update_secret E x f w)) = V w) \<or>
        (\<exists>rv. rv \<noteq> [] \<and> V (snd (e_create_or_update_secret E x f w)) =
           (V w)(nn (secNamespace x) (secName x) := Some (persisted rv y)))))"

definition owner_law :: "'w env \<Rightarrow> ('w \<Rightarrow> secret_view) \<Rightarrow> bool" where
  "owner_law E V \<longleftrightarrow>
     (\<forall>w n x. V w n = Some x \<longrightarrow> secResourceVersion x \<noteq> []) \<and>
     (\<forall>sare x y. e_set_controller_reference E sare x = Inr y \<longrightarrow>
        e_is_controlled_by E y sare \<and> secStringData y = secStringData x \<and> secData y = secData x) \<and>
     (\<forall>sare rv x. e_is_controlled_by E (persisted rv x) sare = e_is_controlled_by E x sare)"

definition secret_laws :: "'w env \<Rightarrow> ('w \<Rightarrow> secret_view) \<Rightarrow> bool" where
  "secret_laws E V \<longleftrightarrow> read_law E V \<and> delete_law E V \<and> upsert_law E V \<and> owner_law E V"

definition others_keep_secrets :: "'w env \<Rightarrow> ('w \<Rightarrow> secret_view) \<Rightarrow> bool" where
  "others_keep_secrets E V \<longleftrightarrow>
     (\<forall>n. kept V (e_get_sare E n)) \<and> (\<forall>x. kept V (e_update_sare E x)) \<and>
     (\<forall>b x. kept V (e_patch_sare_status E b x)) \<and> (\<forall>ns. kept V (e_list_sares E ns)) \<and>
     (\<forall>n. kept V (e_get_sapr E n)) \<and> (\<forall>b x. kept V (e_patch_sapr_status E b x)) \<and>
     (\<forall>r. kept V (e_http_do E r)) \<and> kept V (e_now E)"

text \<open>What the producer controller does with services and policies does not touch them either.\<close>

definition producer_keeps_secrets :: "'w env \<Rightarrow> ('w \<Rightarrow> secret_view) \<Rightarrow> bool" where
  "producer_keeps_secrets E V \<longleftrightarrow> (\<forall>n. kept V (e_get_service E n)) \<and> (\<forall>n. kept V (e_delete_netpol E n)) \<and>
     (\<forall>x f. kept V (e_create_or_update_netpol E x f))"

lemma keptD [simp]: "kept V f \<Longrightarrow> V (snd (f w)) = V w"
  by (simp add: kept_def)

lemma read_lawD:
  assumes "read_law E V"
  shows "V (snd (e_get_secret E n w)) = V w"
    and "fst (e_get_secret E n w) = Inr x \<Longrightarrow> V w n = Some x"
    and "fst (e_get_secret E n w) = Inl e \<Longrightarrow> is_not_found e \<Longrightarrow> V w n = None"
  using assms unfolding read_law_def by blast+

lemma delete_lawD:
  assumes "delete_law E V"
  shows "fst (e_delete_secret E n w) = None \<Longrightarrow> V (snd (e_delete_secret E n w)) = (V w)(n := None)"
    and "fst (e_delete_secret E n w) = Some e \<Longrightarrow> is_not_found e \<Longrightarrow>
           V w n = None \<and> V (snd (e_delete_secret E n w)) = V w"
    and "V (snd (e_delete_secret E n w)) = V w \<or> V (snd (e_delete_secret E n w)) = (V w)(n := None)"
  using assms unfolding delete_law_def by (metis option.exhaust)+

lemma delete_law_other: "delete_law E V \<Longrightarrow> k \<noteq> n \<Longrightarrow> V (snd (e_delete_secret E n w)) k = V w k"
  using delete_lawD(3) [of E V n w] by auto

lemma upsert_lawD:
  assumes "upsert_law E V"
  shows "f (upsert_base V x w) = Inl e \<Longrightarrow>
        (\<exists>e'. fst (e_create_or_update_secret E x f w) = Inl e') \<and>
        V (snd (e_create_or_update_secret E x f w)) = V w"
    and "f (upsert_base V x w) = Inr y \<Longrightarrow>
        ((\<exists>e'. fst (e_create_or_update_secret E x f w) = Inl e') \<and>
           V (snd (e_create_or_update_secret E x f w)) = V w) \<or>
        (\<exists>rv. rv \<noteq> [] \<and> V (snd (e_create_or_update_secret E x f w)) =
           (V w)(nn (secNamespace x) (secName x) := Some (persisted rv y)))"
  using assms unfolding upsert_law_def by blast+

lemma others_keepD [simp]:
  assumes "others_keep_secrets E V"
  shows "V (snd (e_get_sare E n w)) = V w" and "V (snd (e_update_sare E x w)) = V w"
    and "V (snd (e_patch_sare_status E b x w)) = V w" and "V (snd (e_list_sares E ns w)) = V w"
    and "V (snd (e_get_sapr E n w)) = V w" and "V (snd (e_patch_sapr_status E pb px w)) = V w"
    and "V (snd (e_http_do E rq w)) = V w" and "V (snd (e_now E w)) = V w"
  using assms by (simp_all add: others_keep_secrets_def)

lemma secret_lawsD:
  assumes "secret_laws E V"
  shows "read_law E V" and "delete_law E V" and "upsert_law E V" and "owner_law E V"
  using assms by (simp_all add: secret_laws_def)

lemma owner_lawD:
  assumes "owner_law E V"
  shows "V w n = Some x \<Longrightarrow> secResourceVersion x \<noteq> []"
    and "e_set_controller_reference E sare x = Inr y \<Longrightarrow> e_is_controlled_by E y sare"
    and "e_set_controller_reference E sare x = Inr y \<Longrightarrow> secStringData y = secStringData x"
    and "e_set_controller_reference E sare x = Inr y \<Longrightarrow> secData y = secData x"
    and "e_is_controlled_by E (persisted rv x) sare = e_is_controlled_by E x sare"
  using assms unfolding owner_law_def by blast+

lemma map_of_update [simp]: "map_of (AList.update k v m) = (map_of m)(k \<mapsto> v)"
  by (simp add: AList.update_conv')

lemma map_of_merge: "wf_map m \<Longrightarrow> map_of (merge_map data m) k = (case map_of m k of None \<Rightarrow> map_of data k | Some v \<Rightarrow> Some v)"
proof (induction data m rule: merge_map.induct)
  case (1 data)
  then show ?case by simp
next
  case (2 data k' v kvs)
  then have "k' \<notin> fst ` set kvs" and "wf_map kvs" by (simp_all add: wf_map_def)
  moreover from this have "map_of kvs k' = None" by (simp add: map_of_eq_None_iff)
  ultimately show ?case using "2.IH" by (auto split: option.splits)
qed

text \<open>The credentials a stored secret serves.\<close>

definition serves :: "secret \<Rightarrow> strmap \<Rightarrow> bool" where
  "serves x credentials \<longleftrightarrow> list_all (\<lambda>kv. map_of (secData x) (fst kv) = Some (snd kv)) credentials"

text \<open>What an update leaves in a secret: the data that was there, overwritten by the credentials.\<close>

definition updated_with :: "secret option \<Rightarrow> strmap \<Rightarrow> secret \<Rightarrow> bool" where
  "updated_with old credentials x \<longleftrightarrow> (\<forall>k. map_of (secData x) k = (case map_of credentials k of
      Some v \<Rightarrow> Some v
    | None \<Rightarrow> (case old of None \<Rightarrow> None | Some y \<Rightarrow> map_of (secData y) k)))"

lemma persisted_updated:
  assumes "wf_map m" and "secStringData y = Some m"
    and "secData y = (case old of None \<Rightarrow> [] | Some x \<Rightarrow> secData x)"
  shows "updated_with old m (persisted rv y)"
  using assms by (auto simp: updated_with_def persisted_def map_of_merge split: option.split)

lemma persisted_serves: "wf_map m \<Longrightarrow> secStringData y = Some m \<Longrightarrow> serves (persisted rv y) m"
  by (auto simp: serves_def persisted_def list_all_iff map_of_merge wf_map_def)

end
