(* ===== verification/Secret_Store.thy ===== *)
theory Secret_Store
  imports Cluster_Laws
begin

text \<open>
  The interface \<open>secretManager\<close> of \<open>internal/controller/request/types.go\<close>, with the contract
  its clients rely on: which secret is meant, what an answer says about the cluster, that
  a secret of somebody else is never written, and which calls are made.
\<close>

locale secret_store =
  fixes key_of :: "sare \<Rightarrow> nname"
    and ex :: "'w env \<Rightarrow> sare \<Rightarrow> ('w, bool \<times> string \<times> gerr option) op"
    and wr :: "'w env \<Rightarrow> sare \<Rightarrow> strmap \<Rightarrow> ('w, string res) op"
    and rm :: "'w env \<Rightarrow> sare \<Rightarrow> ('w, gerr option) op"
  assumes ex_law: "secret_laws E V \<Longrightarrow> run_state (ex E sare) s = ((b, n, e), t) \<Longrightarrow>
        V (world t) = V (world s) \<and> n = nnName (key_of sare) \<and>
        (b \<longrightarrow> e = None \<and> (\<exists>x. V (world s) (key_of sare) = Some x \<and> e_is_controlled_by E x sare)) \<and>
        (\<not> b \<longrightarrow> e = None \<longrightarrow> V (world s) (key_of sare) = None)"
    and wr_law: "secret_laws E V \<Longrightarrow> run_state (wr E sare c) s = (r, t) \<Longrightarrow>
        (\<forall>k. k \<noteq> key_of sare \<longrightarrow> V (world t) k = V (world s) k) \<and>
        (\<forall>x. V (world s) (key_of sare) = Some x \<longrightarrow> \<not> e_is_controlled_by E x sare \<longrightarrow>
           (\<exists>e. r = Inl e) \<and> V (world t) = V (world s)) \<and>
        (\<forall>name. r = Inr name \<longrightarrow> name = nnName (key_of sare) \<and>
           (\<exists>x. V (world t) (key_of sare) = Some x \<and> e_is_controlled_by E x sare \<and> (wf_map c \<longrightarrow> serves x c \<and> updated_with (V (world s) (key_of sare)) c x)))"
    and rm_law: "secret_laws E V \<Longrightarrow> run_state (rm E sare) s = (d, t) \<Longrightarrow>
        (\<forall>k. k \<noteq> key_of sare \<longrightarrow> V (world t) k = V (world s) k) \<and>
        (d = None \<longrightarrow> V (world t) (key_of sare) = None) \<and>
        (V (world s) (key_of sare) = None \<longrightarrow> V (world t) = V (world s))"
    and process_law: "preserves same_process (ex E sare)" "preserves same_process (wr E sare c)"
        "preserves same_process (rm E sare)"
    and calls_law: "(\<And>a. P (Get_Secret (key_of sare) a)) \<Longrightarrow> preserves (emits P) (ex E sare)"
        "(\<And>a. P (Upsert_Secret (key_of sare) a)) \<Longrightarrow> preserves (emits P) (wr E sare c)"
        "(\<And>a. P (Delete_Secret (key_of sare) a)) \<Longrightarrow> preserves (emits P) (rm E sare)"
begin

text \<open>A secret that exists and is not the SARE's own is reported as an error.\<close>

lemma ex_conflict:
  assumes "secret_laws E V" and "run_state (ex E sare) s = ((b, n, e), t)"
    and "V (world s) (key_of sare) = Some x" and "\<not> e_is_controlled_by E x sare"
  shows "\<not> b \<and> e \<noteq> None"
  using ex_law [OF assms(1,2)] assms(3,4) by auto

text \<open>After a successful write the check does not answer "absent".\<close>

lemma wr_then_ex:
  assumes "secret_laws E V" and "run_state (wr E sare c) s = (Inr name, t)"
    and "run_state (ex E sare) t = ((b, n, e), u)" and "e = None"
  shows "b \<and> n = name"
  using wr_law [OF assms(1,2)] ex_law [OF assms(1,3)] assms(4) by auto

text \<open>After a successful removal it does not answer "present".\<close>

lemma rm_then_ex:
  assumes "secret_laws E V" and "run_state (rm E sare) s = (None, t)"
    and "run_state (ex E sare) t = ((b, n, e), u)"
  shows "\<not> b"
  using rm_law [OF assms(1,2)] ex_law [OF assms(1,3)] by auto

text \<open>A removal guarded by a check leaves every secret of somebody else alone.\<close>

lemma guarded_rm_keeps_foreign:
  assumes "secret_laws E V" and "run_state (ex E sare) s = ((b, n, None), t)"
    and "V (world u) = V (world t)" and "run_state (rm E sare) u = (d, v)"
    and "V (world s) k = Some x" and "\<not> e_is_controlled_by E x sare"
  shows "V (world v) k = Some x"
proof (cases "k = key_of sare")
  case True
  with ex_law [OF assms(1,2)] assms(5,6) show ?thesis by (cases b) auto
next
  case False
  with rm_law [OF assms(1,4)] have "V (world v) k = V (world u) k" by simp
  with assms(3,5) ex_law [OF assms(1,2)] show ?thesis by simp
qed

lemma wr_keeps_foreign:
  assumes "secret_laws E V" and "run_state (wr E sare c) s = (r, t)"
    and "V (world s) k = Some x" and "\<not> e_is_controlled_by E x sare"
  shows "V (world t) k = Some x"
proof (cases "k = key_of sare")
  case True
  with wr_law [OF assms(1,2)] assms(3,4) show ?thesis by auto
next
  case False
  with wr_law [OF assms(1,2)] have "V (world t) k = V (world s) k" by simp
  with assms(3) show ?thesis by simp
qed

end

end
