(* ===== verification/Secret_Manager.thy ===== *)
theory Secret_Manager
  imports Secret_Store
begin

text \<open>
  \<open>internal/serviceaccount/secret_manager.go\<close>: the Kubernetes secret that holds the
  credentials of a service account.
\<close>

definition resolveSecretName :: "sare \<Rightarrow> string" where
  "resolveSecretName sare =
     (case srSecretRef (sareSpec sare) of
        Some name \<Rightarrow> if name \<noteq> [] then name else sareName sare
      | None \<Rightarrow> sareName sare)"

text \<open>The key of the secret a SARE's credentials are written to.\<close>

definition secret_key :: "sare \<Rightarrow> nname" where
  "secret_key sare = nn (sareNamespace sare) (resolveSecretName sare)"

definition sm_check_text :: "string \<Rightarrow> sare \<Rightarrow> string" where
  "sm_check_text name sare =
     ''failed to check for existing secret '' @ goQuote name @ '' for service account request ''
       @ goQuote (sareName sare) @ '': ''"

definition sm_write_text :: "string \<Rightarrow> sare \<Rightarrow> string" where
  "sm_write_text name sare =
     ''failed to create or update secret '' @ goQuote name @ '' for service account request ''
       @ goQuote (sareName sare) @ '': ''"

definition sm_Exists :: "'w env \<Rightarrow> sare \<Rightarrow> ('w, bool \<times> string \<times> gerr option) op" where
  "sm_Exists E sare = do {
     let name = resolveSecretName sare;
     r \<leftarrow> getSecret E (nn (sareNamespace sare) name);
     ret (case r of
         Inr secret \<Rightarrow>
           if e_is_controlled_by E secret sare then (True, name, None)
           else (False, name, Some (errorf (sm_check_text name sare) Secret_Conflict))
       | Inl err \<Rightarrow>
           if is_not_found err then (False, name, None)
           else (False, name, Some (errorf (sm_check_text name sare) err)))
   }"

text \<open>The closure passed to \<open>controllerutil.CreateOrUpdate\<close>.\<close>

definition sm_mutate :: "'w env \<Rightarrow> sare \<Rightarrow> strmap \<Rightarrow> secret \<Rightarrow> secret res" where
  "sm_mutate E sare credentials secret =
     (if secResourceVersion secret \<noteq> [] \<and> \<not> e_is_controlled_by E secret sare
      then Inl (errorf (sm_write_text (resolveSecretName sare) sare) Secret_Conflict)
      else e_set_controller_reference E sare (secret\<lparr>secStringData := Some credentials\<rparr>))"

definition new_secret :: "string \<Rightarrow> string \<Rightarrow> secret" where
  "new_secret ns name = \<lparr>secName = name, secNamespace = ns, secResourceVersion = [], secOwners = [],
     secData = [], secStringData = None\<rparr>"

definition sm_CreateOrUpdate :: "'w env \<Rightarrow> sare \<Rightarrow> strmap \<Rightarrow> ('w, string res) op" where
  "sm_CreateOrUpdate E sare credentials = do {
     let secretName = resolveSecretName sare;
     r \<leftarrow> createOrUpdateSecret E (new_secret (sareNamespace sare) secretName) (sm_mutate E sare credentials);
     ret (case r of
         Inl err \<Rightarrow> Inl (errorf (sm_write_text secretName sare) err)
       | Inr _ \<Rightarrow> Inr secretName)
   }"

definition sm_Delete :: "'w env \<Rightarrow> sare \<Rightarrow> ('w, gerr option) op" where
  "sm_Delete E sare = do {
     let secretName = resolveSecretName sare;
     err \<leftarrow> deleteSecret E (nn (sareNamespace sare) secretName);
     ret (case err of
         None \<Rightarrow> None
       | Some e \<Rightarrow>
           if is_not_found e then None
           else Some (errorf (''failed to delete secret '' @ goQuote secretName
             @ '' for service account request '' @ goQuote (sareName sare) @ '': '') e))
   }"

section \<open>Evaluation\<close>

definition exists_answer :: "'w env \<Rightarrow> sare \<Rightarrow> secret res \<Rightarrow> bool \<times> string \<times> gerr option" where
  "exists_answer E sare r =
     (case r of
        Inr secret \<Rightarrow>
          if e_is_controlled_by E secret sare then (True, resolveSecretName sare, None)
          else (False, resolveSecretName sare,
            Some (errorf (sm_check_text (resolveSecretName sare) sare) Secret_Conflict))
      | Inl err \<Rightarrow>
          if is_not_found err then (False, resolveSecretName sare, None)
          else (False, resolveSecretName sare, Some (errorf (sm_check_text (resolveSecretName sare) sare) err)))"

lemma run_sm_Exists [run_simps]:
  "run_state (sm_Exists E sare) s =
     (exists_answer E sare (fst (e_get_secret E (secret_key sare) (world s))),
      io_st (e_get_secret E (secret_key sare)) (Get_Secret (secret_key sare)) s)"
  by (simp add: sm_Exists_def exists_answer_def secret_key_def getSecret_def run_io Let_def)

definition write_call :: "'w env \<Rightarrow> sare \<Rightarrow> strmap \<Rightarrow> 'w \<Rightarrow> secret res \<times> 'w" where
  "write_call E sare credentials =
     e_create_or_update_secret E (new_secret (sareNamespace sare) (resolveSecretName sare)) (sm_mutate E sare credentials)"

lemma run_sm_CreateOrUpdate [run_simps]:
  "run_state (sm_CreateOrUpdate E sare credentials) s =
     (case fst (write_call E sare credentials (world s)) of
        Inl err \<Rightarrow> Inl (errorf (sm_write_text (resolveSecretName sare) sare) err)
      | Inr _ \<Rightarrow> Inr (resolveSecretName sare),
      io_st (write_call E sare credentials) (Upsert_Secret (secret_key sare)) s)"
  by (simp add: sm_CreateOrUpdate_def secret_key_def createOrUpdateSecret_def run_io Let_def
      write_call_def new_secret_def)

definition delete_answer :: "sare \<Rightarrow> gerr option \<Rightarrow> gerr option" where
  "delete_answer sare err =
     (case err of
        None \<Rightarrow> None
      | Some e \<Rightarrow>
          if is_not_found e then None
          else Some (errorf (''failed to delete secret '' @ goQuote (resolveSecretName sare)
            @ '' for service account request '' @ goQuote (sareName sare) @ '': '') e))"

lemma run_sm_Delete [run_simps]:
  "run_state (sm_Delete E sare) s =
     (delete_answer sare (fst (e_delete_secret E (secret_key sare) (world s))),
      io_st (e_delete_secret E (secret_key sare)) (Delete_Secret (secret_key sare)) s)"
  by (simp add: sm_Delete_def delete_answer_def secret_key_def deleteSecret_def run_io Let_def)

lemma delete_answer_None: "delete_answer sare r = None \<longleftrightarrow> (\<forall>e. r = Some e \<longrightarrow> is_not_found e)"
  by (auto simp: delete_answer_def split: option.splits)

section \<open>The contract\<close>

lemma sm_Exists_law:
  assumes "secret_laws E V" and "run_state (sm_Exists E sare) s = ((b, n, e), t)"
  shows "V (world t) = V (world s) \<and> n = nnName (secret_key sare) \<and>
        (b \<longrightarrow> e = None \<and> (\<exists>x. V (world s) (secret_key sare) = Some x \<and> e_is_controlled_by E x sare)) \<and>
        (\<not> b \<longrightarrow> e = None \<longrightarrow> V (world s) (secret_key sare) = None)"
  using assms(2) read_lawD [OF secret_lawsD(1) [OF assms(1)]]
  by (auto simp: run_sm_Exists exists_answer_def secret_key_def split: sum.splits if_splits)

lemma sm_mutate_foreign:
  assumes "owner_law E V" and "V w n = Some x" and "\<not> e_is_controlled_by E x sare"
  shows "\<exists>e. sm_mutate E sare c x = Inl e"
  using owner_lawD(1) [OF assms(1,2)] assms(3) by (simp add: sm_mutate_def)

lemma sm_mutate_ok:
  assumes "owner_law E V" and "sm_mutate E sare c x = Inr y"
  shows "e_is_controlled_by E y sare \<and> secStringData y = Some c \<and> secData y = secData x"
proof -
  from assms(2) have y: "e_set_controller_reference E sare (x\<lparr>secStringData := Some c\<rparr>) = Inr y"
    by (simp add: sm_mutate_def split: if_splits)
  show ?thesis using owner_lawD(2,3,4) [OF assms(1) y] by simp
qed

lemma sm_CreateOrUpdate_law:
  assumes laws: "secret_laws E V" and run: "run_state (sm_CreateOrUpdate E sare c) s = (r, t)"
  shows "(\<forall>k. k \<noteq> secret_key sare \<longrightarrow> V (world t) k = V (world s) k) \<and>
        (\<forall>x. V (world s) (secret_key sare) = Some x \<longrightarrow> \<not> e_is_controlled_by E x sare \<longrightarrow>
           (\<exists>e. r = Inl e) \<and> V (world t) = V (world s)) \<and>
        (\<forall>name. r = Inr name \<longrightarrow> name = nnName (secret_key sare) \<and>
           (\<exists>x. V (world t) (secret_key sare) = Some x \<and> e_is_controlled_by E x sare \<and> (wf_map c \<longrightarrow> serves x c \<and> updated_with (V (world s) (secret_key sare)) c x)))"
proof -
  define x0 where "x0 = new_secret (sareNamespace sare) (resolveSecretName sare)"
  have key: "nn (secNamespace x0) (secName x0) = secret_key sare"
    by (simp add: x0_def new_secret_def secret_key_def)
  note up = upsert_lawD [OF secret_lawsD(3) [OF laws], of "sm_mutate E sare c" x0 "world s", unfolded key]
  note own = secret_lawsD(4) [OF laws]
  from run have t: "world t = snd (e_create_or_update_secret E x0 (sm_mutate E sare c) (world s))"
    and r: "r = (case fst (e_create_or_update_secret E x0 (sm_mutate E sare c) (world s)) of
        Inl err \<Rightarrow> Inl (errorf (sm_write_text (resolveSecretName sare) sare) err) | Inr _ \<Rightarrow> Inr (resolveSecretName sare))"
    by (auto simp: run_sm_CreateOrUpdate write_call_def x0_def)
  show ?thesis
  proof (cases "sm_mutate E sare c (upsert_base V x0 (world s))")
    case (Inl e)
    with up(1) t r show ?thesis by auto
  next
    case (Inr y)
    have foreign: "e_is_controlled_by E x sare" if "V (world s) (secret_key sare) = Some x" for x
    proof (rule ccontr)
      assume "\<not> e_is_controlled_by E x sare"
      with sm_mutate_foreign [OF own that] obtain e where "sm_mutate E sare c x = Inl e" by blast
      with Inr that key show False by (simp add: upsert_base_def)
    qed
    have base: "upsert_base V x0 (world s) = (case V (world s) (secret_key sare) of None \<Rightarrow> x0 | Some x \<Rightarrow> x)"
      and fresh: "secData x0 = []" by (simp add: upsert_base_def key) (simp add: x0_def new_secret_def)
    from sm_mutate_ok [OF own Inr] have y: "e_is_controlled_by E y sare" "secStringData y = Some c"
      and data: "secData y = (case V (world s) (secret_key sare) of None \<Rightarrow> [] | Some x \<Rightarrow> secData x)"
      by (auto simp: base fresh split: option.split)
    from up(2) [OF Inr] t r y foreign owner_lawD(5) [OF own] persisted_serves [OF _ y(2)] persisted_updated [OF _ y(2) data] show ?thesis
      by (auto simp: secret_key_def split: sum.splits)
  qed
qed

lemma sm_Delete_law:
  assumes "secret_laws E V" and "run_state (sm_Delete E sare) s = (d, t)"
  shows "(\<forall>k. k \<noteq> secret_key sare \<longrightarrow> V (world t) k = V (world s) k) \<and>
        (d = None \<longrightarrow> V (world t) (secret_key sare) = None) \<and>
        (V (world s) (secret_key sare) = None \<longrightarrow> V (world t) = V (world s))"
proof -
  note del = delete_lawD [OF secret_lawsD(2) [OF assms(1)], of "secret_key sare" "world s"]
  from assms(2) have t: "world t = snd (e_delete_secret E (secret_key sare) (world s))"
    and d: "d = delete_answer sare (fst (e_delete_secret E (secret_key sare) (world s)))"
    by (auto simp: run_sm_Delete)
  show ?thesis
    using t d del by (cases "fst (e_delete_secret E (secret_key sare) (world s))")
      (auto simp: delete_answer_None fun_upd_idem)
qed

lemma sm_same_process [frame_rules]:
  "preserves same_process (sm_Exists E sare)"
  "preserves same_process (sm_CreateOrUpdate E sare c)"
  "preserves same_process (sm_Delete E sare)"
  unfolding preserves_def by (simp_all add: run_simps same_process_def)

lemma sm_calls:
  "(\<And>a. P (Get_Secret (secret_key sare) a)) \<Longrightarrow> preserves (emits P) (sm_Exists E sare)"
  "(\<And>a. P (Upsert_Secret (secret_key sare) a)) \<Longrightarrow> preserves (emits P) (sm_CreateOrUpdate E sare c)"
  "(\<And>a. P (Delete_Secret (secret_key sare) a)) \<Longrightarrow> preserves (emits P) (sm_Delete E sare)"
  unfolding sm_Exists_def sm_CreateOrUpdate_def sm_Delete_def call_defs Let_def
  by (auto intro!: frame_rules simp: secret_key_def new_secret_def)

interpretation sm: secret_store secret_key sm_Exists sm_CreateOrUpdate sm_Delete
  by unfold_locales (rule sm_Exists_law sm_CreateOrUpdate_law sm_Delete_law sm_same_process sm_calls; assumption?)+

end
