(* ===== verification/Secret_Reader.thy ===== *)
theory Secret_Reader
  imports Cluster_Laws
begin

text \<open>
  The interfaces \<open>migrationSource\<close> and \<open>producerClientFactory\<close> of
  \<open>internal/controller/request/types.go\<close>: an operation for a producer that does nothing but read
  secrets. Callers rely on that, not on what it reads them for.
\<close>

fun is_secret_read :: "call \<Rightarrow> bool" where
  "is_secret_read (Get_Secret n a) = True"
| "is_secret_read c = False"

fun_cases is_secret_readE: "is_secret_read c"

lemma view_getSecret: "secret_laws E V \<Longrightarrow> preserves (keeps_view V) (getSecret E n)"
  unfolding getSecret_def by (intro keeps_view_io) (simp add: read_lawD secret_lawsD)

locale secret_reader =
  fixes rd :: "'w env \<Rightarrow> 'a \<Rightarrow> sapr \<Rightarrow> ('w, 'r) op"
  assumes rd_reads: "preserves (emits is_secret_read) (rd E a sapr)"
    and rd_process: "preserves same_process (rd E a sapr)"
    and rd_view: "secret_laws E V \<Longrightarrow> preserves (keeps_view V) (rd E a sapr)"
begin

text \<open>A caller's frame: reads of secrets and nothing else.\<close>

lemma reader_emits:
  assumes "\<And>n x. P (Get_Secret n x)"
  shows "preserves (emits P) (rd E a sapr)"
  using rd_reads by (rule emits_mono) (auto elim!: is_secret_readE simp: assms)

lemma reader_keeps_entry: "secret_laws E V \<Longrightarrow> preserves (keeps_entry V k x) (rd E a sapr)"
  by (rule keeps_view_entry) (rule rd_view)

end

end
