(* ===== verification/Migration.thy ===== *)
theory Migration
  imports Secret_Reader
begin

text \<open>
  \<open>internal/serviceaccount/migration.go\<close>: the credentials of a consumer dogu migrated from
  Dogu V2, read from its migration secret.
\<close>

definition doguNameLabel :: string where
  "doguNameLabel = ''k8s.cloudogu.com/dogu.name''"

definition migrationSecretSuffix :: string where
  "migrationSecretSuffix = ''-migration''"

definition migrationKeySeparator :: string where
  "migrationKeySeparator = ''_''"

text \<open>A missing label reads as the empty string, the zero value of a Go map.\<close>

definition MigrationSecretName :: "sare \<Rightarrow> string" where
  "MigrationSecretName sare =
     (let doguName = (case map_of (sareLabels sare) doguNameLabel of None \<Rightarrow> [] | Some v \<Rightarrow> v)
      in if doguName = [] then [] else doguName @ migrationSecretSuffix)"

definition returnedAttributes :: "sapr \<Rightarrow> string list" where
  "returnedAttributes sapr = (case saprHTTP sapr of None \<Rightarrow> [] | Some h \<Rightarrow> hpReturn h)"

definition migration_prefix :: "sare \<Rightarrow> string" where
  "migration_prefix sare = srProducer (sareSpec sare) @ migrationKeySeparator"

text \<open>The loop over \<open>secret.Data\<close>.\<close>

fun collect_credentials :: "string \<Rightarrow> strmap \<Rightarrow> strmap \<Rightarrow> strmap" where
  "collect_credentials prefix [] credentials = credentials"
| "collect_credentials prefix ((key, value) # data) credentials =
     (case cutPrefix key prefix of
        Some attribute \<Rightarrow> collect_credentials prefix data (AList.update attribute value credentials)
      | None \<Rightarrow> collect_credentials prefix data credentials)"

text \<open>The loop over the declared attributes.\<close>

fun collect_missing :: "string \<Rightarrow> string list \<Rightarrow> strmap \<Rightarrow> string list \<Rightarrow> string list" where
  "collect_missing prefix [] credentials missing = missing"
| "collect_missing prefix (attribute # attributes) credentials missing =
     (case map_of credentials attribute of
        None \<Rightarrow> collect_missing prefix attributes credentials (missing @ [prefix @ attribute])
      | Some _ \<Rightarrow> collect_missing prefix attributes credentials missing)"

text \<open>What \<open>Credentials\<close> makes of the data of the migration secret.\<close>

definition migrated_credentials :: "string \<Rightarrow> string \<Rightarrow> string list \<Rightarrow> strmap \<Rightarrow> strmap option res" where
  "migrated_credentials secretName prefix attributes data =
     (let credentials = collect_credentials prefix data [] in
      if credentials = [] then Inr None
      else let missingKeys = collect_missing prefix attributes credentials [] in
        if missingKeys \<noteq> [] then
          Inl (Wrap [] Incomplete_Migration
            ('': secret '' @ goQuote secretName @ '' lacks keys '' @ join '', '' (sort missingKeys)))
        else Inr (Some credentials))"

definition ms_Credentials :: "'w env \<Rightarrow> sare \<Rightarrow> sapr \<Rightarrow> ('w, strmap option res) op" where
  "ms_Credentials E sare sapr =
     (let secretName = MigrationSecretName sare in
      if secretName = [] then ret (Inr None)
      else do {
        r \<leftarrow> getSecret E (nn (sareNamespace sare) secretName);
        ret (case r of
            Inl err \<Rightarrow>
              if is_not_found err then Inr None
              else Inl (errorf (''failed to get migration secret '' @ goQuote secretName
                @ '' for service account request '' @ goQuote (sareName sare) @ '': '') err)
          | Inr secret \<Rightarrow>
              migrated_credentials secretName (migration_prefix sare) (returnedAttributes sapr) (secData secret))
      })"

text \<open>It implements the interface.\<close>

interpretation ms: secret_reader ms_Credentials
  by unfold_locales (auto simp: ms_Credentials_def Let_def getSecret_def intro!: frame_rules view_getSecret [unfolded getSecret_def])

end
