(* ===== verification/Go_Url.thy ===== *)
theory Go_Url
  imports Go_Std
begin

text \<open>
  The part of Go's \<open>net/url\<close> and \<open>path\<close> packages that the operator relies on: \<open>url.Parse\<close>
  with its checks (control bytes, scheme, authority, port, percent escapes), the accessors
  \<open>Hostname\<close> and \<open>Port\<close>, \<open>URL.String\<close>, \<open>path.Join\<close> with \<open>path.Clean\<close> on rooted paths, and
  \<open>url.JoinPath\<close>. It follows the package of Go 1.26 and later, where a host may hold one
  colon only. The text between the brackets of an IP literal is not validated further.
  Error values carry the text of the innermost error.
\<close>

section \<open>Escaping\<close>

datatype url_mode = Encode_Path | Encode_User | Encode_Host | Encode_Fragment

definition is_hex :: "char \<Rightarrow> bool" where
  "is_hex c \<longleftrightarrow> is_digit c \<or> (97 \<le> code c \<and> code c \<le> 102) \<or> (65 \<le> code c \<and> code c \<le> 70)"

definition unhex :: "char \<Rightarrow> int" where
  "unhex c = (if is_digit c then code c - 48 else if 97 \<le> code c then code c - 87 else code c - 55)"

definition is_alnum :: "char \<Rightarrow> bool" where
  "is_alnum c \<longleftrightarrow> is_digit c \<or> is_lower c \<or> is_upper c"

definition should_escape :: "url_mode \<Rightarrow> char \<Rightarrow> bool" where
  "should_escape m c =
     (if is_alnum c then False
      else if m = Encode_Host \<and> c \<in> set (''!$&()*+,;=:[]<>'' @ [CHR 0x27, CHR 0x22]) then False
      else if c \<in> set ''-_.~'' then False
      else if c \<in> set ''$&+,/:;=?@'' then
        (case m of
          Encode_Path \<Rightarrow> c = CHR ''?''
        | Encode_User \<Rightarrow> c \<in> set ''@/?:''
        | Encode_Host \<Rightarrow> True
        | Encode_Fragment \<Rightarrow> False)
      else if m = Encode_Fragment \<and> c \<in> set ''!()*'' then False
      else True)"

fun unescape :: "url_mode \<Rightarrow> string \<Rightarrow> string res" where
  "unescape m [] = Inr []"
| "unescape m (c # cs) =
     (if c = CHR ''%'' then
        (case cs of
          a # b # rest \<Rightarrow>
            if \<not> is_hex a \<or> \<not> is_hex b then
              Inl (New_Err (''invalid URL escape '' @ goQuote (take 3 (c # cs))))
            else if m = Encode_Host \<and> unhex a < 8 \<and> \<not> (a = CHR ''2'' \<and> b = CHR ''5'') then
              Inl (New_Err (''invalid URL escape '' @ goQuote (take 3 (c # cs))))
            else map_sum id (Cons (char_of (16 * unhex a + unhex b))) (unescape m rest)
        | _ \<Rightarrow> Inl (New_Err (''invalid URL escape '' @ goQuote (take 3 (c # cs)))))
      else if m = Encode_Host \<and> code c < 128 \<and> should_escape m c then
        Inl (New_Err (''invalid character '' @ goQuote [c] @ '' in host name''))
      else map_sum id (Cons c) (unescape m cs))"

definition upper_hex :: "int \<Rightarrow> char" where
  "upper_hex n = (if n < 10 then char_of (n + 48) else char_of (n + 55))"

definition url_escape :: "url_mode \<Rightarrow> string \<Rightarrow> string" where
  "url_escape m s = concat (map (\<lambda>c. if should_escape m c
     then [CHR ''%'', upper_hex (code c div 16), upper_hex (code c mod 16)] else [c]) s)"

text \<open>\<open>validEncoded\<close>: whether a path can stand as it is in a URL.\<close>

definition valid_encoded :: "url_mode \<Rightarrow> string \<Rightarrow> bool" where
  "valid_encoded m s =
     list_all (\<lambda>c. c \<in> set (''!$&()*+,;=:@[]%'' @ [CHR 0x27]) \<or> \<not> should_escape m c) s"

section \<open>Parsing\<close>

record url =
  urlScheme :: string
  urlOpaque :: string
  urlUser :: "string option"
  urlHost :: string
  urlPath :: string
  urlRawPath :: string
  urlOmitHost :: bool
  urlForceQuery :: bool
  urlRawQuery :: string
  urlFragment :: string

definition empty_url :: url where
  "empty_url = \<lparr>urlScheme = [], urlOpaque = [], urlUser = None, urlHost = [], urlPath = [],
     urlRawPath = [], urlOmitHost = False, urlForceQuery = False, urlRawQuery = [], urlFragment = []\<rparr>"

definition has_ctl_byte :: "string \<Rightarrow> bool" where
  "has_ctl_byte s = list_ex (\<lambda>c. code c < 32 \<or> code c = 127) s"

text \<open>The loop of \<open>getScheme\<close>: \<open>seen\<close> is what it has walked over.\<close>

fun get_scheme :: "string \<Rightarrow> string \<Rightarrow> string \<Rightarrow> (string \<times> string) res" where
  "get_scheme raw seen [] = Inr ([], raw)"
| "get_scheme raw seen (c # cs) =
     (if is_lower c \<or> is_upper c then get_scheme raw (seen @ [c]) cs
      else if is_digit c \<or> c \<in> set ''+-.'' then
        (if seen = [] then Inr ([], raw) else get_scheme raw (seen @ [c]) cs)
      else if c = CHR '':'' then
        (if seen = [] then Inl (New_Err ''missing protocol scheme'') else Inr (seen, cs))
      else Inr ([], raw))"

definition valid_optional_port :: "string \<Rightarrow> bool" where
  "valid_optional_port p = (case p of [] \<Rightarrow> True | c # cs \<Rightarrow> c = CHR '':'' \<and> list_all is_digit cs)"

text \<open>What is before and after the last occurrence of a byte.\<close>

definition split_last :: "char \<Rightarrow> string \<Rightarrow> (string \<times> string) option" where
  "split_last c s = (case cut c (rev s) of (post, None) \<Rightarrow> None | (post, Some pre) \<Rightarrow> Some (rev pre, rev post))"

definition check_port :: "string \<Rightarrow> unit res" where
  "check_port p = (if valid_optional_port p then Inr ()
     else Inl (New_Err (''invalid port '' @ goQuote p @ '' after host'')))"

definition parse_host :: "string \<Rightarrow> string res" where
  "parse_host host =
     (if host \<noteq> [] \<and> hd host = CHR ''['' then
        (case split_last (CHR '']'') host of
          None \<Rightarrow> Inl (New_Err ''missing ']' in host'')
        | Some (pre, colonPort) \<Rightarrow>
            (case check_port colonPort of Inl e \<Rightarrow> Inl e | Inr _ \<Rightarrow> unescape Encode_Host host))
      else if CHR ''['' \<in> set host then Inl (New_Err ''invalid IP-literal'')
      else case cut (CHR '':'') host of
          (h, None) \<Rightarrow> unescape Encode_Host host
        | (h, Some p) \<Rightarrow>
            (case check_port (CHR '':'' # p) of Inl e \<Rightarrow> Inl e | Inr _ \<Rightarrow> unescape Encode_Host host))"

definition valid_userinfo :: "string \<Rightarrow> bool" where
  "valid_userinfo s = list_all (\<lambda>c. is_alnum c \<or> c \<in> set (''-._:~!$&()*+,;=%@'' @ [CHR 0x27])) s"

definition parse_authority :: "string \<Rightarrow> (string option \<times> string) res" where
  "parse_authority a =
     (case split_last (CHR ''@'') a of
        None \<Rightarrow> map_sum id (Pair None) (parse_host a)
      | Some (ui, h) \<Rightarrow>
          (case parse_host h of
            Inl e \<Rightarrow> Inl e
          | Inr host \<Rightarrow>
              if \<not> valid_userinfo ui then Inl (New_Err ''net/url: invalid userinfo'')
              else (case unescape Encode_User ui of Inl e \<Rightarrow> Inl e | Inr _ \<Rightarrow> Inr (Some ui, host))))"

definition set_path :: "string \<Rightarrow> url \<Rightarrow> url res" where
  "set_path p u =
     (case unescape Encode_Path p of
        Inl e \<Rightarrow> Inl e
      | Inr path \<Rightarrow> Inr (u\<lparr>urlPath := path, urlRawPath := (if url_escape Encode_Path path = p then [] else p)\<rparr>))"

text \<open>\<open>parse\<close>, with the fragment already cut off and \<open>viaRequest\<close> false.\<close>

definition parse_nofrag :: "string \<Rightarrow> url res" where
  "parse_nofrag raw =
     (if has_ctl_byte raw then Inl (New_Err ''net/url: invalid control character in URL'')
      else if raw = ''*'' then Inr (empty_url\<lparr>urlPath := ''*''\<rparr>)
      else case get_scheme raw [] raw of
        Inl e \<Rightarrow> Inl e
      | Inr (sch, rest0) \<Rightarrow>
          let scheme = to_lower sch;
              force = (rest0 \<noteq> [] \<and> last rest0 = CHR ''?'' \<and> count_list rest0 (CHR ''?'') = 1);
              rest = (if force then butlast rest0 else fst (cut (CHR ''?'') rest0));
              query = (if force then [] else case snd (cut (CHR ''?'') rest0) of None \<Rightarrow> [] | Some q \<Rightarrow> q);
              u = empty_url\<lparr>urlScheme := scheme, urlForceQuery := force, urlRawQuery := query\<rparr>
          in if \<not> hasPrefix rest ''/'' \<and> scheme \<noteq> [] then Inr (u\<lparr>urlOpaque := rest\<rparr>)
             else if \<not> hasPrefix rest ''/'' \<and> CHR '':'' \<in> set (fst (cut (CHR ''/'') rest)) then
               Inl (New_Err ''first path segment in URL cannot contain colon'')
             else if hasPrefix rest ''//'' \<and> (scheme \<noteq> [] \<or> \<not> hasPrefix rest ''///'') then
               (let r = drop 2 rest; authority = fst (cut (CHR ''/'') r) in
                case parse_authority authority of
                  Inl e \<Rightarrow> Inl e
                | Inr (user, host) \<Rightarrow>
                    set_path (drop (length authority) r) (u\<lparr>urlUser := user, urlHost := host\<rparr>))
             else set_path rest (u\<lparr>urlOmitHost := (scheme \<noteq> [] \<and> hasPrefix rest ''/'')\<rparr>))"

definition url_error :: "string \<Rightarrow> gerr \<Rightarrow> gerr" where
  "url_error u e = errorf (''parse '' @ goQuote u @ '': '') e"

definition url_parse :: "string \<Rightarrow> url res" where
  "url_parse raw =
     (case cut (CHR ''#'') raw of (u, frag) \<Rightarrow>
       (case parse_nofrag u of
          Inl e \<Rightarrow> Inl (url_error u e)
        | Inr url \<Rightarrow>
            (case frag of
               None \<Rightarrow> Inr url
             | Some f \<Rightarrow>
                 (case unescape Encode_Fragment f of
                    Inl e \<Rightarrow> Inl (url_error raw e)
                  | Inr _ \<Rightarrow> Inr (url\<lparr>urlFragment := f\<rparr>)))))"

section \<open>Hostname and Port\<close>

definition split_host_port :: "string \<Rightarrow> string \<times> string" where
  "split_host_port hp =
     (let (host, port) = (case split_last (CHR '':'') hp of
            None \<Rightarrow> (hp, [])
          | Some (h, p) \<Rightarrow> if valid_optional_port (CHR '':'' # p) then (h, p) else (hp, []))
      in (if host \<noteq> [] \<and> hd host = CHR ''['' \<and> last host = CHR '']''
          then butlast (tl host) else host, port))"

definition url_hostname :: "url \<Rightarrow> string" where
  "url_hostname u = fst (split_host_port (urlHost u))"

definition url_port :: "url \<Rightarrow> string" where
  "url_port u = snd (split_host_port (urlHost u))"

section \<open>String and JoinPath\<close>

definition escaped_path :: "url \<Rightarrow> string" where
  "escaped_path u =
     (if urlRawPath u \<noteq> [] \<and> valid_encoded Encode_Path (urlRawPath u)
         \<and> unescape Encode_Path (urlRawPath u) = Inr (urlPath u) then urlRawPath u
      else if urlPath u = ''*'' then ''*''
      else url_escape Encode_Path (urlPath u))"

definition url_string :: "url \<Rightarrow> string" where
  "url_string u =
     (let pre = (if urlScheme u \<noteq> [] then urlScheme u @ '':'' else []);
          auth = (if urlScheme u \<noteq> [] \<or> urlHost u \<noteq> [] \<or> urlUser u \<noteq> None then
                    (if urlOmitHost u \<and> urlHost u = [] \<and> urlUser u = None then []
                     else (if urlHost u \<noteq> [] \<or> urlPath u \<noteq> [] \<or> urlUser u \<noteq> None then ''//'' else [])
                       @ (case urlUser u of None \<Rightarrow> [] | Some ui \<Rightarrow> ui @ ''@'')
                       @ url_escape Encode_Host (urlHost u))
                  else []);
          path = escaped_path u;
          slash = (if path \<noteq> [] \<and> hd path \<noteq> CHR ''/'' \<and> urlHost u \<noteq> [] then ''/'' else []);
          dot = (if pre @ auth @ slash = [] \<and> CHR '':'' \<in> set (fst (cut (CHR ''/'') path)) then ''./'' else []);
          body = (if urlOpaque u \<noteq> [] then urlOpaque u else auth @ slash @ dot @ path)
      in pre @ body
         @ (if urlForceQuery u \<or> urlRawQuery u \<noteq> [] then ''?'' @ urlRawQuery u else [])
         @ (if urlFragment u \<noteq> [] then ''#'' @ urlFragment u else []))"

fun split_on :: "char \<Rightarrow> string \<Rightarrow> string list" where
  "split_on sep [] = [[]]"
| "split_on sep (c # s) =
     (if c = sep then [] # split_on sep s
      else case split_on sep s of [] \<Rightarrow> [[c]] | w # ws \<Rightarrow> (c # w) # ws)"

text \<open>\<open>path.Clean\<close> on a rooted path, segment by segment: empty segments and \<open>.\<close> are
  dropped, \<open>..\<close> drops the segment before it and stays at the root.\<close>

fun clean_segments :: "string list \<Rightarrow> string list \<Rightarrow> string list" where
  "clean_segments acc [] = acc"
| "clean_segments acc (w # ws) =
     (if w = [] \<or> w = ''.'' then clean_segments acc ws
      else if w = ''..'' then clean_segments (butlast acc) ws
      else clean_segments (acc @ [w]) ws)"

definition path_clean_rooted :: "string \<Rightarrow> string" where
  "path_clean_rooted p = ''/'' @ join ''/'' (clean_segments [] (split_on (CHR ''/'') p))"

definition url_join_path_url :: "url \<Rightarrow> string \<Rightarrow> url res" where
  "url_join_path_url u elem =
     (let base = escaped_path u;
          rooted = hasPrefix base ''/'';
          full = path_clean_rooted ((if rooted then base else ''/'' @ base) @ ''/'' @ elem);
          p = (if rooted then full else tl full);
          p' = (if elem \<noteq> [] \<and> last elem = CHR ''/'' \<and> \<not> (p \<noteq> [] \<and> last p = CHR ''/'') then p @ ''/'' else p)
      in set_path p' u)"

definition url_join_path :: "string \<Rightarrow> string \<Rightarrow> string res" where
  "url_join_path base elem =
     (case url_parse base of
        Inl e \<Rightarrow> Inl e
      | Inr u \<Rightarrow> map_sum id url_string (url_join_path_url u elem))"

section \<open>Facts about parsing\<close>

lemma get_scheme_http: "get_scheme raw [] (''http://'' @ s) = Inr (''http'', ''//'' @ s)"
  by (simp add: is_lower_def is_upper_def is_digit_def code_def)

lemma get_scheme_https: "get_scheme raw [] (''https://'' @ s) = Inr (''https'', ''//'' @ s)"
  by (simp add: is_lower_def is_upper_def is_digit_def code_def)

lemma set_path_scheme: "set_path p u = Inr v \<Longrightarrow> urlScheme v = urlScheme u \<and> urlHost v = urlHost u"
  by (auto simp: set_path_def split: sum.splits)

end
