(* ===== verification/Go_Json.thy ===== *)
theory Go_Json
  imports Go_Std
begin

text \<open>
  The part of Go's \<open>encoding/json\<close> the operator uses: marshalling strings and string maps
  (keys sorted, the HTML-sensitive characters escaped), scanning the first JSON value of a
  stream (what \<open>Decoder.Decode\<close> reads; what follows the value is ignored), and storing a
  value into a \<open>map[string]string\<close>. Strings are byte sequences; both directions replace every
  byte that is no part of a valid UTF-8 sequence by U+FFFD. The text of syntax errors is not
  modelled. The scanner recurses with a fuel of twice the length of its input plus one, which
  is enough for every input (\<open>Json_Props\<close>).
\<close>

section \<open>UTF-8\<close>

definition utf8 :: "int \<Rightarrow> string" where
  "utf8 r =
     (if r < 128 then [char_of r]
      else if r < 2048 then [char_of (192 + r div 64), char_of (128 + r mod 64)]
      else if r < 65536 then
        [char_of (224 + r div 4096), char_of (128 + r div 64 mod 64), char_of (128 + r mod 64)]
      else [char_of (240 + r div 262144), char_of (128 + r div 4096 mod 64),
            char_of (128 + r div 64 mod 64), char_of (128 + r mod 64)])"

text \<open>\<open>utf8.RuneError\<close>, U+FFFD.\<close>

definition rune_error :: string where
  "rune_error = [CHR 0xEF, CHR 0xBF, CHR 0xBD]"

definition byte_in :: "int \<Rightarrow> int \<Rightarrow> char \<Rightarrow> bool" where
  "byte_in lo hi c \<longleftrightarrow> lo \<le> code c \<and> code c < hi"

text \<open>\<open>utf8.DecodeRune\<close>: the number of bytes of the valid sequence at the start, 0 if there is none.\<close>

definition rune_length :: "string \<Rightarrow> nat" where
  "rune_length s =
     (case s of
        [] \<Rightarrow> 0
      | a # s1 \<Rightarrow>
          if code a < 128 then 1
          else if byte_in 194 224 a then
            (case s1 of b # _ \<Rightarrow> if byte_in 128 192 b then 2 else 0 | [] \<Rightarrow> 0)
          else if byte_in 224 240 a then
            (case s1 of
               b # c # _ \<Rightarrow>
                 if byte_in (if code a = 224 then 160 else 128) (if code a = 237 then 160 else 192) b
                   \<and> byte_in 128 192 c then 3 else 0
             | _ \<Rightarrow> 0)
          else if byte_in 240 245 a then
            (case s1 of
               b # c # d # _ \<Rightarrow>
                 if byte_in (if code a = 240 then 144 else 128) (if code a = 244 then 144 else 192) b
                   \<and> byte_in 128 192 c \<and> byte_in 128 192 d then 4 else 0
             | _ \<Rightarrow> 0)
          else 0)"

text \<open>\<open>strings.ToValidUTF8\<close> byte by byte, with U+FFFD: what a string is after a trip through JSON.\<close>

function to_valid :: "string \<Rightarrow> string" where
  "to_valid [] = []"
| "to_valid (c # cs) =
     (case rune_length (c # cs) of
        0 \<Rightarrow> rune_error @ to_valid cs
      | Suc k \<Rightarrow> c # take k cs @ to_valid (drop k cs))"
  by pat_completeness auto
termination by (relation "measure length") auto

section \<open>Encoding\<close>

definition json_u :: "int \<Rightarrow> string" where
  "json_u n = [CHR 0x5C, CHR ''u'', CHR ''0'', CHR ''0'', hex_char (n div 16), hex_char (n mod 16)]"

definition json_byte :: "char \<Rightarrow> string" where
  "json_byte c =
     (let n = code c; bs = CHR 0x5C in
      if n = 34 \<or> n = 92 then [bs, c]
      else if n = 8 then [bs, CHR ''b'']
      else if n = 12 then [bs, CHR ''f'']
      else if n = 10 then [bs, CHR ''n'']
      else if n = 13 then [bs, CHR ''r'']
      else if n = 9 then [bs, CHR ''t'']
      else if n < 32 \<or> n = 60 \<or> n = 62 \<or> n = 38 then json_u n
      else [c])"

text \<open>U+2028 and U+2029 are escaped.\<close>

definition json_rune :: "string \<Rightarrow> string" where
  "json_rune bytes =
     (if bytes = [CHR 0xE2, CHR 0x80, CHR 0xA8] then CHR 0x5C # ''u2028''
      else if bytes = [CHR 0xE2, CHR 0x80, CHR 0xA9] then CHR 0x5C # ''u2029''
      else bytes)"

function json_chars :: "string \<Rightarrow> string" where
  "json_chars [] = []"
| "json_chars (c # cs) =
     (if code c < 128 then json_byte c @ json_chars cs
      else (case rune_length (c # cs) of
          0 \<Rightarrow> CHR 0x5C # ''ufffd'' @ json_chars cs
        | Suc k \<Rightarrow> json_rune (c # take k cs) @ json_chars (drop k cs)))"
  by pat_completeness auto
termination by (relation "measure length") auto

definition json_string :: "string \<Rightarrow> string" where
  "json_string s = [CHR 0x22] @ json_chars s @ [CHR 0x22]"

definition json_member :: "string \<times> string \<Rightarrow> string" where
  "json_member kv = json_string (fst kv) @ '':'' @ json_string (snd kv)"

text \<open>A \<open>map[string]string\<close> is written with its keys in sorted order.\<close>

definition json_strmap :: "strmap \<Rightarrow> string" where
  "json_strmap m = ''{'' @ join '','' (map json_member (sort_key fst m)) @ ''}''"

section \<open>Scanning\<close>

datatype json = JNull | JBool bool | JNum | JStr string | JArr "json list" | JObj "(string \<times> json) list"

definition json_ws :: "char \<Rightarrow> bool" where
  "json_ws c \<longleftrightarrow> code c = 32 \<or> code c = 9 \<or> code c = 13 \<or> code c = 10"

definition skip_ws :: "string \<Rightarrow> string" where
  "skip_ws s = dropWhile json_ws s"

fun hex_digit :: "char \<Rightarrow> int option" where
  "hex_digit c =
     (if is_digit c then Some (code c - 48)
      else if 97 \<le> code c \<and> code c \<le> 102 then Some (code c - 87)
      else if 65 \<le> code c \<and> code c \<le> 70 then Some (code c - 55)
      else None)"

fun hex4 :: "string \<Rightarrow> (int \<times> string) option" where
  "hex4 (a # b # c # d # rest) =
     (case (hex_digit a, hex_digit b, hex_digit c, hex_digit d) of
        (Some x, Some y, Some z, Some w) \<Rightarrow> Some (((x * 16 + y) * 16 + z) * 16 + w, rest)
      | _ \<Rightarrow> None)"
| "hex4 _ = None"

definition is_surrogate :: "int \<Rightarrow> bool" where
  "is_surrogate r \<longleftrightarrow> 55296 \<le> r \<and> r < 57344"

text \<open>A \<open>\u\<close> escape: a valid surrogate pair is one rune, a lone surrogate is U+FFFD.\<close>

definition unicode_escape :: "string \<Rightarrow> (string \<times> string) option" where
  "unicode_escape s =
     (case hex4 s of
        None \<Rightarrow> None
      | Some (r, rest) \<Rightarrow>
          if \<not> is_surrogate r then Some (utf8 r, rest)
          else if r < 56320 \<and> hasPrefix rest [CHR 0x5C, CHR ''u''] then
            (case hex4 (drop 2 rest) of
               None \<Rightarrow> None
             | Some (r2, rest2) \<Rightarrow>
                 if 56320 \<le> r2 \<and> r2 < 57344
                 then Some (utf8 ((r - 55296) * 1024 + (r2 - 56320) + 65536), rest2)
                 else Some (utf8 65533, rest))
          else Some (utf8 65533, rest))"

definition simple_escape :: "char \<Rightarrow> char option" where
  "simple_escape c =
     (if code c = 34 \<or> code c = 92 \<or> code c = 47 then Some c
      else if c = CHR ''b'' then Some (char_of (8::int))
      else if c = CHR ''f'' then Some (char_of (12::int))
      else if c = CHR ''n'' then Some (char_of (10::int))
      else if c = CHR ''r'' then Some (char_of (13::int))
      else if c = CHR ''t'' then Some (char_of (9::int))
      else None)"

text \<open>The rest of a string literal after its opening quote.\<close>

fun scan_string :: "nat \<Rightarrow> string \<Rightarrow> (string \<times> string) option" where
  "scan_string 0 s = None"
| "scan_string (Suc n) [] = None"
| "scan_string (Suc n) (c # cs) =
     (if code c = 34 then Some ([], cs)
      else if code c < 32 then None
      else if code c = 92 then
        (case cs of
           [] \<Rightarrow> None
         | e # rest \<Rightarrow>
             if e = CHR ''u'' then
               (case unicode_escape rest of
                  None \<Rightarrow> None
                | Some (t, rest2) \<Rightarrow> map_option (map_prod (append t) id) (scan_string n rest2))
             else (case simple_escape e of
                  None \<Rightarrow> None
                | Some d \<Rightarrow> map_option (map_prod (Cons d) id) (scan_string n rest)))
      else if code c < 128 then map_option (map_prod (Cons c) id) (scan_string n cs)
      else (case rune_length (c # cs) of
          0 \<Rightarrow> map_option (map_prod (append rune_error) id) (scan_string n cs)
        | Suc k \<Rightarrow> map_option (map_prod (append (c # take k cs)) id) (scan_string n (drop k cs))))"

definition span_digits :: "string \<Rightarrow> string \<times> string" where
  "span_digits s = (takeWhile is_digit s, dropWhile is_digit s)"

definition scan_exponent :: "string \<Rightarrow> string option" where
  "scan_exponent s =
     (case s of
        c # cs \<Rightarrow>
          if c = CHR ''e'' \<or> c = CHR ''E'' then
            (let t = (case cs of d # ds \<Rightarrow> if d = CHR ''+'' \<or> d = CHR ''-'' then ds else cs | [] \<Rightarrow> [])
             in case span_digits t of (ds, rest) \<Rightarrow> if ds = [] then None else Some rest)
          else Some s
      | [] \<Rightarrow> Some [])"

definition scan_number :: "string \<Rightarrow> string option" where
  "scan_number s =
     (let t = (case s of c # cs \<Rightarrow> if c = CHR ''-'' then cs else s | [] \<Rightarrow> []);
          int_part = (case t of
              [] \<Rightarrow> None
            | c # cs \<Rightarrow> if c = CHR ''0'' then Some cs
                else if is_digit c then Some (dropWhile is_digit cs) else None)
      in case int_part of
           None \<Rightarrow> None
         | Some u \<Rightarrow>
             (case u of
                c # cs \<Rightarrow>
                  if c = CHR ''.'' then
                    (case span_digits cs of (ds, rest) \<Rightarrow> if ds = [] then None else scan_exponent rest)
                  else scan_exponent u
              | [] \<Rightarrow> Some []))"

text \<open>
  Values, array elements and object members. \<open>None\<close> is a syntax error or the end of the
  input inside a value.
\<close>

fun scan_value :: "nat \<Rightarrow> string \<Rightarrow> (json \<times> string) option"
  and scan_elements :: "nat \<Rightarrow> string \<Rightarrow> (json list \<times> string) option"
  and scan_members :: "nat \<Rightarrow> string \<Rightarrow> ((string \<times> json) list \<times> string) option"
where
  "scan_value 0 s = None"
| "scan_value (Suc n) s =
     (case skip_ws s of
        [] \<Rightarrow> None
      | c # cs \<Rightarrow>
          if c = CHR ''{'' then
            (case skip_ws cs of
               [] \<Rightarrow> None
             | d # ds \<Rightarrow> if d = CHR ''}'' then Some (JObj [], ds)
                 else map_option (map_prod JObj id) (scan_members n cs))
          else if c = CHR ''['' then
            (case skip_ws cs of
               [] \<Rightarrow> None
             | d # ds \<Rightarrow> if d = CHR '']'' then Some (JArr [], ds)
                 else map_option (map_prod JArr id) (scan_elements n cs))
          else if code c = 34 then map_option (map_prod JStr id) (scan_string (length cs) cs)
          else if c = CHR ''-'' \<or> is_digit c then map_option (Pair JNum) (scan_number (c # cs))
          else (case cutPrefix (c # cs) ''null'' of
              Some rest \<Rightarrow> Some (JNull, rest)
            | None \<Rightarrow>
                (case cutPrefix (c # cs) ''true'' of
                   Some rest \<Rightarrow> Some (JBool True, rest)
                 | None \<Rightarrow> map_option (Pair (JBool False)) (cutPrefix (c # cs) ''false''))))"
| "scan_elements 0 s = None"
| "scan_elements (Suc n) s =
     (case scan_value n s of
        None \<Rightarrow> None
      | Some (v, rest) \<Rightarrow>
          (case skip_ws rest of
             [] \<Rightarrow> None
           | d # ds \<Rightarrow>
               if d = CHR '','' then map_option (map_prod (Cons v) id) (scan_elements n ds)
               else if d = CHR '']'' then Some ([v], ds) else None))"
| "scan_members 0 s = None"
| "scan_members (Suc n) s =
     (case skip_ws s of
        [] \<Rightarrow> None
      | q # qs \<Rightarrow>
          if code q \<noteq> 34 then None
          else (case scan_string (length qs) qs of
             None \<Rightarrow> None
           | Some (k, rest) \<Rightarrow>
               (case skip_ws rest of
                  [] \<Rightarrow> None
                | col # r2 \<Rightarrow>
                    if col \<noteq> CHR '':'' then None
                    else (case scan_value n r2 of
                       None \<Rightarrow> None
                     | Some (v, r3) \<Rightarrow>
                         (case skip_ws r3 of
                            [] \<Rightarrow> None
                          | d # ds \<Rightarrow>
                              if d = CHR '','' then map_option (map_prod (Cons (k, v)) id) (scan_members n ds)
                              else if d = CHR ''}'' then Some ([(k, v)], ds) else None)))))"

section \<open>Storing a value into a map[string]string\<close>

text \<open>
  A string is stored as it is and \<open>null\<close> as the zero value; any other member is an
  \<open>UnmarshalTypeError\<close>, which fails the call at its end. A later duplicate key wins.
\<close>

fun store_members :: "(string \<times> json) list \<Rightarrow> strmap \<Rightarrow> strmap res" where
  "store_members [] m = Inr m"
| "store_members ((k, JStr v) # kvs) m = store_members kvs (AList.update k v m)"
| "store_members ((k, JNull) # kvs) m = store_members kvs (AList.update k [] m)"
| "store_members ((k, v) # kvs) m =
     Inl (New_Err ''json: cannot unmarshal value into Go value of type string'')"

text \<open>\<open>None\<close> is the nil map, which a JSON \<open>null\<close> leaves in place.\<close>

fun store_strmap :: "json \<Rightarrow> strmap option res" where
  "store_strmap JNull = Inr None"
| "store_strmap (JObj kvs) = map_sum id Some (store_members kvs [])"
| "store_strmap v = Inl (New_Err ''json: cannot unmarshal value into Go value of type map[string]string'')"

text \<open>
  \<open>json.NewDecoder(body).Decode(&m)\<close> with \<open>m\<close> a nil map: \<open>body\<close> is what could be read and
  \<open>read_err\<close> the error that ended the reading early, if there was one. The scanner knows that an object
  or an array is over at its last byte; any other value is over at the byte after it, or at the end of
  the body, but not where the reading has failed.
\<close>

fun json_container :: "json \<Rightarrow> bool" where
  "json_container (JArr vs) = True"
| "json_container (JObj kvs) = True"
| "json_container v = False"

definition decode_strmap :: "string \<Rightarrow> gerr option \<Rightarrow> strmap option res" where
  "decode_strmap body read_err =
     (case scan_value (2 * length body + 1) body of
        Some (v, rest) \<Rightarrow>
          (case read_err of
             Some e \<Rightarrow> if json_container v \<or> rest \<noteq> [] then store_strmap v else Inl e
           | None \<Rightarrow> store_strmap v)
      | None \<Rightarrow>
          (case read_err of
             Some e \<Rightarrow> Inl e
           | None \<Rightarrow> Inl (New_Err (if skip_ws body = [] then ''EOF'' else ''invalid JSON''))))"

end
