(* ===== verification/Http_Client.thy ===== *)
theory Http_Client
  imports Secret_Reader Go_Url Go_Json
begin

text \<open>
  \<open>internal/producer/http_client.go\<close> and \<open>producer_client_factory.go\<close>: the HTTP client of one
  producer and the factory that resolves its API key. The call to the producer itself is
  the environment's \<open>e_http_do\<close>.
\<close>

definition apiKeyHeader :: string where
  "apiKeyHeader = ''X-CES-SA-API-KEY''"

record http_client =
  hcEndpoint :: string
  hcApiKey :: string

text \<open>\<open>BehaviorParams\<close>.\<close>

record behavior_params =
  bpRotateServiceAccountNow :: bool

record request_body =
  rbConsumer :: string
  rbParams :: strmap
  rbBehaviorParams :: behavior_params

definition comma_fields :: "string list \<Rightarrow> string" where
  "comma_fields fs = ''{'' @ join '','' fs @ ''}''"

definition json_key :: "string \<Rightarrow> string \<Rightarrow> string" where
  "json_key k v = json_string k @ '':'' @ v"

text \<open>\<open>json.Marshal\<close> of \<open>createOrUpdateRequestBody\<close>: \<open>params\<close> is omitted when empty,
  \<open>behaviorParams\<close> when it is the zero value.\<close>

definition marshal_behavior :: "behavior_params \<Rightarrow> string" where
  "marshal_behavior bp =
     comma_fields (if bpRotateServiceAccountNow bp then [json_key ''rotateServiceAccountNow'' ''true''] else [])"

definition marshal_body :: "request_body \<Rightarrow> string" where
  "marshal_body b =
     comma_fields
       ([json_key ''consumer'' (json_string (rbConsumer b))]
        @ (if rbParams b = [] then [] else [json_key ''params'' (json_strmap (rbParams b))])
        @ (if bpRotateServiceAccountNow (rbBehaviorParams b)
           then [json_key ''behaviorParams'' (marshal_behavior (rbBehaviorParams b))] else []))"

text \<open>\<open>http.NewRequestWithContext\<close>: with a valid method it fails only if the URL does not parse.\<close>

definition newRequest :: "string \<Rightarrow> string \<Rightarrow> strmap \<Rightarrow> string \<Rightarrow> http_request res" where
  "newRequest method target headers body =
     (case url_parse target of
        Inl e \<Rightarrow> Inl e
      | Inr _ \<Rightarrow> Inr \<lparr>hrMethod = method, hrUrl = target, hrHeaders = headers, hrBody = body\<rparr>)"

definition build_url_text :: "http_client \<Rightarrow> string \<Rightarrow> string" where
  "build_url_text c consumer =
     ''failed to build URL for producer endpoint '' @ goQuote (hcEndpoint c) @ '' and consumer ''
       @ goQuote consumer @ '': ''"

section \<open>Exists\<close>

definition exists_status :: "http_client \<Rightarrow> http_response \<Rightarrow> bool res" where
  "exists_status c resp =
     (if respCode resp = 200 then Inr True
      else if respCode resp = 404 then Inr False
      else Inl (New_Err (''producer returned unexpected status '' @ itoa (respCode resp)
        @ '' for '' @ goQuote (hcEndpoint c))))"

definition hc_Exists :: "'w env \<Rightarrow> http_client \<Rightarrow> string \<Rightarrow> ('w, bool res) op" where
  "hc_Exists E c consumer =
     (case url_join_path (hcEndpoint c) consumer of
        Inl err \<Rightarrow> ret (Inl (errorf (build_url_text c consumer) err))
      | Inr targetURL \<Rightarrow>
          (case newRequest ''HEAD'' targetURL [(apiKeyHeader, hcApiKey c)] [] of
             Inl err \<Rightarrow> ret (Inl (errorf ''failed to create HTTP request: '' err))
           | Inr req \<Rightarrow> do {
               r \<leftarrow> httpDo E req;
               ret (case r of
                   Inl err \<Rightarrow> Inl (errorf (''HTTP request to producer '' @ goQuote (hcEndpoint c) @ '' failed: '') err)
                 | Inr resp \<Rightarrow> exists_status c resp)
             }))"

section \<open>CreateOrUpdate\<close>

definition create_status :: "http_client \<Rightarrow> http_response \<Rightarrow> strmap option res" where
  "create_status c resp =
     (if respCode resp = 401 then
        Inl (New_Err (''producer '' @ goQuote (hcEndpoint c) @ '' rejected the request with ''
          @ itoa (respCode resp) @ ''; please check the API key in the SARE auth secret''))
      else if respCode resp \<notin> set [200, 201, 204] then
        Inl (New_Err (''producer returned unexpected status '' @ respStatus resp @ '' on update for ''
          @ goQuote (hcEndpoint c) @ '': '' @ respBody resp))
      else if respCode resp = 204 then Inr None
      else (case decode_strmap (respBody resp) (respReadErr resp) of
          Inl err \<Rightarrow> Inl (errorf ''failed to decode producer response: '' err)
        | Inr credentials \<Rightarrow> Inr credentials))"

definition hc_CreateOrUpdate ::
  "'w env \<Rightarrow> http_client \<Rightarrow> string \<Rightarrow> strmap \<Rightarrow> behavior_params \<Rightarrow> ('w, strmap option res) op" where
  "hc_CreateOrUpdate E c consumer params behaviorParams =
     (let body = marshal_body \<lparr>rbConsumer = consumer, rbParams = params, rbBehaviorParams = behaviorParams\<rparr> in
      case newRequest ''PUT'' (hcEndpoint c)
             [(''Content-Type'', ''application/json''), (apiKeyHeader, hcApiKey c)] body of
        Inl err \<Rightarrow> ret (Inl (errorf ''failed to create HTTP put request: '' err))
      | Inr req \<Rightarrow> do {
          r \<leftarrow> httpDo E req;
          ret (case r of
              Inl err \<Rightarrow> Inl (errorf (''http serviceaccount request to producer ''
                @ goQuote (hcEndpoint c) @ '' failed: '') err)
            | Inr resp \<Rightarrow> create_status c resp)
        })"

section \<open>Ready\<close>

definition rejected_text :: "http_client \<Rightarrow> string" where
  "rejected_text c = ''producer '' @ goQuote (hcEndpoint c) @ '' rejected the request with 401 ''
     @ [char_of (226::int), char_of (128::int), char_of (148::int)] @ '' check the API key in the auth secret''"

definition ready_status :: "http_client \<Rightarrow> http_response \<Rightarrow> gerr option" where
  "ready_status c resp =
     (if respCode resp = 401 then Some (New_Err (rejected_text c))
      else if respCode resp \<ge> 500 then
        Some (New_Err (''endpoint '' @ goQuote (hcEndpoint c) @ '' is not ready (status '' @ respStatus resp @ '')''))
      else None)"

definition hc_Ready :: "'w env \<Rightarrow> http_client \<Rightarrow> ('w, gerr option) op" where
  "hc_Ready E c =
     (case newRequest ''HEAD'' (hcEndpoint c) [(apiKeyHeader, hcApiKey c)] [] of
        Inl err \<Rightarrow> ret (Some (errorf (''failed to build request to check producer readiness for ''
          @ goQuote (hcEndpoint c) @ '': '') err))
      | Inr req \<Rightarrow> do {
          r \<leftarrow> httpDo E req;
          ret (case r of
              Inl err \<Rightarrow> Some (errorf (''endpoint '' @ goQuote (hcEndpoint c)
                @ '' is not ready because it is unreachable: '') err)
            | Inr resp \<Rightarrow> ready_status c resp)
        })"

section \<open>Delete\<close>

definition delete_status :: "http_client \<Rightarrow> string \<Rightarrow> http_response \<Rightarrow> gerr option" where
  "delete_status c targetURL resp =
     (if respCode resp = 401 then Some (New_Err (rejected_text c))
      else if (respCode resp < 200 \<or> respCode resp \<ge> 300) \<and> respCode resp \<noteq> 404 then
        Some (New_Err (''producer returned unexpected status '' @ respStatus resp @ '' for ''
          @ goQuote targetURL @ '': '' @ respBody resp))
      else None)"

definition hc_Delete :: "'w env \<Rightarrow> http_client \<Rightarrow> string \<Rightarrow> ('w, gerr option) op" where
  "hc_Delete E c consumer =
     (case url_join_path (hcEndpoint c) consumer of
        Inl err \<Rightarrow> ret (Some (errorf (build_url_text c consumer) err))
      | Inr targetURL \<Rightarrow>
          (case newRequest ''DELETE'' targetURL [(apiKeyHeader, hcApiKey c)] [] of
             Inl err \<Rightarrow> ret (Some (errorf ''failed to create HTTP request: '' err))
           | Inr req \<Rightarrow> do {
               r \<leftarrow> httpDo E req;
               ret (case r of
                   Inl err \<Rightarrow> Some (errorf (''HTTP delete-serviceaccount request to producer ''
                     @ goQuote targetURL @ '' failed: '') err)
                 | Inr resp \<Rightarrow> delete_status c targetURL resp)
             }))"

section \<open>The client factory\<close>

definition resolveAPIKey :: "'w env \<Rightarrow> string \<Rightarrow> string \<Rightarrow> string \<Rightarrow> ('w, string res) op" where
  "resolveAPIKey E ns authName authKey = do {
     r \<leftarrow> getSecret E (nn ns authName);
     ret (case r of
         Inl err \<Rightarrow> Inl (errorf (''failed to get auth secret '' @ goQuote authName @ '': '') err)
       | Inr secret \<Rightarrow>
           (case map_of (secData secret) authKey of
              None \<Rightarrow> Inl (New_Err (''auth secret '' @ goQuote authName @ '' does not contain key '' @ goQuote authKey))
            | Some apiKey \<Rightarrow> Inr apiKey))
   }"

definition NewForProducer :: "'w env \<Rightarrow> string \<Rightarrow> sapr \<Rightarrow> ('w, http_client res) op" where
  "NewForProducer E ns sapr =
     (case saprHTTP sapr of
        None \<Rightarrow> ret (Inl (New_Err (''producer '' @ goQuote (saprName sapr) @ '' has no HTTP spec configured'')))
      | Some http \<Rightarrow> do {
          r \<leftarrow> resolveAPIKey E ns (hpAuthSecretName http) (hpAuthSecretKey http);
          ret (case r of
              Inl err \<Rightarrow> Inl (errorf (''failed to get API key for producer '' @ goQuote (saprName sapr) @ '': '') err)
            | Inr apiKey \<Rightarrow> Inr \<lparr>hcEndpoint = hpEndpoint http, hcApiKey = apiKey\<rparr>)
        })"

section \<open>The interface of a service account client\<close>

text \<open>
  \<open>ServiceAccountClient\<close> as its callers see it: each operation sends at most one HTTP request,
  with the client's API key, and does nothing else.
\<close>

definition sends :: "http_client \<Rightarrow> string \<Rightarrow> call \<Rightarrow> bool" where
  "sends c method ev \<longleftrightarrow> (\<exists>req a. ev = Http_Do req a \<and> hrMethod req = method \<and>
     map_of (hrHeaders req) apiKeyHeader = Some (hcApiKey c))"

definition at_most_one :: "(call \<Rightarrow> bool) \<Rightarrow> 'w st \<Rightarrow> 'w st \<Rightarrow> bool" where
  "at_most_one P s t \<longleftrightarrow> trace t = trace s \<or> (\<exists>ev. trace t = trace s @ [ev] \<and> P ev)"

lemma at_most_one_emits:
  assumes "preserves (at_most_one P) m" and "\<And>ev. P ev \<Longrightarrow> Q ev"
  shows "preserves (emits Q) m"
proof (rule preservesI)
  fix s a t
  assume "run_state m s = (a, t)"
  with assms(1) have "at_most_one P s t" by (rule preservesD)
  then consider "trace t = trace s @ []" | ev where "trace t = trace s @ [ev]" "P ev"
    by (auto simp: at_most_one_def)
  then show "emits Q s t"
    using assms(2) by cases (force simp: emits_def)+
qed

locale service_account_client =
  fixes create :: "'w env \<Rightarrow> http_client \<Rightarrow> string \<Rightarrow> strmap \<Rightarrow> behavior_params \<Rightarrow> ('w, strmap option res) op"
    and delete :: "'w env \<Rightarrow> http_client \<Rightarrow> string \<Rightarrow> ('w, gerr option) op"
    and ready :: "'w env \<Rightarrow> http_client \<Rightarrow> ('w, gerr option) op"
    and exist :: "'w env \<Rightarrow> http_client \<Rightarrow> string \<Rightarrow> ('w, bool res) op"
  assumes create_sends: "preserves (at_most_one (sends c ''PUT'')) (create E c consumer params bp)"
    and delete_sends: "preserves (at_most_one (sends c ''DELETE'')) (delete E c consumer)"
    and ready_sends: "preserves (at_most_one (sends c ''HEAD'')) (ready E c)"
    and exist_sends: "preserves (at_most_one (sends c ''HEAD'')) (exist E c consumer)"
    and client_process: "preserves same_process (create E c consumer params bp)"
      "preserves same_process (delete E c consumer)" "preserves same_process (ready E c)"
      "preserves same_process (exist E c consumer)"
    and client_view: "others_keep_secrets E V \<Longrightarrow> preserves (keeps_view V) (create E c consumer params bp)"
      "others_keep_secrets E V \<Longrightarrow> preserves (keeps_view V) (delete E c consumer)"
      "others_keep_secrets E V \<Longrightarrow> preserves (keeps_view V) (ready E c)"
      "others_keep_secrets E V \<Longrightarrow> preserves (keeps_view V) (exist E c consumer)"
begin

text \<open>A caller's frame: HTTP requests, all with the client's key, and nothing else.\<close>

lemma client_emits:
  assumes "\<And>req a. map_of (hrHeaders req) apiKeyHeader = Some (hcApiKey c) \<Longrightarrow> P (Http_Do req a)"
  shows "preserves (emits P) (create E c consumer params bp)" "preserves (emits P) (delete E c consumer)"
    "preserves (emits P) (ready E c)" "preserves (emits P) (exist E c consumer)"
  by (rule at_most_one_emits [OF create_sends] at_most_one_emits [OF delete_sends]
        at_most_one_emits [OF ready_sends] at_most_one_emits [OF exist_sends],
      auto simp: sends_def assms)+

text \<open>The deletion protocol of the request controller: look first, delete only what is there.\<close>

lemma exist_then_delete:
  assumes "run_state (exist E c consumer) s = (x, t)" and "run_state (delete E c consumer) t = (d, u)"
  shows "\<exists>cs. trace u = trace s @ cs \<and> length cs \<le> 2 \<and> list_all (\<lambda>ev. sends c ''HEAD'' ev \<or> sends c ''DELETE'' ev) cs"
  using preservesD [OF exist_sends assms(1)] preservesD [OF delete_sends assms(2)]
  by (auto simp: at_most_one_def)

end

section \<open>Evaluation\<close>

lemma run_hc_Exists [run_simps]:
  "run_state (hc_Exists E c consumer) s =
     (case url_join_path (hcEndpoint c) consumer of
        Inl err \<Rightarrow> (Inl (errorf (build_url_text c consumer) err), s)
      | Inr targetURL \<Rightarrow>
          (case newRequest ''HEAD'' targetURL [(apiKeyHeader, hcApiKey c)] [] of
             Inl err \<Rightarrow> (Inl (errorf ''failed to create HTTP request: '' err), s)
           | Inr req \<Rightarrow>
               (case fst (e_http_do E req (world s)) of
                  Inl err \<Rightarrow> Inl (errorf (''HTTP request to producer '' @ goQuote (hcEndpoint c) @ '' failed: '') err)
                | Inr resp \<Rightarrow> exists_status c resp, io_st (e_http_do E req) (Http_Do req) s)))"
  by (auto simp: hc_Exists_def httpDo_def run_io split: sum.split)

lemma run_hc_CreateOrUpdate [run_simps]:
  "run_state (hc_CreateOrUpdate E c consumer params bp) s =
     (case newRequest ''PUT'' (hcEndpoint c)
             [(''Content-Type'', ''application/json''), (apiKeyHeader, hcApiKey c)]
             (marshal_body \<lparr>rbConsumer = consumer, rbParams = params, rbBehaviorParams = bp\<rparr>) of
        Inl err \<Rightarrow> (Inl (errorf ''failed to create HTTP put request: '' err), s)
      | Inr req \<Rightarrow>
          (case fst (e_http_do E req (world s)) of
             Inl err \<Rightarrow> Inl (errorf (''http serviceaccount request to producer ''
                @ goQuote (hcEndpoint c) @ '' failed: '') err)
           | Inr resp \<Rightarrow> create_status c resp, io_st (e_http_do E req) (Http_Do req) s))"
  by (auto simp: hc_CreateOrUpdate_def httpDo_def run_io Let_def split: sum.split)

lemma run_hc_Ready [run_simps]:
  "run_state (hc_Ready E c) s =
     (case newRequest ''HEAD'' (hcEndpoint c) [(apiKeyHeader, hcApiKey c)] [] of
        Inl err \<Rightarrow> (Some (errorf (''failed to build request to check producer readiness for ''
          @ goQuote (hcEndpoint c) @ '': '') err), s)
      | Inr req \<Rightarrow>
          (case fst (e_http_do E req (world s)) of
             Inl err \<Rightarrow> Some (errorf (''endpoint '' @ goQuote (hcEndpoint c)
                @ '' is not ready because it is unreachable: '') err)
           | Inr resp \<Rightarrow> ready_status c resp, io_st (e_http_do E req) (Http_Do req) s))"
  by (auto simp: hc_Ready_def httpDo_def run_io split: sum.split)

lemma run_hc_Delete [run_simps]:
  "run_state (hc_Delete E c consumer) s =
     (case url_join_path (hcEndpoint c) consumer of
        Inl err \<Rightarrow> (Some (errorf (build_url_text c consumer) err), s)
      | Inr targetURL \<Rightarrow>
          (case newRequest ''DELETE'' targetURL [(apiKeyHeader, hcApiKey c)] [] of
             Inl err \<Rightarrow> (Some (errorf ''failed to create HTTP request: '' err), s)
           | Inr req \<Rightarrow>
               (case fst (e_http_do E req (world s)) of
                  Inl err \<Rightarrow> Some (errorf (''HTTP delete-serviceaccount request to producer ''
                     @ goQuote targetURL @ '' failed: '') err)
                | Inr resp \<Rightarrow> delete_status c targetURL resp, io_st (e_http_do E req) (Http_Do req) s)))"
  by (auto simp: hc_Delete_def httpDo_def run_io split: sum.split)

lemma newRequest_Inr:
  "newRequest m u h b = Inr req \<longleftrightarrow>
     (\<exists>v. url_parse u = Inr v) \<and> req = \<lparr>hrMethod = m, hrUrl = u, hrHeaders = h, hrBody = b\<rparr>"
  by (auto simp: newRequest_def split: sum.splits)

interpretation hc: service_account_client hc_CreateOrUpdate hc_Delete hc_Ready hc_Exists
  by unfold_locales
    (auto simp: preserves_def run_simps at_most_one_def sends_def newRequest_Inr apiKeyHeader_def
       same_process_def keeps_view_def split: sum.splits)

lemma run_NewForProducer [run_simps]:
  "run_state (NewForProducer E ns sapr) s =
     (case saprHTTP sapr of
        None \<Rightarrow> (Inl (New_Err (''producer '' @ goQuote (saprName sapr) @ '' has no HTTP spec configured'')), s)
      | Some http \<Rightarrow>
          (case fst (e_get_secret E (nn ns (hpAuthSecretName http)) (world s)) of
             Inl err \<Rightarrow> Inl (errorf (''failed to get API key for producer '' @ goQuote (saprName sapr) @ '': '')
               (errorf (''failed to get auth secret '' @ goQuote (hpAuthSecretName http) @ '': '') err))
           | Inr secret \<Rightarrow>
               (case map_of (secData secret) (hpAuthSecretKey http) of
                  None \<Rightarrow> Inl (errorf (''failed to get API key for producer '' @ goQuote (saprName sapr) @ '': '')
                    (New_Err (''auth secret '' @ goQuote (hpAuthSecretName http) @ '' does not contain key ''
                      @ goQuote (hpAuthSecretKey http))))
                | Some apiKey \<Rightarrow> Inr \<lparr>hcEndpoint = hpEndpoint http, hcApiKey = apiKey\<rparr>),
           io_st (e_get_secret E (nn ns (hpAuthSecretName http))) (Get_Secret (nn ns (hpAuthSecretName http))) s))"
  by (auto simp: NewForProducer_def resolveAPIKey_def getSecret_def run_io split: sum.split option.split)

text \<open>The factory only reads the secret with the API key.\<close>

interpretation cf: secret_reader NewForProducer
  by unfold_locales (auto simp: NewForProducer_def resolveAPIKey_def getSecret_def intro!: frame_rules
    view_getSecret [unfolded getSecret_def])

end
