(* ===== verification/Rotation_Cron.thy ===== *)
theory Rotation_Cron
  imports World
begin

text \<open>
  \<open>internal/controller/request/cron/cron.go\<close>: a task runner around a cron expression. The
  library that waits for the next due time is outside; a runner is the index of its task in
  the task table, \<open>Go_Run\<close> in the trace is the goroutine that was told to run it and
  \<open>Stop_Runner\<close> a call of its \<open>Stop\<close>.
\<close>

definition cron_New :: "'w env \<Rightarrow> string \<Rightarrow> nat \<Rightarrow> ('w, nat res) op" where
  "cron_New E expr job_sare =
     (if \<not> e_cron_is_valid E expr then
        ret (Inl (New_Err (''cron expression '' @ goQuote expr @ '' is invalid'')))
      else do {
        ts \<leftarrow> gets_st tasks;
        modify_st (\<lambda>s. s\<lparr>tasks := tasks s @ [\<lparr>taskExpr = expr, taskSare = job_sare\<rparr>]\<rparr>);
        ret (Inr (length ts))
      })"

definition cron_Run :: "nat \<Rightarrow> ('w, unit) op" where
  "cron_Run r = emit (Go_Run r)"

definition cron_Stop :: "nat \<Rightarrow> ('w, unit) op" where
  "cron_Stop r = emit (Stop_Runner r)"

lemma run_cron_New [run_simps]:
  "run_state (cron_New E expr p) s =
     (if e_cron_is_valid E expr
      then (Inr (length (tasks s)), s\<lparr>tasks := tasks s @ [\<lparr>taskExpr = expr, taskSare = p\<rparr>]\<rparr>)
      else (Inl (New_Err (''cron expression '' @ goQuote expr @ '' is invalid'')), s))"
  by (simp add: cron_New_def)

lemma run_cron_Run [run_simps]: "run_state (cron_Run r) s = ((), s\<lparr>trace := trace s @ [Go_Run r]\<rparr>)"
  by (simp add: cron_Run_def run_emit)

lemma run_cron_Stop [run_simps]: "run_state (cron_Stop r) s = ((), s\<lparr>trace := trace s @ [Stop_Runner r]\<rparr>)"
  by (simp add: cron_Stop_def run_emit)

end
