(* ===== verification/Request_Status.thy ===== *)
theory Request_Status
  imports World
begin

text \<open>
  \<open>internal/controller/request/status_conditions.go\<close>: the status writers of the request
  controller. A function takes the pointer of the SARE; the object is changed in place
  before the patch is sent and replaced by the server's answer afterwards.
\<close>

definition conditionReasonServiceAccountMigrated :: string where
  "conditionReasonServiceAccountMigrated = ''ServiceAccountMigrated''"

definition conditionReasonMigrationFailed :: string where
  "conditionReasonMigrationFailed = ''MigrationFailed''"

definition reasonSecretRotationInProgress :: string where
  "reasonSecretRotationInProgress = ''SecretRotationInProgress''"

definition with_status :: "(sare_status \<Rightarrow> sare_status) \<Rightarrow> sare \<Rightarrow> sare" where
  "with_status f sare = sare\<lparr>sareStatus := f (sareStatus sare)\<rparr>"

definition mutate_status :: "nat \<Rightarrow> (sare_status \<Rightarrow> sare_status) \<Rightarrow> ('w, unit) op" where
  "mutate_status p f = do { sare \<leftarrow> load p; store p (with_status f sare) }"

definition set_condition :: "'w env \<Rightarrow> string \<Rightarrow> cond_status \<Rightarrow> string \<Rightarrow> string \<Rightarrow> sare \<Rightarrow> sare" where
  "set_condition E condTyp condSt reason message sare =
     with_status (\<lambda>st. st\<lparr>ssConditions := e_set_status_condition E (ssConditions st)
        \<lparr>condType = condTyp, condStatus = condSt, condReason = reason, condMessage = message,
         condObservedGeneration = sareGeneration sare\<rparr>\<rparr>) sare"

definition setAndPersist ::
  "'w env \<Rightarrow> nat \<Rightarrow> ('w, unit) op \<Rightarrow> string \<Rightarrow> cond_status \<Rightarrow> string \<Rightarrow> string \<Rightarrow> ('w, gerr option) op" where
  "setAndPersist E p mutateStatus condTyp condSt reason message = do {
     patchBase \<leftarrow> load p;
     mutateStatus;
     sare \<leftarrow> load p;
     store p (set_condition E condTyp condSt reason message sare);
     changed \<leftarrow> load p;
     (err, refreshed) \<leftarrow> patchSareStatus E patchBase changed;
     store p refreshed;
     ret (case err of
         Some e \<Rightarrow> Some (errorf (''failed to persist '' @ condTyp @ '' condition: '') e)
       | None \<Rightarrow> None)
   }"

definition producerNotFound :: "'w env \<Rightarrow> nat \<Rightarrow> string \<Rightarrow> gerr \<Rightarrow> ('w, gerr option) op" where
  "producerNotFound E p producer err =
     setAndPersist E p (ret ()) (typeServiceAccountReady (e_consts E)) ConditionFalse
       (reasonReadyProducerNotFound (e_consts E))
       (''producer '' @ goQuote producer @ '' not found: '' @ err_msg err)"

definition serviceAccountReady :: "'w env \<Rightarrow> nat \<Rightarrow> string \<Rightarrow> bool \<Rightarrow> ('w, gerr option) op" where
  "serviceAccountReady E p secretName isRotation =
     setAndPersist E p
       (do {
          mutate_status p (\<lambda>st. st\<lparr>ssSecretRef := Some secretName\<rparr>);
          (if isRotation then do {
             now \<leftarrow> readClock E;
             mutate_status p (\<lambda>st. st\<lparr>ssLastRotation := Some now\<rparr>)
           } else ret ())
        })
       (typeServiceAccountReady (e_consts E)) ConditionTrue (reasonReadyCreated (e_consts E)) []"

definition serviceAccountMigrated :: "'w env \<Rightarrow> nat \<Rightarrow> string \<Rightarrow> ('w, gerr option) op" where
  "serviceAccountMigrated E p secretName =
     setAndPersist E p (mutate_status p (\<lambda>st. st\<lparr>ssSecretRef := Some secretName\<rparr>))
       (typeServiceAccountReady (e_consts E)) ConditionTrue conditionReasonServiceAccountMigrated []"

definition serviceAccountNotReadyForRotation :: "'w env \<Rightarrow> nat \<Rightarrow> ('w, gerr option) op" where
  "serviceAccountNotReadyForRotation E p =
     setAndPersist E p (mutate_status p (\<lambda>st. st\<lparr>ssSecretRef := None\<rparr>))
       (typeServiceAccountReady (e_consts E)) ConditionFalse reasonSecretRotationInProgress []"

definition serviceAccountFailed :: "'w env \<Rightarrow> nat \<Rightarrow> string \<Rightarrow> gerr \<Rightarrow> ('w, gerr option) op" where
  "serviceAccountFailed E p reason err =
     setAndPersist E p (ret ()) (typeServiceAccountReady (e_consts E)) ConditionFalse reason (err_msg err)"

end
