(* ===== verification/Request_Controller.thy ===== *)
theory Request_Controller
  imports Secret_Manager Migration Http_Client Rotation_Cron Request_Status
begin

text \<open>
  \<open>internal/controller/request/controller.go\<close>: the reconciler of service account requests.
  Each function of the file is one definition, in the file's order of calls; logging is
  left out. A SARE is passed by its pointer where the code mutates it.
\<close>

definition finalizer :: string where
  "finalizer = ''k8s.cloudogu.com/service-account-request-finalizer''"

definition namespacedName :: "sare \<Rightarrow> string" where
  "namespacedName sare = sareName sare @ ''-'' @ sareNamespace sare"

datatype create_or_update_outcome = OutcomeAborted | OutcomeRotated | OutcomeUnchanged | OutcomeMigrated

record create_or_update_result =
  cuSecretName :: string
  cuOutcome :: create_or_update_outcome

definition abortedCreateOrUpdate :: create_or_update_result where
  "abortedCreateOrUpdate = \<lparr>cuSecretName = [], cuOutcome = OutcomeAborted\<rparr>"

section \<open>Rotation watchers\<close>

definition deleteSaRotationWatcher :: "nat \<Rightarrow> ('w, unit) op" where
  "deleteSaRotationWatcher p = do {
     sare \<leftarrow> load p;
     ws \<leftarrow> gets_st watchers;
     (case map_of ws (namespacedName sare) of
        Some cronWatcher \<Rightarrow> do {
          cron_Stop cronWatcher;
          modify_st (\<lambda>s. s\<lparr>watchers := AList.delete (namespacedName sare) (watchers s)\<rparr>)
        }
      | None \<Rightarrow> ret ())
   }"

text \<open>The caller has checked that \<open>spec.rotation\<close> is set and hands over its expression.\<close>

definition setSaRotationWatcher :: "'w env \<Rightarrow> nat \<Rightarrow> string \<Rightarrow> ('w, gerr option) op" where
  "setSaRotationWatcher E p rotation = do {
     sare \<leftarrow> load p;
     ws \<leftarrow> gets_st watchers;
     (case map_of ws (namespacedName sare) of Some cronWatcher \<Rightarrow> cron_Stop cronWatcher | None \<Rightarrow> ret ());
     r \<leftarrow> cron_New E rotation p;
     (case r of
        Inl err \<Rightarrow> ret (Some (errorf (''failed to set cron watcher for SARE ''
          @ goQuote (namespacedName sare) @ '': '') err))
      | Inr cronWatcher \<Rightarrow> do {
          cron_Run cronWatcher;
          modify_st (\<lambda>s. s\<lparr>watchers := AList.update (namespacedName sare) cronWatcher (watchers s)\<rparr>);
          ret None
        })
   }"

definition handleSaRotationWatcher :: "'w env \<Rightarrow> nat \<Rightarrow> ('w, gerr option) op" where
  "handleSaRotationWatcher E p = do {
     sare \<leftarrow> load p;
     (case srRotation (sareSpec sare) of
        Some rot \<Rightarrow>
          if rotEnabled rot then do {
            err \<leftarrow> setSaRotationWatcher E p (rotRotation rot);
            ret (map_option (errorf ''failed to replace service account rotation expression: '') err)
          } else do { deleteSaRotationWatcher p; ret None }
      | None \<Rightarrow> do { deleteSaRotationWatcher p; ret None })
   }"

text \<open>
  The body of \<open>rotateSaSecretFunc\<close>, run by the cron library: the secret of the captured SARE
  is deleted, which the controller sees as a deletion event. It returns the exit code and
  the error of the Go closure.
\<close>

definition rotateSaSecret :: "'w env \<Rightarrow> nat \<Rightarrow> ('w, int \<times> gerr option) op" where
  "rotateSaSecret E p = do {
     sare \<leftarrow> load p;
     (exists, secretName, err) \<leftarrow> sm_Exists E sare;
     (case err of
        Some e \<Rightarrow> ret (1, Some (errorf (''failed to check if secret '' @ goQuote secretName
          @ '' exists for service account request '' @ goQuote (sareName sare) @ '' during rotation: '') e))
      | None \<Rightarrow>
          if \<not> exists then ret (0, None)
          else do {
            _ \<leftarrow> serviceAccountNotReadyForRotation E p;
            sare' \<leftarrow> load p;
            err \<leftarrow> sm_Delete E sare';
            ret (case err of
                Some e \<Rightarrow> (1, Some (errorf (''failed to delete secret '' @ goQuote secretName
                  @ '' for service account request '' @ goQuote (sareName sare') @ '' during rotation: '') e))
              | None \<Rightarrow> (0, None))
          })
   }"

section \<open>Creation and update\<close>

definition getProducer :: "'w env \<Rightarrow> string \<Rightarrow> string \<Rightarrow> ('w, sapr res) op" where
  "getProducer E ns producerName = getSapr E (nn ns producerName)"

definition createdOrUpdated :: "bool \<Rightarrow> string" where
  "createdOrUpdated secretExists = (if secretExists then ''updated'' else ''created'')"

definition checkSecretExists :: "'w env \<Rightarrow> sare \<Rightarrow> ('w, (bool \<times> string) res) op" where
  "checkSecretExists E sare = do {
     (exists, secretName, err) \<leftarrow> sm_Exists E sare;
     ret (case err of
         Some e \<Rightarrow>
           if errors_is e Secret_Conflict then Inl e
           else Inl (errorf (''failed to check if service account secret exists for ''
             @ goQuote (sareName sare) @ '': '') e)
       | None \<Rightarrow> Inr (exists, secretName))
   }"

text \<open>
  Every return with \<open>abort\<close> true carries the value \<open>Inl err\<close>, where \<open>err\<close> may be nil. When
  the producer is missing and the secret cannot be deleted, the error text reads
  \<open>sapr.Name\<close> of the nil \<open>sapr\<close> that \<open>getProducer\<close> returned: a run-time panic.
\<close>

definition getProducerForCreateOrUpdate :: "'w env \<Rightarrow> nat \<Rightarrow> ('w, (gerr option + sapr) outcome) op" where
  "getProducerForCreateOrUpdate E p = do {
     sare \<leftarrow> load p;
     let producer = srProducer (sareSpec sare);
     r \<leftarrow> getProducer E (sareNamespace sare) producer;
     (case r of
        Inr sapr \<Rightarrow> ret (Returned (Inr sapr))
      | Inl err \<Rightarrow>
          if is_not_found err then do {
            deleteErr \<leftarrow> sm_Delete E sare;
            (case deleteErr of
               Some e \<Rightarrow> ret (Panicked ''invalid memory address or nil pointer dereference'')
             | None \<Rightarrow>
                 if srOptional (sareSpec sare) then do {
                   e \<leftarrow> producerNotFound E p producer err;
                   ret (Returned (Inl e))
                 }
                 else ret (Returned (Inl (Some (errorf (''required producer '' @ goQuote producer @ '' not found: '') err)))))
          }
          else ret (Returned (Inl (Some (errorf (''failed to get producer '' @ goQuote producer @ '': '') err)))))
   }"

definition migrateCredentials :: "'w env \<Rightarrow> sare \<Rightarrow> sapr \<Rightarrow> ('w, string res) op" where
  "migrateCredentials E sare sapr = do {
     r \<leftarrow> ms_Credentials E sare sapr;
     (case r of
        Inl err \<Rightarrow> do {
          (if errors_is err Incomplete_Migration then
             emit (Emit_Event \<lparr>evRegarding = saprName sapr, evRelated = sareName sare, evType = EventWarning,
               evReason = ''ServiceAccountRequest'', evAction = conditionReasonMigrationFailed,
               evNote = ''Failed to migrate service account '' @ goQuote (srConsumer (sareSpec sare))
                 @ '': '' @ err_msg err\<rparr>)
           else ret ());
          ret (Inl (errorf ''failed to read migrated credentials: '' err))
        }
      | Inr None \<Rightarrow> ret (Inr [])
      | Inr (Some credentials) \<Rightarrow> do {
          w \<leftarrow> sm_CreateOrUpdate E sare credentials;
          (case w of
             Inl err \<Rightarrow> ret (Inl (errorf ''failed to store migrated credentials in Kubernetes secret: '' err))
           | Inr secretName \<Rightarrow> do {
               emit (Emit_Event \<lparr>evRegarding = saprName sapr, evRelated = sareName sare, evType = EventNormal,
                 evReason = ''ServiceAccountRequest'', evAction = conditionReasonServiceAccountMigrated,
                 evNote = ''Migrated service account '' @ goQuote (srConsumer (sareSpec sare))
                   @ '' from secret '' @ goQuote (MigrationSecretName sare)\<rparr>);
               ret (Inr secretName)
             })
        })
   }"

definition getServiceAccountClient :: "'w env \<Rightarrow> sare \<Rightarrow> sapr \<Rightarrow> ('w, http_client res) op" where
  "getServiceAccountClient E sare sapr = do {
     r \<leftarrow> NewForProducer E (sareNamespace sare) sapr;
     ret (case r of
         Inl err \<Rightarrow> Inl (errorf (''failed to build service account client for producer ''
           @ goQuote (saprName sapr) @ '': '') err)
       | Inr c \<Rightarrow> Inr c)
   }"

definition requestCredentials :: "'w env \<Rightarrow> sare \<Rightarrow> sapr \<Rightarrow> bool \<Rightarrow> ('w, strmap option res) op" where
  "requestCredentials E sare sapr secretExists = do {
     c \<leftarrow> getServiceAccountClient E sare sapr;
     (case c of
        Inl err \<Rightarrow> ret (Inl (errorf (''failed to build HTTP client for producer ''
          @ goQuote (saprName sapr) @ '': '') err))
      | Inr saClient \<Rightarrow> do {
          let behaviorParams = \<lparr>bpRotateServiceAccountNow = \<not> secretExists\<rparr>;
          r \<leftarrow> hc_CreateOrUpdate E saClient (srConsumer (sareSpec sare)) (srParams (sareSpec sare)) behaviorParams;
          ret (case r of
              Inl err \<Rightarrow> Inl (errorf (''failed to create/update service account at producer ''
                @ goQuote (saprName sapr) @ '': '') err)
            | Inr credentials \<Rightarrow> Inr credentials)
        })
   }"

text \<open>The part of \<open>createOrUpdate\<close> after the migration: ask the producer, store its answer.\<close>

definition createOrUpdateFromProducer ::
  "'w env \<Rightarrow> sare \<Rightarrow> sapr \<Rightarrow> bool \<Rightarrow> string \<Rightarrow> ('w, (create_or_update_result \<times> gerr option)) op" where
  "createOrUpdateFromProducer E sare sapr secretExists secretName = do {
     r \<leftarrow> requestCredentials E sare sapr secretExists;
     (case r of
        Inl err \<Rightarrow> ret (abortedCreateOrUpdate, Some err)
      | Inr None \<Rightarrow> ret (\<lparr>cuSecretName = secretName, cuOutcome = OutcomeUnchanged\<rparr>, None)
      | Inr (Some credentials) \<Rightarrow> do {
          w \<leftarrow> sm_CreateOrUpdate E sare credentials;
          (case w of
             Inl err \<Rightarrow> ret (abortedCreateOrUpdate,
               Some (errorf ''failed to store credentials in Kubernetes secret: '' err))
           | Inr written \<Rightarrow> do {
               let title = e_title E (createdOrUpdated secretExists);
               emit (Emit_Event \<lparr>evRegarding = saprName sapr, evRelated = sareName sare, evType = EventNormal,
                 evReason = ''ServiceAccountRequest'', evAction = ''ServiceAccount'' @ title,
                 evNote = title @ '' service account '' @ goQuote (srConsumer (sareSpec sare))\<rparr>);
               ret (\<lparr>cuSecretName = written, cuOutcome = OutcomeRotated\<rparr>, None)
             })
        })
   }"

definition createOrUpdate :: "'w env \<Rightarrow> nat \<Rightarrow> ('w, (create_or_update_result \<times> gerr option) outcome) op" where
  "createOrUpdate E p = do {
     sare \<leftarrow> load p;
     r \<leftarrow> checkSecretExists E sare;
     (case r of
        Inl err \<Rightarrow> ret (Returned (abortedCreateOrUpdate, Some err))
      | Inr (secretExists, secretName) \<Rightarrow> do {
          werr \<leftarrow> handleSaRotationWatcher E p;
          (case werr of
             Some err \<Rightarrow> ret (Returned (abortedCreateOrUpdate, Some err))
           | None \<Rightarrow> do {
               g \<leftarrow> getProducerForCreateOrUpdate E p;
               (case g of
                  Panicked m \<Rightarrow> ret (Panicked m)
                | Returned (Inl err) \<Rightarrow> ret (Returned (abortedCreateOrUpdate, err))
                | Returned (Inr sapr) \<Rightarrow>
                    if secretExists then do {
                      x \<leftarrow> createOrUpdateFromProducer E sare sapr secretExists secretName;
                      ret (Returned x)
                    }
                    else do {
                      m \<leftarrow> migrateCredentials E sare sapr;
                      (case m of
                         Inl err \<Rightarrow> ret (Returned (abortedCreateOrUpdate, Some err))
                       | Inr migratedSecretName \<Rightarrow>
                           if migratedSecretName \<noteq> [] then
                             ret (Returned (\<lparr>cuSecretName = migratedSecretName, cuOutcome = OutcomeMigrated\<rparr>, None))
                           else do {
                             x \<leftarrow> createOrUpdateFromProducer E sare sapr secretExists secretName;
                             ret (Returned x)
                           })
                    })
             })
        })
   }"

section \<open>Status after a failure\<close>

definition failWithReason :: "'w env \<Rightarrow> nat \<Rightarrow> string \<Rightarrow> gerr \<Rightarrow> ('w, gerr option) op" where
  "failWithReason E p reason err = do {
     _ \<leftarrow> serviceAccountFailed E p reason err;
     ret (Some err)
   }"

definition fail :: "'w env \<Rightarrow> nat \<Rightarrow> gerr \<Rightarrow> ('w, gerr option) op" where
  "fail E p err = failWithReason E p (reasonReadyFailed (e_consts E)) err"

definition reconcileCreateOrUpdate :: "'w env \<Rightarrow> nat \<Rightarrow> ('w, (ctrl_result \<times> gerr option) outcome) op" where
  "reconcileCreateOrUpdate E p = do {
     g \<leftarrow> createOrUpdate E p;
     (case g of
        Panicked m \<Rightarrow> ret (Panicked m)
      | Returned (result, Some err) \<Rightarrow>
          if errors_is err Incomplete_Migration then do {
            e \<leftarrow> failWithReason E p conditionReasonMigrationFailed err;
            ret (Returned (no_result, e))
          } else do {
            e \<leftarrow> fail E p err;
            ret (Returned (no_result, e))
          }
      | Returned (result, None) \<Rightarrow>
          if cuOutcome result = OutcomeAborted then ret (Returned (no_result, None))
          else do {
            e \<leftarrow> (if cuOutcome result = OutcomeMigrated
                  then serviceAccountMigrated E p (cuSecretName result)
                  else serviceAccountReady E p (cuSecretName result) (cuOutcome result = OutcomeRotated));
            sare \<leftarrow> load p;
            ret (Returned (no_result, map_option (errorf
              (''failed to update status after successful create/update for '' @ goQuote (sareName sare) @ '': '')) e))
          })
   }"

section \<open>Deletion\<close>

definition removeFinalizer :: "'w env \<Rightarrow> nat \<Rightarrow> ('w, gerr option) op" where
  "removeFinalizer E p = do {
     sare \<leftarrow> load p;
     if \<not> e_contains_finalizer E sare finalizer then ret None
     else do {
       store p (e_remove_finalizer E sare finalizer);
       changed \<leftarrow> load p;
       (err, refreshed) \<leftarrow> updateSare E changed;
       store p refreshed;
       ret (case err of
           None \<Rightarrow> None
         | Some e \<Rightarrow>
             if is_not_found e then None
             else Some (errorf (''failed to remove finalizer from service account request ''
               @ goQuote (sareName refreshed) @ '': '') e))
     }
   }"

definition deleteServiceAccount :: "'w env \<Rightarrow> sare \<Rightarrow> ('w, gerr option) op" where
  "deleteServiceAccount E sare = do {
     let producer = srProducer (sareSpec sare);
     let consumer = srConsumer (sareSpec sare);
     r \<leftarrow> getProducer E (sareNamespace sare) producer;
     (case r of
        Inl err \<Rightarrow>
          if is_not_found err then ret None
          else ret (Some (errorf (''failed to get producer '' @ goQuote producer @ '': '') err))
      | Inr sapr \<Rightarrow> do {
          c \<leftarrow> getServiceAccountClient E sare sapr;
          (case c of
             Inl err \<Rightarrow> ret (Some err)
           | Inr saClient \<Rightarrow> do {
               x \<leftarrow> hc_Exists E saClient consumer;
               (case x of
                  Inl err \<Rightarrow> ret (Some (errorf (''failed to check if service account '' @ goQuote consumer
                    @ '' exists at producer '' @ goQuote (saprName sapr) @ '': '') err))
                | Inr exists \<Rightarrow>
                    if \<not> exists then ret None
                    else do {
                      d \<leftarrow> hc_Delete E saClient consumer;
                      (case d of
                         Some err \<Rightarrow> ret (Some (errorf (''failed to delete service account '' @ goQuote consumer
                           @ '' at producer '' @ goQuote (saprName sapr) @ '': '') err))
                       | None \<Rightarrow> do {
                           now \<leftarrow> readClock E;
                           let changed = sapr\<lparr>saprStatus := (saprStatus sapr)\<lparr>psLastExecution := Some now\<rparr>\<rparr>;
                           (_, refreshed) \<leftarrow> patchSaprStatus E sapr changed;
                           emit (Emit_Event \<lparr>evRegarding = saprName refreshed, evRelated = sareName sare,
                             evType = EventNormal, evReason = ''ServiceAccountRequest'',
                             evAction = ''ServiceAccountDeleted'',
                             evNote = ''Deleted service account '' @ goQuote consumer\<rparr>);
                           ret None
                         })
                    })
             })
        })
   }"

text \<open>The caller has checked the deletion timestamp and hands it over.\<close>

definition reconcileDelete :: "'w env \<Rightarrow> operator_config \<Rightarrow> nat \<Rightarrow> int \<Rightarrow> ('w, gerr option) op" where
  "reconcileDelete E cfg p deletionTimestamp = do {
     deleteSaRotationWatcher p;
     sare \<leftarrow> load p;
     if \<not> e_contains_finalizer E sare finalizer then ret None
     else do {
       now \<leftarrow> readClock E;
       if time_since now deletionTimestamp > cfgDeletionTimeout cfg then removeFinalizer E p
       else do {
         d \<leftarrow> deleteServiceAccount E sare;
         (case d of
            Some err \<Rightarrow> fail E p (errorf (''failed to delete service account for '' @ goQuote (sareName sare) @ '': '') err)
          | None \<Rightarrow> removeFinalizer E p)
       }
     }
   }"

section \<open>Reconcile\<close>

definition Reconcile :: "'w env \<Rightarrow> operator_config \<Rightarrow> nname \<Rightarrow> ('w, (ctrl_result \<times> gerr option) outcome) op" where
  "Reconcile E cfg req = do {
     r \<leftarrow> getSare E req;
     (case r of
        Inl err \<Rightarrow>
          if is_not_found err then ret (Returned (no_result, None))
          else ret (Returned (no_result, Some (errorf (''failed to get service account request ''
            @ goQuote (nnName req) @ '': '') err)))
      | Inr sare0 \<Rightarrow> do {
          p \<leftarrow> new_sare sare0;
          (case sareDeletionTimestamp sare0 of
             Some ts \<Rightarrow> do {
               err \<leftarrow> reconcileDelete E cfg p ts;
               ret (Returned (no_result, err))
             }
           | None \<Rightarrow>
               (case e_add_finalizer E sare0 finalizer of
                  (sare1, added) \<Rightarrow> do {
                    store p sare1;
                    if added then do {
                      (err, refreshed) \<leftarrow> updateSare E sare1;
                      store p refreshed;
                      (case err of
                         Some e \<Rightarrow> ret (Returned (no_result, Some (errorf
                           (''failed to add finalizer to service account request ''
                             @ goQuote (sareName refreshed) @ '': '') e)))
                       | None \<Rightarrow> reconcileCreateOrUpdate E p)
                    }
                    else reconcileCreateOrUpdate E p
                  }))
        })
   }"

section \<open>Start and shutdown, events\<close>

text \<open>\<open>New\<close> starts with no watcher; its cleanup function stops every registered runner.\<close>

definition init_st :: "'w \<Rightarrow> (nat \<Rightarrow> sare) \<Rightarrow> 'w st" where
  "init_st w h = \<lparr>world = w, heap = h, next_ptr = 0, watchers = [], tasks = [], trace = []\<rparr>"

fun stop_all :: "nat list \<Rightarrow> ('w, unit) op" where
  "stop_all [] = ret ()"
| "stop_all (r # rs) = do { cron_Stop r; stop_all rs }"

definition cleanup :: "('w, unit) op" where
  "cleanup = do { ws \<leftarrow> gets_st watchers; stop_all (map snd ws) }"

text \<open>The predicate on a producer's update event; a wrong type or a nil object is \<open>None\<close>.\<close>

definition producerGotReady :: "'w env \<Rightarrow> sapr option \<Rightarrow> sapr option \<Rightarrow> bool" where
  "producerGotReady E producerOld producerNew =
     (case (producerOld, producerNew) of
        (Some old, Some new) \<Rightarrow>
          e_is_status_condition E (psConditions (saprStatus old)) (typeReady (e_consts E)) ConditionFalse \<and>
          e_is_status_condition E (psConditions (saprStatus new)) (typeReady (e_consts E)) ConditionTrue
      | _ \<Rightarrow> False)"

fun requests_for :: "string \<Rightarrow> sare list \<Rightarrow> nname list" where
  "requests_for producer [] = []"
| "requests_for producer (sare # sares) =
     (if srProducer (sareSpec sare) = producer
      then nn (sareNamespace sare) (sareName sare) # requests_for producer sares
      else requests_for producer sares)"

definition enqueueRequestsForProducer :: "'w env \<Rightarrow> nname \<Rightarrow> ('w, nname list) op" where
  "enqueueRequestsForProducer E obj = do {
     r \<leftarrow> listSares E (nnNamespace obj);
     ret (case r of
         Inl err \<Rightarrow> []
       | Inr sares \<Rightarrow> requests_for (nnName obj) sares)
   }"

end
