(* ===== verification/Request_Eval.thy ===== *)
theory Request_Eval
  imports Request_Controller
begin

text \<open>
  Evaluation of the request controller's operations: for each of them the result and the
  state it ends in, as functions of the answers of the environment. The properties rest on
  these equations (collected in \<open>run_simps\<close>) and on the frame conditions below.
\<close>

section \<open>Status writers\<close>

lemma run_mutate_status [run_simps]:
  "run_state (mutate_status p f) s = ((), s\<lparr>heap := (heap s)(p := with_status f (heap s p))\<rparr>)"
  by (simp add: mutate_status_def run_simps)

text \<open>Sending the patch from \<open>base\<close> to \<open>x\<close> for the object at \<open>p\<close>.\<close>

definition patched :: "'w env \<Rightarrow> nat \<Rightarrow> sare \<Rightarrow> sare \<Rightarrow> 'w st \<Rightarrow> 'w st" where
  "patched E p base x s = s\<lparr>
     world := snd (e_patch_sare_status E base x (world s)),
     trace := trace s @ [Patch_Sare_Status base x (fst (e_patch_sare_status E base x (world s)))],
     heap := (heap s)(p := snd (fst (e_patch_sare_status E base x (world s))))\<rparr>"

definition persist_answer :: "string \<Rightarrow> gerr option \<Rightarrow> gerr option" where
  "persist_answer condTyp err =
     (case err of
        Some e \<Rightarrow> Some (errorf (''failed to persist '' @ condTyp @ '' condition: '') e)
      | None \<Rightarrow> None)"

lemma persist_answer_None [simp]: "persist_answer c e = None \<longleftrightarrow> e = None"
  by (simp add: persist_answer_def split: option.splits)

lemma patched_fields [simp]:
  "world (patched E p b x s) = snd (e_patch_sare_status E b x (world s))"
  "trace (patched E p b x s) =
     trace s @ [Patch_Sare_Status b x (fst (e_patch_sare_status E b x (world s)))]"
  "heap (patched E p b x s) = (heap s)(p := snd (fst (e_patch_sare_status E b x (world s))))"
  "next_ptr (patched E p b x s) = next_ptr s"
  "watchers (patched E p b x s) = watchers s"
  "tasks (patched E p b x s) = tasks s"
  by (simp_all add: patched_def)

lemma run_setAndPersist:
  assumes "run_state m s = (u, s1)"
  shows "run_state (setAndPersist E p m ct cs reason msg) s =
     (let x = set_condition E ct cs reason msg (heap s1 p)
      in (persist_answer ct (fst (fst (e_patch_sare_status E (heap s p) x (world s1)))),
          patched E p (heap s p) x s1))"
  using assms
  by (simp add: setAndPersist_def run_simps patchSareStatus_def persist_answer_def patched_def io_st_def
      Let_def split: prod.split)

text \<open>The object a failed reconcile patches in.\<close>

definition failed_sare :: "'w env \<Rightarrow> string \<Rightarrow> gerr \<Rightarrow> sare \<Rightarrow> sare" where
  "failed_sare E reason err =
     set_condition E (typeServiceAccountReady (e_consts E)) ConditionFalse reason (err_msg err)"

definition not_found_sare :: "'w env \<Rightarrow> string \<Rightarrow> gerr \<Rightarrow> sare \<Rightarrow> sare" where
  "not_found_sare E producer err =
     set_condition E (typeServiceAccountReady (e_consts E)) ConditionFalse
       (reasonReadyProducerNotFound (e_consts E))
       (''producer '' @ goQuote producer @ '' not found: '' @ err_msg err)"

definition rotating_sare :: "'w env \<Rightarrow> sare \<Rightarrow> sare" where
  "rotating_sare E sare =
     set_condition E (typeServiceAccountReady (e_consts E)) ConditionFalse reasonSecretRotationInProgress []
       (with_status (\<lambda>st. st\<lparr>ssSecretRef := None\<rparr>) sare)"

definition migrated_sare :: "'w env \<Rightarrow> string \<Rightarrow> sare \<Rightarrow> sare" where
  "migrated_sare E secretName sare =
     set_condition E (typeServiceAccountReady (e_consts E)) ConditionTrue
       conditionReasonServiceAccountMigrated []
       (with_status (\<lambda>st. st\<lparr>ssSecretRef := Some secretName\<rparr>) sare)"

definition ready_sare :: "'w env \<Rightarrow> string \<Rightarrow> int option \<Rightarrow> sare \<Rightarrow> sare" where
  "ready_sare E secretName rotated_at sare =
     set_condition E (typeServiceAccountReady (e_consts E)) ConditionTrue (reasonReadyCreated (e_consts E)) []
       (with_status (\<lambda>st. (case rotated_at of None \<Rightarrow> st\<lparr>ssSecretRef := Some secretName\<rparr>
          | Some now \<Rightarrow> st\<lparr>ssSecretRef := Some secretName, ssLastRotation := Some now\<rparr>)) sare)"

lemma run_serviceAccountFailed [run_simps]:
  "run_state (serviceAccountFailed E p reason err) s =
     (persist_answer (typeServiceAccountReady (e_consts E))
        (fst (fst (e_patch_sare_status E (heap s p) (failed_sare E reason err (heap s p)) (world s)))),
      patched E p (heap s p) (failed_sare E reason err (heap s p)) s)"
  unfolding serviceAccountFailed_def failed_sare_def
  by (subst run_setAndPersist [where u = "()"]) (simp_all add: run_simps Let_def)

lemma run_producerNotFound [run_simps]:
  "run_state (producerNotFound E p producer err) s =
     (persist_answer (typeServiceAccountReady (e_consts E))
        (fst (fst (e_patch_sare_status E (heap s p) (not_found_sare E producer err (heap s p)) (world s)))),
      patched E p (heap s p) (not_found_sare E producer err (heap s p)) s)"
  unfolding producerNotFound_def not_found_sare_def
  by (subst run_setAndPersist [where u = "()"]) (simp_all add: run_simps Let_def)

text \<open>A patch whose object was first changed in place.\<close>

lemma patched_after_store [simp]: "patched E p b x (s\<lparr>heap := (heap s)(p := y)\<rparr>) = patched E p b x s"
  by (simp add: patched_def)

lemma run_serviceAccountNotReadyForRotation [run_simps]:
  "run_state (serviceAccountNotReadyForRotation E p) s =
     (persist_answer (typeServiceAccountReady (e_consts E))
        (fst (fst (e_patch_sare_status E (heap s p) (rotating_sare E (heap s p)) (world s)))),
      patched E p (heap s p) (rotating_sare E (heap s p)) s)"
  unfolding serviceAccountNotReadyForRotation_def rotating_sare_def
  by (subst run_setAndPersist [OF run_mutate_status]) (simp add: Let_def)

lemma run_serviceAccountMigrated [run_simps]:
  "run_state (serviceAccountMigrated E p secretName) s =
     (persist_answer (typeServiceAccountReady (e_consts E))
        (fst (fst (e_patch_sare_status E (heap s p) (migrated_sare E secretName (heap s p)) (world s)))),
      patched E p (heap s p) (migrated_sare E secretName (heap s p)) s)"
  unfolding serviceAccountMigrated_def migrated_sare_def
  by (subst run_setAndPersist [OF run_mutate_status]) (simp add: Let_def)

definition clock_st :: "'w env \<Rightarrow> 'w st \<Rightarrow> 'w st" where
  "clock_st E s = io_st (e_now E) Read_Clock s"

lemma run_serviceAccountReady [run_simps]:
  "run_state (serviceAccountReady E p secretName isRotation) s =
     (let s1 = (if isRotation then clock_st E s else s);
          at = (if isRotation then Some (fst (e_now E (world s))) else None);
          x = ready_sare E secretName at (heap s p)
      in (persist_answer (typeServiceAccountReady (e_consts E))
            (fst (fst (e_patch_sare_status E (heap s p) x (world s1)))),
          patched E p (heap s p) x s1))"
proof (cases isRotation)
  case True
  have m: "run_state (do { mutate_status p (\<lambda>st. st\<lparr>ssSecretRef := Some secretName\<rparr>);
          (if isRotation then do { now \<leftarrow> readClock E; mutate_status p (\<lambda>st. st\<lparr>ssLastRotation := Some now\<rparr>) }
           else ret ()) }) s =
        ((), (clock_st E s)\<lparr>heap := (heap s)(p := with_status (\<lambda>st. st\<lparr>ssSecretRef := Some secretName,
             ssLastRotation := Some (fst (e_now E (world s)))\<rparr>) (heap s p))\<rparr>)"
    using True by (simp add: run_simps readClock_def clock_st_def io_st_def with_status_def)
  show ?thesis unfolding serviceAccountReady_def
    by (subst run_setAndPersist [OF m]) (simp add: True Let_def ready_sare_def patched_def clock_st_def io_st_def)
next
  case False
  have m: "run_state (do { mutate_status p (\<lambda>st. st\<lparr>ssSecretRef := Some secretName\<rparr>);
          (if isRotation then do { now \<leftarrow> readClock E; mutate_status p (\<lambda>st. st\<lparr>ssLastRotation := Some now\<rparr>) }
           else ret ()) }) s =
        ((), s\<lparr>heap := (heap s)(p := with_status (\<lambda>st. st\<lparr>ssSecretRef := Some secretName\<rparr>) (heap s p))\<rparr>)"
    using False by (simp add: run_simps)
  show ?thesis unfolding serviceAccountReady_def
    by (subst run_setAndPersist [OF m]) (simp add: False Let_def ready_sare_def)
qed

section \<open>Rotation watchers\<close>

definition stop_old :: "nat \<Rightarrow> 'w st \<Rightarrow> 'w st" where
  "stop_old p s = (case map_of (watchers s) (namespacedName (heap s p)) of
      Some r \<Rightarrow> s\<lparr>trace := trace s @ [Stop_Runner r]\<rparr>
    | None \<Rightarrow> s)"

definition watcher_deleted :: "nat \<Rightarrow> 'w st \<Rightarrow> 'w st" where
  "watcher_deleted p s =
     (stop_old p s)\<lparr>watchers := AList.delete (namespacedName (heap s p)) (watchers s)\<rparr>"

definition watcher_set :: "string \<Rightarrow> nat \<Rightarrow> 'w st \<Rightarrow> 'w st" where
  "watcher_set expr p s = (stop_old p s)\<lparr>
     tasks := tasks s @ [\<lparr>taskExpr = expr, taskSare = p\<rparr>],
     trace := trace (stop_old p s) @ [Go_Run (length (tasks s))],
     watchers := AList.update (namespacedName (heap s p)) (length (tasks s)) (watchers s)\<rparr>"

lemma stop_old_fields [simp]:
  "world (stop_old p s) = world s" "heap (stop_old p s) = heap s" "next_ptr (stop_old p s) = next_ptr s"
  "watchers (stop_old p s) = watchers s" "tasks (stop_old p s) = tasks s"
  by (auto simp: stop_old_def split: option.splits)

lemma trace_stop_old: "trace (stop_old p s) = trace s @
  (case map_of (watchers s) (namespacedName (heap s p)) of Some r \<Rightarrow> [Stop_Runner r] | None \<Rightarrow> [])"
  by (auto simp: stop_old_def split: option.splits)

lemma alist_delete_absent: "map_of m k = None \<Longrightarrow> AList.delete k m = m"
  by (simp add: AList.delete_idem map_of_eq_None_iff)

lemma run_deleteSaRotationWatcher [run_simps]:
  "run_state (deleteSaRotationWatcher p) s = ((), watcher_deleted p s)"
  by (auto simp: deleteSaRotationWatcher_def run_simps watcher_deleted_def stop_old_def
      alist_delete_absent split: option.split)

definition cron_error :: "nat \<Rightarrow> string \<Rightarrow> 'w st \<Rightarrow> gerr" where
  "cron_error p expr s = errorf (''failed to set cron watcher for SARE '' @ goQuote (namespacedName (heap s p)) @ '': '')
     (New_Err (''cron expression '' @ goQuote expr @ '' is invalid''))"

lemma run_setSaRotationWatcher [run_simps]:
  "run_state (setSaRotationWatcher E p expr) s =
     (if e_cron_is_valid E expr then (None, watcher_set expr p s)
      else (Some (cron_error p expr s), stop_old p s))"
  by (auto simp: setSaRotationWatcher_def run_simps watcher_set_def stop_old_def cron_error_def split: option.split)

text \<open>The three things \<open>handleSaRotationWatcher\<close> can do.\<close>

definition rotation_expr :: "sare \<Rightarrow> string option" where
  "rotation_expr sare = (case srRotation (sareSpec sare) of
      Some rot \<Rightarrow> if rotEnabled rot then Some (rotRotation rot) else None
    | None \<Rightarrow> None)"

lemma run_handleSaRotationWatcher [run_simps]:
  "run_state (handleSaRotationWatcher E p) s =
     (case rotation_expr (heap s p) of
        None \<Rightarrow> (None, watcher_deleted p s)
      | Some expr \<Rightarrow>
          if e_cron_is_valid E expr then (None, watcher_set expr p s)
          else (Some (errorf ''failed to replace service account rotation expression: '' (cron_error p expr s)),
                stop_old p s))"
  by (auto simp: handleSaRotationWatcher_def run_simps rotation_expr_def split: option.split)

lemma watcher_deleted_fields [simp]:
  "world (watcher_deleted p s) = world s" "heap (watcher_deleted p s) = heap s"
  "next_ptr (watcher_deleted p s) = next_ptr s" "tasks (watcher_deleted p s) = tasks s"
  "trace (watcher_deleted p s) = trace (stop_old p s)"
  "watchers (watcher_deleted p s) = AList.delete (namespacedName (heap s p)) (watchers s)"
  by (simp_all add: watcher_deleted_def)

lemma watcher_set_fields [simp]:
  "world (watcher_set expr p s) = world s" "heap (watcher_set expr p s) = heap s"
  "next_ptr (watcher_set expr p s) = next_ptr s"
  "tasks (watcher_set expr p s) = tasks s @ [\<lparr>taskExpr = expr, taskSare = p\<rparr>]"
  "trace (watcher_set expr p s) = trace (stop_old p s) @ [Go_Run (length (tasks s))]"
  "watchers (watcher_set expr p s) =
     AList.update (namespacedName (heap s p)) (length (tasks s)) (watchers s)"
  by (simp_all add: watcher_set_def)

section \<open>Creation and update\<close>

lemma run_getProducer [run_simps]:
  "run_state (getProducer E ns name) s =
     (fst (e_get_sapr E (nn ns name) (world s)), io_st (e_get_sapr E (nn ns name)) (Get_Sapr (nn ns name)) s)"
  by (simp add: getProducer_def getSapr_def run_io)

definition producer_key :: "sare \<Rightarrow> nname" where
  "producer_key sare = nn (sareNamespace sare) (srProducer (sareSpec sare))"

definition get_producer_st :: "'w env \<Rightarrow> sare \<Rightarrow> 'w st \<Rightarrow> 'w st" where
  "get_producer_st E sare s = io_st (e_get_sapr E (producer_key sare)) (Get_Sapr (producer_key sare)) s"

definition delete_st :: "'w env \<Rightarrow> sare \<Rightarrow> 'w st \<Rightarrow> 'w st" where
  "delete_st E sare s = io_st (e_delete_secret E (secret_key sare)) (Delete_Secret (secret_key sare)) s"

lemma get_producer_st_fields [simp]:
  "world (get_producer_st E sare s) = snd (e_get_sapr E (producer_key sare) (world s))"
  "heap (get_producer_st E sare s) = heap s" "next_ptr (get_producer_st E sare s) = next_ptr s"
  "watchers (get_producer_st E sare s) = watchers s" "tasks (get_producer_st E sare s) = tasks s"
  "trace (get_producer_st E sare s) =
     trace s @ [Get_Sapr (producer_key sare) (fst (e_get_sapr E (producer_key sare) (world s)))]"
  by (simp_all add: get_producer_st_def)

lemma delete_st_fields [simp]:
  "world (delete_st E sare s) = snd (e_delete_secret E (secret_key sare) (world s))"
  "heap (delete_st E sare s) = heap s" "next_ptr (delete_st E sare s) = next_ptr s"
  "watchers (delete_st E sare s) = watchers s" "tasks (delete_st E sare s) = tasks s"
  "trace (delete_st E sare s) =
     trace s @ [Delete_Secret (secret_key sare) (fst (e_delete_secret E (secret_key sare) (world s)))]"
  by (simp_all add: delete_st_def)

definition required_error :: "string \<Rightarrow> gerr \<Rightarrow> gerr" where
  "required_error producer err = errorf (''required producer '' @ goQuote producer @ '' not found: '') err"

definition get_error :: "string \<Rightarrow> gerr \<Rightarrow> gerr" where
  "get_error producer err = errorf (''failed to get producer '' @ goQuote producer @ '': '') err"

lemma run_getProducerForCreateOrUpdate [run_simps]:
  "run_state (getProducerForCreateOrUpdate E p) s =
     (let sare = heap s p; producer = srProducer (sareSpec sare); s1 = get_producer_st E sare s in
      case fst (e_get_sapr E (producer_key sare) (world s)) of
        Inr sapr \<Rightarrow> (Returned (Inr sapr), s1)
      | Inl err \<Rightarrow>
          if \<not> is_not_found err then (Returned (Inl (Some (get_error producer err))), s1)
          else (case delete_answer sare (fst (e_delete_secret E (secret_key sare) (world s1))) of
              Some e \<Rightarrow> (Panicked ''invalid memory address or nil pointer dereference'', delete_st E sare s1)
            | None \<Rightarrow>
                if srOptional (sareSpec sare)
                then map_prod (\<lambda>e. Returned (Inl e)) id (run_state (producerNotFound E p producer err) (delete_st E sare s1))
                else (Returned (Inl (Some (required_error producer err))), delete_st E sare s1)))"
  by (simp add: getProducerForCreateOrUpdate_def run_simps get_producer_st_def delete_st_def producer_key_def
      required_error_def get_error_def Let_def split: sum.split option.split prod.split)

section \<open>The course of createOrUpdate\<close>

definition checked :: "'w env \<Rightarrow> sare \<Rightarrow> 'w st \<Rightarrow> 'w st" where
  "checked E sare s = io_st (e_get_secret E (secret_key sare)) (Get_Secret (secret_key sare)) s"

lemma checked_fields [simp]:
  "world (checked E sare s) = snd (e_get_secret E (secret_key sare) (world s))"
  "heap (checked E sare s) = heap s" "next_ptr (checked E sare s) = next_ptr s"
  "watchers (checked E sare s) = watchers s" "tasks (checked E sare s) = tasks s"
  "trace (checked E sare s) =
     trace s @ [Get_Secret (secret_key sare) (fst (e_get_secret E (secret_key sare) (world s)))]"
  by (simp_all add: checked_def)

definition check_answer :: "'w env \<Rightarrow> sare \<Rightarrow> 'w \<Rightarrow> bool \<times> string \<times> gerr option" where
  "check_answer E sare w = exists_answer E sare (fst (e_get_secret E (secret_key sare) w))"

definition check_error :: "sare \<Rightarrow> gerr \<Rightarrow> gerr" where
  "check_error sare e =
     (if errors_is e Secret_Conflict then e
      else errorf (''failed to check if service account secret exists for '' @ goQuote (sareName sare) @ '': '') e)"

lemma run_checkSecretExists [run_simps]:
  "run_state (checkSecretExists E sare) s =
     (case check_answer E sare (world s) of
        (b, n, Some e) \<Rightarrow> Inl (check_error sare e)
      | (b, n, None) \<Rightarrow> Inr (b, n), checked E sare s)"
  by (simp add: checkSecretExists_def run_simps check_answer_def checked_def check_error_def
      split: prod.split option.split)

text \<open>
  Every way a run of \<open>createOrUpdate\<close> can take, with the states it passes through: the check
  of the secret, the watcher, the producer, then either the migration or the producer's
  answer.
\<close>

lemma createOrUpdateE:
  assumes "run_state (createOrUpdate E p) s = (r, t)"
  obtains
    (Check_Failed) b n e where "check_answer E (heap s p) (world s) = (b, n, Some e)"
      "r = Returned (abortedCreateOrUpdate, Some (check_error (heap s p) e))" "t = checked E (heap s p) s"
  | (Watcher_Failed) b n e where "check_answer E (heap s p) (world s) = (b, n, None)"
      "run_state (handleSaRotationWatcher E p) (checked E (heap s p) s) = (Some e, t)"
      "r = Returned (abortedCreateOrUpdate, Some e)"
  | (Panic) b n s2 m where "check_answer E (heap s p) (world s) = (b, n, None)"
      "run_state (handleSaRotationWatcher E p) (checked E (heap s p) s) = (None, s2)"
      "run_state (getProducerForCreateOrUpdate E p) s2 = (Panicked m, t)" "r = Panicked m"
  | (No_Producer) b n s2 e where "check_answer E (heap s p) (world s) = (b, n, None)"
      "run_state (handleSaRotationWatcher E p) (checked E (heap s p) s) = (None, s2)"
      "run_state (getProducerForCreateOrUpdate E p) s2 = (Returned (Inl e), t)"
      "r = Returned (abortedCreateOrUpdate, e)"
  | (Updated) n s2 s3 sapr x where "check_answer E (heap s p) (world s) = (True, n, None)"
      "run_state (handleSaRotationWatcher E p) (checked E (heap s p) s) = (None, s2)"
      "run_state (getProducerForCreateOrUpdate E p) s2 = (Returned (Inr sapr), s3)"
      "run_state (createOrUpdateFromProducer E (heap s p) sapr True n) s3 = (x, t)" "r = Returned x"
  | (Migration_Failed) n s2 s3 sapr e where "check_answer E (heap s p) (world s) = (False, n, None)"
      "run_state (handleSaRotationWatcher E p) (checked E (heap s p) s) = (None, s2)"
      "run_state (getProducerForCreateOrUpdate E p) s2 = (Returned (Inr sapr), s3)"
      "run_state (migrateCredentials E (heap s p) sapr) s3 = (Inl e, t)"
      "r = Returned (abortedCreateOrUpdate, Some e)"
  | (Migrated) n s2 s3 sapr name where "check_answer E (heap s p) (world s) = (False, n, None)"
      "run_state (handleSaRotationWatcher E p) (checked E (heap s p) s) = (None, s2)"
      "run_state (getProducerForCreateOrUpdate E p) s2 = (Returned (Inr sapr), s3)"
      "run_state (migrateCredentials E (heap s p) sapr) s3 = (Inr name, t)" "name \<noteq> []"
      "r = Returned (\<lparr>cuSecretName = name, cuOutcome = OutcomeMigrated\<rparr>, None)"
  | (Created) n s2 s3 s4 sapr x where "check_answer E (heap s p) (world s) = (False, n, None)"
      "run_state (handleSaRotationWatcher E p) (checked E (heap s p) s) = (None, s2)"
      "run_state (getProducerForCreateOrUpdate E p) s2 = (Returned (Inr sapr), s3)"
      "run_state (migrateCredentials E (heap s p) sapr) s3 = (Inr [], s4)"
      "run_state (createOrUpdateFromProducer E (heap s p) sapr False n) s4 = (x, t)" "r = Returned x"
proof -
  obtain b n e where c: "check_answer E (heap s p) (world s) = (b, n, e)" by (cases "check_answer E (heap s p) (world s)")
  obtain w s2 where h: "run_state (handleSaRotationWatcher E p) (checked E (heap s p) s) = (w, s2)" by fastforce
  obtain g s3 where g: "run_state (getProducerForCreateOrUpdate E p) s2 = (g, s3)" by fastforce
  show thesis
  proof (cases e)
    case (Some err)
    with c assms show thesis
      by (intro Check_Failed) (auto simp: createOrUpdate_def run_load run_checkSecretExists)
  next
    case None
    show thesis
    proof (cases w)
      case (Some err)
      with c None h assms show thesis
        by (intro Watcher_Failed) (auto simp: createOrUpdate_def run_load run_checkSecretExists)
    next
      case w: None
      note pre = c None h w g assms
      show thesis
      proof (cases g)
        case (Panicked m)
        with pre show thesis
          by (intro Panic) (auto simp: createOrUpdate_def run_load run_checkSecretExists)
      next
        case (Returned y)
        show thesis
        proof (cases y)
          case (Inl err)
          with Returned pre show thesis
            by (intro No_Producer) (auto simp: createOrUpdate_def run_load run_checkSecretExists)
        next
          case (Inr sapr)
          show thesis
          proof (cases b)
            case True
            obtain x u where "run_state (createOrUpdateFromProducer E (heap s p) sapr True n) s3 = (x, u)" by fastforce
            with True Inr Returned pre show thesis
              by (intro Updated) (auto simp: createOrUpdate_def run_load run_checkSecretExists)
          next
            case False
            obtain m s4 where m: "run_state (migrateCredentials E (heap s p) sapr) s3 = (m, s4)" by fastforce
            show thesis
            proof (cases m)
              case (Inl err)
              with m False Inr Returned pre show thesis
                by (intro Migration_Failed) (auto simp: createOrUpdate_def run_load run_checkSecretExists)
            next
              case m': (Inr name)
              obtain x u where x: "run_state (createOrUpdateFromProducer E (heap s p) sapr False n) s4 = (x, u)" by fastforce
              show thesis
              proof (cases "name = []")
                case True
                with x m m' False Inr Returned pre show thesis
                  by (intro Created) (auto simp: createOrUpdate_def run_load run_checkSecretExists)
              next
                case ne: False
                with m m' False Inr Returned pre show thesis
                  by (intro Migrated) (auto simp: createOrUpdate_def run_load run_checkSecretExists)
              qed
            qed
          qed
        qed
      qed
    qed
  qed
qed

section \<open>The course of reconcileCreateOrUpdate\<close>

definition failure_reason :: "'w env \<Rightarrow> gerr \<Rightarrow> string" where
  "failure_reason E err = (if errors_is err Incomplete_Migration then conditionReasonMigrationFailed
     else reasonReadyFailed (e_consts E))"

lemma run_failWithReason [run_simps]:
  "run_state (failWithReason E p reason err) s =
     (Some err, patched E p (heap s p) (failed_sare E reason err (heap s p)) s)"
  by (simp add: failWithReason_def run_simps)

lemma run_fail [run_simps]:
  "run_state (fail E p err) s =
     (Some err, patched E p (heap s p) (failed_sare E (reasonReadyFailed (e_consts E)) err (heap s p)) s)"
  by (simp add: fail_def run_simps)

text \<open>The patch after a successful \<open>createOrUpdate\<close> and the object it sends.\<close>

definition success_st :: "'w env \<Rightarrow> create_or_update_result \<Rightarrow> 'w st \<Rightarrow> 'w st" where
  "success_st E result u = (if cuOutcome result = OutcomeRotated then clock_st E u else u)"

definition success_sare :: "'w env \<Rightarrow> create_or_update_result \<Rightarrow> sare \<Rightarrow> 'w \<Rightarrow> sare" where
  "success_sare E result sare w =
     (case cuOutcome result of
        OutcomeMigrated \<Rightarrow> migrated_sare E (cuSecretName result) sare
      | OutcomeRotated \<Rightarrow> ready_sare E (cuSecretName result) (Some (fst (e_now E w))) sare
      | _ \<Rightarrow> ready_sare E (cuSecretName result) None sare)"

definition success_text :: "sare \<Rightarrow> string" where
  "success_text sare =
     ''failed to update status after successful create/update for '' @ goQuote (sareName sare) @ '': ''"

lemma run_reconcileCreateOrUpdate:
  assumes "run_state (createOrUpdate E p) s = (g, u)"
  shows "run_state (reconcileCreateOrUpdate E p) s =
     (case g of
        Panicked m \<Rightarrow> (Panicked m, u)
      | Returned (result, Some err) \<Rightarrow> (Returned (no_result, Some err),
          patched E p (heap u p) (failed_sare E (failure_reason E err) err (heap u p)) u)
      | Returned (result, None) \<Rightarrow>
          if cuOutcome result = OutcomeAborted then (Returned (no_result, None), u)
          else let x = success_sare E result (heap u p) (world u);
                   v = patched E p (heap u p) x (success_st E result u) in
            (Returned (no_result, map_option (errorf (success_text (heap v p)))
               (persist_answer (typeServiceAccountReady (e_consts E))
                  (fst (fst (e_patch_sare_status E (heap u p) x (world (success_st E result u))))))), v))"
  using assms
  by (cases "\<exists>m. g = Panicked m")
    (auto simp: reconcileCreateOrUpdate_def run_simps failure_reason_def success_sare_def success_st_def
      success_text_def Let_def split: outcome.split prod.split option.split create_or_update_outcome.split)

section \<open>The course of Reconcile\<close>

text \<open>
  The states between the calls: the SARE has been read and put at a fresh address, as \<open>x\<close>; the
  update that adds the finalizer has been answered.
\<close>

definition got_sare :: "'w env \<Rightarrow> nname \<Rightarrow> sare \<Rightarrow> 'w st \<Rightarrow> 'w st" where
  "got_sare E req x s = (io_st (e_get_sare E req) (Get_Sare req) s)
     \<lparr>heap := (heap s)(next_ptr s := x), next_ptr := Suc (next_ptr s)\<rparr>"

definition added_finalizer :: "'w env \<Rightarrow> nname \<Rightarrow> sare \<Rightarrow> 'w st \<Rightarrow> 'w st" where
  "added_finalizer E req x s = (io_st (e_update_sare E x) (Update_Sare x) (got_sare E req x s))
     \<lparr>heap := (heap s)(next_ptr s := snd (fst (e_update_sare E x (snd (e_get_sare E req (world s))))))\<rparr>"

lemma got_sare_fields [simp]:
  "world (got_sare E req x s) = snd (e_get_sare E req (world s))"
  "heap (got_sare E req x s) = (heap s)(next_ptr s := x)"
  "next_ptr (got_sare E req x s) = Suc (next_ptr s)"
  "watchers (got_sare E req x s) = watchers s" "tasks (got_sare E req x s) = tasks s"
  "trace (got_sare E req x s) = trace s @ [Get_Sare req (fst (e_get_sare E req (world s)))]"
  by (simp_all add: got_sare_def)

lemma added_finalizer_fields [simp]:
  "world (added_finalizer E req x s) = snd (e_update_sare E x (snd (e_get_sare E req (world s))))"
  "heap (added_finalizer E req x s) =
     (heap s)(next_ptr s := snd (fst (e_update_sare E x (snd (e_get_sare E req (world s))))))"
  "next_ptr (added_finalizer E req x s) = Suc (next_ptr s)"
  "watchers (added_finalizer E req x s) = watchers s" "tasks (added_finalizer E req x s) = tasks s"
  "trace (added_finalizer E req x s) = trace s @ [Get_Sare req (fst (e_get_sare E req (world s))),
     Update_Sare x (fst (e_update_sare E x (snd (e_get_sare E req (world s)))))]"
  by (simp_all add: added_finalizer_def)

lemma memory_update: "s\<lparr>next_ptr := n, heap := h\<rparr> = s\<lparr>heap := h, next_ptr := n\<rparr>"
  by (cases s) simp

lemma ReconcileE:
  assumes run: "run_state (Reconcile E cfg req) s = (r, t)"
  obtains
    (Unread) e where "fst (e_get_sare E req (world s)) = Inl e"
      "t = io_st (e_get_sare E req) (Get_Sare req) s"
      "r = Returned (no_result, if is_not_found e then None
         else Some (errorf (''failed to get service account request '' @ goQuote (nnName req) @ '': '') e))"
  | (Deleting) sare ts err where "fst (e_get_sare E req (world s)) = Inr sare"
      "sareDeletionTimestamp sare = Some ts"
      "run_state (reconcileDelete E cfg (next_ptr s) ts) (got_sare E req sare s) = (err, t)"
      "r = Returned (no_result, err)"
  | (Not_Added) sare x e where "fst (e_get_sare E req (world s)) = Inr sare"
      "sareDeletionTimestamp sare = None" "e_add_finalizer E sare finalizer = (x, True)"
      "fst (fst (e_update_sare E x (snd (e_get_sare E req (world s))))) = Some e"
      "t = added_finalizer E req x s" "\<exists>e'. r = Returned (no_result, Some e')"
  | (Added) sare x where "fst (e_get_sare E req (world s)) = Inr sare"
      "sareDeletionTimestamp sare = None" "e_add_finalizer E sare finalizer = (x, True)"
      "fst (fst (e_update_sare E x (snd (e_get_sare E req (world s))))) = None"
      "run_state (reconcileCreateOrUpdate E (next_ptr s)) (added_finalizer E req x s) = (r, t)"
  | (Present) sare x where "fst (e_get_sare E req (world s)) = Inr sare"
      "sareDeletionTimestamp sare = None" "e_add_finalizer E sare finalizer = (x, False)"
      "run_state (reconcileCreateOrUpdate E (next_ptr s)) (got_sare E req x s) = (r, t)"
proof (cases "fst (e_get_sare E req (world s))")
  case (Inl e)
  with run show thesis by (intro Unread) (auto simp: Reconcile_def getSare_def run_simps split: if_splits)
next
  case (Inr sare)
  note get = this
  show thesis
  proof (cases "sareDeletionTimestamp sare")
    case (Some ts)
    obtain err u where "run_state (reconcileDelete E cfg (next_ptr s) ts) (got_sare E req sare s) = (err, u)" by fastforce
    with run get Some show thesis
      by (intro Deleting) (auto simp: Reconcile_def getSare_def run_simps got_sare_def io_st_def)
  next
    case None
    obtain x added where x: "e_add_finalizer E sare finalizer = (x, added)" by fastforce
    show thesis
    proof (cases added)
      case False
      with run get None x show thesis
        by (intro Present) (auto simp: Reconcile_def getSare_def run_simps got_sare_def io_st_def memory_update)
    next
      case True
      show thesis
      proof (cases "fst (fst (e_update_sare E x (snd (e_get_sare E req (world s)))))")
        case (Some e)
        with run get None x True show thesis
          by (intro Not_Added) (auto simp: Reconcile_def getSare_def updateSare_def run_simps added_finalizer_def
              got_sare_def io_st_def split: prod.splits)
      next
        case upd: None
        with run get None x True show thesis
          by (intro Added) (auto simp: Reconcile_def getSare_def updateSare_def run_simps added_finalizer_def
              got_sare_def io_st_def split: prod.splits)
      qed
    qed
  qed
qed

end
