(* ===== verification/Request_Frames.thy ===== *)
theory Request_Frames
  imports Request_Eval
begin

text \<open>
  Frame conditions of the request controller's operations: the calls they can make, and
  what they leave of the process. \<open>update_call\<close> lists what the second half of
  \<open>createOrUpdate\<close> may do once the producer is known: read secrets, ask the producer with an
  API key, write the SARE's own secret and emit an event; it never deletes anything.
\<close>

definition update_call :: "sare \<Rightarrow> call \<Rightarrow> bool" where
  "update_call sare ev \<longleftrightarrow> (case ev of
      Get_Secret n a \<Rightarrow> True
    | Http_Do req a \<Rightarrow> map_of (hrHeaders req) apiKeyHeader \<noteq> None
    | Upsert_Secret n a \<Rightarrow> n = secret_key sare
    | Emit_Event e \<Rightarrow> True
    | _ \<Rightarrow> False)"

lemma update_call_simps [simp]:
  "update_call sare (Get_Secret n a)" "update_call sare (Emit_Event e)"
  "update_call sare (Upsert_Secret n x) = (n = secret_key sare)"
  "update_call sare (Http_Do req h) = (map_of (hrHeaders req) apiKeyHeader \<noteq> None)"
  "\<not> update_call sare (Delete_Secret n d)" "\<not> update_call sare (Get_Sapr n g)"
  "\<not> update_call sare (Patch_Sare_Status b y r)" "\<not> update_call sare (Update_Sare y r)"
  by (simp_all add: update_call_def)

lemma emits_NewForProducer: "preserves (emits (update_call sare)) (NewForProducer E ns sapr)"
  by (rule cf.reader_emits) simp

lemma emits_requestCredentials: "preserves (emits (update_call sare)) (requestCredentials E sare sapr b)"
  unfolding requestCredentials_def getServiceAccountClient_def Let_def
  by (auto intro!: frame_rules hc.client_emits emits_NewForProducer)

lemma emits_sm_CreateOrUpdate: "preserves (emits (update_call sare)) (sm_CreateOrUpdate E sare c)"
  by (rule sm.calls_law) simp

lemma emits_createOrUpdateFromProducer:
  "preserves (emits (update_call sare)) (createOrUpdateFromProducer E sare sapr b n)"
  unfolding createOrUpdateFromProducer_def Let_def
  by (auto intro!: frame_rules emits_requestCredentials emits_sm_CreateOrUpdate)

lemma emits_migrateCredentials: "preserves (emits (update_call sare)) (migrateCredentials E sare sapr)"
  unfolding migrateCredentials_def
  by (auto intro!: frame_rules emits_sm_CreateOrUpdate ms.reader_emits)

lemma process_NewForProducer [frame_rules]: "preserves same_process (NewForProducer E ns sapr)"
  by (rule cf.rd_process)

lemma process_createOrUpdateFromProducer [frame_rules]:
  "preserves same_process (createOrUpdateFromProducer E sare sapr b n)"
  unfolding createOrUpdateFromProducer_def requestCredentials_def getServiceAccountClient_def Let_def
  by (auto intro!: frame_rules hc.client_process)

lemma process_migrateCredentials [frame_rules]: "preserves same_process (migrateCredentials E sare sapr)"
  unfolding migrateCredentials_def by (auto intro!: frame_rules ms.rd_process)

section \<open>Calls of whole operations\<close>

lemma emits_mutate: "preserves (emits P) (mutate_status p f)"
  unfolding mutate_status_def by (intro frame_rules)

lemma emits_persist:
  assumes "\<And>b x a. P (Patch_Sare_Status b x a)" and "preserves (emits P) m"
  shows "preserves (emits P) (setAndPersist E p m ct cs reason msg)"
  unfolding setAndPersist_def patchSareStatus_def using assms by (auto intro!: frame_rules)

lemma emits_status:
  assumes "\<And>b x a. P (Patch_Sare_Status b x a)" and "\<And>n. P (Read_Clock n)"
  shows "preserves (emits P) (serviceAccountReady E p name rot)" "preserves (emits P) (serviceAccountMigrated E p name)"
    "preserves (emits P) (serviceAccountFailed E p reason err)" "preserves (emits P) (producerNotFound E p producer err)"
    "preserves (emits P) (serviceAccountNotReadyForRotation E p)"
  unfolding serviceAccountReady_def serviceAccountMigrated_def serviceAccountFailed_def producerNotFound_def
    serviceAccountNotReadyForRotation_def readClock_def
  by (auto intro!: frame_rules emits_persist emits_mutate assms)

lemma emits_watcher:
  assumes "\<And>r. P (Go_Run r)" and "\<And>r. P (Stop_Runner r)"
  shows "preserves (emits P) (handleSaRotationWatcher E p)" "preserves (emits P) (deleteSaRotationWatcher p)"
proof -
  have "emits P s (stop_old p s)" "emits P s (watcher_deleted p s)" "emits P s (watcher_set expr p s)" for expr s
    using assms by (auto simp: emits_def trace_stop_old split: option.split)
  then show "preserves (emits P) (handleSaRotationWatcher E p)" "preserves (emits P) (deleteSaRotationWatcher p)"
    by (auto intro!: preservesI simp: run_simps split: option.splits if_splits)
qed

text \<open>The calls of a reconcile after it has read the SARE, when it creates and when it deletes.\<close>

definition creation_call :: "call \<Rightarrow> bool" where
  "creation_call c \<longleftrightarrow> \<not> is_sare_read c \<and> \<not> is_sare_update c"

definition removal_call :: "call \<Rightarrow> bool" where
  "removal_call c \<longleftrightarrow> \<not> is_sare_read c \<and> \<not> is_secret_delete c"

lemma emits_creation: "preserves (emits creation_call) (reconcileCreateOrUpdate E p)"
proof -
  have upd: "update_call sare c \<Longrightarrow> creation_call c" for sare c by (cases c) (auto simp: update_call_def creation_call_def)
  note [frame_rules] = emits_mono [OF emits_createOrUpdateFromProducer upd] emits_mono [OF emits_migrateCredentials upd]
  show ?thesis
    unfolding reconcileCreateOrUpdate_def createOrUpdate_def checkSecretExists_def getProducerForCreateOrUpdate_def
      getProducer_def failWithReason_def fail_def call_defs Let_def
    by (auto intro!: frame_rules sm.calls_law emits_watcher emits_status simp: creation_call_def)
qed

lemma emits_removal: "preserves (emits removal_call) (reconcileDelete E cfg p ts)"
  unfolding reconcileDelete_def removeFinalizer_def deleteServiceAccount_def getProducer_def
    getServiceAccountClient_def fail_def failWithReason_def call_defs Let_def
  by (auto intro!: frame_rules emits_watcher emits_status hc.client_emits cf.reader_emits simp: removal_call_def)

lemma emits_rotate:
  "(\<And>n a. P (Get_Secret n a)) \<Longrightarrow> (\<And>n a. P (Delete_Secret n a)) \<Longrightarrow> (\<And>b x a. P (Patch_Sare_Status b x a)) \<Longrightarrow>
     (\<And>n. P (Read_Clock n)) \<Longrightarrow> preserves (emits P) (rotateSaSecret E p)"
  unfolding rotateSaSecret_def Let_def by (auto intro!: frame_rules sm.calls_law emits_status)

lemma emits_enqueue: "(\<And>ns a. P (List_Sares ns a)) \<Longrightarrow> preserves (emits P) (enqueueRequestsForProducer E obj)"
  unfolding enqueueRequestsForProducer_def listSares_def by (auto intro!: frame_rules)

end
