(* ===== verification/Network_Policy.thy ===== *)
theory Network_Policy
  imports Cluster_Laws Go_Url
begin

text \<open>
  \<open>internal/controller/producer/networkpolicy.go\<close>: the network policy that lets the operator
  reach the endpoint of a producer.
\<close>

definition managedResourceLabels :: strmap where
  "managedResourceLabels =
     [(''app'', ''ces''), (''app.kubernetes.io/managed-by'', ''service-account-operator'')]"

record netpol_upserter =
  nuEnabled :: bool
  nuSelectorLabels :: strmap

definition networkPolicyName :: "sapr \<Rightarrow> string" where
  "networkPolicyName producer = saprName producer @ ''-sa-manager''"

definition int32_of :: "int \<Rightarrow> int32" where
  "int32_of i = word_of_int i"

text \<open>The endpoint with a scheme in front, unless it has one.\<close>

definition endpoint_with_scheme :: "string \<Rightarrow> string" where
  "endpoint_with_scheme endpoint =
     (if \<not> hasPrefix endpoint ''http://'' \<and> \<not> hasPrefix endpoint ''https://''
      then ''http://'' @ endpoint else endpoint)"

definition default_port :: "string \<Rightarrow> string \<Rightarrow> string res" where
  "default_port scheme endpointString =
     (if scheme = ''http'' then Inr ''80''
      else if scheme = ''https'' then Inr ''443''
      else Inl (New_Err (''determine port for endpoint url '' @ goQuote endpointString)))"

text \<open>\<open>parseServiceNameAndPortFromEndpointUrl\<close>, on the endpoint of the HTTP spec.\<close>

definition parse_endpoint :: "string \<Rightarrow> (string \<times> int32) res" where
  "parse_endpoint endpoint =
     (let endpointString = endpoint_with_scheme endpoint in
      case url_parse endpointString of
        Inl err \<Rightarrow> Inl (errorf (''parse endpoint url '' @ goQuote endpointString @ '': '') err)
      | Inr endpointUrl \<Rightarrow>
          (let hostname = url_hostname endpointUrl; portString = url_port endpointUrl in
           case (if portString = [] then default_port (urlScheme endpointUrl) endpointString
                 else Inr portString) of
             Inl err \<Rightarrow> Inl err
           | Inr ps \<Rightarrow>
               (case parseInt32 ps of
                  Inl err \<Rightarrow> Inl (errorf (''parse port '' @ goQuote ps @ '': '') err)
                | Inr port \<Rightarrow> Inr (fst (cut (CHR ''.'') hostname), int32_of port))))"

text \<open>
  The function reads \<open>producer.Spec.HTTP.Endpoint\<close> without checking \<open>Spec.HTTP\<close>: a producer
  without an HTTP spec is a run-time panic.
\<close>

definition parseServiceNameAndPortFromEndpointUrl :: "sapr \<Rightarrow> (string \<times> int32) res outcome" where
  "parseServiceNameAndPortFromEndpointUrl producer =
     (case saprHTTP producer of
        None \<Rightarrow> Panicked ''invalid memory address or nil pointer dereference''
      | Some http \<Rightarrow> Returned (parse_endpoint (hpEndpoint http)))"

text \<open>The loop over the service's ports: the first match counts.\<close>

fun find_target_port :: "int32 \<Rightarrow> service_port list \<Rightarrow> int_or_string option" where
  "find_target_port servicePort [] = None"
| "find_target_port servicePort (port # ports) =
     (if svcPort port = servicePort then Some (svcTargetPort port) else find_target_port servicePort ports)"

definition getNetworkPolicyTargetPort :: "protocol \<Rightarrow> service \<Rightarrow> int32 \<Rightarrow> netpol_port res" where
  "getNetworkPolicyTargetPort proto service servicePort =
     (case find_target_port servicePort (svcPorts service) of
        Some target \<Rightarrow> Inr \<lparr>npProtocol = proto, npPort = target\<rparr>
      | None \<Rightarrow> Inl (New_Err (''no matching port found in service '' @ goQuote (svcName service))))"

definition build_netpol :: "netpol_upserter \<Rightarrow> string \<Rightarrow> sapr \<Rightarrow> service \<Rightarrow> netpol_port \<Rightarrow> netpol" where
  "build_netpol n name producer service targetPort =
     \<lparr>npName = name, npNamespace = saprNamespace producer, npResourceVersion = [],
      npLabels = managedResourceLabels, npAnnotations = [], npOwners = [],
      npSpec = \<lparr>npPodSelector = svcSelector service, npPolicyTypes = [PolicyIngress],
        npIngress = [\<lparr>irPorts = [targetPort],
          irFrom = [\<lparr>peerPodLabels = nuSelectorLabels n,
            peerNamespaceLabels = [(''kubernetes.io/metadata.name'', saprNamespace producer)]\<rparr>]\<rparr>]\<rparr>\<rparr>"

definition generate :: "'w env \<Rightarrow> netpol_upserter \<Rightarrow> string \<Rightarrow> sapr \<Rightarrow> ('w, netpol res outcome) op" where
  "generate E n name producer =
     (case parseServiceNameAndPortFromEndpointUrl producer of
        Panicked m \<Rightarrow> ret (Panicked m)
      | Returned (Inl err) \<Rightarrow> ret (Returned (Inl (errorf ''parse service name and port from endpoint url: '' err)))
      | Returned (Inr (serviceName, servicePort)) \<Rightarrow> do {
          r \<leftarrow> getService E (nn (saprNamespace producer) serviceName);
          ret (Returned (case r of
              Inl err \<Rightarrow> Inl (errorf (''get service '' @ goQuote serviceName @ '': '') err)
            | Inr service \<Rightarrow>
                (case getNetworkPolicyTargetPort TCP service servicePort of
                   Inl err \<Rightarrow> Inl (errorf ''get network policy target port: '' err)
                 | Inr targetPort \<Rightarrow>
                     (case e_set_owner_reference E producer (build_netpol n name producer service targetPort) of
                        Inl err \<Rightarrow> Inl (errorf (''set owner reference of producer '' @ goQuote (saprName producer)
                          @ '' on network policy '' @ goQuote name @ '': '') err)
                      | Inr np \<Rightarrow> Inr np))))
        })"

text \<open>The closure passed to \<open>controllerutil.CreateOrUpdate\<close>.\<close>

definition netpol_mutate :: "netpol \<Rightarrow> netpol \<Rightarrow> netpol res" where
  "netpol_mutate networkPolicy target =
     Inr (target\<lparr>npLabels := npLabels networkPolicy, npAnnotations := npAnnotations networkPolicy,
       npOwners := npOwners networkPolicy, npSpec := npSpec networkPolicy\<rparr>)"

definition empty_netpol :: "string \<Rightarrow> string \<Rightarrow> netpol" where
  "empty_netpol ns name = \<lparr>npName = name, npNamespace = ns, npResourceVersion = [], npLabels = [],
     npAnnotations = [], npOwners = [], npSpec = \<lparr>npPodSelector = [], npPolicyTypes = [], npIngress = []\<rparr>\<rparr>"

definition UpsertNetworkPolicy :: "'w env \<Rightarrow> netpol_upserter \<Rightarrow> sapr \<Rightarrow> ('w, gerr option outcome) op" where
  "UpsertNetworkPolicy E n producer =
     (let netpolName = networkPolicyName producer in
      if \<not> nuEnabled n then do {
        err \<leftarrow> deleteNetpol E (nn (saprNamespace producer) netpolName);
        ret (Returned (case err of
            None \<Rightarrow> None
          | Some e \<Rightarrow> if is_not_found e then None else Some (errorf ''delete disabled network policy: '' e)))
      }
      else do {
        g \<leftarrow> generate E n netpolName producer;
        (case g of
           Panicked m \<Rightarrow> ret (Panicked m)
         | Returned (Inl err) \<Rightarrow> ret (Returned (Some (errorf ''generate network policy: '' err)))
         | Returned (Inr networkPolicy) \<Rightarrow> do {
             r \<leftarrow> createOrUpdateNetpol E (empty_netpol (npNamespace networkPolicy) (npName networkPolicy))
                    (netpol_mutate networkPolicy);
             ret (Returned (case r of
                 Inl err \<Rightarrow> Some (errorf ''create or update network policy: '' err)
               | Inr _ \<Rightarrow> None))
           })
      })"

section \<open>The interface of the upserter\<close>

text \<open>
  The interface \<open>networkPolicyUpserter\<close> of \<open>producer/controller.go\<close>: an operation that reads
  services and keeps policies, and does nothing else.
\<close>

fun policy_call :: "call \<Rightarrow> bool" where
  "policy_call (Get_Service n a) = True"
| "policy_call (Delete_Netpol n a) = True"
| "policy_call (Upsert_Netpol n a) = True"
| "policy_call c = False"

fun_cases policy_callE: "policy_call c"

locale network_policy_upserter =
  fixes up :: "'w env \<Rightarrow> netpol_upserter \<Rightarrow> sapr \<Rightarrow> ('w, gerr option outcome) op"
  assumes up_calls: "preserves (emits policy_call) (up E n producer)"
    and up_process: "preserves same_process (up E n producer)"
    and up_view: "producer_keeps_secrets E V \<Longrightarrow> preserves (keeps_view V) (up E n producer)"
begin

lemma upserter_emits: "(\<And>c. policy_call c \<Longrightarrow> P c) \<Longrightarrow> preserves (emits P) (up E n producer)"
  using up_calls by (rule emits_mono)

lemma upserter_keeps_entry: "producer_keeps_secrets E V \<Longrightarrow> preserves (keeps_entry V k x) (up E n producer)"
  by (rule keeps_view_entry) (rule up_view)

end

lemmas upsert_defs = UpsertNetworkPolicy_def generate_def getService_def deleteNetpol_def createOrUpdateNetpol_def

interpretation nu: network_policy_upserter UpsertNetworkPolicy
  by unfold_locales
    (auto simp: upsert_defs Let_def producer_keeps_secrets_def intro!: frame_rules keeps_view_io split: outcome.split)

end
