(* ===== verification/Sim_Cluster.thy ===== *)
theory Sim_Cluster
  imports Request_Eval Network_Policy
begin

text \<open>
  A small executable cluster: one instance of the environment, on which the theorems'
  hypotheses are shown to be satisfiable and the operator's definitions are evaluated. Its
  world holds the objects as association lists, an answer function for the producers, the
  time, and switches that make a call fail. It obeys the laws of \<open>Cluster_Laws\<close>.
\<close>

record sim =
  simSecrets :: "(nname \<times> secret) list"
  simSapr :: "(nname \<times> sapr) list"
  simSares :: "(nname \<times> sare) list"
  simServices :: "(nname \<times> service) list"
  simNetpols :: "(nname \<times> netpol) list"
  simHttp :: "http_request \<Rightarrow> http_response res"
  simNow :: int
  simDeleteFails :: bool
  simPatchFails :: bool

definition not_found :: gerr where
  "not_found = Api_NotFound ''not found''"

definition find_or_not_found :: "(nname \<times> 'a) list \<Rightarrow> nname \<Rightarrow> 'a res" where
  "find_or_not_found m n = (case map_of m n of None \<Rightarrow> Inl not_found | Some x \<Rightarrow> Inr x)"

text \<open>A stored secret has a resource version.\<close>

definition versioned :: "secret \<Rightarrow> secret" where
  "versioned x = (if secResourceVersion x = [] then x\<lparr>secResourceVersion := ''1''\<rparr> else x)"

definition sim_secret :: "sim \<Rightarrow> nname \<Rightarrow> secret option" where
  "sim_secret w n = map_option versioned (map_of (simSecrets w) n)"

definition sim_get_secret :: "nname \<Rightarrow> sim \<Rightarrow> secret res \<times> sim" where
  "sim_get_secret n w = ((case sim_secret w n of None \<Rightarrow> Inl not_found | Some x \<Rightarrow> Inr x), w)"

definition sim_delete_secret :: "nname \<Rightarrow> sim \<Rightarrow> gerr option \<times> sim" where
  "sim_delete_secret n w =
     (if simDeleteFails w then (Some (Api_Error ''forbidden''), w)
      else case sim_secret w n of
          None \<Rightarrow> (Some not_found, w)
        | Some x \<Rightarrow> (None, w\<lparr>simSecrets := AList.delete n (simSecrets w)\<rparr>))"

definition sim_upsert_secret :: "secret \<Rightarrow> (secret \<Rightarrow> secret res) \<Rightarrow> sim \<Rightarrow> secret res \<times> sim" where
  "sim_upsert_secret x f w =
     (let n = nn (secNamespace x) (secName x) in
      case f (case sim_secret w n of None \<Rightarrow> x | Some y \<Rightarrow> y) of
        Inl e \<Rightarrow> (Inl e, w)
      | Inr y \<Rightarrow> (Inr (persisted ''2'' y), w\<lparr>simSecrets := AList.update n (persisted ''2'' y) (simSecrets w)\<rparr>))"

text \<open>Owner references: the controller is the first reference that claims to be it.\<close>

definition controller_of :: "secret \<Rightarrow> owner_ref option" where
  "controller_of x = find orController (secOwners x)"

definition sim_is_controlled_by :: "secret \<Rightarrow> sare \<Rightarrow> bool" where
  "sim_is_controlled_by x sare = (case controller_of x of None \<Rightarrow> False | Some r \<Rightarrow> orUID r = sareUID sare)"

definition sim_set_controller_reference :: "sare \<Rightarrow> secret \<Rightarrow> secret res" where
  "sim_set_controller_reference sare x =
     (case controller_of x of
        None \<Rightarrow> Inr (x\<lparr>secOwners := secOwners x @ [\<lparr>orKind = ''ServiceAccountRequest'', orName = sareName sare,
          orUID = sareUID sare, orController = True\<rparr>]\<rparr>)
      | Some r \<Rightarrow> if orUID r = sareUID sare then Inr x else Inl (Api_Error ''already owned''))"

definition sim_set_status_condition :: "condition list \<Rightarrow> condition \<Rightarrow> condition list" where
  "sim_set_status_condition cs c = filter (\<lambda>d. condType d \<noteq> condType c) cs @ [c]"

definition sim_consts :: lib_consts where
  "sim_consts = \<lparr>typeServiceAccountReady = ''ServiceAccountReady'',
     reasonReadyProducerNotFound = ''ProducerNotFound'', reasonReadyCreated = ''Created'',
     reasonReadyFailed = ''Failed'', typeReady = ''Ready'',
     reasonInvalidConfiguration = ''InvalidConfiguration'',
     reasonAuthSecretNotFound = ''AuthSecretNotFound'', reasonConnectionFailed = ''ConnectionFailed''\<rparr>"

definition sim_put_sare :: "sare \<Rightarrow> sim \<Rightarrow> (gerr option \<times> sare) \<times> sim" where
  "sim_put_sare x w = (if simPatchFails w then ((Some (Api_Error ''conflict''), x), w)
     else ((None, x), w\<lparr>simSares := AList.update (nn (sareNamespace x) (sareName x)) x (simSares w)\<rparr>))"

definition sim_put_sapr :: "sapr \<Rightarrow> sim \<Rightarrow> (gerr option \<times> sapr) \<times> sim" where
  "sim_put_sapr x w = (if simPatchFails w then ((Some (Api_Error ''conflict''), x), w)
     else ((None, x), w\<lparr>simSapr := AList.update (nn (saprNamespace x) (saprName x)) x (simSapr w)\<rparr>))"

definition sim_upsert_netpol :: "netpol \<Rightarrow> (netpol \<Rightarrow> netpol res) \<Rightarrow> sim \<Rightarrow> netpol res \<times> sim" where
  "sim_upsert_netpol x f w =
     (let n = nn (npNamespace x) (npName x) in
      case f (case map_of (simNetpols w) n of None \<Rightarrow> x | Some y \<Rightarrow> y) of
        Inl e \<Rightarrow> (Inl e, w)
      | Inr y \<Rightarrow> (Inr y, w\<lparr>simNetpols := AList.update n y (simNetpols w)\<rparr>))"

definition sim_delete_netpol :: "nname \<Rightarrow> sim \<Rightarrow> gerr option \<times> sim" where
  "sim_delete_netpol n w = (case map_of (simNetpols w) n of
      None \<Rightarrow> (Some not_found, w)
    | Some x \<Rightarrow> (None, w\<lparr>simNetpols := AList.delete n (simNetpols w)\<rparr>))"

definition simE :: "sim env" where
  "simE = \<lparr>
     e_consts = sim_consts,
     e_get_sare = (\<lambda>n w. (find_or_not_found (simSares w) n, w)),
     e_update_sare = sim_put_sare,
     e_patch_sare_status = (\<lambda>b. sim_put_sare),
     e_list_sares = (\<lambda>ns w. (Inr (filter (\<lambda>x. sareNamespace x = ns) (map snd (simSares w))), w)),
     e_get_sapr = (\<lambda>n w. (find_or_not_found (simSapr w) n, w)),
     e_patch_sapr_status = (\<lambda>b. sim_put_sapr),
     e_get_secret = sim_get_secret,
     e_delete_secret = sim_delete_secret,
     e_create_or_update_secret = sim_upsert_secret,
     e_get_service = (\<lambda>n w. (find_or_not_found (simServices w) n, w)),
     e_delete_netpol = sim_delete_netpol,
     e_create_or_update_netpol = sim_upsert_netpol,
     e_http_do = (\<lambda>r w. (simHttp w r, w)),
     e_now = (\<lambda>w. (simNow w, w)),
     e_add_finalizer = (\<lambda>x f. if f \<in> set (sareFinalizers x) then (x, False)
        else (x\<lparr>sareFinalizers := sareFinalizers x @ [f]\<rparr>, True)),
     e_contains_finalizer = (\<lambda>x f. f \<in> set (sareFinalizers x)),
     e_remove_finalizer = (\<lambda>x f. x\<lparr>sareFinalizers := removeAll f (sareFinalizers x)\<rparr>),
     e_is_controlled_by = sim_is_controlled_by,
     e_set_controller_reference = sim_set_controller_reference,
     e_set_owner_reference = (\<lambda>x np. Inr (np\<lparr>npOwners := npOwners np @ [\<lparr>orKind = ''ServiceAccountProducer'',
        orName = saprName x, orUID = saprUID x, orController = False\<rparr>]\<rparr>)),
     e_set_status_condition = sim_set_status_condition,
     e_is_status_condition = (\<lambda>cs t st. list_ex (\<lambda>c. condType c = t \<and> condStatus c = st) cs),
     e_cron_is_valid = (\<lambda>expr. expr \<noteq> [] \<and> expr \<noteq> ''bad''),
     e_title = (\<lambda>s. s)\<rparr>"

lemma simE_fields [simp]:
  "e_consts simE = sim_consts"
  "e_get_sare simE n w = (find_or_not_found (simSares w) n, w)"
  "e_update_sare simE = sim_put_sare"
  "e_patch_sare_status simE b = sim_put_sare"
  "e_list_sares simE ns w = (Inr (filter (\<lambda>x. sareNamespace x = ns) (map snd (simSares w))), w)"
  "e_get_sapr simE n w = (find_or_not_found (simSapr w) n, w)"
  "e_patch_sapr_status simE pb = sim_put_sapr"
  "e_get_secret simE = sim_get_secret"
  "e_delete_secret simE = sim_delete_secret"
  "e_create_or_update_secret simE = sim_upsert_secret"
  "e_get_service simE n w = (find_or_not_found (simServices w) n, w)"
  "e_delete_netpol simE = sim_delete_netpol"
  "e_create_or_update_netpol simE = sim_upsert_netpol"
  "e_http_do simE r w = (simHttp w r, w)"
  "e_now simE w = (simNow w, w)"
  "e_is_controlled_by simE = sim_is_controlled_by"
  "e_set_controller_reference simE = sim_set_controller_reference"
  "e_set_status_condition simE = sim_set_status_condition"
  by (simp_all add: simE_def)

lemma simE_fields2 [simp]:
  "e_add_finalizer simE x f = (if f \<in> set (sareFinalizers x) then (x, False)
        else (x\<lparr>sareFinalizers := sareFinalizers x @ [f]\<rparr>, True))"
  "e_contains_finalizer simE x f = (f \<in> set (sareFinalizers x))"
  "e_remove_finalizer simE x f = x\<lparr>sareFinalizers := removeAll f (sareFinalizers x)\<rparr>"
  "e_set_owner_reference simE pr np = Inr (np\<lparr>npOwners := npOwners np @ [\<lparr>orKind = ''ServiceAccountProducer'',
        orName = saprName pr, orUID = saprUID pr, orController = False\<rparr>]\<rparr>)"
  "e_is_status_condition simE cs t st = list_ex (\<lambda>c. condType c = t \<and> condStatus c = st) cs"
  "e_cron_is_valid simE expr = (expr \<noteq> [] \<and> expr \<noteq> ''bad'')"
  "e_title simE s = s"
  by (simp_all add: simE_def)

section \<open>It obeys the laws\<close>

lemma versioned_persisted [simp]: "rv \<noteq> [] \<Longrightarrow> versioned (persisted rv x) = persisted rv x"
  by (simp add: versioned_def persisted_def)

lemma sim_secret_update: "sim_secret (w\<lparr>simSecrets := AList.update n (persisted ''2'' y) (simSecrets w)\<rparr>) =
    (sim_secret w)(n := Some (persisted ''2'' y))"
  by (rule ext) (simp add: sim_secret_def)

lemma sim_secret_delete: "sim_secret (w\<lparr>simSecrets := AList.delete n (simSecrets w)\<rparr>) = (sim_secret w)(n := None)"
  by (rule ext) (simp add: sim_secret_def AList.delete_conv')

lemma sim_read_law: "read_law simE sim_secret"
  by (auto simp: read_law_def sim_get_secret_def not_found_def split: option.splits)

lemma sim_delete_law: "delete_law simE sim_secret"
  by (auto simp: delete_law_def sim_delete_secret_def not_found_def sim_secret_delete split: option.splits)

lemma sim_upsert_law: "upsert_law simE sim_secret"
  unfolding upsert_law_def
proof (intro allI conjI impI, goal_cases)
  case (1 x f w e)
  then show ?case by (auto simp: sim_upsert_secret_def upsert_base_def Let_def)
next
  case (2 x f w e)
  then show ?case by (auto simp: sim_upsert_secret_def upsert_base_def Let_def)
next
  case (3 x f w y)
  then show ?case
    by (intro disjI2 exI [where x = "''2''"])
      (auto simp: sim_upsert_secret_def upsert_base_def Let_def sim_secret_update)
qed

lemma find_append: "find P (xs @ ys) = (case find P xs of None \<Rightarrow> find P ys | Some x \<Rightarrow> Some x)"
  by (induction xs) simp_all

lemma versioned_rv: "secResourceVersion (versioned x) \<noteq> []"
  by (simp add: versioned_def)

lemma sim_controlled_persisted: "sim_is_controlled_by (persisted rv x) sare = sim_is_controlled_by x sare"
  by (simp add: sim_is_controlled_by_def controller_of_def persisted_def)

lemma sim_set_controller:
  "sim_set_controller_reference sare x = Inr y \<Longrightarrow>
     sim_is_controlled_by y sare \<and> secStringData y = secStringData x \<and> secData y = secData x"
  by (cases "find orController (secOwners x)")
    (auto simp: sim_set_controller_reference_def sim_is_controlled_by_def controller_of_def find_append
      split: if_splits)

lemma sim_owner_law: "owner_law simE sim_secret"
  unfolding owner_law_def
  by (auto simp: sim_secret_def versioned_rv sim_controlled_persisted dest!: sim_set_controller)

lemma sim_laws [simp]: "secret_laws simE sim_secret"
  by (simp add: secret_laws_def sim_read_law sim_delete_law sim_upsert_law sim_owner_law)

lemma sim_put_keeps [simp]:
  "sim_secret (snd (sim_put_sare x w)) = sim_secret w" "sim_secret (snd (sim_put_sapr y w)) = sim_secret w"
  by (simp_all add: sim_put_sare_def sim_put_sapr_def sim_secret_def fun_eq_iff)

lemma sim_others [simp]: "others_keep_secrets simE sim_secret"
  by (simp add: others_keep_secrets_def kept_def)

section \<open>Objects for the witnesses\<close>

definition ex_spec :: sare_spec where
  "ex_spec = \<lparr>srProducer = ''p'', srConsumer = ''c'', srOptional = False, srParams = [],
     srSecretRef = None, srRotation = None\<rparr>"

definition ex_sare :: sare where
  "ex_sare = \<lparr>sareName = ''r'', sareNamespace = ''ns'', sareUID = ''u1'',
     sareLabels = [(''k8s.cloudogu.com/dogu.name'', ''d'')], sareGeneration = 1,
     sareDeletionTimestamp = None, sareFinalizers = [''k8s.cloudogu.com/service-account-request-finalizer''],
     sareSpec = ex_spec, sareStatus = \<lparr>ssConditions = [], ssSecretRef = None, ssLastRotation = None\<rparr>\<rparr>"

definition ex_sapr :: sapr where
  "ex_sapr = \<lparr>saprName = ''p'', saprNamespace = ''ns'', saprUID = ''u2'', saprGeneration = 1,
     saprHTTP = Some \<lparr>hpEndpoint = ''http://p:8080/sa'', hpAuthSecretName = ''auth'', hpAuthSecretKey = ''key'',
       hpReturn = [''user'']\<rparr>,
     saprStatus = \<lparr>psConditions = [], psLastExecution = None\<rparr>\<rparr>"

definition ex_secret :: "string \<Rightarrow> strmap \<Rightarrow> secret" where
  "ex_secret owner data = \<lparr>secName = ''x'', secNamespace = ''ns'', secResourceVersion = ''1'',
     secOwners = (if owner = [] then [] else [\<lparr>orKind = ''ServiceAccountRequest'', orName = ''r'', orUID = owner,
       orController = True\<rparr>]), secData = data, secStringData = None\<rparr>"

definition ex_response :: "int \<Rightarrow> string \<Rightarrow> http_response" where
  "ex_response n body = \<lparr>respCode = n, respStatus = [], respBody = body, respReadErr = None\<rparr>"

text \<open>The secret with the API key, and a producer that answers every request the same way.\<close>

definition ex_world :: "(nname \<times> secret) list \<Rightarrow> http_response res \<Rightarrow> sim" where
  "ex_world secrets answer = \<lparr>simSecrets = (nn ''ns'' ''auth'', ex_secret [] [(''key'', ''K'')]) # secrets,
     simSapr = [(nn ''ns'' ''p'', ex_sapr)], simSares = [(nn ''ns'' ''r'', ex_sare)], simServices = [],
     simNetpols = [], simHttp = (\<lambda>r. answer), simNow = 1000, simDeleteFails = False, simPatchFails = False\<rparr>"

definition ex_st :: "sim \<Rightarrow> sim st" where
  "ex_st w = \<lparr>world = w, heap = (\<lambda>n. ex_sare), next_ptr = 1, watchers = [], tasks = [], trace = []\<rparr>"

lemma ex_st_fields [simp]:
  "world (ex_st w) = w" "heap (ex_st w) p = ex_sare" "next_ptr (ex_st w) = 1" "watchers (ex_st w) = []"
  "tasks (ex_st w) = []" "trace (ex_st w) = []"
  by (simp_all add: ex_st_def)

definition ex_cfg :: operator_config where
  "ex_cfg = \<lparr>cfgNamespace = ''ns'', cfgDeletionTimeout = 500, cfgReconcileInterval = 60,
     cfgNetworkPoliciesEnabled = True, cfgSelectorLabels = []\<rparr>"

end
