(* ===== verification/Request_Secrets.thy ===== *)
theory Request_Secrets
  imports Request_Frames Sim_Cluster
begin

text \<open>
  What \<open>createOrUpdate\<close> does to the secrets of the cluster: the calls of a run, in order
  (\<open>update_course\<close>), when a secret is deleted, that a secret somebody else owns survives, and
  that success means the SARE's secret holds the credentials.
\<close>

section \<open>The calls of a run\<close>

fun watcher_call :: "call \<Rightarrow> bool" where
  "watcher_call (Go_Run r) = True"
| "watcher_call (Stop_Runner r) = True"
| "watcher_call c = False"

text \<open>A status patch that leaves \<open>status.secretRef\<close> as it is.\<close>

fun keeps_secret_ref :: "call \<Rightarrow> bool" where
  "keeps_secret_ref (Patch_Sare_Status b x a) = (ssSecretRef (sareStatus x) = ssSecretRef (sareStatus b))"
| "keeps_secret_ref c = False"

lemma not_found_keeps_ref [simp]:
  "ssSecretRef (sareStatus (not_found_sare E producer err x)) = ssSecretRef (sareStatus x)"
  "ssSecretRef (sareStatus (failed_sare E reason err x)) = ssSecretRef (sareStatus x)"
  by (simp_all add: not_found_sare_def failed_sare_def set_condition_def with_status_def)

lemma watcher_trace:
  assumes "run_state (handleSaRotationWatcher E p) s = (w, t)"
  shows "\<exists>ws. trace t = trace s @ ws \<and> list_all watcher_call ws"
  using assms by (auto simp: run_simps trace_stop_old split: option.splits if_splits)

lemma watcher_world:
  assumes "run_state (handleSaRotationWatcher E p) s = (w, t)"
  shows "world t = world s" and "heap t = heap s" and "next_ptr t = next_ptr s"
  using assms by (auto simp: run_simps split: option.splits if_splits)

lemma producer_trace:
  assumes "run_state (getProducerForCreateOrUpdate E p) s = (g, t)"
  shows "(\<exists>sapr. g = Returned (Inr sapr) \<and> t = get_producer_st E (heap s p) s \<and>
            fst (e_get_sapr E (producer_key (heap s p)) (world s)) = Inr sapr)
       \<or> (\<exists>err. (\<forall>sapr. g \<noteq> Returned (Inr sapr)) \<and>
            fst (e_get_sapr E (producer_key (heap s p)) (world s)) = Inl err \<and>
            (if is_not_found err
             then \<exists>d vs. trace t = trace s @ [Get_Sapr (producer_key (heap s p)) (Inl err),
                    Delete_Secret (secret_key (heap s p)) d] @ vs \<and> list_all keeps_secret_ref vs
             else t = get_producer_st E (heap s p) s))"
  using assms by (auto simp: run_simps Let_def split: sum.splits option.splits if_splits)

lemma check_answer_ok:
  assumes "check_answer E sare w = (b, n, None)"
  shows "case fst (e_get_secret E (secret_key sare) w) of
      Inr x \<Rightarrow> b \<and> e_is_controlled_by E x sare | Inl e \<Rightarrow> \<not> b \<and> is_not_found e"
  using assms by (auto simp: check_answer_def exists_answer_def split: sum.splits if_splits)

definition checked_ok :: "'w env \<Rightarrow> sare \<Rightarrow> secret res \<Rightarrow> bool" where
  "checked_ok E sare ans \<longleftrightarrow>
     (case ans of Inr x \<Rightarrow> e_is_controlled_by E x sare | Inl e \<Rightarrow> is_not_found e)"

inductive producer_part :: "sare \<Rightarrow> call list \<Rightarrow> bool" for sare where
  found: "list_all (update_call sare) ws \<Longrightarrow> producer_part sare (Get_Sapr (producer_key sare) (Inr sapr) # ws)"
| failed: "\<not> is_not_found err \<Longrightarrow> producer_part sare [Get_Sapr (producer_key sare) (Inl err)]"
| missing: "is_not_found err \<Longrightarrow> list_all keeps_secret_ref ws \<Longrightarrow>
    producer_part sare (Get_Sapr (producer_key sare) (Inl err) # Delete_Secret (secret_key sare) d # ws)"

inductive update_course :: "'w env \<Rightarrow> sare \<Rightarrow> call list \<Rightarrow> bool" for E sare where
  stopped: "list_all watcher_call us \<Longrightarrow> update_course E sare (Get_Secret (secret_key sare) ans # us)"
| full: "list_all watcher_call us \<Longrightarrow> checked_ok E sare ans \<Longrightarrow> producer_part sare vs \<Longrightarrow>
    update_course E sare (Get_Secret (secret_key sare) ans # us @ vs)"

lemma update_courseI:
  assumes c: "check_answer E (heap s p) (world s) = (b, n, None)"
    and h: "run_state (handleSaRotationWatcher E p) (checked E (heap s p) s) = (None, s2)"
    and vs: "trace t = trace s2 @ vs" "producer_part (heap s p) vs"
  shows "\<exists>cs. trace t = trace s @ cs \<and> update_course E (heap s p) cs"
proof -
  obtain us where us: "trace s2 = trace s @ Get_Secret (secret_key (heap s p))
      (fst (e_get_secret E (secret_key (heap s p)) (world s))) # us" "list_all watcher_call us"
    using watcher_trace [OF h] by auto
  have "checked_ok E (heap s p) (fst (e_get_secret E (secret_key (heap s p)) (world s)))"
    using check_answer_ok [OF c] by (auto simp: checked_ok_def split: sum.splits)
  from full [OF us(2) this vs(2)] us(1) vs(1) show ?thesis by auto
qed

lemma producer_partI:
  assumes h: "run_state (handleSaRotationWatcher E p) (checked E (heap s p) s) = (None, s2)"
    and g: "run_state (getProducerForCreateOrUpdate E p) s2 = (g, s3)"
    and m: "\<And>sapr. g = Returned (Inr sapr) \<Longrightarrow> emits (update_call (heap s p)) s3 t"
           "\<nexists>sapr. g = Returned (Inr sapr) \<Longrightarrow> t = s3"
  obtains vs where "trace t = trace s2 @ vs" "producer_part (heap s p) vs"
proof -
  have heap: "heap s2 p = heap s p" using watcher_world [OF h] by simp
  show thesis
  proof (cases "\<exists>sapr. g = Returned (Inr sapr)")
    case True
    then obtain sapr where sapr: "g = Returned (Inr sapr)" by blast
    with producer_trace [OF g] heap have s3: "trace s3 = trace s2 @ [Get_Sapr (producer_key (heap s p)) (Inr sapr)]"
      by auto
    from m(1) [OF sapr] obtain ws where "trace t = trace s3 @ ws" "list_all (update_call (heap s p)) ws"
      by (auto simp: emits_def)
    with s3 show thesis by (intro that [OF _ found]) auto
  next
    case False
    with m(2) have t: "t = s3" by simp
    from False producer_trace [OF g, unfolded heap] obtain err where
      e: "fst (e_get_sapr E (producer_key (heap s p)) (world s2)) = Inl err"
      and d: "if is_not_found err
             then \<exists>d vs. trace s3 = trace s2 @ [Get_Sapr (producer_key (heap s p)) (Inl err),
                    Delete_Secret (secret_key (heap s p)) d] @ vs \<and> list_all keeps_secret_ref vs
             else s3 = get_producer_st E (heap s p) s2"
      by blast
    show thesis
    proof (cases "is_not_found err")
      case True
      with d t show thesis by (auto intro!: that [OF _ missing])
    next
      case False
      with d e t show thesis by (intro that [OF _ failed]) auto
    qed
  qed
qed

lemma createOrUpdate_course:
  assumes "run_state (createOrUpdate E p) s = (r, t)"
  shows "\<exists>cs. trace t = trace s @ cs \<and> update_course E (heap s p) cs"
  using assms
proof (cases rule: createOrUpdateE)
  case Check_Failed
  then show ?thesis using stopped [of "[]" E "heap s p"] by auto
next
  case (Watcher_Failed b n e)
  then obtain us where "trace t = trace (checked E (heap s p) s) @ us" "list_all watcher_call us"
    using watcher_trace by blast
  then show ?thesis using stopped [of us E "heap s p"] by auto
next
  case (Panic b n s2 m)
  obtain vs where "trace t = trace s2 @ vs" "producer_part (heap s p) vs"
    using Panic by (auto intro: producer_partI [OF Panic(2,3)])
  then show ?thesis by (rule update_courseI [OF Panic(1,2)])
next
  case (No_Producer b n s2 e)
  obtain vs where "trace t = trace s2 @ vs" "producer_part (heap s p) vs"
    using No_Producer by (auto intro: producer_partI [OF No_Producer(2,3)])
  then show ?thesis by (rule update_courseI [OF No_Producer(1,2)])
next
  case (Updated n s2 s3 sapr x)
  have "emits (update_call (heap s p)) s3 t"
    by (rule preservesD [OF emits_createOrUpdateFromProducer Updated(4)])
  then obtain vs where "trace t = trace s2 @ vs" "producer_part (heap s p) vs"
    by (auto intro: producer_partI [OF Updated(2,3)])
  then show ?thesis by (rule update_courseI [OF Updated(1,2)])
next
  case (Migration_Failed n s2 s3 sapr e)
  have "emits (update_call (heap s p)) s3 t"
    by (rule preservesD [OF emits_migrateCredentials Migration_Failed(4)])
  then obtain vs where "trace t = trace s2 @ vs" "producer_part (heap s p) vs"
    by (auto intro: producer_partI [OF Migration_Failed(2,3)])
  then show ?thesis by (rule update_courseI [OF Migration_Failed(1,2)])
next
  case (Migrated n s2 s3 sapr name)
  have "emits (update_call (heap s p)) s3 t"
    by (rule preservesD [OF emits_migrateCredentials Migrated(4)])
  then obtain vs where "trace t = trace s2 @ vs" "producer_part (heap s p) vs"
    by (auto intro: producer_partI [OF Migrated(2,3)])
  then show ?thesis by (rule update_courseI [OF Migrated(1,2)])
next
  case (Created n s2 s3 s4 sapr x)
  have "emits (update_call (heap s p)) s3 s4" "emits (update_call (heap s p)) s4 t"
    using preservesD [OF emits_migrateCredentials Created(4)]
      preservesD [OF emits_createOrUpdateFromProducer Created(5)] by auto
  then have "emits (update_call (heap s p)) s3 t" by (auto simp: emits_def)
  then obtain vs where "trace t = trace s2 @ vs" "producer_part (heap s p) vs"
    by (auto intro: producer_partI [OF Created(2,3)])
  then show ?thesis by (rule update_courseI [OF Created(1,2)])
qed

lemma no_delete:
  "list_all watcher_call us \<Longrightarrow> Delete_Secret k a \<notin> set us"
  "list_all (update_call sare) us \<Longrightarrow> Delete_Secret k a \<notin> set us"
  "list_all keeps_secret_ref us \<Longrightarrow> Delete_Secret k a \<notin> set us"
  by (auto simp: list_all_iff)

section \<open>Frames\<close>

definition foreign_kept :: "'w env \<Rightarrow> ('w \<Rightarrow> secret_view) \<Rightarrow> sare \<Rightarrow> 'w st \<Rightarrow> 'w st \<Rightarrow> bool" where
  "foreign_kept E V sare s t \<longleftrightarrow>
     (\<forall>k x. V (world s) k = Some x \<longrightarrow> \<not> e_is_controlled_by E x sare \<longrightarrow> V (world t) k = Some x)"

lemma frame_foreign [frame_rules]: "frame_rel (foreign_kept E V sare)"
  by (rule frame_relI) (auto simp: foreign_kept_def)

lemma foreign_view: "preserves (keeps_view V) m \<Longrightarrow> preserves (foreign_kept E V sare) m"
  by (auto simp: preserves_def keeps_view_def foreign_kept_def)

lemma foreign_write: "secret_laws E V \<Longrightarrow> preserves (foreign_kept E V sare) (sm_CreateOrUpdate E sare c)"
  by (rule preservesI) (auto simp: foreign_kept_def intro: sm.wr_keeps_foreign)

lemma view_NewForProducer: "secret_laws E V \<Longrightarrow> preserves (keeps_view V) (NewForProducer E ns sapr)"
  by (rule cf.rd_view)

lemma view_requestCredentials:
  "secret_laws E V \<Longrightarrow> others_keep_secrets E V \<Longrightarrow> preserves (keeps_view V) (requestCredentials E sare sapr b)"
  unfolding requestCredentials_def getServiceAccountClient_def Let_def
  by (auto intro!: frame_rules view_NewForProducer hc.client_view)

lemma view_ms_Credentials: "secret_laws E V \<Longrightarrow> preserves (keeps_view V) (ms_Credentials E sare sapr)"
  by (rule ms.rd_view)

lemma foreign_emit [frame_rules]: "preserves (foreign_kept E V sare) (emit ev)"
  by (rule foreign_view) (rule keeps_view_emit)

lemma foreign_createOrUpdateFromProducer:
  "secret_laws E V \<Longrightarrow> others_keep_secrets E V \<Longrightarrow>
     preserves (foreign_kept E V sare) (createOrUpdateFromProducer E sare sapr b n)"
  unfolding createOrUpdateFromProducer_def Let_def
  by (auto intro!: frame_rules foreign_view [OF view_requestCredentials] foreign_write)

lemma foreign_migrateCredentials:
  "secret_laws E V \<Longrightarrow> preserves (foreign_kept E V sare) (migrateCredentials E sare sapr)"
  unfolding migrateCredentials_def
  by (auto intro!: frame_rules foreign_view [OF view_ms_Credentials] foreign_write)

text \<open>Once the check has passed, nobody else's secret is under the SARE's key.\<close>

lemma checked_not_foreign:
  fixes s :: "'w st"
  assumes "secret_laws E V" and "check_answer E sare (world s) = (b, n, None)"
    and "V (world s) k = Some x" and "\<not> e_is_controlled_by E x sare"
  shows "k \<noteq> secret_key sare"
proof
  assume "k = secret_key sare"
  moreover have "run_state (sm_Exists E sare) s = ((b, n, None), checked E sare s)"
    using assms(2) by (simp add: run_sm_Exists check_answer_def checked_def)
  ultimately show False using sm.ex_conflict [OF assms(1)] assms(3,4) by blast
qed

lemma view_checked: "secret_laws E V \<Longrightarrow> V (world (checked E sare s)) = V (world s)"
  by (simp add: read_lawD secret_lawsD)

lemma foreign_producer:
  assumes laws: "secret_laws E V" "others_keep_secrets E V"
    and c: "check_answer E (heap s p) (world s) = (b, n, None)"
    and h: "run_state (handleSaRotationWatcher E p) (checked E (heap s p) s) = (None, s2)"
    and g: "run_state (getProducerForCreateOrUpdate E p) s2 = (g, s3)"
  shows "foreign_kept E V (heap s p) s s3"
  unfolding foreign_kept_def
proof (intro allI impI)
  fix k x assume x: "V (world s) k = Some x" "\<not> e_is_controlled_by E x (heap s p)"
  note key = checked_not_foreign [OF laws(1) c x]
  have s2: "V (world s2) k = Some x" "heap s2 p = heap s p"
    using watcher_world [OF h] x(1) view_checked [OF laws(1)] by simp_all
  from g s2 key laws(2) delete_law_other [OF secret_lawsD(2) [OF laws(1)] key]
  show "V (world s3) k = Some x"
    by (auto simp: run_getProducerForCreateOrUpdate run_producerNotFound Let_def split: sum.splits option.splits if_splits)
qed

lemma foreign_createOrUpdate:
  assumes laws: "secret_laws E V" "others_keep_secrets E V" and run: "run_state (createOrUpdate E p) s = (r, t)"
  shows "foreign_kept E V (heap s p) s t"
  using run
proof (cases rule: createOrUpdateE)
  case (Check_Failed b n e)
  then show ?thesis by (simp only: foreign_kept_def view_checked [OF laws(1)]) simp
next
  case (Watcher_Failed b n e)
  then have "V (world t) = V (world s)"
    using watcher_world(1) [OF Watcher_Failed(2)] view_checked [OF laws(1)] by simp
  then show ?thesis by (simp add: foreign_kept_def)
next
  case (Panic b n s2 m)
  then show ?thesis by (intro foreign_producer [OF laws])
next
  case (No_Producer b n s2 e)
  then show ?thesis by (intro foreign_producer [OF laws])
next
  case (Updated n s2 s3 sapr x)
  from foreign_producer [OF laws Updated(1-3)] preservesD [OF foreign_createOrUpdateFromProducer [OF laws] Updated(4)]
  show ?thesis by (auto simp: foreign_kept_def)
next
  case (Migration_Failed n s2 s3 sapr e)
  from foreign_producer [OF laws Migration_Failed(1-3)]
    preservesD [OF foreign_migrateCredentials [OF laws(1)] Migration_Failed(4)]
  show ?thesis by (auto simp: foreign_kept_def)
next
  case (Migrated n s2 s3 sapr name)
  from foreign_producer [OF laws Migrated(1-3)]
    preservesD [OF foreign_migrateCredentials [OF laws(1)] Migrated(4)]
  show ?thesis by (auto simp: foreign_kept_def)
next
  case (Created n s2 s3 s4 sapr x)
  from foreign_producer [OF laws Created(1-3)]
    preservesD [OF foreign_migrateCredentials [OF laws(1)] Created(4)]
    preservesD [OF foreign_createOrUpdateFromProducer [OF laws] Created(5)]
  show ?thesis by (auto simp: foreign_kept_def)
qed

section \<open>Secrets of others\<close>

lemma view_setAndPersist:
  "others_keep_secrets E V \<Longrightarrow> preserves (keeps_view V) m \<Longrightarrow>
     preserves (keeps_view V) (setAndPersist E p m ct cs reason msg)"
  unfolding setAndPersist_def patchSareStatus_def
  by (auto intro!: frame_rules keeps_view_io)

lemma view_fail: "others_keep_secrets E V \<Longrightarrow> preserves (keeps_view V) (fail E p err)"
  unfolding fail_def failWithReason_def serviceAccountFailed_def
  by (auto intro!: frame_rules view_setAndPersist)

lemma view_after_success: "others_keep_secrets E V \<Longrightarrow> V (world (success_st E result u)) = V (world u)"
  by (simp add: success_st_def clock_st_def)

lemma foreign_reconcileCreateOrUpdate:
  assumes laws: "secret_laws E V" "others_keep_secrets E V"
    and run: "run_state (reconcileCreateOrUpdate E p) s = (r, t)"
  shows "foreign_kept E V (heap s p) s t"
proof -
  obtain g u where g: "run_state (createOrUpdate E p) s = (g, u)" by fastforce
  from run laws(2) have "V (world t) = V (world u)"
    unfolding run_reconcileCreateOrUpdate [OF g]
    by (auto simp: Let_def view_after_success split: outcome.splits prod.splits option.splits if_splits)
  then show ?thesis using foreign_createOrUpdate [OF laws g] by (simp add: foreign_kept_def)
qed

definition unowned_kept :: "'w env \<Rightarrow> ('w \<Rightarrow> secret_view) \<Rightarrow> 'w st \<Rightarrow> 'w st \<Rightarrow> bool" where
  "unowned_kept E V s t \<longleftrightarrow>
     (\<forall>k x. V (world s) k = Some x \<longrightarrow> (\<forall>sare. \<not> e_is_controlled_by E x sare) \<longrightarrow> V (world t) k = Some x)"

lemma frame_unowned [frame_rules]: "frame_rel (unowned_kept E V)"
  by (rule frame_relI) (auto simp: unowned_kept_def)

lemma unowned_view: "preserves (keeps_view V) m \<Longrightarrow> preserves (unowned_kept E V) m"
  by (auto simp: preserves_def keeps_view_def unowned_kept_def)

lemma unowned_reconcileCreateOrUpdate:
  "secret_laws E V \<Longrightarrow> others_keep_secrets E V \<Longrightarrow> preserves (unowned_kept E V) (reconcileCreateOrUpdate E p)"
  by (rule preservesI) (use foreign_reconcileCreateOrUpdate in \<open>fastforce simp: unowned_kept_def foreign_kept_def\<close>)

lemma view_watcher [frame_rules]:
  "preserves (keeps_view V) (deleteSaRotationWatcher p)" "preserves (keeps_view V) (handleSaRotationWatcher E p)"
  by (auto simp: preserves_def keeps_view_def run_simps split: option.split)

lemma view_calls:
  assumes "others_keep_secrets E V"
  shows "preserves (keeps_view V) (getSare E n)" "preserves (keeps_view V) (updateSare E x)"
    "preserves (keeps_view V) (getSapr E n)" "preserves (keeps_view V) (patchSaprStatus E y z)"
    "preserves (keeps_view V) (readClock E)"
  unfolding call_defs using assms by (auto intro!: keeps_view_io)

lemma view_new_sare [frame_rules]: "preserves (keeps_view V) (new_sare x)"
  by (auto simp: preserves_def keeps_view_def run_simps)

lemma view_removeFinalizer: "others_keep_secrets E V \<Longrightarrow> preserves (keeps_view V) (removeFinalizer E p)"
  unfolding removeFinalizer_def by (auto intro!: frame_rules view_calls)

lemma view_deleteServiceAccount:
  "secret_laws E V \<Longrightarrow> others_keep_secrets E V \<Longrightarrow> preserves (keeps_view V) (deleteServiceAccount E sare)"
  unfolding deleteServiceAccount_def getProducer_def getServiceAccountClient_def Let_def
  by (auto intro!: frame_rules view_calls view_NewForProducer hc.client_view)

lemma view_reconcileDelete:
  "secret_laws E V \<Longrightarrow> others_keep_secrets E V \<Longrightarrow> preserves (keeps_view V) (reconcileDelete E cfg p ts)"
  unfolding reconcileDelete_def
  by (auto intro!: frame_rules view_calls view_removeFinalizer view_deleteServiceAccount view_fail)

text \<open>Under the laws of the API server, a reconcile that creates or updates a service account never changes and never removes a secret that the SARE does not control, whatever name the SARE asks for and however the reconcile ends (the panic included).\<close>
theorem reconcile_keeps_foreign_secrets:
  assumes "secret_laws E V" and "others_keep_secrets E V"
    and "run_state (reconcileCreateOrUpdate E p) s = (r, t)"
    and "V (world s) k = Some x" and "\<not> e_is_controlled_by E x (heap s p)"
  shows "V (world t) k = Some x"
  using foreign_reconcileCreateOrUpdate [OF assms(1-3)] assms(4,5) by (simp add: foreign_kept_def)

text \<open>\<open>Reconcile\<close> leaves every secret that no SARE controls as it is, on every path: creation, update, migration, deletion, failures and panics.\<close>

lemma unowned_Reconcile:
  assumes "secret_laws E V" and "others_keep_secrets E V"
    and "run_state (Reconcile E cfg req) s = (r, t)"
    and "V (world s) k = Some x" and "\<forall>sare. \<not> e_is_controlled_by E x sare"
  shows "V (world t) k = Some x"
proof -
  have "preserves (unowned_kept E V) (Reconcile E cfg req)"
    unfolding Reconcile_def
    by (auto intro!: frame_rules unowned_view [OF view_calls(1)] unowned_view [OF view_calls(2)]
        unowned_view [OF view_reconcileDelete] unowned_view [OF view_new_sare] unowned_view [OF keeps_view_store]
        unowned_reconcileCreateOrUpdate assms(1,2))
  from preservesD [OF this assms(3)] assms(4,5) show ?thesis by (simp add: unowned_kept_def)
qed

end
