(* ===== verification/Request_Outcome.thy ===== *)
theory Request_Outcome
  imports Request_Secrets
begin

text \<open>
  What the results of \<open>createOrUpdate\<close> and \<open>reconcileCreateOrUpdate\<close> mean: the secret behind
  each outcome, the one request a run sends, when the run panics, and what the status says.
\<close>

section \<open>What success means\<close>

lemma wf_update: "wf_map m \<Longrightarrow> wf_map (AList.update k v m)"
  by (simp add: wf_map_def distinct_update)

lemma store_members_wf: "store_members kvs m = Inr c \<Longrightarrow> wf_map m \<Longrightarrow> wf_map c"
  by (induction kvs m rule: store_members.induct) (auto intro: wf_update)

lemma decode_wf: "decode_strmap body err = Inr (Some c) \<Longrightarrow> wf_map c"
proof -
  assume "decode_strmap body err = Inr (Some c)"
  then obtain v where "store_strmap v = Inr (Some c)"
    by (auto simp: decode_strmap_def simp del: scan_value.simps split: option.splits if_splits)
  then show "wf_map c"
    by (cases v) (auto dest: store_members_wf simp: wf_map_def map_sum_def split: sum.splits)
qed

lemma collect_wf: "wf_map m \<Longrightarrow> wf_map (collect_credentials prefix data m)"
  by (induction prefix data m rule: collect_credentials.induct) (auto intro: wf_update split: option.splits)

definition accepted :: "http_response \<Rightarrow> strmap option \<Rightarrow> bool" where
  "accepted resp c \<longleftrightarrow> (if respCode resp = 204 then c = None
     else respCode resp \<in> {200, 201} \<and> decode_strmap (respBody resp) (respReadErr resp) = Inr c)"

lemma create_status_accepted: "create_status cl resp = Inr c \<Longrightarrow> accepted resp c"
  by (auto simp: create_status_def accepted_def split: if_splits sum.splits)

definition put_request :: "http_producer \<Rightarrow> string \<Rightarrow> sare \<Rightarrow> bool \<Rightarrow> http_request" where
  "put_request http apiKey sare secretExists = \<lparr>hrMethod = ''PUT'', hrUrl = hpEndpoint http,
     hrHeaders = [(''Content-Type'', ''application/json''), (''X-CES-SA-API-KEY'', apiKey)],
     hrBody = marshal_body \<lparr>rbConsumer = srConsumer (sareSpec sare), rbParams = srParams (sareSpec sare),
       rbBehaviorParams = \<lparr>bpRotateServiceAccountNow = \<not> secretExists\<rparr>\<rparr>\<rparr>"

text \<open>The producer's API key is read, then one request is sent.\<close>

lemma requestCredentials_calls:
  assumes "run_state (requestCredentials E sare sapr b) s = (r, t)"
  shows "\<exists>cs. trace t = trace s @ cs \<and>
     ((\<exists>e. r = Inl e) \<and> (cs = [] \<or> (\<exists>n a. cs = [Get_Secret n a])) \<or>
      (\<exists>http secret apiKey a. saprHTTP sapr = Some http \<and>
         map_of (secData secret) (hpAuthSecretKey http) = Some apiKey \<and>
         cs = [Get_Secret (nn (sareNamespace sare) (hpAuthSecretName http)) (Inr secret),
               Http_Do (put_request http apiKey sare b) a] \<and>
         (\<forall>c. r = Inr c \<longrightarrow> (\<exists>resp. a = Inr resp \<and> accepted resp c))))"
  using assms
  by (auto simp: requestCredentials_def getServiceAccountClient_def run_simps newRequest_Inr put_request_def
      apiKeyHeader_def Let_def split: sum.splits option.splits dest: create_status_accepted)

lemma requestCredentials_ok:
  assumes "run_state (requestCredentials E sare sapr b) s = (Inr c, t)"
  shows "\<exists>req resp. Http_Do req (Inr resp) \<in> set (new_calls s t) \<and> hrMethod req = ''PUT'' \<and> accepted resp c"
  using requestCredentials_calls [OF assms] by (force simp: new_calls_def put_request_def)

lemma process_of: "preserves same_process m \<Longrightarrow> run_state m s = (a, t) \<Longrightarrow> heap t = heap s"
  by (auto dest: preservesD simp: same_process_def)

text \<open>The secret holds credentials that the producer has just answered.\<close>

definition stored_from_producer :: "'w env \<Rightarrow> ('w \<Rightarrow> secret_view) \<Rightarrow> sare \<Rightarrow> 'w st \<Rightarrow> 'w st \<Rightarrow> bool" where
  "stored_from_producer E V sare s t \<longleftrightarrow>
     (\<exists>x c req resp. V (world t) (secret_key sare) = Some x \<and> e_is_controlled_by E x sare \<and> serves x c \<and>
        updated_with (V (world s) (secret_key sare)) c x \<and>
        Http_Do req (Inr resp) \<in> set (new_calls s t) \<and> hrMethod req = ''PUT'' \<and> accepted resp (Some c))"

lemma createOrUpdateFromProducer_ok:
  assumes laws: "secret_laws E V" "others_keep_secrets E V"
    and run: "run_state (createOrUpdateFromProducer E sare sapr b n) s = ((res, None), t)"
  shows "(cuOutcome res = OutcomeRotated \<and> cuSecretName res = resolveSecretName sare \<and> stored_from_producer E V sare s t) \<or>
    (cuOutcome res = OutcomeUnchanged \<and> cuSecretName res = n \<and> V (world t) = V (world s) \<and>
       (\<exists>req resp. Http_Do req (Inr resp) \<in> set (new_calls s t) \<and> hrMethod req = ''PUT'' \<and> accepted resp None))"
proof -
  obtain r u where r: "run_state (requestCredentials E sare sapr b) s = (r, u)" by fastforce
  have view: "V (world u) = V (world s)"
    using preservesD [OF view_requestCredentials [OF laws] r] by (simp add: keeps_view_def)
  show ?thesis
  proof (cases r)
    case (Inl e)
    with r run show ?thesis by (simp add: createOrUpdateFromProducer_def)
  next
    case (Inr c)
    note ok = requestCredentials_ok [OF r [unfolded Inr]]
    show ?thesis
    proof (cases c)
      case None
      with Inr r run ok view show ?thesis by (auto simp: createOrUpdateFromProducer_def)
    next
      case (Some creds)
      obtain w v where w: "run_state (sm_CreateOrUpdate E sare creds) u = (w, v)" by fastforce
      with Some Inr r run obtain name where name: "w = Inr name" "res = \<lparr>cuSecretName = name, cuOutcome = OutcomeRotated\<rparr>"
        and t: "world t = world v" "\<exists>ev. trace t = trace v @ [ev]"
        by (cases w) (auto simp: createOrUpdateFromProducer_def Let_def run_simps)
      from sm_CreateOrUpdate_law [OF laws(1) w] name obtain x where
        x: "V (world v) (secret_key sare) = Some x" "e_is_controlled_by E x sare"
          "wf_map creds \<longrightarrow> serves x creds \<and> updated_with (V (world s) (secret_key sare)) creds x"
        and n: "name = resolveSecretName sare"
        using view by (auto simp: secret_key_def)
      from ok Some obtain req resp where
        req: "Http_Do req (Inr resp) \<in> set (new_calls s u)" "hrMethod req = ''PUT''" "accepted resp (Some creds)" by auto
      from req(3) have "wf_map creds" by (auto simp: accepted_def split: if_splits dest: decode_wf)
      moreover obtain cs where "trace u = trace s @ cs"
        using requestCredentials_calls [OF r] by (elim exE conjE) (rule that)
      moreover obtain ds where "trace v = trace u @ ds"
        using preservesD [OF emits_sm_CreateOrUpdate w] by (auto simp: emits_def)
      ultimately have "stored_from_producer E V sare s t"
        using x req t unfolding stored_from_producer_def new_calls_def by fastforce
      with name n show ?thesis by auto
    qed
  qed
qed


text \<open>The secret holds what the migration secret of the consumer dogu contained.\<close>

definition stored_from_migration :: "'w env \<Rightarrow> ('w \<Rightarrow> secret_view) \<Rightarrow> sare \<Rightarrow> 'w st \<Rightarrow> 'w st \<Rightarrow> bool" where
  "stored_from_migration E V sare s t \<longleftrightarrow>
     (\<exists>x m. V (world s) (nn (sareNamespace sare) (MigrationSecretName sare)) = Some m \<and>
        V (world t) (secret_key sare) = Some x \<and> e_is_controlled_by E x sare \<and>
        collect_credentials (migration_prefix sare) (secData m) [] \<noteq> [] \<and>
        serves x (collect_credentials (migration_prefix sare) (secData m) []) \<and>
        updated_with (V (world s) (secret_key sare)) (collect_credentials (migration_prefix sare) (secData m) []) x)"

lemma ms_Credentials_ok:
  assumes laws: "secret_laws E V" and run: "run_state (ms_Credentials E sare sapr) s = (Inr (Some c), t)"
  shows "c \<noteq> [] \<and> V (world t) = V (world s) \<and> MigrationSecretName sare \<noteq> [] \<and>
    (\<exists>m. V (world s) (nn (sareNamespace sare) (MigrationSecretName sare)) = Some m \<and>
       c = collect_credentials (migration_prefix sare) (secData m) [])"
  using run read_lawD [OF secret_lawsD(1) [OF laws]]
  by (auto simp: ms_Credentials_def Let_def getSecret_def run_io migrated_credentials_def split: if_splits sum.splits)

lemma migrateCredentials_ok:
  assumes laws: "secret_laws E V" and run: "run_state (migrateCredentials E sare sapr) s = (Inr name, t)"
  shows "if name = [] then V (world t) = V (world s) \<or> resolveSecretName sare = []
    else name = resolveSecretName sare \<and> stored_from_migration E V sare s t"
proof -
  obtain r u where r: "run_state (ms_Credentials E sare sapr) s = (r, u)" by fastforce
  have view: "V (world u) = V (world s)"
    using preservesD [OF view_ms_Credentials [OF laws] r] by (simp add: keeps_view_def)
  show ?thesis
  proof (cases "\<exists>c. r = Inr (Some c)")
    case False
    with r run view show ?thesis
      by (auto simp: migrateCredentials_def run_simps split: sum.splits option.splits prod.splits if_splits)
  next
    case True
    then obtain c where c: "r = Inr (Some c)" by blast
    obtain w v where w: "run_state (sm_CreateOrUpdate E sare c) u = (w, v)" by fastforce
    with c r run have name: "w = Inr name" and t: "world t = world v"
      by (auto simp: migrateCredentials_def run_simps split: sum.splits)
    from sm_CreateOrUpdate_law [OF laws w] name obtain x where
      x: "V (world v) (secret_key sare) = Some x" "e_is_controlled_by E x sare"
        "wf_map c \<longrightarrow> serves x c \<and> updated_with (V (world s) (secret_key sare)) c x"
      and n: "name = resolveSecretName sare" using view by (auto simp: secret_key_def)
    from ms_Credentials_ok [OF laws r [unfolded c]] x collect_wf [of "[]" "migration_prefix sare"] t
    have "stored_from_migration E V sare s t" by (auto simp: stored_from_migration_def wf_map_def)
    with n show ?thesis by auto
  qed
qed


lemma course_prefix:
  assumes h: "run_state (handleSaRotationWatcher E p) (checked E (heap s p) s) = (None, s2)"
    and g: "run_state (getProducerForCreateOrUpdate E p) s2 = (Returned (Inr sapr), s3)"
    and laws: "secret_laws E V" "others_keep_secrets E V"
  shows "V (world s3) = V (world s)" and "\<exists>cs. trace s3 = trace s @ cs"
proof -
  have s3: "s3 = get_producer_st E (heap s2 p) s2" using producer_trace [OF g] by auto
  show "V (world s3) = V (world s)"
    using watcher_world [OF h] view_checked [OF laws(1)] laws(2) by (simp add: s3)
  show "\<exists>cs. trace s3 = trace s @ cs" using watcher_trace [OF h] by (auto simp: s3)
qed

lemma new_calls_mono: "trace u = trace s @ cs \<Longrightarrow> trace t = trace u @ ds \<Longrightarrow> set (new_calls u t) \<subseteq> set (new_calls s t)"
  by (auto simp: new_calls_def)

lemma stored_from_producer_mono:
  assumes "stored_from_producer E V sare u t" and "trace u = trace s @ cs" and "trace t = trace u @ ds"
    and "V (world u) = V (world s)"
  shows "stored_from_producer E V sare s t"
  using assms(1) new_calls_mono [OF assms(2,3)] unfolding stored_from_producer_def assms(4) by blast

definition unchanged_answer :: "'w st \<Rightarrow> 'w st \<Rightarrow> bool" where
  "unchanged_answer s t \<longleftrightarrow>
     (\<exists>req resp. Http_Do req (Inr resp) \<in> set (new_calls s t) \<and> hrMethod req = ''PUT'' \<and> accepted resp None)"

lemma from_producer_ok:
  assumes laws: "secret_laws E V" "others_keep_secrets E V"
    and run: "run_state (createOrUpdateFromProducer E sare sapr b n) u = ((res, None), t)"
    and pre: "V (world u) = V (world s)" "trace u = trace s @ cs"
  shows "(cuOutcome res = OutcomeRotated \<and> cuSecretName res = resolveSecretName sare \<and> stored_from_producer E V sare s t) \<or>
    (cuOutcome res = OutcomeUnchanged \<and> cuSecretName res = n \<and> V (world t) = V (world s) \<and> unchanged_answer s t)"
proof -
  obtain ds where "trace t = trace u @ ds"
    using preservesD [OF emits_createOrUpdateFromProducer run] by (auto simp: emits_def)
  note mono = new_calls_mono [OF pre(2) this] stored_from_producer_mono [OF _ pre(2) this pre(1)]
  from createOrUpdateFromProducer_ok [OF laws run] show ?thesis
  proof (elim disjE conjE exE, goal_cases)
    case 1
    then show ?case using mono(2) by simp
  next
    case (2 req resp)
    then show ?case using mono(1) pre(1) by (auto simp: unchanged_answer_def)
  qed
qed

lemma check_answer_name: "check_answer E sare w = (b, n, None) \<Longrightarrow> n = resolveSecretName sare"
  by (auto simp: check_answer_def exists_answer_def split: sum.splits if_splits)

lemma check_answer_absent:
  "secret_laws E V \<Longrightarrow> check_answer E sare w = (False, n, None) \<Longrightarrow> V w (secret_key sare) = None"
  using read_lawD(3) [OF secret_lawsD(1)] by (auto simp: check_answer_def exists_answer_def split: sum.splits if_splits)

lemma createOrUpdate_ok:
  assumes laws: "secret_laws E V" "others_keep_secrets E V" and named: "sareName (heap s p) \<noteq> []"
    and run: "run_state (createOrUpdate E p) s = (Returned (res, None), t)"
  shows "case cuOutcome res of
      OutcomeRotated \<Rightarrow> cuSecretName res = resolveSecretName (heap s p) \<and> stored_from_producer E V (heap s p) s t
    | OutcomeMigrated \<Rightarrow> cuSecretName res = resolveSecretName (heap s p) \<and> stored_from_migration E V (heap s p) s t \<and>
        V (world s) (secret_key (heap s p)) = None
    | OutcomeUnchanged \<Rightarrow> cuSecretName res = resolveSecretName (heap s p) \<and> V (world t) = V (world s) \<and> unchanged_answer s t
    | OutcomeAborted \<Rightarrow> srOptional (sareSpec (heap s p)) \<and> V (world t) (secret_key (heap s p)) = None"
  using run
proof (cases rule: createOrUpdateE)
  case (No_Producer b n s2 e)
  have heap: "heap s2 p = heap s p" using watcher_world [OF No_Producer(2)] by simp
  from No_Producer have e: "e = None" "cuOutcome res = OutcomeAborted" by (auto simp: abortedCreateOrUpdate_def)
  define u where "u = get_producer_st E (heap s p) s2"
  from No_Producer(3) e have u: "run_state (sm_Delete E (heap s p)) u = (None, delete_st E (heap s p) u)"
    and t: "V (world t) = V (world (delete_st E (heap s p) u))" and opt: "srOptional (sareSpec (heap s p))"
    using laws(2) by (auto simp: run_getProducerForCreateOrUpdate run_producerNotFound run_sm_Delete delete_st_def
        u_def heap Let_def split: sum.splits option.splits if_splits)
  from sm_Delete_law [OF laws(1) u] t opt e show ?thesis by simp
next
  case (Updated n s2 s3 sapr x)
  note pre = course_prefix [OF Updated(2,3) laws]
  from pre(2) obtain cs where cs: "trace s3 = trace s @ cs" by blast
  from Updated(4,5) have r: "run_state (createOrUpdateFromProducer E (heap s p) sapr True n) s3 = ((res, None), t)" by simp
  from from_producer_ok [OF laws r pre(1) cs] check_answer_name [OF Updated(1)] show ?thesis by auto
next
  case (Migrated n s2 s3 sapr name)
  note pre = course_prefix [OF Migrated(2,3) laws]
  from migrateCredentials_ok [OF laws(1) Migrated(4)] Migrated(5,6) pre(1) check_answer_absent [OF laws(1) Migrated(1)]
  show ?thesis by (auto simp: stored_from_migration_def)
next
  case (Created n s2 s3 s4 sapr x)
  note pre = course_prefix [OF Created(2,3) laws]
  from named have "resolveSecretName (heap s p) \<noteq> []" by (auto simp: resolveSecretName_def split: option.splits)
  with migrateCredentials_ok [OF laws(1) Created(4)] pre(1) have v: "V (world s4) = V (world s)" by simp
  from pre(2) obtain cs where cs: "trace s3 = trace s @ cs" by blast
  obtain ds where "trace s4 = trace s3 @ ds"
    using preservesD [OF emits_migrateCredentials Created(4)] by (auto simp: emits_def)
  with cs have cs4: "trace s4 = trace s @ cs @ ds" by simp
  from Created(5,6) have r: "run_state (createOrUpdateFromProducer E (heap s p) sapr False n) s4 = ((res, None), t)" by simp
  from from_producer_ok [OF laws r v cs4] check_answer_name [OF Created(1)] show ?thesis by auto
qed (auto simp: abortedCreateOrUpdate_def)

text \<open>C10: what a run of \<open>createOrUpdate\<close> without error has achieved for a SARE with a name, per outcome, when the API server obeys its laws for secrets (a call about anything else leaves them alone). Rotated: the SARE's secret exists, is controlled by the SARE and contains every value the producer answered to the PUT of this run; its data is the data it had before the run, overwritten by these values, so it holds exactly these values when it is new, and an existing secret keeps the keys that the answer does not name. Migrated: it exists, is controlled by the SARE and contains the values of the migration secret, prefix removed, and nothing else: there was no secret before. Unchanged: no secret was touched and the producer answered 204 or null. Aborted without an error: the SARE marks its producer as optional and its secret is gone.\<close>
theorem createOrUpdate_success:
  assumes laws: "secret_laws E V" "others_keep_secrets E V" and named: "sareName (heap s p) \<noteq> []"
    and run: "run_state (createOrUpdate E p) s = (Returned (res, None), t)"
  shows "case cuOutcome res of
      OutcomeRotated \<Rightarrow> cuSecretName res = resolveSecretName (heap s p) \<and> stored_from_producer E V (heap s p) s t
    | OutcomeMigrated \<Rightarrow> cuSecretName res = resolveSecretName (heap s p) \<and> stored_from_migration E V (heap s p) s t \<and>
        V (world s) (secret_key (heap s p)) = None
    | OutcomeUnchanged \<Rightarrow> cuSecretName res = resolveSecretName (heap s p) \<and> V (world t) = V (world s) \<and> unchanged_answer s t
    | OutcomeAborted \<Rightarrow> srOptional (sareSpec (heap s p)) \<and> V (world t) (secret_key (heap s p)) = None"
  using createOrUpdate_ok [OF laws named run] .

section \<open>When it panics\<close>

lemma panic_producer:
  assumes "run_state (getProducerForCreateOrUpdate E p) s = (g, t)"
  shows "is_panic g \<longleftrightarrow>
    (\<exists>err e. fst (e_get_sapr E (producer_key (heap s p)) (world s)) = Inl err \<and> is_not_found err \<and>
       fst (e_delete_secret E (secret_key (heap s p)) (snd (e_get_sapr E (producer_key (heap s p)) (world s)))) = Some e \<and>
       \<not> is_not_found e)"
  using assms
  by (auto simp: run_getProducerForCreateOrUpdate Let_def delete_answer_def run_producerNotFound
      split: sum.splits option.splits if_splits)

lemma watcher_ok:
  assumes "run_state (handleSaRotationWatcher E p) s = (w, t)"
  shows "w = None \<longleftrightarrow> (\<forall>expr. rotation_expr (heap s p) = Some expr \<longrightarrow> e_cron_is_valid E expr)"
  using assms by (auto simp: run_handleSaRotationWatcher split: option.splits if_splits)

text \<open>C11: the nil-pointer panic of \<open>createOrUpdate\<close> happens exactly when the secret check passes, the rotation expression (if rotation is enabled) is valid, the producer lookup answers NotFound and the deletion of the secret then fails with anything but NotFound. In every other case the function returns.\<close>
theorem createOrUpdate_panics_iff:
  "is_panic (fst (run_state (createOrUpdate E p) s)) \<longleftrightarrow>
     (let sare = heap s p;
          w1 = snd (e_get_secret E (secret_key sare) (world s));
          w2 = snd (e_get_sapr E (producer_key sare) w1) in
      checked_ok E sare (fst (e_get_secret E (secret_key sare) (world s))) \<and>
      (case rotation_expr sare of None \<Rightarrow> True | Some expr \<Rightarrow> e_cron_is_valid E expr) \<and>
      (\<exists>err. fst (e_get_sapr E (producer_key sare) w1) = Inl err \<and> is_not_found err) \<and>
      (\<exists>e. fst (e_delete_secret E (secret_key sare) w2) = Some e \<and> \<not> is_not_found e))"
proof -
  obtain r t where run: "run_state (createOrUpdate E p) s = (r, t)" by fastforce
  let ?sare = "heap s p" let ?s1 = "checked E ?sare s"
  have ok: "(\<exists>b n. check_answer E ?sare (world s) = (b, n, None)) \<longleftrightarrow>
      checked_ok E ?sare (fst (e_get_secret E (secret_key ?sare) (world s)))"
    by (auto simp: check_answer_def exists_answer_def checked_ok_def split: sum.splits)
  obtain we s2 where h: "run_state (handleSaRotationWatcher E p) ?s1 = (we, s2)" by fastforce
  have w: "(case rotation_expr ?sare of None \<Rightarrow> True | Some expr \<Rightarrow> e_cron_is_valid E expr) \<longleftrightarrow> we = None"
    using watcher_ok [OF h] by (auto split: option.splits)
  note ws = watcher_world [OF h]
  have pan: "is_panic g \<longleftrightarrow>
      (\<exists>err e. fst (e_get_sapr E (producer_key ?sare) (world ?s1)) = Inl err \<and> is_not_found err \<and>
       fst (e_delete_secret E (secret_key ?sare) (snd (e_get_sapr E (producer_key ?sare) (world ?s1)))) = Some e \<and>
       \<not> is_not_found e)" if "run_state (getProducerForCreateOrUpdate E p) s2 = (g, s3)" for g s3
    using panic_producer [OF that] ws by simp
  from run show ?thesis
  proof (cases rule: createOrUpdateE)
    case (Check_Failed b n e)
    with ok run show ?thesis by (auto simp: Let_def)
  next
    case (Watcher_Failed b n e)
    with w h run show ?thesis by (auto simp: Let_def)
  next
    case (Panic b n s2' m)
    with ok w h run pan [of "Panicked m" t] show ?thesis by (auto simp: Let_def)
  next
    case (No_Producer b n s2' e)
    with h run pan [of "Returned (Inl e)" t] show ?thesis by (auto simp: Let_def)
  next
    case (Updated n s2' s3 sapr x)
    with h run pan [of "Returned (Inr sapr)" s3] show ?thesis by (auto simp: Let_def)
  next
    case (Migration_Failed n s2' s3 sapr e)
    with h run pan [of "Returned (Inr sapr)" s3] show ?thesis by (auto simp: Let_def)
  next
    case (Migrated n s2' s3 sapr name)
    with h run pan [of "Returned (Inr sapr)" s3] show ?thesis by (auto simp: Let_def)
  next
    case (Created n s2' s3 s4 sapr x)
    with h run pan [of "Returned (Inr sapr)" s3] show ?thesis by (auto simp: Let_def)
  qed
qed

section \<open>The request a run sends\<close>

lemma not_http:
  "watcher_call c \<Longrightarrow> \<not> is_http c" "keeps_secret_ref c \<Longrightarrow> \<not> is_http c"
  by (cases c; simp)+

definition silent :: "'w st \<Rightarrow> 'w st \<Rightarrow> bool" where
  "silent s t \<longleftrightarrow> (\<exists>cs. trace t = trace s @ cs \<and> filter is_http cs = [])"

lemma frame_silent [frame_rules]: "frame_rel silent"
  by (rule frame_relI) (force simp: silent_def)+

lemma silent_emits: "emits (\<lambda>c. \<not> is_http c) s t \<Longrightarrow> silent s t"
  by (auto simp: emits_def silent_def list_all_iff filter_empty_conv)

lemma silent_trans: "silent s t \<Longrightarrow> silent t u \<Longrightarrow> silent s u"
  unfolding silent_def by force

lemma silent_new_calls: "silent s t \<Longrightarrow> filter is_http (new_calls s t) = []"
  by (auto simp: silent_def new_calls_def)

lemma silent_before:
  "run_state (handleSaRotationWatcher E p) (checked E sare s) = (w, t) \<Longrightarrow> silent s t"
  using watcher_trace [of E p "checked E sare s" w t]
  by (auto simp: silent_def filter_empty_conv list_all_iff not_http)

lemma silent_no_producer:
  "run_state (getProducerForCreateOrUpdate E p) s = (g, t) \<Longrightarrow> \<forall>sapr. g \<noteq> Returned (Inr sapr) \<Longrightarrow> silent s t"
  using producer_trace [of E p s g t]
  by (auto simp: silent_def filter_empty_conv list_all_iff not_http split: if_splits)

lemma silent_migrateCredentials: "run_state (migrateCredentials E sare sapr) s = (m, t) \<Longrightarrow> silent s t"
proof (rule silent_emits, erule preservesD [rotated])
  show "preserves (emits (\<lambda>c. \<not> is_http c)) (migrateCredentials E sare sapr)"
    unfolding migrateCredentials_def by (auto intro!: frame_rules sm.calls_law ms.reader_emits)
qed

lemma silent_producer: "run_state (getProducerForCreateOrUpdate E p) s = (Returned (Inr sapr), t) \<Longrightarrow>
    trace t = trace s @ [Get_Sapr (producer_key (heap s p)) (Inr sapr)]"
  using producer_trace [of E p s "Returned (Inr sapr)" t] by auto

definition one_request :: "sare \<Rightarrow> sapr \<Rightarrow> bool \<Rightarrow> call list \<Rightarrow> bool" where
  "one_request sare sapr secretExists cs \<longleftrightarrow> filter is_http cs = [] \<or>
     (\<exists>http secret apiKey a. saprHTTP sapr = Some http \<and>
        read_before (Get_Secret (nn (sareNamespace sare) (hpAuthSecretName http)) (Inr secret)) cs \<and>
        map_of (secData secret) (hpAuthSecretKey http) = Some apiKey \<and>
        filter is_http cs = [Http_Do (put_request http apiKey sare secretExists) a])"

lemma one_request_grow:
  "one_request sare sapr b cs \<Longrightarrow> filter is_http us = [] \<Longrightarrow> filter is_http vs = [] \<Longrightarrow>
     one_request sare sapr b (us @ cs @ vs)"
  unfolding one_request_def by (elim disjE exE conjE) (use read_before_grow in \<open>fastforce+\<close>)

lemma one_request_none: "filter is_http cs = [] \<Longrightarrow> one_request sare sapr b cs"
  by (simp add: one_request_def)

lemma one_request_exchange:
  "saprHTTP sapr = Some http \<Longrightarrow> map_of (secData secret) (hpAuthSecretKey http) = Some apiKey \<Longrightarrow>
     one_request sare sapr b [Get_Secret (nn (sareNamespace sare) (hpAuthSecretName http)) (Inr secret),
       Http_Do (put_request http apiKey sare b) a]"
  unfolding one_request_def
  by (intro disjI2 exI [of _ http] exI [of _ secret] exI [of _ apiKey] exI [of _ a] conjI) simp_all

lemma createOrUpdateFromProducer_request:
  assumes "run_state (createOrUpdateFromProducer E sare sapr b n) s = (x, t)"
  shows "\<exists>cs. trace t = trace s @ cs \<and> one_request sare sapr b cs"
proof -
  obtain r u where r: "run_state (requestCredentials E sare sapr b) s = (r, u)" by fastforce
  then have "\<exists>cs. trace u = trace s @ cs \<and> one_request sare sapr b cs"
    using requestCredentials_calls [OF r]
    by (elim exE conjE disjE) (auto intro!: one_request_exchange intro: one_request_none)
  then obtain cs where cs: "trace u = trace s @ cs" "one_request sare sapr b cs" by blast
  moreover have "silent u t"
    using assms r by (auto simp: createOrUpdateFromProducer_def Let_def run_simps silent_def
        split: sum.splits option.splits prod.splits)
  ultimately show ?thesis
    using one_request_grow [of sare sapr b cs "[]"] by (fastforce simp: silent_def)
qed

lemma request_of_course:
  assumes c: "check_answer E (heap s p) (world s) = (b, n, None)"
    and h: "run_state (handleSaRotationWatcher E p) (checked E (heap s p) s) = (None, s2)"
    and g: "run_state (getProducerForCreateOrUpdate E p) s2 = (Returned (Inr sapr), s3)"
    and q: "silent s3 s4" "\<exists>cs. trace t = trace s4 @ cs \<and> one_request (heap s p) sapr b cs"
  shows "\<exists>cs. trace t = trace s @ cs \<and>
    read_before (Get_Secret (secret_key (heap s p)) (fst (e_get_secret E (secret_key (heap s p)) (world s)))) cs \<and>
    read_before (Get_Sapr (producer_key (heap s p)) (Inr sapr)) cs \<and> one_request (heap s p) sapr b cs"
proof -
  obtain us where us: "trace s2 = trace (checked E (heap s p) s) @ us" "list_all watcher_call us"
    using watcher_trace [OF h] by blast
  have "heap s2 p = heap s p" using watcher_world [OF h] by simp
  with silent_producer [OF g] have s3: "trace s3 = trace s2 @ [Get_Sapr (producer_key (heap s p)) (Inr sapr)]" by simp
  from q obtain vs cs where s4: "trace s4 = trace s3 @ vs" "filter is_http vs = []"
    and cs: "trace t = trace s4 @ cs" "one_request (heap s p) sapr b cs" by (auto simp: silent_def)
  let ?us = "Get_Secret (secret_key (heap s p)) (fst (e_get_secret E (secret_key (heap s p)) (world s))) # us"
  let ?as = "?us @ [Get_Sapr (producer_key (heap s p)) (Inr sapr)] @ vs"
  have us': "filter is_http ?us = []" using us(2) by (auto simp: filter_empty_conv list_all_iff not_http)
  with s4(2) have "filter is_http ?as = []" by simp
  from one_request_grow [OF cs(2) this, of "[]"] read_beforeI [OF _ us', of "?as @ cs"] us s3 s4 cs show ?thesis
    by (intro exI [of _ "?as @ cs"]) auto
qed

lemma createOrUpdate_one_request:
  assumes run: "run_state (createOrUpdate E p) s = (r, t)"
  defines "ans \<equiv> fst (e_get_secret E (secret_key (heap s p)) (world s))"
  shows "filter is_http (new_calls s t) = [] \<or>
    checked_ok E (heap s p) ans \<and> read_before (Get_Secret (secret_key (heap s p)) ans) (new_calls s t) \<and>
    (\<exists>sapr. read_before (Get_Sapr (producer_key (heap s p)) (Inr sapr)) (new_calls s t) \<and>
       one_request (heap s p) sapr (\<exists>x. ans = Inr x) (new_calls s t))"
proof -
  have conclude: ?thesis if c: "check_answer E (heap s p) (world s) = (b, n, None)"
    and q: "\<exists>cs. trace t = trace s @ cs \<and> read_before (Get_Secret (secret_key (heap s p)) ans) cs \<and>
      read_before (Get_Sapr (producer_key (heap s p)) (Inr sapr)) cs \<and> one_request (heap s p) sapr b cs" for b n sapr
  proof -
    have b: "b = (\<exists>x. ans = Inr x)" and ok: "checked_ok E (heap s p) ans"
      using check_answer_ok [OF c] unfolding ans_def checked_ok_def by (auto split: sum.splits)
    with q show ?thesis by (auto simp: new_calls_append)
  qed
  show ?thesis
    using run
  proof (cases rule: createOrUpdateE)
    case (Updated n s2 s3 sapr x)
    show ?thesis
      by (rule conclude [OF Updated(1)], unfold ans_def, rule request_of_course [OF Updated(1-3), of s3])
        (use createOrUpdateFromProducer_request [OF Updated(4)] in \<open>auto simp: silent_def\<close>)
  next
    case (Migration_Failed n s2 s3 sapr e)
    show ?thesis
      by (rule conclude [OF Migration_Failed(1)], unfold ans_def, rule request_of_course [OF Migration_Failed(1-3), of t])
        (use silent_migrateCredentials [OF Migration_Failed(4)] in \<open>auto simp: one_request_def\<close>)
  next
    case (Migrated n s2 s3 sapr name)
    show ?thesis
      by (rule conclude [OF Migrated(1)], unfold ans_def, rule request_of_course [OF Migrated(1-3), of t])
        (use silent_migrateCredentials [OF Migrated(4)] in \<open>auto simp: one_request_def\<close>)
  next
    case (Created n s2 s3 s4 sapr x)
    show ?thesis
      by (rule conclude [OF Created(1)], unfold ans_def, rule request_of_course [OF Created(1-3), of s4])
        (use silent_migrateCredentials [OF Created(4)] createOrUpdateFromProducer_request [OF Created(5)] in auto)
  next
    case (Check_Failed b n e)
    then show ?thesis by (simp add: new_calls_def)
  next
    case (Watcher_Failed b n e)
    from silent_before [OF this(2)] show ?thesis by (simp add: silent_new_calls)
  next
    case (Panic b n s2 m)
    from silent_trans [OF silent_before [OF Panic(2)] silent_no_producer [OF Panic(3)]] show ?thesis
      by (simp add: silent_new_calls)
  next
    case (No_Producer b n s2 e)
    from silent_trans [OF silent_before [OF No_Producer(2)] silent_no_producer [OF No_Producer(3)]] show ?thesis
      by (simp add: silent_new_calls)
  qed
qed

text \<open>C12: a run of \<open>createOrUpdate\<close> sends at most one HTTP request. If it sends one, the secret check has been made before and has passed, and the request is the PUT to the endpoint of the producer the run has looked up before, with the API key of the auth secret the run has read before, the consumer and the parameters of the SARE's spec, and \<open>rotateServiceAccountNow\<close> set exactly when the check did not find a secret.\<close>
theorem createOrUpdate_request:
  assumes run: "run_state (createOrUpdate E p) s = (r, t)"
  defines "ans \<equiv> fst (e_get_secret E (secret_key (heap s p)) (world s))"
  shows "filter is_http (new_calls s t) = [] \<or>
    checked_ok E (heap s p) ans \<and> read_before (Get_Secret (secret_key (heap s p)) ans) (new_calls s t) \<and>
    (\<exists>sapr http secret apiKey a.
       read_before (Get_Sapr (producer_key (heap s p)) (Inr sapr)) (new_calls s t) \<and> saprHTTP sapr = Some http \<and>
       read_before (Get_Secret (nn (sareNamespace (heap s p)) (hpAuthSecretName http)) (Inr secret)) (new_calls s t) \<and>
       map_of (secData secret) (hpAuthSecretKey http) = Some apiKey \<and>
       filter is_http (new_calls s t) = [Http_Do (put_request http apiKey (heap s p) (\<exists>x. ans = Inr x)) a])"
  using createOrUpdate_one_request [OF run] unfolding one_request_def ans_def by blast

end
