(* ===== verification/Request_Report.thy ===== *)
theory Request_Report
  imports Request_Outcome
begin

text \<open>
  What a reconcile writes into the status of the SARE, for successes and for errors, and the
  witnesses of the properties about creation and update.
\<close>

section \<open>What the status says\<close>

lemma createOrUpdate_checked:
  assumes "run_state (createOrUpdate E p) s = (Returned (res, None), t)"
  shows "\<exists>b n. check_answer E (heap s p) (world s) = (b, n, None)"
  using assms by (cases rule: createOrUpdateE) auto

lemma no_patch:
  "list_all watcher_call us \<Longrightarrow> Patch_Sare_Status b x a \<notin> set us"
  "list_all (update_call sare) us \<Longrightarrow> Patch_Sare_Status b x a \<notin> set us"
  by (auto simp: list_all_iff)

lemma keeps_ref_patch:
  "list_all keeps_secret_ref us \<Longrightarrow> Patch_Sare_Status b x a \<in> set us \<Longrightarrow>
     ssSecretRef (sareStatus x) = ssSecretRef (sareStatus b)"
  by (auto simp: list_all_iff)

lemma createOrUpdate_keeps_ref:
  assumes "run_state (createOrUpdate E p) s = (r, t)" and "Patch_Sare_Status b x a \<in> set (new_calls s t)"
  shows "ssSecretRef (sareStatus x) = ssSecretRef (sareStatus b)"
proof -
  obtain cs where cs: "new_calls s t = cs" and sh: "update_course E (heap s p) cs"
    using createOrUpdate_course [OF assms(1)] new_calls_append by blast
  from sh assms(2) show ?thesis unfolding cs
    by (auto elim!: update_course.cases producer_part.cases simp: no_patch dest: keeps_ref_patch)
qed

lemma ref_of_success:
  "ssSecretRef (sareStatus (success_sare E result sare w)) = Some (cuSecretName result)"
  by (simp add: success_sare_def migrated_sare_def ready_sare_def set_condition_def with_status_def
      split: create_or_update_outcome.split)

lemma reconcile_course:
  assumes run: "run_state (reconcileCreateOrUpdate E p) s = (r, t)"
    and call: "Patch_Sare_Status b x a \<in> set (new_calls s t)"
    and new: "ssSecretRef (sareStatus x) \<noteq> ssSecretRef (sareStatus b)"
  obtains res u where "run_state (createOrUpdate E p) s = (Returned (res, None), u)"
    "cuOutcome res \<noteq> OutcomeAborted" "x = success_sare E res (heap u p) (world u)"
    "t = patched E p (heap u p) x (success_st E res u)"
proof -
  obtain g u where g: "run_state (createOrUpdate E p) s = (g, u)" by fastforce
  obtain cs where cs: "trace u = trace s @ cs" using createOrUpdate_course [OF g] by blast
  have no: "Patch_Sare_Status b x a \<notin> set cs"
    using createOrUpdate_keeps_ref [OF g] new cs by (cases a) (auto simp: new_calls_append)
  note eq = run [unfolded run_reconcileCreateOrUpdate [OF g]]
  show thesis
  proof (cases "\<exists>res. g = Returned (res, None) \<and> cuOutcome res \<noteq> OutcomeAborted")
    case True
    then obtain res where res: "g = Returned (res, None)" "cuOutcome res \<noteq> OutcomeAborted" by blast
    with eq have t: "t = patched E p (heap u p) (success_sare E res (heap u p) (world u)) (success_st E res u)"
      by (auto simp: Let_def)
    with call no cs have "x = success_sare E res (heap u p) (world u)"
      by (auto simp: new_calls_def success_st_def clock_st_def split: if_splits)
    with g res t show thesis by (intro that) auto
  next
    case False
    with eq call no cs new show thesis
      by (auto simp: new_calls_def Let_def split: outcome.splits prod.splits option.splits if_splits)
  qed
qed

text \<open>C13: under the laws of the API server for secrets and for a SARE with a name: when a reconcile publishes a new \<open>status.secretRef\<close>, it is the resolved name of the SARE's secret, and that secret exists at the end and is controlled by the SARE, with one exception: the secret was absent and still is, because the producer answered 204 or null to the PUT. The witness is such a run: the operator then reports readiness with a reference to a secret that does not exist.\<close>
theorem published_secret_exists:
  assumes laws: "secret_laws E V" "others_keep_secrets E V" and named: "sareName (heap s p) \<noteq> []"
    and run: "run_state (reconcileCreateOrUpdate E p) s = (r, t)"
    and call: "Patch_Sare_Status b x a \<in> set (new_calls s t)"
    and new: "ssSecretRef (sareStatus x) \<noteq> ssSecretRef (sareStatus b)"
  shows "ssSecretRef (sareStatus x) = Some (resolveSecretName (heap s p)) \<and>
    ((\<exists>y. V (world t) (secret_key (heap s p)) = Some y \<and> e_is_controlled_by E y (heap s p)) \<or>
     V (world s) (secret_key (heap s p)) = None \<and> V (world t) (secret_key (heap s p)) = None \<and>
       (\<exists>req resp. Http_Do req (Inr resp) \<in> set (new_calls s t) \<and> hrMethod req = ''PUT'' \<and> accepted resp None))"
proof -
  from reconcile_course [OF run call new] obtain res u where
    g: "run_state (createOrUpdate E p) s = (Returned (res, None), u)" and oc: "cuOutcome res \<noteq> OutcomeAborted"
    and x: "x = success_sare E res (heap u p) (world u)" and t: "t = patched E p (heap u p) x (success_st E res u)" .
  from createOrUpdate_checked [OF g] obtain bb n where c: "check_answer E (heap s p) (world s) = (bb, n, None)" by blast
  have view: "V (world t) = V (world u)" using laws(2) t by (simp add: view_after_success)
  obtain cs where cs: "trace u = trace s @ cs" using createOrUpdate_course [OF g] by blast
  have "\<exists>ds. trace t = trace u @ ds" by (auto simp: t success_st_def clock_st_def)
  then have sub: "set (new_calls s u) \<subseteq> set (new_calls s t)" using cs by (auto simp: new_calls_def)
  have ref: "ssSecretRef (sareStatus x) = Some (cuSecretName res)" by (simp add: x ref_of_success)
  have own: "e_is_controlled_by E y (heap s p)" if "V (world s) (secret_key (heap s p)) = Some y" for y
    using checked_not_foreign [OF laws(1) c that] by blast
  from createOrUpdate_ok [OF laws named g] oc ref show ?thesis
  proof (cases "cuOutcome res")
    case OutcomeUnchanged
    with createOrUpdate_ok [OF laws named g] ref view own sub show ?thesis
      by (cases "V (world s) (secret_key (heap s p))") (auto simp: unchanged_answer_def)
  qed (auto simp: view stored_from_producer_def stored_from_migration_def)
qed

text \<open>C14: every error of \<open>createOrUpdate\<close> is returned unchanged by the reconcile (so it is retried), and the last call is a status patch that sets the condition ServiceAccountReady to False with the error's text and the SARE's generation, under the reason MigrationFailed exactly for an incomplete migration, and leaves secret reference, rotation time and spec as they were.\<close>
theorem reconcile_reports_errors:
  assumes g: "run_state (createOrUpdate E p) s = (Returned (res, Some err), u)"
    and run: "run_state (reconcileCreateOrUpdate E p) s = (r, t)"
  shows "r = Returned (no_result, Some err) \<and>
    (\<exists>x a. trace t = trace u @ [Patch_Sare_Status (heap u p) x a] \<and>
       ssConditions (sareStatus x) = e_set_status_condition E (ssConditions (sareStatus (heap u p)))
         \<lparr>condType = typeServiceAccountReady (e_consts E), condStatus = ConditionFalse,
          condReason = (if errors_is err Incomplete_Migration then ''MigrationFailed''
            else reasonReadyFailed (e_consts E)),
          condMessage = err_msg err, condObservedGeneration = sareGeneration (heap u p)\<rparr> \<and>
       ssSecretRef (sareStatus x) = ssSecretRef (sareStatus (heap u p)) \<and>
       ssLastRotation (sareStatus x) = ssLastRotation (sareStatus (heap u p)) \<and>
       sareSpec x = sareSpec (heap u p))"
  using run unfolding run_reconcileCreateOrUpdate [OF g]
  by (auto simp: failed_sare_def set_condition_def with_status_def failure_reason_def
      conditionReasonMigrationFailed_def)


section \<open>Witnesses\<close>

text \<open>The producer is gone while the SARE's secret exists, and the deletion is allowed or not.\<close>

definition gone :: "bool \<Rightarrow> sim st" where
  "gone fails = ex_st ((ex_world [(nn ''ns'' ''r'', ex_secret ''u1'' [(''user'', ''x'')])]
     (Inr (ex_response 200 ''{}'')))\<lparr>simSapr := [], simDeleteFails := fails\<rparr>)"

text \<open>The producer answers credentials for a new service account.\<close>

definition creates :: "sim st" where
  "creates = ex_st (ex_world [] (Inr (ex_response 200
     ([CHR ''{'', CHR 0x22] @ ''user'' @ [CHR 0x22, CHR '':'', CHR 0x22] @ ''x'' @ [CHR 0x22, CHR ''}'']))))"

definition rotated_result :: create_or_update_result where
  "rotated_result = \<lparr>cuSecretName = ''r'', cuOutcome = OutcomeRotated\<rparr>"

theorem createOrUpdate_success_witness:
  "stored_from_producer simE sim_secret (heap creates 0) creates (snd (run_state (createOrUpdate simE 0) creates))"
proof -
  have named: "sareName (heap creates 0) \<noteq> []" by code_simp
  have "fst (run_state (createOrUpdate simE 0) creates) = Returned (rotated_result, None)" by code_simp
  then have run: "run_state (createOrUpdate simE 0) creates =
      (Returned (rotated_result, None), snd (run_state (createOrUpdate simE 0) creates))"
    by (simp add: prod_eq_iff)
  from createOrUpdate_success [OF sim_laws sim_others named run] show ?thesis by (simp add: rotated_result_def)
qed

text \<open>The producer answers 204 although no secret exists yet.\<close>

definition silent_producer_st :: "sim st" where
  "silent_producer_st = ex_st (ex_world [] (Inr (ex_response 204 [])))"

fun publishes :: "call \<Rightarrow> bool" where
  "publishes (Patch_Sare_Status b x a) = (ssSecretRef (sareStatus x) \<noteq> ssSecretRef (sareStatus b))"
| "publishes c = False"

theorem published_secret_exists_witness:
  "\<exists>b x a. Patch_Sare_Status b x a \<in> set (new_calls silent_producer_st
        (snd (run_state (reconcileCreateOrUpdate simE 0) silent_producer_st))) \<and>
     ssSecretRef (sareStatus x) = Some ''r'' \<and>
     sim_secret (world (snd (run_state (reconcileCreateOrUpdate simE 0) silent_producer_st))) (nn ''ns'' ''r'') = None"
proof -
  let ?t = "snd (run_state (reconcileCreateOrUpdate simE 0) silent_producer_st)"
  have named: "sareName (heap silent_producer_st 0) \<noteq> []"
    and name: "resolveSecretName (heap silent_producer_st 0) = ''r''"
    and none: "sim_secret (world ?t) (nn ''ns'' ''r'') = None"
    by code_simp+
  have "list_ex publishes (new_calls silent_producer_st ?t)" by code_simp
  then obtain b x a where call: "Patch_Sare_Status b x a \<in> set (new_calls silent_producer_st ?t)"
    and new: "ssSecretRef (sareStatus x) \<noteq> ssSecretRef (sareStatus b)"
    by (auto simp: list_ex_iff elim!: publishes.elims(2))
  from published_secret_exists [OF sim_laws sim_others named prod.collapse [symmetric] call new] call none name
  show ?thesis by (cases a) auto
qed

text \<open>The producer refuses.\<close>

definition refusing :: "sim st" where
  "refusing = ex_st (ex_world [] (Inr (ex_response 500 ''down'')))"

fun answered_error :: "(create_or_update_result \<times> gerr option) outcome \<Rightarrow> bool" where
  "answered_error (Returned (res, Some err)) = True"
| "answered_error x = False"

theorem reconcile_reports_errors_witness:
  "\<exists>err. fst (run_state (reconcileCreateOrUpdate simE 0) refusing) = Returned (no_result, Some err)"
proof -
  have "answered_error (fst (run_state (createOrUpdate simE 0) refusing))" by code_simp
  then obtain res err where "fst (run_state (createOrUpdate simE 0) refusing) = Returned (res, Some err)"
    by (auto elim!: answered_error.elims(2))
  then have "run_state (createOrUpdate simE 0) refusing =
      (Returned (res, Some err), snd (run_state (createOrUpdate simE 0) refusing))"
    by (simp add: prod_eq_iff)
  from reconcile_reports_errors [OF this prod.collapse [symmetric]] show ?thesis by auto
qed

theorem createOrUpdate_request_witness:
  "filter is_http (new_calls creates (snd (run_state (createOrUpdate simE 0) creates))) \<noteq> [] \<and>
   (\<exists>sapr. read_before (Get_Sapr (producer_key (heap creates 0)) (Inr sapr))
      (new_calls creates (snd (run_state (createOrUpdate simE 0) creates))))"
proof -
  have "filter is_http (new_calls creates (snd (run_state (createOrUpdate simE 0) creates))) \<noteq> []" by code_simp
  with createOrUpdate_request [OF prod.collapse [symmetric, of "run_state (createOrUpdate simE 0) creates"]] show ?thesis by blast
qed

end
