(* ===== verification/Producer_Status.thy ===== *)
theory Producer_Status
  imports World
begin

text \<open>
  \<open>internal/controller/producer/status_conditions.go\<close>: the status writers of the producer
  controller. The producer object is passed by value and handed back as the patch left it.
\<close>

definition conditionTypeNetworkPolicyUpserted :: string where
  "conditionTypeNetworkPolicyUpserted = ''NetworkPolicyUpserted''"

definition reasonProducerReady :: string where
  "reasonProducerReady = ''ProducerReady''"

definition reasonNetworkPolicyFailed :: string where
  "reasonNetworkPolicyFailed = ''NetworkPolicyFailed''"

definition messageNetworkPolicyFailed :: string where
  "messageNetworkPolicyFailed = ''Failed to upsert network policy target state''"

definition reasonNetworkPolicyUpserted :: string where
  "reasonNetworkPolicyUpserted = ''TargetStateReached''"

text \<open>A condition as the callers build it: the observed generation is filled in later.\<close>

definition mk_condition :: "string \<Rightarrow> cond_status \<Rightarrow> string \<Rightarrow> string \<Rightarrow> condition" where
  "mk_condition typ st reason message = \<lparr>condType = typ, condStatus = st, condReason = reason,
     condMessage = message, condObservedGeneration = 0\<rparr>"

text \<open>The loop over the conditions.\<close>

fun set_conditions :: "'w env \<Rightarrow> int \<Rightarrow> condition list \<Rightarrow> condition list \<Rightarrow> condition list" where
  "set_conditions E generation [] current = current"
| "set_conditions E generation (c # cs) current =
     set_conditions E generation cs (e_set_status_condition E current (c\<lparr>condObservedGeneration := generation\<rparr>))"

definition sapr_with_conditions :: "'w env \<Rightarrow> sapr \<Rightarrow> condition list \<Rightarrow> int \<Rightarrow> sapr" where
  "sapr_with_conditions E sapr conditions now =
     sapr\<lparr>saprStatus := (saprStatus sapr)
       \<lparr>psConditions := set_conditions E (saprGeneration sapr) conditions (psConditions (saprStatus sapr)),
        psLastExecution := Some now\<rparr>\<rparr>"

definition sapr_setAndPersist :: "'w env \<Rightarrow> sapr \<Rightarrow> condition list \<Rightarrow> ('w, gerr option \<times> sapr) op" where
  "sapr_setAndPersist E sapr conditions = do {
     now \<leftarrow> readClock E;
     (err, refreshed) \<leftarrow> patchSaprStatus E sapr (sapr_with_conditions E sapr conditions now);
     ret (map_option (errorf ''failed to persist conditions: '') err, refreshed)
   }"

definition markReady :: "'w env \<Rightarrow> sapr \<Rightarrow> ('w, gerr option \<times> sapr) op" where
  "markReady E sapr = sapr_setAndPersist E sapr
     [mk_condition (typeReady (e_consts E)) ConditionTrue reasonProducerReady []]"

definition markNotReady :: "'w env \<Rightarrow> sapr \<Rightarrow> string \<Rightarrow> string \<Rightarrow> ('w, gerr option \<times> sapr) op" where
  "markNotReady E sapr reason message = sapr_setAndPersist E sapr
     [mk_condition (typeReady (e_consts E)) ConditionFalse reason message]"

definition markNetpolUpserted :: "'w env \<Rightarrow> sapr \<Rightarrow> ('w, gerr option \<times> sapr) op" where
  "markNetpolUpserted E sapr = sapr_setAndPersist E sapr
     [mk_condition conditionTypeNetworkPolicyUpserted ConditionTrue reasonNetworkPolicyUpserted []]"

definition markNetpolFailed :: "'w env \<Rightarrow> sapr \<Rightarrow> string \<Rightarrow> ('w, gerr option \<times> sapr) op" where
  "markNetpolFailed E sapr message = sapr_setAndPersist E sapr
     [mk_condition conditionTypeNetworkPolicyUpserted ConditionFalse reasonNetworkPolicyFailed message,
      mk_condition (typeReady (e_consts E)) ConditionFalse reasonNetworkPolicyFailed messageNetworkPolicyFailed]"

end
