(* ===== verification/Producer_Controller.thy ===== *)
theory Producer_Controller
  imports Producer_Status Network_Policy Http_Client
begin

text \<open>
  \<open>internal/controller/producer/controller.go\<close>: the reconciler of service account producers.
\<close>

definition upserter_of :: "operator_config \<Rightarrow> netpol_upserter" where
  "upserter_of cfg = \<lparr>nuEnabled = cfgNetworkPoliciesEnabled cfg, nuSelectorLabels = cfgSelectorLabels cfg\<rparr>"

text \<open>\<open>None\<close> is a ready producer, otherwise the condition reason and the error.\<close>

definition checkReady :: "'w env \<Rightarrow> sapr \<Rightarrow> ('w, (string \<times> gerr) option) op" where
  "checkReady E sapr =
     (if saprHTTP sapr = None then
        ret (Some (reasonInvalidConfiguration (e_consts E), New_Err ''producer has no HTTP spec configured''))
      else do {
        c \<leftarrow> NewForProducer E (saprNamespace sapr) sapr;
        (case c of
           Inl err \<Rightarrow> ret (Some (reasonAuthSecretNotFound (e_consts E), err))
         | Inr saClient \<Rightarrow> do {
             err \<leftarrow> hc_Ready E saClient;
             ret (map_option (Pair (reasonConnectionFailed (e_consts E))) err)
           })
      })"

definition Reconcile_Producer ::
  "'w env \<Rightarrow> operator_config \<Rightarrow> nname \<Rightarrow> ('w, (ctrl_result \<times> gerr option) outcome) op" where
  "Reconcile_Producer E cfg req = do {
     r \<leftarrow> getSapr E req;
     (case r of
        Inl err \<Rightarrow> ret (Returned (no_result, if is_not_found err then None else Some err))
      | Inr sapr \<Rightarrow> do {
          u \<leftarrow> UpsertNetworkPolicy E (upserter_of cfg) sapr;
          (case u of
             Panicked m \<Rightarrow> ret (Panicked m)
           | Returned (Some upsertErr0) \<Rightarrow> do {
               let upsertErr = errorf (''failed to upsert network policy for producer '' @ nn_string req @ '': '') upsertErr0;
               (err, _) \<leftarrow> markNetpolFailed E sapr (err_msg upsertErr);
               ret (Returned (no_result, Some (case err of
                   Some e \<Rightarrow> Join upsertErr (errorf ''failed to mark network policy as failed: '' e)
                 | None \<Rightarrow> upsertErr)))
             }
           | Returned None \<Rightarrow> do {
               (err, sapr1) \<leftarrow> markNetpolUpserted E sapr;
               (case err of
                  Some e \<Rightarrow> ret (Returned (no_result, Some (errorf
                    (''failed to mark network policy for producer '' @ nn_string req @ '' as upserted: '') e)))
                | None \<Rightarrow> do {
                    c \<leftarrow> checkReady E sapr1;
                    (err2, _) \<leftarrow> (case c of
                        Some (reason, checkErr) \<Rightarrow> markNotReady E sapr1 reason (err_msg checkErr)
                      | None \<Rightarrow> markReady E sapr1);
                    ret (Returned (case err2 of
                        Some e \<Rightarrow> (no_result, Some e)
                      | None \<Rightarrow> (\<lparr>requeueAfter = cfgReconcileInterval cfg\<rparr>, None)))
                  })
             })
        })
   }"

end
