(* ===== verification/Producer_Frames.thy ===== *)
theory Producer_Frames
  imports Producer_Controller
begin

text \<open>
  Frame conditions of the producer controller: the calls it can make, and what it leaves of the
  process and of the secrets. They rest on the contracts of the three interfaces it uses: the
  upserter of policies, the client factory and the client.
\<close>

fun producer_call :: "call \<Rightarrow> bool" where
  "producer_call (Get_Sapr n a) = True"
| "producer_call (Patch_Sapr_Status b x a) = True"
| "producer_call (Get_Secret n a) = True"
| "producer_call (Http_Do r a) = (hrMethod r = ''HEAD'')"
| "producer_call (Read_Clock t) = True"
| "producer_call c = policy_call c"

lemmas mark_defs = markReady_def markNotReady_def markNetpolUpserted_def markNetpolFailed_def sapr_setAndPersist_def

lemma emits_marks:
  "preserves (emits producer_call) (markReady E sapr)" "preserves (emits producer_call) (markNotReady E sapr reason m)"
  "preserves (emits producer_call) (markNetpolUpserted E sapr)" "preserves (emits producer_call) (markNetpolFailed E sapr m)"
  unfolding mark_defs call_defs by (auto intro!: frame_rules)

lemma process_marks:
  "preserves same_process (markReady E sapr)" "preserves same_process (markNotReady E sapr reason m)"
  "preserves same_process (markNetpolUpserted E sapr)" "preserves same_process (markNetpolFailed E sapr m)"
  unfolding mark_defs call_defs by (auto intro!: frame_rules)

lemma view_marks:
  assumes "others_keep_secrets E V"
  shows "preserves (keeps_view V) (markReady E sapr)" "preserves (keeps_view V) (markNotReady E sapr reason m)"
    "preserves (keeps_view V) (markNetpolUpserted E sapr)" "preserves (keeps_view V) (markNetpolFailed E sapr m)"
  unfolding mark_defs call_defs using assms by (auto intro!: frame_rules keeps_view_io)

lemma emits_ready: "preserves (emits producer_call) (hc_Ready E c)"
  by (rule at_most_one_emits [OF hc.ready_sends]) (auto simp: sends_def)

lemma emits_Producer: "preserves (emits producer_call) (Reconcile_Producer E cfg req)"
  unfolding Reconcile_Producer_def checkReady_def getSapr_def Let_def
  by (auto intro!: frame_rules emits_marks emits_ready cf.reader_emits nu.upserter_emits elim!: policy_callE
      split: outcome.split)

lemma process_Producer: "preserves same_process (Reconcile_Producer E cfg req)"
  unfolding Reconcile_Producer_def checkReady_def getSapr_def Let_def
  by (auto intro!: frame_rules process_marks hc.client_process cf.rd_process nu.up_process split: outcome.split)

lemma view_Producer:
  assumes "secret_laws E V" "others_keep_secrets E V" "producer_keeps_secrets E V"
  shows "preserves (keeps_view V) (Reconcile_Producer E cfg req)"
  unfolding Reconcile_Producer_def checkReady_def getSapr_def Let_def using assms
  by (auto intro!: frame_rules keeps_view_io view_marks hc.client_view cf.rd_view nu.up_view split: outcome.split)

end
