(* ===== verification/Operator_Steps.thy ===== *)
theory Operator_Steps
  imports Request_Frames Producer_Frames
begin

text \<open>
  The operator as a whole: the steps it takes between its calls, the states a run can reach,
  and the two ways the library proves things about runs. \<open>process_invariant\<close> is the contract of
  a property that every operation keeps, \<open>audit\<close> that of a rule which every call to the outside
  obeys, given the calls before it. Both are locales; their instances are the invariants of the
  theories that follow.
\<close>

section \<open>The steps of the process\<close>

text \<open>
  The operator between its calls: a reconcile of any request or of any producer, the mapping
  of a producer's event to requests, a rotation job of any task the cron library was given, and
  anything others do to the cluster.
\<close>

inductive op_step :: "'w env \<Rightarrow> operator_config \<Rightarrow> 'w st \<Rightarrow> 'w st \<Rightarrow> bool" for E cfg where
  Step_Reconcile: "run_state (Reconcile E cfg req) s = (r, t) \<Longrightarrow> op_step E cfg s t"
| Step_Rotate: "task \<in> set (tasks s) \<Longrightarrow> run_state (rotateSaSecret E (taskSare task)) s = (x, t) \<Longrightarrow> op_step E cfg s t"
| Step_Producer: "run_state (Reconcile_Producer E cfg req) s = (r, t) \<Longrightarrow> op_step E cfg s t"
| Step_Event: "run_state (enqueueRequestsForProducer E obj) s = (reqs, t) \<Longrightarrow> op_step E cfg s t"
| Step_World: "op_step E cfg s (s\<lparr>world := w\<rparr>)"

inductive_cases op_stepE: "op_step E cfg s t"

inductive reachable :: "'w env \<Rightarrow> operator_config \<Rightarrow> 'w st \<Rightarrow> bool" for E cfg where
  Reach_Init: "reachable E cfg (init_st w h)"
| Reach_Step: "reachable E cfg s \<Longrightarrow> op_step E cfg s t \<Longrightarrow> reachable E cfg t"

lemma reachable_run: "(op_step E cfg)\<^sup>*\<^sup>* s t \<Longrightarrow> reachable E cfg s \<Longrightarrow> reachable E cfg t"
  by (induction rule: rtranclp_induct) (auto intro: Reach_Step)

section \<open>Invariants of the process\<close>

locale process_invariant =
  fixes I :: "'w env \<Rightarrow> operator_config \<Rightarrow> 'w st \<Rightarrow> bool"
  assumes init_holds: "I E cfg (init_st w h)"
    and reconcile_keeps: "I E cfg s \<Longrightarrow> run_state (Reconcile E cfg req) s = (r, t) \<Longrightarrow> I E cfg t"
    and rotate_keeps: "I E cfg s \<Longrightarrow> task \<in> set (tasks s) \<Longrightarrow>
      run_state (rotateSaSecret E (taskSare task)) s = (x, t) \<Longrightarrow> I E cfg t"
    and producer_keeps: "I E cfg s \<Longrightarrow> run_state (Reconcile_Producer E cfg req) s = (r, t) \<Longrightarrow> I E cfg t"
    and enqueue_keeps: "I E cfg s \<Longrightarrow> run_state (enqueueRequestsForProducer E obj) s = (reqs, t) \<Longrightarrow> I E cfg t"
    and world_keeps: "I E cfg s \<Longrightarrow> I E cfg (s\<lparr>world := w\<rparr>)"
begin

lemma step_keeps: "op_step E cfg s t \<Longrightarrow> I E cfg s \<Longrightarrow> I E cfg t"
  by (elim op_stepE)
    (auto intro: reconcile_keeps rotate_keeps producer_keeps enqueue_keeps world_keeps)

lemma run_keeps: "(op_step E cfg)\<^sup>*\<^sup>* s t \<Longrightarrow> I E cfg s \<Longrightarrow> I E cfg t"
  by (induction rule: rtranclp_induct) (auto intro: step_keeps)

lemma reachable_holds: "reachable E cfg s \<Longrightarrow> I E cfg s"
  by (induction rule: reachable.induct) (auto intro: init_holds step_keeps)

end

section \<open>Audits of the calls\<close>

text \<open>\<open>audited J cs\<close>: \<open>J\<close> accepts every call of \<open>cs\<close>, given the calls before it.\<close>

definition audited :: "(call list \<Rightarrow> call \<Rightarrow> bool) \<Rightarrow> call list \<Rightarrow> bool" where
  "audited J cs \<longleftrightarrow> (\<forall>us c vs. cs = us @ c # vs \<longrightarrow> J us c)"

definition adds_audited :: "(call list \<Rightarrow> call \<Rightarrow> bool) \<Rightarrow> 'w st \<Rightarrow> 'w st \<Rightarrow> bool" where
  "adds_audited J s t \<longleftrightarrow> (\<exists>cs. trace t = trace s @ cs \<and> audited J cs)"

lemma auditedI: "(\<And>us c vs. cs = us @ c # vs \<Longrightarrow> J us c) \<Longrightarrow> audited J cs"
  by (auto simp: audited_def)

lemma auditedD: "audited J cs \<Longrightarrow> cs = us @ c # vs \<Longrightarrow> J us c"
  by (auto simp: audited_def)

lemma audited_append:
  assumes mono: "\<And>g h c. J h c \<Longrightarrow> J (g @ h) c" and cs: "audited J cs" and ds: "audited J ds"
  shows "audited J (cs @ ds)"
proof (rule auditedI)
  fix us c vs
  assume "cs @ ds = us @ c # vs"
  then consider ws where "cs = us @ c # ws" | ws where "us = cs @ ws" "ds = ws @ c # vs"
    by (auto simp: append_eq_append_conv2 Cons_eq_append_conv append_eq_Cons_conv)
  then show "J us c" by cases (use cs ds mono in \<open>auto dest: auditedD\<close>)
qed

lemma adds_auditedI:
  assumes "trace t = trace s @ cs" and "\<And>us c vs. cs = us @ c # vs \<Longrightarrow> J us c"
  shows "adds_audited J s t"
  using assms by (auto simp: adds_audited_def intro: auditedI)

text \<open>Calls the rule does not ask anything of.\<close>

lemma audited_free: "(\<And>c h. c \<in> set cs \<Longrightarrow> J h c) \<Longrightarrow> audited J cs"
  by (auto intro: auditedI)

lemma adds_free:
  assumes "preserves (emits P) m" and "\<And>c h. P c \<Longrightarrow> J h c" and "run_state m s = (a, t)"
  shows "adds_audited J s t"
  using preservesD [OF assms(1,3)] assms(2)
  by (auto simp: emits_def adds_audited_def list_all_iff intro!: audited_free)

locale audit =
  fixes J :: "'w env \<Rightarrow> operator_config \<Rightarrow> call list \<Rightarrow> call \<Rightarrow> bool"
  assumes earlier: "J E cfg h c \<Longrightarrow> J E cfg (g @ h) c"
    and reconcile_audited: "run_state (Reconcile E cfg req) s = (r, t) \<Longrightarrow> adds_audited (J E cfg) s t"
    and rotate_audited: "run_state (rotateSaSecret E p) s = (x, t) \<Longrightarrow> adds_audited (J E cfg) s t"
    and producer_audited: "run_state (Reconcile_Producer E cfg req) s = (r, t) \<Longrightarrow> adds_audited (J E cfg) s t"
    and enqueue_audited: "run_state (enqueueRequestsForProducer E obj) s = (reqs, t) \<Longrightarrow> adds_audited (J E cfg) s t"
begin

lemma trace_audited: "adds_audited (J E cfg) s t \<Longrightarrow> audited (J E cfg) (trace s) \<Longrightarrow> audited (J E cfg) (trace t)"
  using audited_append [of "J E cfg", OF earlier] by (auto simp: adds_audited_def)

end

sublocale audit \<subseteq> process_invariant "\<lambda>E cfg s. audited (J E cfg) (trace s)"
  by unfold_locales
    (auto simp: init_st_def audited_def [of _ "[]"]
      intro: trace_audited reconcile_audited rotate_audited producer_audited enqueue_audited)

text \<open>What a run leaves behind: every call of its trace obeys the rule.\<close>

context audit begin

lemma history: "reachable E cfg s \<Longrightarrow> trace s = us @ c # vs \<Longrightarrow> J E cfg us c"
  by (rule auditedD [OF reachable_holds])

end

section \<open>Refinement of an abstract process\<close>

text \<open>The abstraction \<open>A\<close> of every step of the operator is a step of the abstract process \<open>astep\<close>,
  which starts in \<open>start\<close>.\<close>

locale operator_refinement =
  fixes A :: "'w st \<Rightarrow> 'a" and astep :: "'w env \<Rightarrow> 'a \<Rightarrow> 'a \<Rightarrow> bool" and start :: 'a
  assumes start_refines: "A (init_st w h) = start"
    and step_refines: "reachable E cfg s \<Longrightarrow> op_step E cfg s t \<Longrightarrow> astep E (A s) (A t)"
begin

lemma run_refines: "(op_step E cfg)\<^sup>*\<^sup>* s t \<Longrightarrow> reachable E cfg s \<Longrightarrow> (astep E)\<^sup>*\<^sup>* (A s) (A t)"
proof (induction rule: rtranclp_induct)
  case (step t u)
  from reachable_run [OF step.hyps(1) step.prems] step_refines [OF _ step.hyps(2)] step.IH [OF step.prems]
  show ?case by (meson rtranclp.rtrancl_into_rtrancl)
qed simp

lemma reachable_refines: "reachable E cfg s \<Longrightarrow> (astep E)\<^sup>*\<^sup>* start (A s)"
proof (induction rule: reachable.induct)
  case (Reach_Step s t)
  from step_refines [OF Reach_Step.hyps] Reach_Step.IH show ?case by (meson rtranclp.rtrancl_into_rtrancl)
qed (simp add: start_refines)

end

end
