(* ===== verification/Request_Rotation.thy ===== *)
theory Request_Rotation
  imports Request_Report Operator_Steps
begin

text \<open>
  Rotation over the life of the process: the invariant of the watcher map, the runners that are
  alive, and the rotation job.
\<close>

section \<open>The invariant of the watcher map\<close>

definition live :: "'w st \<Rightarrow> nat \<Rightarrow> bool" where
  "live s r \<longleftrightarrow> Go_Run r \<in> set (trace s) \<and> Stop_Runner r \<notin> set (trace s)"

text \<open>A runner some key of the watcher map points to.\<close>

definition registered :: "(string \<times> nat) list \<Rightarrow> nat \<Rightarrow> bool" where
  "registered ws r \<longleftrightarrow> (\<exists>k. map_of ws k = Some r)"

definition watch_inv :: "'w st \<Rightarrow> bool" where
  "watch_inv s \<longleftrightarrow>
     distinct (map fst (watchers s)) \<and>
     (\<forall>k l r. map_of (watchers s) k = Some r \<longrightarrow> map_of (watchers s) l = Some r \<longrightarrow> k = l) \<and>
     (\<forall>r. Go_Run r \<in> set (trace s) \<longleftrightarrow> r < length (tasks s)) \<and>
     (\<forall>r. Stop_Runner r \<in> set (trace s) \<longrightarrow> r < length (tasks s)) \<and>
     (\<forall>k r. map_of (watchers s) k = Some r \<longrightarrow> r < length (tasks s)) \<and>
     (\<forall>r < length (tasks s). Stop_Runner r \<notin> set (trace s) \<longrightarrow> registered (watchers s) r)"

definition inv_kept :: "'w st \<Rightarrow> 'w st \<Rightarrow> bool" where
  "inv_kept s t \<longleftrightarrow> (watch_inv s \<longrightarrow> watch_inv t)"

lemma frame_inv [frame_rules]: "frame_rel inv_kept"
  by (rule frame_relI) (auto simp: inv_kept_def)

lemma inv_quiet:
  assumes "preserves same_watchers m" and "preserves (emits (\<lambda>c. \<not> watcher_call c)) m"
  shows "preserves inv_kept m"
proof (rule preservesI)
  fix s a t
  assume run: "run_state m s = (a, t)"
  from preservesD [OF assms(2) run] obtain cs where cs: "trace t = trace s @ cs" "list_all (\<lambda>c. \<not> watcher_call c) cs"
    by (auto simp: emits_def)
  then have "Go_Run r \<notin> set cs" "Stop_Runner r \<notin> set cs" for r by (auto simp: list_all_iff)
  with preservesD [OF assms(1) run] cs(1) show "inv_kept s t"
    by (simp add: inv_kept_def watch_inv_def same_watchers_def)
qed

lemma watchers_of_process: "preserves same_process m \<Longrightarrow> preserves same_watchers m"
  by (auto simp: preserves_def same_process_def same_watchers_def)

lemma inv_io: "(\<And>r. \<not> watcher_call (ev r)) \<Longrightarrow> preserves inv_kept (io f ev)"
  by (intro inv_quiet frame_rules) auto

lemma inv_emit: "\<not> watcher_call ev \<Longrightarrow> preserves inv_kept (emit ev)"
  by (intro inv_quiet frame_rules) auto

lemma inv_memory [frame_rules]:
  "preserves inv_kept (load p)" "preserves inv_kept (store p x)" "preserves inv_kept (new_sare x)"
  by (intro inv_quiet frame_rules)+

lemma inv_calls [frame_rules]:
  "preserves inv_kept (getSare E n)" "preserves inv_kept (updateSare E x)"
  "preserves inv_kept (patchSareStatus E b x)" "preserves inv_kept (getSapr E n)"
  "preserves inv_kept (patchSaprStatus E y z)" "preserves inv_kept (getSecret E n)"
  "preserves inv_kept (deleteSecret E n)" "preserves inv_kept (createOrUpdateSecret E sec f)"
  "preserves inv_kept (readClock E)" "preserves inv_kept (emit (Emit_Event ev))"
  unfolding call_defs by (rule inv_io inv_emit; simp)+

lemma inv_client [frame_rules]:
  "preserves inv_kept (hc_CreateOrUpdate E c consumer params bp)"
  "preserves inv_kept (hc_Delete E c consumer)" "preserves inv_kept (hc_Exists E c consumer)"
  by (rule inv_quiet, rule watchers_of_process, rule hc.client_process, rule hc.client_emits, simp)+

lemma inv_watcher_deleted:
  assumes "watch_inv s"
  shows "watch_inv (watcher_deleted p s)"
proof -
  note inv = assms [unfolded watch_inv_def]
  let ?k = "namespacedName (heap s p)"
  show ?thesis
  proof (cases "map_of (watchers s) ?k")
    case None
    with assms show ?thesis by (simp add: watch_inv_def trace_stop_old alist_delete_absent)
  next
    case (Some r)
    have "distinct (map fst (AList.delete ?k (watchers s)))" using inv by (intro distinct_delete) simp
    with inv Some show ?thesis
      unfolding watch_inv_def registered_def
      by (auto simp: trace_stop_old AList.delete_conv' simp del: map_of_eq_Some_iff split: if_splits) (metis option.inject)
  qed
qed

lemma inv_stop_old: "watch_inv s \<Longrightarrow> watch_inv (stop_old p s)"
  unfolding watch_inv_def by (auto simp: trace_stop_old split: option.splits)

lemma inv_watcher_set:
  assumes "watch_inv s"
  shows "watch_inv (watcher_set expr p s)"
proof -
  note inv = assms [unfolded watch_inv_def]
  let ?k = "namespacedName (heap s p)"
  have d: "distinct (map fst (AList.update ?k (length (tasks s)) (watchers s)))"
    using inv by (intro distinct_update) simp
  have new: "map_of (watchers s) l \<noteq> Some (length (tasks s))" for l using inv by (metis less_irrefl)
  show ?thesis
    unfolding watch_inv_def
  proof (intro conjI, goal_cases)
    case 1
    show ?case using d by simp
  next
    case 2
    show ?case using inv new by (auto split: if_splits)
  next
    case 3
    show ?case using inv by (auto simp: trace_stop_old less_Suc_eq split: option.splits)
  next
    case 4
    show ?case using inv by (auto simp: trace_stop_old less_Suc_eq split: option.splits)
  next
    case 5
    show ?case using inv by (auto simp: less_Suc_eq split: if_splits)
  next
    case 6
    show ?case
    proof (intro allI impI)
      fix r
      assume r: "r < length (tasks (watcher_set expr p s))"
        and live: "Stop_Runner r \<notin> set (trace (watcher_set expr p s))"
      show "registered (watchers (watcher_set expr p s)) r"
      proof (cases "r = length (tasks s)")
        case True
        then show ?thesis unfolding registered_def by (intro exI [of _ ?k]) simp
      next
        case False
        with r have "r < length (tasks s)" by simp
        moreover have "Stop_Runner r \<notin> set (trace s)" using live by (auto simp: trace_stop_old)
        ultimately obtain l where l: "map_of (watchers s) l = Some r" using inv unfolding registered_def by blast
        moreover have "l \<noteq> ?k" using l live by (auto simp: trace_stop_old)
        ultimately show ?thesis unfolding registered_def by (intro exI [of _ l]) simp
      qed
    qed
  qed
qed

lemma inv_watcher_ops [frame_rules]:
  "preserves inv_kept (deleteSaRotationWatcher p)" "preserves inv_kept (handleSaRotationWatcher E p)"
  by (rule preservesI; auto simp: run_simps inv_kept_def inv_watcher_deleted inv_watcher_set inv_stop_old
      split: option.splits if_splits)+

lemma inv_mutate [frame_rules]: "preserves inv_kept (mutate_status p f)"
  unfolding mutate_status_def by (intro frame_rules)

lemma inv_setAndPersist [frame_rules]:
  "preserves inv_kept m \<Longrightarrow> preserves inv_kept (setAndPersist E p m ct cs reason msg)"
  unfolding setAndPersist_def by (auto intro!: frame_rules)

lemma inv_status [frame_rules]:
  "preserves inv_kept (serviceAccountReady E p name rot)" "preserves inv_kept (serviceAccountMigrated E p name)"
  "preserves inv_kept (serviceAccountFailed E p reason err)" "preserves inv_kept (producerNotFound E p producer err)"
  "preserves inv_kept (serviceAccountNotReadyForRotation E p)"
  unfolding serviceAccountReady_def serviceAccountMigrated_def serviceAccountFailed_def producerNotFound_def
    serviceAccountNotReadyForRotation_def by (auto intro!: frame_rules)

lemma watchers_secrets [frame_rules]:
  "preserves same_watchers (sm_Exists E sare)" "preserves same_watchers (sm_CreateOrUpdate E sare c)"
  "preserves same_watchers (sm_Delete E sare)"
  by (rule watchers_of_process, rule sm.process_law)+

lemma inv_secrets [frame_rules]:
  "preserves inv_kept (sm_Exists E sare)" "preserves inv_kept (sm_CreateOrUpdate E sare c)"
  "preserves inv_kept (sm_Delete E sare)"
  by (rule inv_quiet, rule watchers_secrets, rule sm.calls_law, simp)+

lemma inv_readers [frame_rules]:
  "preserves inv_kept (ms_Credentials E sare sapr)" "preserves inv_kept (NewForProducer E ns sapr)"
  by (rule inv_quiet, rule watchers_of_process, rule ms.rd_process cf.rd_process,
      rule ms.reader_emits cf.reader_emits, simp)+

lemma inv_createOrUpdate [frame_rules]: "preserves inv_kept (createOrUpdate E p)"
  unfolding createOrUpdate_def checkSecretExists_def getProducerForCreateOrUpdate_def getProducer_def
    createOrUpdateFromProducer_def requestCredentials_def getServiceAccountClient_def migrateCredentials_def Let_def
  by (auto intro!: frame_rules)

lemma inv_reconcileCreateOrUpdate [frame_rules]: "preserves inv_kept (reconcileCreateOrUpdate E p)"
  unfolding reconcileCreateOrUpdate_def failWithReason_def fail_def by (auto intro!: frame_rules)

lemma inv_reconcileDelete [frame_rules]: "preserves inv_kept (reconcileDelete E cfg p ts)"
  unfolding reconcileDelete_def removeFinalizer_def deleteServiceAccount_def getProducer_def
    getServiceAccountClient_def fail_def failWithReason_def Let_def
  by (auto intro!: frame_rules)

lemma inv_Reconcile: "preserves inv_kept (Reconcile E cfg req)"
  unfolding Reconcile_def by (auto intro!: frame_rules)

lemma inv_rotateSaSecret: "preserves inv_kept (rotateSaSecret E p)"
  unfolding rotateSaSecret_def by (auto intro!: frame_rules)

lemma inv_Producer: "preserves inv_kept (Reconcile_Producer E cfg req)"
  by (rule inv_quiet [OF watchers_of_process [OF process_Producer] emits_mono [OF emits_Producer]])
    (auto elim!: watcher_call.elims)

lemma inv_enqueue: "preserves inv_kept (enqueueRequestsForProducer E obj)"
  unfolding enqueueRequestsForProducer_def listSares_def by (auto intro!: frame_rules inv_io)

interpretation wi: process_invariant "\<lambda>E cfg. watch_inv"
proof unfold_locales
  show "watch_inv (init_st w h)" for w h by (simp add: watch_inv_def init_st_def)
  show "watch_inv s \<Longrightarrow> watch_inv (s\<lparr>world := w\<rparr>)" for s w by (simp add: watch_inv_def)
qed (auto dest: preservesD [OF inv_Reconcile] preservesD [OF inv_rotateSaSecret] preservesD [OF inv_Producer]
    preservesD [OF inv_enqueue] simp: inv_kept_def)

section \<open>The runners that are alive\<close>

text \<open>C18: no rotation runner leaks. In every reachable state of the process (any sequence of reconciles, rotation jobs and changes by others, in any environment), a runner that was started and not stopped is registered in the watcher map, under exactly one key. So there is at most one live runner per key, and every live runner can still be stopped.\<close>
theorem live_runner_registered:
  assumes "reachable E cfg s" and "live s r"
  shows "\<exists>!k. map_of (watchers s) k = Some r"
proof -
  have inv: "watch_inv s" using assms(1) by (rule wi.reachable_holds)
  with assms(2) have "registered (watchers s) r" by (auto simp: watch_inv_def live_def)
  with inv show ?thesis unfolding registered_def watch_inv_def by blast
qed

lemma run_stop_all: "run_state (stop_all rs) s = ((), s\<lparr>trace := trace s @ map Stop_Runner rs\<rparr>)"
  by (induction rs arbitrary: s) (simp_all add: run_simps)

lemma none_live_after_cleanup:
  assumes "reachable E cfg s" and "run_state cleanup s = (u, t)"
  shows "\<not> live t r"
proof
  assume r: "live t r"
  from assms(2) have t: "trace t = trace s @ map Stop_Runner (map snd (watchers s))"
    by (auto simp: cleanup_def run_stop_all)
  with r have "live s r" by (auto simp: live_def)
  with wi.reachable_holds [OF assms(1)] have "registered (watchers s) r"
    by (auto simp: watch_inv_def live_def)
  then have "Stop_Runner r \<in> set (trace t)" unfolding registered_def t by (force dest: map_of_SomeD)
  with r show False by (simp add: live_def)
qed

lemma live_after_stop_old:
  "live (stop_old p s) r \<longleftrightarrow> live s r \<and> map_of (watchers s) (namespacedName (heap s p)) \<noteq> Some r"
  by (auto simp: live_def trace_stop_old split: option.splits)

text \<open>What one call of \<open>handleSaRotationWatcher\<close> does to the live runners, from any reachable state. Rotation off: the SARE's runner is stopped and unregistered. On with a valid expression: it is replaced by a new runner for this expression and this SARE object. On with an invalid expression: an error, the old runner is stopped and stays registered. The runners of other keys are never touched.\<close>
theorem rotation_watcher_follows_spec:
  assumes reach: "reachable E cfg s" and run: "run_state (handleSaRotationWatcher E p) s = (err, t)"
  defines "key \<equiv> namespacedName (heap s p)"
  shows "case rotation_expr (heap s p) of
      None \<Rightarrow> err = None \<and> map_of (watchers t) = (map_of (watchers s))(key := None) \<and>
        (\<forall>r. live t r \<longleftrightarrow> live s r \<and> map_of (watchers s) key \<noteq> Some r)
    | Some expr \<Rightarrow>
        if e_cron_is_valid E expr
        then err = None \<and> map_of (watchers t) = (map_of (watchers s))(key \<mapsto> length (tasks s)) \<and>
          tasks t = tasks s @ [\<lparr>taskExpr = expr, taskSare = p\<rparr>] \<and>
          (\<forall>r. live t r \<longleftrightarrow> r = length (tasks s) \<or> live s r \<and> map_of (watchers s) key \<noteq> Some r)
        else err \<noteq> None \<and> watchers t = watchers s \<and>
          (\<forall>r. live t r \<longleftrightarrow> live s r \<and> map_of (watchers s) key \<noteq> Some r)"
proof -
  note inv = wi.reachable_holds [OF reach, unfolded watch_inv_def]
  have new: "live (watcher_set expr p s) r \<longleftrightarrow> r = length (tasks s) \<or> live (stop_old p s) r" for expr r
  proof -
    have "Stop_Runner (length (tasks s)) \<notin> set (trace s)" using inv by (metis less_irrefl)
    moreover have "map_of (watchers s) (namespacedName (heap s p)) \<noteq> Some (length (tasks s))"
      using inv by (metis less_irrefl)
    ultimately have "Stop_Runner (length (tasks s)) \<notin> set (trace (stop_old p s))"
      by (auto simp: trace_stop_old split: option.splits)
    then show ?thesis by (auto simp: live_def)
  qed
  have gone: "live (watcher_deleted p s) r \<longleftrightarrow> live (stop_old p s) r" for r
    by (simp add: live_def)
  show ?thesis
    using run unfolding run_handleSaRotationWatcher key_def
    by (auto simp: new gone live_after_stop_old AList.delete_conv' fun_eq_iff split: option.splits if_splits)
qed

section \<open>The rotation job\<close>

lemma run_rotateSaSecret:
  "run_state (rotateSaSecret E p) s =
     (case check_answer E (heap s p) (world s) of
        (b, n, Some e) \<Rightarrow> ((1, Some (errorf (''failed to check if secret '' @ goQuote n
          @ '' exists for service account request '' @ goQuote (sareName (heap s p)) @ '' during rotation: '') e)),
          checked E (heap s p) s)
      | (False, n, None) \<Rightarrow> ((0, None), checked E (heap s p) s)
      | (True, n, None) \<Rightarrow>
          let s2 = patched E p (heap s p) (rotating_sare E (heap s p)) (checked E (heap s p) s);
              d = delete_answer (heap s2 p) (fst (e_delete_secret E (secret_key (heap s2 p)) (world s2))) in
          ((case d of
              Some e \<Rightarrow> (1, Some (errorf (''failed to delete secret '' @ goQuote n
                @ '' for service account request '' @ goQuote (sareName (heap s2 p)) @ '' during rotation: '') e))
            | None \<Rightarrow> (0, None)), delete_st E (heap s2 p) s2))"
  by (auto simp: rotateSaSecret_def run_simps check_answer_def checked_def delete_st_def Let_def
      split: prod.split option.split)

lemma rotating_key: "secret_key (rotating_sare E x) = secret_key x"
  by (simp add: rotating_sare_def set_condition_def with_status_def secret_key_def resolveSecretName_def
      split: option.split)

lemma rotation_keeps_foreign:
  assumes laws: "secret_laws E V" "others_keep_secrets E V"
    and same: "\<forall>b x w. secret_key (snd (fst (e_patch_sare_status E b x w))) = secret_key x"
    and run: "run_state (rotateSaSecret E p) s = (r, t)"
    and x: "V (world s) k = Some x" and foreign: "\<not> e_is_controlled_by E x (heap s p)"
  shows "V (world t) k = Some x"
proof -
  obtain b n e where c: "check_answer E (heap s p) (world s) = (b, n, e)" by (cases "check_answer E (heap s p) (world s)")
  show ?thesis
  proof (cases "b \<and> e = None")
    case True
    with c have "check_answer E (heap s p) (world s) = (True, n, None)" by simp
    from checked_not_foreign [OF laws(1) this x foreign] have key: "k \<noteq> secret_key (heap s p)" .
    with run c True same show ?thesis
      using delete_law_other [OF secret_lawsD(2) [OF laws(1)] key] laws(2) x view_checked [OF laws(1)]
      by (auto simp: run_rotateSaSecret Let_def rotating_key read_lawD(1) [OF secret_lawsD(1) [OF laws(1)]])
  next
    case False
    with run c x view_checked [OF laws(1), of "heap s p" s] show ?thesis
      by (auto simp: run_rotateSaSecret simp del: checked_fields split: option.splits bool.splits)
  qed
qed

text \<open>Under the laws of the API server, and if its answers to status patches leave name, namespace and \<open>spec.secretRef\<close> as they were, a rotation job never changes or removes a secret that the SARE does not control.\<close>
theorem rotation_deletes_own_secret:
  assumes laws: "secret_laws E V" "others_keep_secrets E V"
    and same: "\<forall>b x w. secret_key (snd (fst (e_patch_sare_status E b x w))) = secret_key x"
    and run: "run_state (rotateSaSecret E p) s = (r, t)"
    and x: "V (world s) k = Some x" and foreign: "\<not> e_is_controlled_by E x (heap s p)"
  shows "V (world t) k = Some x"
  by (rule rotation_keeps_foreign [OF assms])

text \<open>
  An API server whose SARE was edited while the job runs: its answer to the status patch
  carries the new \<open>spec.secretRef\<close>.
\<close>

definition raceE :: "sim env" where
  "raceE = simE\<lparr>e_patch_sare_status := (\<lambda>b x w. ((None, x\<lparr>sareSpec := (sareSpec x)\<lparr>srSecretRef := Some ''other''\<rparr>\<rparr>), w))\<rparr>"

definition race_st :: "sim st" where
  "race_st = ex_st (ex_world [(nn ''ns'' ''r'', ex_secret ''u1'' []), (nn ''ns'' ''other'', ex_secret ''u9'' [])]
     (Inr (ex_response 204 [])))"

lemma raceE_fields:
  "e_get_sare raceE = e_get_sare simE" "e_update_sare raceE = e_update_sare simE"
  "e_list_sares raceE = e_list_sares simE" "e_get_sapr raceE = e_get_sapr simE"
  "e_patch_sapr_status raceE = e_patch_sapr_status simE" "e_http_do raceE = e_http_do simE"
  "e_now raceE = e_now simE" "e_get_secret raceE = e_get_secret simE"
  "e_delete_secret raceE = e_delete_secret simE"
  "e_create_or_update_secret raceE = e_create_or_update_secret simE"
  "e_is_controlled_by raceE = e_is_controlled_by simE"
  "e_set_controller_reference raceE = e_set_controller_reference simE"
  by (simp_all add: raceE_def)

lemma race_laws: "secret_laws raceE sim_secret" "others_keep_secrets raceE sim_secret"
proof -
  show "secret_laws raceE sim_secret"
    using sim_laws unfolding secret_laws_def read_law_def delete_law_def upsert_law_def owner_law_def raceE_fields .
  have "kept sim_secret (e_patch_sare_status raceE b x)" for b x by (simp add: kept_def raceE_def)
  then show "others_keep_secrets raceE sim_secret"
    using sim_others unfolding others_keep_secrets_def raceE_fields by blast
qed

lemma check_answer_found:
  "check_answer E sare w = (True, n, None) \<longleftrightarrow>
     n = resolveSecretName sare \<and> (\<exists>x. fst (e_get_secret E (secret_key sare) w) = Inr x \<and> e_is_controlled_by E x sare)"
  by (auto simp: check_answer_def exists_answer_def split: sum.splits if_splits)

lemma run_rotate_refused:
  assumes "\<nexists>x. fst (e_get_secret E (secret_key (heap s p)) (world s)) = Inr x \<and> e_is_controlled_by E x (heap s p)"
    and "run_state (rotateSaSecret E p) s = (r, t)"
  shows "t = checked E (heap s p) s"
  using assms by (auto simp: run_rotateSaSecret check_answer_def exists_answer_def split: sum.splits if_splits)

lemma run_rotate_own:
  assumes "fst (e_get_secret E (secret_key (heap s p)) (world s)) = Inr x" and "e_is_controlled_by E x (heap s p)"
    and "run_state (rotateSaSecret E p) s = (r, t)"
  defines "s2 \<equiv> patched E p (heap s p) (rotating_sare E (heap s p)) (checked E (heap s p) s)"
  shows "t = delete_st E (heap s2 p) s2"
    and "r = (0, None) \<longleftrightarrow> (\<forall>e. fst (e_delete_secret E (secret_key (heap s2 p)) (world s2)) = Some e \<longrightarrow> is_not_found e)"
  using assms
  by (auto simp: run_rotateSaSecret check_answer_def exists_answer_def Let_def delete_answer_def split: option.splits if_splits)

lemma rotation_job_outcome:
  assumes laws: "secret_laws E V" "others_keep_secrets E V" and run: "run_state (rotateSaSecret E p) s = (r, t)"
  defines "k \<equiv> secret_key (heap s p)" and "ans \<equiv> fst (e_get_secret E (secret_key (heap s p)) (world s))"
    and "patch \<equiv> fst (e_patch_sare_status E (heap s p) (rotating_sare E (heap s p))
           (snd (e_get_secret E (secret_key (heap s p)) (world s))))"
  shows "if \<exists>x. ans = Inr x \<and> e_is_controlled_by E x (heap s p)
    then (\<exists>a. new_calls s t = [Get_Secret k ans, Patch_Sare_Status (heap s p) (rotating_sare E (heap s p)) patch,
            Delete_Secret (secret_key (snd patch)) a] \<and> (r = (0, None) \<longleftrightarrow> (\<forall>e. a = Some e \<longrightarrow> is_not_found e))) \<and>
      (\<forall>n. n \<noteq> secret_key (snd patch) \<longrightarrow> V (world t) n = V (world s) n) \<and>
      (r = (0, None) \<longrightarrow> V (world t) (secret_key (snd patch)) = None)
    else new_calls s t = [Get_Secret k ans] \<and> V (world t) = V (world s)"
proof (cases "\<exists>x. ans = Inr x \<and> e_is_controlled_by E x (heap s p)")
  case False
  from run_rotate_refused [OF False [unfolded ans_def] run] False show ?thesis
    using view_checked [OF laws(1), of "heap s p" s] by (simp add: new_calls_def k_def ans_def)
next
  case True
  then obtain x where x: "ans = Inr x" "e_is_controlled_by E x (heap s p)" by blast
  define s2 where "s2 = patched E p (heap s p) (rotating_sare E (heap s p)) (checked E (heap s p) s)"
  note own = run_rotate_own [OF x(1) [unfolded ans_def] x(2) run, folded s2_def]
  have key: "heap s2 p = snd patch" by (simp add: s2_def patch_def)
  have v2: "V (world s2) = V (world s)"
    using laws view_checked [OF laws(1), of "heap s p" s] by (simp add: s2_def read_lawD secret_lawsD)
  have calls: "new_calls s t = [Get_Secret k ans, Patch_Sare_Status (heap s p) (rotating_sare E (heap s p)) patch,
      Delete_Secret (secret_key (snd patch)) (fst (e_delete_secret E (secret_key (snd patch)) (world s2)))]"
    unfolding own(1) key by (simp add: delete_st_def s2_def new_calls_def k_def ans_def patch_def)
  note del = delete_lawD [OF secret_lawsD(2) [OF laws(1)], of "secret_key (snd patch)" "world s2"]
  have "V (world t) = V (world s2) \<or> V (world t) = (V (world s2))(secret_key (snd patch) := None)"
    using del(3) by (simp add: own(1) key delete_st_def)
  moreover have "V (world t) (secret_key (snd patch)) = None" if "r = (0, None)"
    using that own(2) del(1,2) by (cases "fst (e_delete_secret E (secret_key (snd patch)) (world s2))")
      (auto simp: own(1) key delete_st_def)
  ultimately show ?thesis using True calls own(2) v2 by (auto simp: key)
qed

text \<open>C23: what a rotation job does, and which secret it deletes, when the API server obeys its laws for secrets (a call about anything else leaves them alone). It reads the secret of the SARE object it has captured. If the read does not answer a secret that the SARE controls, this is its only call and no secret changes. Otherwise it patches the status and then deletes the secret that the object answered by the API server names, without another check: nothing else changes in the cluster's secrets, and after a success that secret is gone, whoever controls it. So if the SARE is edited while the job runs and the answer carries another \<open>spec.secretRef\<close>, the job deletes the secret of that name and keeps its own.\<close>
theorem rotation_job_deletes_answered_name:
  assumes laws: "secret_laws E V" "others_keep_secrets E V" and run: "run_state (rotateSaSecret E p) s = (r, t)"
  defines "k \<equiv> secret_key (heap s p)" and "ans \<equiv> fst (e_get_secret E (secret_key (heap s p)) (world s))"
    and "patch \<equiv> fst (e_patch_sare_status E (heap s p) (rotating_sare E (heap s p))
           (snd (e_get_secret E (secret_key (heap s p)) (world s))))"
  shows "if \<exists>x. ans = Inr x \<and> e_is_controlled_by E x (heap s p)
    then (\<exists>a. new_calls s t = [Get_Secret k ans, Patch_Sare_Status (heap s p) (rotating_sare E (heap s p)) patch,
            Delete_Secret (secret_key (snd patch)) a] \<and> (r = (0, None) \<longleftrightarrow> (\<forall>e. a = Some e \<longrightarrow> is_not_found e))) \<and>
      (\<forall>n. n \<noteq> secret_key (snd patch) \<longrightarrow> V (world t) n = V (world s) n) \<and>
      (r = (0, None) \<longrightarrow> V (world t) (secret_key (snd patch)) = None)
    else new_calls s t = [Get_Secret k ans] \<and> V (world t) = V (world s)"
  unfolding k_def ans_def patch_def by (rule rotation_job_outcome [OF laws run])

section \<open>Witnesses\<close>

definition rotating :: sare where
  "rotating = ex_sare\<lparr>sareSpec := ex_spec\<lparr>srRotation := Some \<lparr>rotEnabled = True, rotRotation = ''e''\<rparr>\<rparr>\<rparr>"

definition started :: "sim st" where
  "started = snd (run_state (Reconcile simE ex_cfg (nn ''ns'' ''r''))
     (init_st ((ex_world [] (Inr (ex_response 204 [])))\<lparr>simSares := [(nn ''ns'' ''r'', rotating)]\<rparr>) (\<lambda>n. rotating)))"

lemma started_reachable: "reachable simE ex_cfg started"
  unfolding started_def
  by (rule Reach_Step [OF Reach_Init Step_Reconcile [OF prod.collapse [symmetric]]])

lemma started_facts:
  "live started 0" "map_of (watchers started) ''r-ns'' = Some 0" "length (tasks started) = 1"
  "rotation_expr (heap started 0) = Some ''e''"
  "sim_secret (world started) (nn ''ns'' ''auth'') = Some (ex_secret [] [(''key'', ''K'')])"
proof -
  have "(let s = started in (live s 0, map_of (watchers s) ''r-ns'', length (tasks s), rotation_expr (heap s 0),
      sim_secret (world s) (nn ''ns'' ''auth''))) =
    (True, Some 0, 1, Some ''e'', Some (ex_secret [] [(''key'', ''K'')]))" by code_simp
  then show "live started 0" "map_of (watchers started) ''r-ns'' = Some 0" "length (tasks started) = 1"
    "rotation_expr (heap started 0) = Some ''e''"
    "sim_secret (world started) (nn ''ns'' ''auth'') = Some (ex_secret [] [(''key'', ''K'')])"
    by (simp_all add: Let_def)
qed

theorem live_runner_registered_witness: "live started 0 \<and> (\<exists>!k. map_of (watchers started) k = Some 0)"
  using live_runner_registered [OF started_reachable started_facts(1)] started_facts(1) by simp

theorem rotation_watcher_follows_spec_witness:
  "live (snd (run_state (handleSaRotationWatcher simE 0) started)) 1"
proof -
  have "e_cron_is_valid simE ''e''" by simp
  with started_facts rotation_watcher_follows_spec [OF started_reachable prod.collapse [symmetric], of 0]
  show ?thesis by simp
qed

text \<open>An API server whose answers never change the spec.\<close>

definition rotatable :: "sim st" where
  "rotatable = ex_st (ex_world [(nn ''ns'' ''r'', ex_secret ''u1'' []), (nn ''ns'' ''other'', ex_secret ''u9'' [])]
     (Inr (ex_response 204 [])))"

theorem rotation_deletes_own_secret_witness:
  "sim_secret (world (snd (run_state (rotateSaSecret simE 0) rotatable))) (nn ''ns'' ''other'') =
      Some (ex_secret ''u9'' []) \<and>
   sim_secret (world (snd (run_state (rotateSaSecret simE 0) rotatable))) (nn ''ns'' ''r'') = None"
proof -
  have same: "\<forall>b x w. secret_key (snd (fst (e_patch_sare_status simE b x w))) = secret_key x"
    by (simp add: sim_put_sare_def)
  have ab: "sim_secret (world rotatable) (nn ''ns'' ''other'') = Some (ex_secret ''u9'' []) \<and>
      \<not> e_is_controlled_by simE (ex_secret ''u9'' []) (heap rotatable 0)" by code_simp
  have c: "sim_secret (world (snd (run_state (rotateSaSecret simE 0) rotatable))) (nn ''ns'' ''r'') = None"
    by code_simp
  from rotation_deletes_own_secret [OF sim_laws sim_others same prod.collapse [symmetric] conjunct1 [OF ab] conjunct2 [OF ab]] c show ?thesis by simp
qed

theorem rotation_job_deletes_answered_name_witness:
  "sim_secret (world race_st) (nn ''ns'' ''other'') = Some (ex_secret ''u9'' []) \<and>
   \<not> e_is_controlled_by raceE (ex_secret ''u9'' []) (heap race_st 0) \<and>
   sim_secret (world (snd (run_state (rotateSaSecret raceE 0) race_st))) (nn ''ns'' ''other'') = None \<and>
   sim_secret (world (snd (run_state (rotateSaSecret raceE 0) race_st))) (nn ''ns'' ''r'') = Some (ex_secret ''u1'' [])"
proof -
  let ?ans = "fst (e_get_secret raceE (secret_key (heap race_st 0)) (world race_st))"
  have before: "sim_secret (world race_st) (nn ''ns'' ''other'') = Some (ex_secret ''u9'' []) \<and>
    \<not> e_is_controlled_by raceE (ex_secret ''u9'' []) (heap race_st 0) \<and>
    sim_secret (world race_st) (nn ''ns'' ''r'') = Some (ex_secret ''u1'' [])" by code_simp
  have own: "?ans = Inr (ex_secret ''u1'' []) \<and> e_is_controlled_by raceE (ex_secret ''u1'' []) (heap race_st 0)" by code_simp
  have ok: "fst (run_state (rotateSaSecret raceE 0) race_st) = (0, None)" by code_simp
  have key: "secret_key (snd (fst (e_patch_sare_status raceE b (rotating_sare raceE (heap race_st 0)) w))) = nn ''ns'' ''other''" for b w
    by (simp add: raceE_def secret_key_def resolveSecretName_def rotating_sare_def set_condition_def with_status_def race_st_def ex_sare_def)
  from rotation_job_deletes_answered_name [OF race_laws prod.collapse [symmetric], where s = race_st and p = 0] own ok before show ?thesis
    by (auto simp: key)
qed

end
