(* ===== verification/Request_Deletion.thy ===== *)
theory Request_Deletion
  imports Request_Report
begin

text \<open>
  The deletion of a SARE: the requests to the producer, and when the finalizer goes.
\<close>

section \<open>At the producer\<close>

definition delete_head :: "http_client \<Rightarrow> string \<Rightarrow> http_request" where
  "delete_head c url = \<lparr>hrMethod = ''HEAD'', hrUrl = url, hrHeaders = [(''X-CES-SA-API-KEY'', hcApiKey c)], hrBody = []\<rparr>"

definition delete_request :: "http_client \<Rightarrow> string \<Rightarrow> http_request" where
  "delete_request c url = \<lparr>hrMethod = ''DELETE'', hrUrl = url, hrHeaders = [(''X-CES-SA-API-KEY'', hcApiKey c)], hrBody = []\<rparr>"

text \<open>The requests of a deletion, and whether they settle it.\<close>

inductive deletion_requests :: "string \<Rightarrow> string \<Rightarrow> call list \<Rightarrow> bool \<Rightarrow> bool" for endpoint consumer where
  nothing: "deletion_requests endpoint consumer [] False"
| asked: "url_join_path endpoint consumer = Inr url \<Longrightarrow> (\<And>resp. a = Inr resp \<Longrightarrow> respCode resp \<noteq> 404) \<Longrightarrow>
    deletion_requests endpoint consumer [Http_Do (delete_head c url) a] False"
| absent: "url_join_path endpoint consumer = Inr url \<Longrightarrow> respCode resp = 404 \<Longrightarrow>
    deletion_requests endpoint consumer [Http_Do (delete_head c url) (Inr resp)] True"
| deleted: "url_join_path endpoint consumer = Inr url \<Longrightarrow> respCode resp = 200 \<Longrightarrow>
    b = (case a of Inl e \<Rightarrow> False
       | Inr resp2 \<Rightarrow> respCode resp2 = 404 \<or> 200 \<le> respCode resp2 \<and> respCode resp2 < 300) \<Longrightarrow>
    deletion_requests endpoint consumer
      [Http_Do (delete_head c url) (Inr resp), Http_Do (delete_request c url) a] b"

lemma delete_exchange:
  assumes x: "run_state (hc_Exists E c consumer) s = (xr, u)"
    and d: "xr = Inr True \<Longrightarrow> run_state (hc_Delete E c consumer) u = (dr, v)"
    and n: "xr \<noteq> Inr True \<Longrightarrow> v = u"
  shows "\<exists>cs. trace v = trace s @ cs \<and>
    deletion_requests (hcEndpoint c) consumer cs (xr = Inr False \<or> xr = Inr True \<and> dr = None)"
proof (cases "url_join_path (hcEndpoint c) consumer")
  case (Inl e)
  with x n show ?thesis by (auto simp: run_hc_Exists intro!: deletion_requests.nothing)
next
  case (Inr url)
  note join = this
  show ?thesis
  proof (cases "newRequest ''HEAD'' url [(apiKeyHeader, hcApiKey c)] []")
    case (Inl e)
    with x n join show ?thesis by (auto simp: run_hc_Exists intro!: deletion_requests.nothing)
  next
    case (Inr req)
    then have req: "req = delete_head c url" and ok: "\<exists>v. url_parse url = Inr v"
      by (auto simp: newRequest_Inr delete_head_def apiKeyHeader_def)
    from ok have del: "newRequest ''DELETE'' url [(apiKeyHeader, hcApiKey c)] [] = Inr (delete_request c url)"
      by (auto simp: newRequest_Inr delete_request_def apiKeyHeader_def)
    show ?thesis
    proof (cases "fst (e_http_do E req (world s))")
      case (Inl e)
      with x n join Inr req show ?thesis by (auto simp: run_hc_Exists intro!: deletion_requests.asked)
    next
      case ans: (Inr resp)
      show ?thesis
      proof (cases "respCode resp = 200")
        case True
        with x join Inr ans have xr: "xr = Inr True"
          and u: "u = io_st (e_http_do E req) (Http_Do req) s"
          by (auto simp: run_hc_Exists exists_status_def)
        show ?thesis
          using d [OF xr] xr u join del ans req True
            deletion_requests.deleted [OF join True refl, of c "fst (e_http_do E (delete_request c url) (world u))"]
          by (auto simp: run_hc_Delete delete_status_def split: sum.splits if_splits)
      next
        case False
        with x n join Inr ans req show ?thesis
          by (cases "respCode resp = 404")
            (auto simp: run_hc_Exists exists_status_def intro!: deletion_requests.asked intro: deletion_requests.absent)
      qed
    qed
  qed
qed

definition deletion_settled :: "sare \<Rightarrow> call list \<Rightarrow> bool \<Rightarrow> bool" where
  "deletion_settled sare cs b \<longleftrightarrow>
     (\<exists>err. Get_Sapr (producer_key sare) (Inl err) \<in> set cs \<and> filter is_http cs = [] \<and> b = is_not_found err) \<or>
     (\<exists>sapr. read_before (Get_Sapr (producer_key sare) (Inr sapr)) cs \<and>
        (filter is_http cs = [] \<and> \<not> b \<or>
         (\<exists>http. saprHTTP sapr = Some http \<and>
            deletion_requests (hpEndpoint http) (srConsumer (sareSpec sare)) (filter is_http cs) b)))"

lemma deletion_requests_http: "deletion_requests endpoint consumer cs b \<Longrightarrow> filter is_http cs = cs"
  by (induction rule: deletion_requests.induct) auto

lemma emits_no_update: "preserves (emits (\<lambda>c. \<not> is_sare_update c)) (deleteServiceAccount E sare)"
  unfolding deleteServiceAccount_def getServiceAccountClient_def getProducer_def call_defs Let_def
  by (auto intro!: frame_rules hc.client_emits cf.reader_emits)

lemma process_deleteServiceAccount: "preserves same_process (deleteServiceAccount E sare)"
  unfolding deleteServiceAccount_def getServiceAccountClient_def getProducer_def call_defs Let_def
  by (auto intro!: frame_rules hc.client_process)

lemma client_endpoint:
  assumes "run_state (getServiceAccountClient E sare sapr) s = (Inr c, t)"
  shows "\<exists>http. saprHTTP sapr = Some http \<and> hcEndpoint c = hpEndpoint http"
    and "\<exists>n a. trace t = trace s @ [Get_Secret n a]"
  using assms by (auto simp: getServiceAccountClient_def run_simps split: option.splits sum.splits)

lemma client_silent:
  assumes "run_state (getServiceAccountClient E sare sapr) s = (r, t)"
  shows "\<exists>cs. trace t = trace s @ cs \<and> filter is_http cs = []"
  using assms by (auto simp: getServiceAccountClient_def run_simps split: option.splits sum.splits)

lemma deleteServiceAccount_settled:
  assumes run: "run_state (deleteServiceAccount E sare) s = (d, t)"
  shows "\<exists>cs. trace t = trace s @ cs \<and> deletion_settled sare cs (d = None)"
proof (cases "fst (e_get_sapr E (producer_key sare) (world s))")
  case (Inl err)
  with run show ?thesis
    by (intro exI [of _ "[Get_Sapr (producer_key sare) (Inl err)]"])
      (auto simp: deleteServiceAccount_def Let_def run_simps producer_key_def deletion_settled_def split: if_splits)
next
  case (Inr sapr)
  let ?s1 = "get_producer_st E sare s"
  obtain r s2 where r: "run_state (getServiceAccountClient E sare sapr) ?s1 = (r, s2)" by fastforce
  show ?thesis
  proof (cases r)
    case (Inl e)
    obtain cs where cs: "trace s2 = trace ?s1 @ cs" "filter is_http cs = []" using client_silent [OF r] by blast
    from Inl Inr run r have fin: "\<exists>ds. trace t = trace s2 @ ds \<and> filter is_http ds = []" and d: "d \<noteq> None"
      by (auto simp: deleteServiceAccount_def Let_def run_simps producer_key_def [symmetric] get_producer_st_def)
    from fin obtain ds where ds: "trace t = trace s2 @ ds" "filter is_http ds = []" by blast
    let ?cs = "Get_Sapr (producer_key sare) (Inr sapr) # cs @ ds"
    have "trace t = trace s @ ?cs" and "filter is_http ?cs = []" using ds cs Inr by simp_all
    moreover from this have "deletion_settled sare ?cs (d = None)" using d read_before_first unfolding deletion_settled_def by blast
    ultimately show ?thesis by blast
  next
    case client: (Inr c)
    obtain http where http: "saprHTTP sapr = Some http" "hcEndpoint c = hpEndpoint http"
      using client_endpoint(1) [OF r [unfolded client]] by blast
    obtain n a where s2: "trace s2 = trace ?s1 @ [Get_Secret n a]"
      using client_endpoint(2) [OF r [unfolded client]] by blast
    obtain xr u where x: "run_state (hc_Exists E c (srConsumer (sareSpec sare))) s2 = (xr, u)" by fastforce
    obtain dr v where v: "if xr = Inr True then run_state (hc_Delete E c (srConsumer (sareSpec sare))) u = (dr, v)
        else v = u" by (cases "xr = Inr True") fastforce+
    from delete_exchange [OF x, of dr v] v obtain cs where cs: "trace v = trace s2 @ cs"
      "deletion_requests (hpEndpoint http) (srConsumer (sareSpec sare)) cs (xr = Inr False \<or> xr = Inr True \<and> dr = None)"
      using http(2) by auto
    have fin: "\<exists>ds. trace t = trace v @ ds \<and> filter is_http ds = []"
      and d: "d = None \<longleftrightarrow> xr = Inr False \<or> xr = Inr True \<and> dr = None"
      using run Inr r client x v
      by (auto simp: deleteServiceAccount_def Let_def run_simps producer_key_def [symmetric] get_producer_st_def
          readClock_def patchSaprStatus_def Let_def split: sum.splits if_splits option.splits prod.splits)
    then obtain ds where ds: "trace t = trace v @ ds" "filter is_http ds = []" by blast
    let ?cs = "Get_Sapr (producer_key sare) (Inr sapr) # Get_Secret n a # cs @ ds"
    have "trace t = trace s @ ?cs" using ds(1) cs(1) s2 Inr by simp
    moreover have "filter is_http ?cs = cs" using deletion_requests_http [OF cs(2)] ds(2) by simp
    with cs(2) [folded d] http(1) have "deletion_settled sare ?cs (d = None)"
      using read_before_first unfolding deletion_settled_def by metis
    ultimately show ?thesis by blast
  qed
qed

section \<open>The finalizer\<close>

lemma run_removeFinalizer:
  "run_state (removeFinalizer E p) s =
     (if \<not> e_contains_finalizer E (heap s p) finalizer then (None, s)
      else let x = e_remove_finalizer E (heap s p) finalizer; a = fst (e_update_sare E x (world s)) in
        ((case fst a of None \<Rightarrow> None | Some e \<Rightarrow> if is_not_found e then None
            else Some (errorf (''failed to remove finalizer from service account request '' @ goQuote (sareName (snd a)) @ '': '') e)),
         s\<lparr>world := snd (e_update_sare E x (world s)), trace := trace s @ [Update_Sare x a],
           heap := (heap s)(p := snd a)\<rparr>))"
  by (auto simp: removeFinalizer_def run_simps updateSare_def io_st_def Let_def split: prod.split option.split)

definition delete_clock :: "'w env \<Rightarrow> nat \<Rightarrow> 'w st \<Rightarrow> 'w st" where
  "delete_clock E p s = clock_st E (watcher_deleted p s)"

lemma run_reconcileDelete:
  "run_state (reconcileDelete E cfg p ts) s =
     (if \<not> e_contains_finalizer E (heap s p) finalizer then (None, watcher_deleted p s)
      else if time_since (fst (e_now E (world s))) ts > cfgDeletionTimeout cfg
           then run_state (removeFinalizer E p) (delete_clock E p s)
      else (case run_state (deleteServiceAccount E (heap s p)) (delete_clock E p s) of
          (None, u) \<Rightarrow> run_state (removeFinalizer E p) u
        | (Some err, u) \<Rightarrow> run_state (fail E p (errorf (''failed to delete service account for ''
            @ goQuote (sareName (heap s p)) @ '': '') err)) u))"
  by (auto simp: reconcileDelete_def run_simps readClock_def delete_clock_def clock_st_def split: prod.split option.split)

lemma trace_delete_clock: "\<exists>cs. trace (delete_clock E p s) = trace s @ cs \<and> filter is_http cs = [] \<and>
    filter is_sare_update cs = []"
  by (auto simp: delete_clock_def clock_st_def trace_stop_old split: option.split)

lemma delete_clock_fields [simp]:
  "heap (delete_clock E p s) = heap s" "world (delete_clock E p s) = snd (e_now E (world s))"
  by (simp_all add: delete_clock_def clock_st_def)

lemma settled_grow:
  "deletion_settled sare cs b \<Longrightarrow> filter is_http us = [] \<Longrightarrow> filter is_http vs = [] \<Longrightarrow>
     deletion_settled sare (us @ cs @ vs) b"
  unfolding deletion_settled_def by (elim disjE exE conjE) (use read_before_grow in \<open>fastforce+\<close>)

text \<open>The course of a deletion: \<open>ws\<close> stops the runner and reads the clock, \<open>cs\<close> are the calls of
  \<open>deleteServiceAccount\<close>.\<close>

definition quiet_until :: "int \<Rightarrow> call list \<Rightarrow> bool" where
  "quiet_until now ws \<longleftrightarrow> filter is_http ws = [] \<and> filter is_sare_update ws = [] \<and> Read_Clock now \<in> set ws"

lemma delete_clock_quiet:
  "\<exists>ws. trace (delete_clock E p s) = trace s @ ws \<and> quiet_until (fst (e_now E (world s))) ws"
  by (auto simp: delete_clock_def clock_st_def trace_stop_old quiet_until_def split: option.split)

lemma reconcileDeleteE:
  assumes run: "run_state (reconcileDelete E cfg p ts) s = (r, t)"
  defines "now \<equiv> fst (e_now E (world s))" and "x \<equiv> e_remove_finalizer E (heap s p) finalizer"
  obtains
    (No_Finalizer) "\<not> e_contains_finalizer E (heap s p) finalizer" "t = watcher_deleted p s"
  | (Late) ws a where "e_contains_finalizer E (heap s p) finalizer" "time_since now ts > cfgDeletionTimeout cfg"
      "quiet_until now ws" "trace t = trace s @ ws @ [Update_Sare x a]"
  | (Failed) ws cs b y a where "e_contains_finalizer E (heap s p) finalizer" "time_since now ts \<le> cfgDeletionTimeout cfg"
      "quiet_until now ws" "filter is_sare_update cs = []" "deletion_settled (heap s p) cs False"
      "trace t = trace s @ ws @ cs @ [Patch_Sare_Status b y a]"
  | (Done) ws cs a where "e_contains_finalizer E (heap s p) finalizer" "time_since now ts \<le> cfgDeletionTimeout cfg"
      "quiet_until now ws" "filter is_sare_update cs = []" "deletion_settled (heap s p) cs True"
      "trace t = trace s @ ws @ cs @ [Update_Sare x a]"
proof -
  obtain ws where ws: "trace (delete_clock E p s) = trace s @ ws" "quiet_until now ws"
    using delete_clock_quiet unfolding now_def by blast
  show thesis
  proof (cases "e_contains_finalizer E (heap s p) finalizer")
    case False
    with run show thesis by (intro No_Finalizer) (auto simp: run_reconcileDelete)
  next
    case fin: True
    show thesis
    proof (cases "time_since now ts > cfgDeletionTimeout cfg")
      case True
      with run fin ws have "trace t = trace s @ ws @ [Update_Sare x
          (fst (e_update_sare E x (world (delete_clock E p s))))]"
        by (auto simp: run_reconcileDelete run_removeFinalizer Let_def now_def x_def)
      from Late [OF fin True ws(2) this] show thesis .
    next
      case False
      obtain d u where d: "run_state (deleteServiceAccount E (heap s p)) (delete_clock E p s) = (d, u)" by fastforce
      obtain cs where cs: "trace u = trace (delete_clock E p s) @ cs" "deletion_settled (heap s p) cs (d = None)"
        using deleteServiceAccount_settled [OF d] by blast
      have no: "filter is_sare_update cs = []"
        using preservesD [OF emits_no_update d] cs(1) by (auto simp: emits_def list_all_iff filter_empty_conv)
      have heap: "heap u = heap s" using process_of [OF process_deleteServiceAccount d] by simp
      from False have early: "time_since now ts \<le> cfgDeletionTimeout cfg" by simp
      show thesis
      proof (cases d)
        case (Some err)
        with run fin False d have "\<exists>b y a. trace t = trace u @ [Patch_Sare_Status b y a]"
          by (auto simp: run_reconcileDelete run_fail now_def simp del: split_paired_Ex)
        then obtain b y a where "trace t = trace u @ [Patch_Sare_Status b y a]" by blast
        with cs ws(1) Some show thesis by (intro Failed [OF fin early ws(2) no]) auto
      next
        case None
        with run fin False d heap have "\<exists>a. trace t = trace u @ [Update_Sare x a]"
          by (auto simp: run_reconcileDelete run_removeFinalizer Let_def now_def x_def simp del: split_paired_Ex)
        then obtain a where "trace t = trace u @ [Update_Sare x a]" by blast
        with cs ws(1) None show thesis by (intro Done [OF fin early ws(2) no]) auto
      qed
    qed
  qed
qed

lemma last_update:
  assumes "ds @ [c] = us @ Update_Sare x a # vs" and "filter is_sare_update ds = []"
  shows "us = ds \<and> c = Update_Sare x a \<and> vs = []"
  using assms by (auto simp: append_eq_append_conv2 Cons_eq_append_conv append_eq_Cons_conv filter_empty_conv)

lemma removal_position:
  assumes run: "run_state (reconcileDelete E cfg p ts) s = (r, t)"
    and pos: "trace t = trace s @ us @ Update_Sare x a # vs"
  defines "now \<equiv> fst (e_now E (world s))"
  shows "vs = [] \<and> e_contains_finalizer E (heap s p) finalizer \<and> x = e_remove_finalizer E (heap s p) finalizer \<and>
    (Read_Clock now \<in> set us \<and> time_since now ts > cfgDeletionTimeout cfg \<and> filter is_http us = [] \<or>
     deletion_settled (heap s p) us True)"
  using run
proof (cases rule: reconcileDeleteE)
  case No_Finalizer
  with pos show ?thesis by (auto simp: trace_stop_old Cons_eq_append_conv split: option.splits)
next
  case (Late ws a')
  with pos have "ws @ [Update_Sare (e_remove_finalizer E (heap s p) finalizer) a'] = us @ Update_Sare x a # vs" by simp
  from last_update [OF this] Late show ?thesis by (auto simp: quiet_until_def now_def)
next
  case (Failed ws cs b y a')
  with pos have "(ws @ cs) @ [Patch_Sare_Status b y a'] = us @ Update_Sare x a # vs" by simp
  from last_update [OF this] Failed show ?thesis by (auto simp: quiet_until_def)
next
  case (Done ws cs a')
  with pos have "(ws @ cs) @ [Update_Sare (e_remove_finalizer E (heap s p) finalizer) a'] = us @ Update_Sare x a # vs" by simp
  from last_update [OF this] Done settled_grow [of "heap s p" cs True ws "[]"] show ?thesis by (auto simp: quiet_until_def)
qed

text \<open>Where the requests of a deletion stand.\<close>

lemma deletion_requests_split:
  assumes "deletion_requests endpoint consumer (filter is_http cs) b" and "cs = us @ Http_Do q a # vs"
  shows "url_join_path endpoint consumer = Inr (hrUrl q) \<and>
    (hrMethod q = ''HEAD'' \<and> filter is_http us = [] \<or>
     hrMethod q = ''DELETE'' \<and> (\<exists>resp. respCode resp = 200 \<and>
       filter is_http us = [Http_Do (q\<lparr>hrMethod := ''HEAD''\<rparr>) (Inr resp)]))"
  using assms
  by (cases rule: deletion_requests.cases)
    (auto simp: Cons_eq_append_conv append_eq_Cons_conv delete_head_def delete_request_def)

lemma settled_requests:
  "deletion_settled sare cs b \<Longrightarrow> filter is_http cs = [] \<or>
     (\<exists>sapr http. read_before (Get_Sapr (producer_key sare) (Inr sapr)) cs \<and> saprHTTP sapr = Some http \<and>
        deletion_requests (hpEndpoint http) (srConsumer (sareSpec sare)) (filter is_http cs) b)"
  by (auto simp: deletion_settled_def)

text \<open>The request goes to the account of the SARE at the producer that has been read.\<close>

definition at_account :: "sare \<Rightarrow> call list \<Rightarrow> http_request \<Rightarrow> bool" where
  "at_account sare cs q \<longleftrightarrow> (\<exists>sapr http. Get_Sapr (producer_key sare) (Inr sapr) \<in> set cs \<and>
     saprHTTP sapr = Some http \<and> url_join_path (hpEndpoint http) (srConsumer (sareSpec sare)) = Inr (hrUrl q))"

lemma inner_request:
  assumes "ws @ cs @ [c] = us @ Http_Do q a # vs" and "filter is_http ws = []" and "\<not> is_http c"
  obtains us' vs' where "us = ws @ us'" "cs = us' @ Http_Do q a # vs'"
  using assms by (auto simp: append_eq_append_conv2 Cons_eq_append_conv append_eq_Cons_conv filter_empty_conv)

lemma removal_requests:
  assumes run: "run_state (reconcileDelete E cfg p ts) s = (r, t)"
    and pos: "trace t = trace s @ us @ Http_Do q a # vs"
  defines "now \<equiv> fst (e_now E (world s))"
  shows "Read_Clock now \<in> set us \<and> time_since now ts \<le> cfgDeletionTimeout cfg \<and> at_account (heap s p) us q \<and>
    (hrMethod q = ''HEAD'' \<and> filter is_http us = [] \<or>
     hrMethod q = ''DELETE'' \<and> (\<exists>resp. respCode resp = 200 \<and>
       filter is_http us = [Http_Do (q\<lparr>hrMethod := ''HEAD''\<rparr>) (Inr resp)]))"
proof -
  have tried: ?thesis if early: "time_since now ts \<le> cfgDeletionTimeout cfg" and ws: "quiet_until now ws"
    and cs: "deletion_settled (heap s p) cs b" and t: "ws @ cs @ [c] = us @ Http_Do q a # vs" and c: "\<not> is_http c" for ws cs b c
  proof -
    from ws have quiet: "filter is_http ws = []" "Read_Clock now \<in> set ws" by (simp_all add: quiet_until_def)
    obtain us' vs' where us: "us = ws @ us'" "cs = us' @ Http_Do q a # vs'" using inner_request [OF t quiet(1) c] .
    then have "filter is_http cs \<noteq> []" by simp
    with settled_requests [OF cs] obtain sapr http where
      reqs: "deletion_requests (hpEndpoint http) (srConsumer (sareSpec (heap s p))) (filter is_http cs) b"
      and sapr: "read_before (Get_Sapr (producer_key (heap s p)) (Inr sapr)) cs" "saprHTTP sapr = Some http" by auto
    from read_before_request [OF sapr(1) [unfolded us(2)]] have "Get_Sapr (producer_key (heap s p)) (Inr sapr) \<in> set us'" by simp
    with deletion_requests_split [OF reqs us(2)] sapr(2) quiet early show ?thesis
      unfolding us(1) at_account_def by auto
  qed
  show ?thesis
    using run
  proof (cases rule: reconcileDeleteE)
    case No_Finalizer
    with pos show ?thesis by (auto simp: trace_stop_old Cons_eq_append_conv split: option.splits)
  next
    case (Late ws a')
    with pos have "ws @ [] @ [Update_Sare (e_remove_finalizer E (heap s p) finalizer) a'] = us @ Http_Do q a # vs" by simp
    then show ?thesis by (rule inner_request) (use Late in \<open>auto simp: quiet_until_def\<close>)
  next
    case (Failed ws cs b y a')
    with pos show ?thesis unfolding now_def [symmetric] by (intro tried [where c = "Patch_Sare_Status b y a'"]) simp_all
  next
    case (Done ws cs a')
    with pos show ?thesis unfolding now_def [symmetric] by (intro tried [where c = "Update_Sare _ a'"]) simp_all
  qed
qed

text \<open>C15: once the deletion timeout has passed, the deletion cannot be blocked by the producer: the reconcile sends no HTTP request, its last call is the update that removes the finalizer, and it succeeds exactly if that update succeeds or answers NotFound.\<close>
theorem deletion_deadline:
  assumes fin: "e_contains_finalizer E (heap s p) finalizer"
    and late: "time_since (fst (e_now E (world s))) ts > cfgDeletionTimeout cfg"
    and run: "run_state (reconcileDelete E cfg p ts) s = (r, t)"
  shows "filter is_http (new_calls s t) = [] \<and>
    (\<exists>a. last (new_calls s t) = Update_Sare (e_remove_finalizer E (heap s p) finalizer) a \<and>
       (r = None \<longleftrightarrow> (case fst a of None \<Rightarrow> True | Some e \<Rightarrow> is_not_found e)))"
proof -
  obtain us where us: "trace (delete_clock E p s) = trace s @ us" "filter is_http us = []"
    using trace_delete_clock by blast
  with run fin late show ?thesis
    by (auto simp: run_reconcileDelete run_removeFinalizer Let_def new_calls_def simp del: split_paired_Ex
        split: option.splits if_splits)
qed

text \<open>Before the timeout, a failed deletion at the producer keeps the finalizer: no update is sent, the last call is a status patch with the condition set to False, and the error is returned with its cause in the text.\<close>
theorem failed_deletion_keeps_finalizer:
  assumes fin: "e_contains_finalizer E (heap s p) finalizer"
    and early: "time_since (fst (e_now E (world s))) ts \<le> cfgDeletionTimeout cfg"
    and del: "run_state (deleteServiceAccount E (heap s p)) (delete_clock E p s) = (Some err, u)"
    and run: "run_state (reconcileDelete E cfg p ts) s = (r, t)"
  shows "filter is_sare_update (new_calls s t) = [] \<and>
    (\<exists>e. r = Some e \<and> err_msg e =
        ''failed to delete service account for '' @ goQuote (sareName (heap s p)) @ '': '' @ err_msg err \<and>
      (\<exists>a. last (new_calls s t) = Patch_Sare_Status (heap s p)
        (failed_sare E (reasonReadyFailed (e_consts E)) e (heap s p)) a))"
proof -
  obtain us where us: "trace (delete_clock E p s) = trace s @ us" "filter is_sare_update us = []"
    using trace_delete_clock by blast
  obtain cs where cs: "trace u = trace (delete_clock E p s) @ cs" "list_all (\<lambda>c. \<not> is_sare_update c) cs"
    using preservesD [OF emits_no_update del] by (auto simp: emits_def)
  have heap: "heap u = heap s" using process_of [OF process_deleteServiceAccount del] by simp
  show ?thesis
    using run fin early del us cs heap
    by (auto simp: run_reconcileDelete run_fail new_calls_def list_all_iff filter_empty_conv simp del: split_paired_Ex)
qed

section \<open>Witnesses\<close>

definition no_account :: "sim st" where
  "no_account = ex_st (ex_world [] (Inr (ex_response 404 [])))"

theorem deletion_deadline_witness:
  "filter is_http (new_calls no_account (snd (run_state (reconcileDelete simE ex_cfg 0 0) no_account))) = []"
proof -
  have "e_contains_finalizer simE (heap no_account 0) finalizer"
    and "time_since (fst (e_now simE (world no_account))) 0 > cfgDeletionTimeout ex_cfg"
    by code_simp+
  from deletion_deadline [OF this prod.collapse [symmetric]] show ?thesis by blast
qed

theorem failed_deletion_keeps_finalizer_witness:
  "\<exists>e. fst (run_state (reconcileDelete simE ex_cfg 0 900) refusing) = Some e"
proof -
  have a: "e_contains_finalizer simE (heap refusing 0) finalizer"
    and b: "time_since (fst (e_now simE (world refusing))) 900 \<le> cfgDeletionTimeout ex_cfg"
    by code_simp+
  have "fst (run_state (deleteServiceAccount simE (heap refusing 0)) (delete_clock simE 0 refusing)) \<noteq> None"
    by code_simp
  then obtain err u where "run_state (deleteServiceAccount simE (heap refusing 0)) (delete_clock simE 0 refusing) = (Some err, u)"
    by (metis not_None_eq prod.collapse)
  from failed_deletion_keeps_finalizer [OF a b this prod.collapse [symmetric]] show ?thesis by blast
qed

end
