(* ===== verification/Operator_System.thy ===== *)
theory Operator_System
  imports Request_Rotation Request_Deletion
begin

text \<open>
  The operator as a whole, over any sequence of its steps: which objects in memory a step may
  change, whom a rotation runner serves, and which secrets of the cluster are safe.
\<close>

section \<open>Objects in memory\<close>

text \<open>Name and namespace of an object are immutable: no answer of the API server changes them.\<close>

definition same_name :: "sare \<Rightarrow> sare \<Rightarrow> bool" where
  "same_name x y \<longleftrightarrow> sareName y = sareName x \<and> sareNamespace y = sareNamespace x"

definition names_kept :: "'w env \<Rightarrow> bool" where
  "names_kept E \<longleftrightarrow> (\<forall>b x w. same_name x (snd (fst (e_patch_sare_status E b x w)))) \<and>
     (\<forall>x w. same_name x (snd (fst (e_update_sare E x w)))) \<and>
     (\<forall>x f. same_name x (e_remove_finalizer E x f)) \<and> (\<forall>x f. same_name x (fst (e_add_finalizer E x f)))"

lemma names_keptD:
  assumes "names_kept E"
  shows "sareName (snd (fst (e_patch_sare_status E b x w))) = sareName x"
    and "sareNamespace (snd (fst (e_patch_sare_status E b x w))) = sareNamespace x"
    and "sareName (snd (fst (e_update_sare E x w))) = sareName x"
    and "sareNamespace (snd (fst (e_update_sare E x w))) = sareNamespace x"
    and "sareName (e_remove_finalizer E x f) = sareName x"
    and "sareNamespace (e_remove_finalizer E x f) = sareNamespace x"
    and "sareName (fst (e_add_finalizer E x f)) = sareName x"
    and "sareNamespace (fst (e_add_finalizer E x f)) = sareNamespace x"
  using assms by (simp_all add: names_kept_def same_name_def)

text \<open>
  \<open>captured_inv\<close>: a task captures an allocated object, and a registered runner's task has
  captured an object with the key it is registered under.
\<close>

definition captured_inv :: "'w st \<Rightarrow> bool" where
  "captured_inv s \<longleftrightarrow> (\<forall>task \<in> set (tasks s). taskSare task < next_ptr s) \<and>
     (\<forall>k r. map_of (watchers s) k = Some r \<longrightarrow> r < length (tasks s) \<and>
        namespacedName (heap s (taskSare (tasks s ! r))) = k)"

text \<open>What an operation on the object \<open>p\<close> does to the memory, and what a whole reconcile does.\<close>

definition works_on :: "nat \<Rightarrow> 'w st \<Rightarrow> 'w st \<Rightarrow> bool" where
  "works_on p s t \<longleftrightarrow> next_ptr t = next_ptr s \<and> (\<forall>q. q \<noteq> p \<longrightarrow> heap t q = heap s q) \<and>
     namespacedName (heap t p) = namespacedName (heap s p) \<and>
     (p < next_ptr s \<longrightarrow> captured_inv s \<longrightarrow> captured_inv t)"

definition grows :: "'w st \<Rightarrow> 'w st \<Rightarrow> bool" where
  "grows s t \<longleftrightarrow> next_ptr s \<le> next_ptr t \<and> (\<forall>q < next_ptr s. heap t q = heap s q) \<and>
     (captured_inv s \<longrightarrow> captured_inv t)"

lemma frame_works_on [frame_rules]: "frame_rel (works_on p)"
  by (rule frame_relI) (auto simp: works_on_def)

lemma frame_grows [frame_rules]: "frame_rel grows"
  by (rule frame_relI) (auto simp: grows_def)

lemma works_on_process: "preserves same_process m \<Longrightarrow> preserves (works_on p) m"
  by (auto simp: preserves_def same_process_def works_on_def captured_inv_def)

lemma grows_process: "preserves same_process m \<Longrightarrow> preserves grows m"
  by (auto simp: preserves_def same_process_def grows_def captured_inv_def)

text \<open>Replacing the object at \<open>p\<close> by one of the same name.\<close>

lemma works_on_replace:
  assumes "namespacedName y = namespacedName (heap s p)" "next_ptr t = next_ptr s" "watchers t = watchers s"
    "tasks t = tasks s" "heap t = (heap s)(p := y)"
  shows "works_on p s t"
proof -
  have "namespacedName (heap t q) = namespacedName (heap s q)" for q using assms by simp
  then show ?thesis using assms by (simp add: works_on_def captured_inv_def)
qed

lemma works_on_memory [frame_rules]: "preserves (works_on p) (load q)"
  by (rule works_on_process) (intro frame_rules)

lemma works_on_mutate [frame_rules]: "preserves (works_on p) (mutate_status p f)"
proof (rule preservesI)
  fix s a t
  assume "run_state (mutate_status p f) s = (a, t)"
  then show "works_on p s t"
    by (intro works_on_replace [where y = "with_status f (heap s p)"])
      (auto simp: mutate_status_def run_simps with_status_def namespacedName_def)
qed

lemma works_on_calls [frame_rules]:
  "preserves (works_on p) (getSapr E n)" "preserves (works_on p) (readClock E)"
  "preserves (works_on p) (emit ev)"
  unfolding call_defs by (rule works_on_process; intro frame_rules)+

lemma works_on_delete [frame_rules]: "preserves (works_on p) (deleteSaRotationWatcher p)"
proof (rule preservesI)
  fix s a t
  assume run: "run_state (deleteSaRotationWatcher p) s = (a, t)"
  have "captured_inv (watcher_deleted p s)" if "captured_inv s"
    using that by (auto simp: captured_inv_def AList.delete_conv' split: if_splits)
  with run show "works_on p s t" by (auto simp: run_simps works_on_def)
qed

lemma captured_watcher_set:
  assumes "captured_inv s" "p < next_ptr s"
  shows "captured_inv (watcher_set expr p s)"
proof -
  note inv = assms(1) [unfolded captured_inv_def]
  have "namespacedName (heap s (taskSare ((tasks s @ [\<lparr>taskExpr = expr, taskSare = p\<rparr>]) ! r))) = l"
    if "map_of (watchers s) l = Some r" for l r
    using inv that by (auto simp: nth_append)
  then show ?thesis using inv assms(2) by (auto simp: captured_inv_def nth_append less_SucI split: if_splits)
qed

lemma works_on_handle [frame_rules]: "preserves (works_on p) (handleSaRotationWatcher E p)"
proof (rule preservesI)
  fix s a t
  assume run: "run_state (handleSaRotationWatcher E p) s = (a, t)"
  have "captured_inv (watcher_deleted p s)" if "captured_inv s"
    using that by (auto simp: captured_inv_def AList.delete_conv' split: if_splits)
  moreover have "captured_inv (stop_old p s)" if "captured_inv s" using that by (simp add: captured_inv_def)
  ultimately show "works_on p s t"
    using run captured_watcher_set [of s p] by (auto simp: run_handleSaRotationWatcher works_on_def split: option.splits if_splits)
qed


lemma works_on_persist:
  assumes "names_kept E" and "preserves (works_on p) m"
  shows "preserves (works_on p) (setAndPersist E p m ct cs reason msg)"
proof -
  have "preserves (works_on p) (do {
     sare \<leftarrow> load p;
     store p (set_condition E ct cs reason msg sare);
     changed \<leftarrow> load p;
     (err, refreshed) \<leftarrow> patchSareStatus E patchBase changed;
     store p refreshed;
     ret (case err of Some e \<Rightarrow> Some (errorf (''failed to persist '' @ ct @ '' condition: '') e) | None \<Rightarrow> None)
   })" for patchBase
  proof (rule preservesI)
    fix s a t
    assume "run_state (do {
     sare \<leftarrow> load p;
     store p (set_condition E ct cs reason msg sare);
     changed \<leftarrow> load p;
     (err, refreshed) \<leftarrow> patchSareStatus E patchBase changed;
     store p refreshed;
     ret (case err of Some e \<Rightarrow> Some (errorf (''failed to persist '' @ ct @ '' condition: '') e) | None \<Rightarrow> None)
   }) s = (a, t)"
    then show "works_on p s t"
      by (intro works_on_replace [where y = "snd (fst (e_patch_sare_status E patchBase
            (set_condition E ct cs reason msg (heap s p)) (world s)))"])
        (auto simp: patchSareStatus_def run_simps namespacedName_def names_keptD [OF assms(1)] set_condition_def
          with_status_def split: prod.splits)
  qed
  note tail = this
  show ?thesis
    unfolding setAndPersist_def
    by (rule preserves_bind [OF frame_works_on works_on_memory preserves_bind [OF frame_works_on assms(2) tail]])
qed

lemma works_on_removeFinalizer: "names_kept E \<Longrightarrow> preserves (works_on p) (removeFinalizer E p)"
proof (rule preservesI)
  fix s a t
  assume names: "names_kept E" and run: "run_state (removeFinalizer E p) s = (a, t)"
  show "works_on p s t"
  proof (cases "e_contains_finalizer E (heap s p) finalizer")
    case True
    with run show ?thesis
      by (intro works_on_replace [where y = "snd (fst (e_update_sare E (e_remove_finalizer E (heap s p) finalizer) (world s)))"])
        (auto simp: removeFinalizer_def updateSare_def run_simps namespacedName_def names_keptD [OF names] split: prod.splits)
  next
    case False
    with run show ?thesis by (auto simp: removeFinalizer_def run_simps works_on_def)
  qed
qed

lemma works_on_status:
  assumes "names_kept E"
  shows "preserves (works_on p) (serviceAccountReady E p name rot)" "preserves (works_on p) (serviceAccountMigrated E p name)"
    "preserves (works_on p) (serviceAccountFailed E p reason err)" "preserves (works_on p) (producerNotFound E p producer err)"
    "preserves (works_on p) (serviceAccountNotReadyForRotation E p)"
  unfolding serviceAccountReady_def serviceAccountMigrated_def serviceAccountFailed_def producerNotFound_def
    serviceAccountNotReadyForRotation_def by (auto intro!: frame_rules works_on_persist assms)

lemma works_on_secrets [frame_rules]:
  "preserves (works_on p) (sm_Exists E sare)" "preserves (works_on p) (sm_Delete E sare)"
  "preserves (works_on p) (createOrUpdateFromProducer E sare sapr b n)" "preserves (works_on p) (migrateCredentials E sare sapr)"
  "preserves (works_on p) (deleteServiceAccount E sare)"
  by (rule works_on_process, rule frame_rules process_deleteServiceAccount)+

lemma works_on_reconcile:
  assumes "names_kept E"
  shows "preserves (works_on p) (createOrUpdate E p)" "preserves (works_on p) (reconcileCreateOrUpdate E p)"
    "preserves (works_on p) (reconcileDelete E cfg p ts)" "preserves (works_on p) (rotateSaSecret E p)"
proof -
  show c: "preserves (works_on p) (createOrUpdate E p)"
    unfolding createOrUpdate_def checkSecretExists_def getProducerForCreateOrUpdate_def getProducer_def Let_def
    by (auto intro!: frame_rules works_on_status [OF assms])
  show "preserves (works_on p) (reconcileCreateOrUpdate E p)"
    unfolding reconcileCreateOrUpdate_def failWithReason_def fail_def
    by (auto intro!: frame_rules works_on_status [OF assms] c)
  show "preserves (works_on p) (reconcileDelete E cfg p ts)"
    unfolding reconcileDelete_def fail_def failWithReason_def
    by (auto intro!: frame_rules works_on_status [OF assms] works_on_removeFinalizer [OF assms])
  show "preserves (works_on p) (rotateSaSecret E p)"
    unfolding rotateSaSecret_def by (auto intro!: frame_rules works_on_status [OF assms])
qed


text \<open>A reconcile allocates one object and works on that.\<close>

lemma grows_alloc:
  assumes w: "works_on (next_ptr s) u t" and u: "next_ptr u = Suc (next_ptr s)" "watchers u = watchers s"
    "tasks u = tasks s" "\<And>q. q < next_ptr s \<Longrightarrow> heap u q = heap s q"
  shows "grows s t"
proof -
  have "captured_inv u" if inv: "captured_inv s"
  proof -
    note inv = inv [unfolded captured_inv_def]
    have "taskSare (tasks s ! r) < next_ptr s" if "r < length (tasks s)" for r
      using conjunct1 [OF inv] nth_mem [OF that] by blast
    then show ?thesis using inv u by (simp add: captured_inv_def less_SucI)
  qed
  with w u show "grows s t" by (auto simp: works_on_def grows_def)
qed

lemma grows_Reconcile:
  assumes names: "names_kept E"
  shows "preserves grows (Reconcile E cfg req)"
proof (rule preservesI)
  fix s r t
  assume "run_state (Reconcile E cfg req) s = (r, t)"
  then show "grows s t"
  proof (cases rule: ReconcileE)
    case (Unread e)
    then show ?thesis by (simp add: grows_def captured_inv_def)
  next
    case (Deleting sare ts err)
    from preservesD [OF works_on_reconcile(3) [OF names] this(3)] show ?thesis by (rule grows_alloc) simp_all
  next
    case (Not_Added sare x e)
    have "works_on (next_ptr s) t t" by (simp add: works_on_def)
    then show ?thesis using Not_Added by (intro grows_alloc [of s t]) simp_all
  next
    case (Added sare x)
    from preservesD [OF works_on_reconcile(2) [OF names] this(5)] show ?thesis by (rule grows_alloc) simp_all
  next
    case (Present sare x)
    from preservesD [OF works_on_reconcile(2) [OF names] this(4)] show ?thesis by (rule grows_alloc) simp_all
  qed
qed

lemma enqueue_process: "preserves same_process (enqueueRequestsForProducer E obj)"
  unfolding enqueueRequestsForProducer_def call_defs by (auto intro!: frame_rules)

interpretation ci: process_invariant "\<lambda>E cfg s. names_kept E \<longrightarrow> captured_inv s"
proof unfold_locales
  show "names_kept E \<longrightarrow> captured_inv (init_st w h)" for E :: "'a env" and w h
    by (simp add: captured_inv_def init_st_def)
  show "names_kept E \<longrightarrow> captured_inv t"
    if "names_kept E \<longrightarrow> captured_inv s" "run_state (Reconcile E cfg req) s = (r, t)"
    for E :: "'a env" and cfg req s r t
    using preservesD [OF grows_Reconcile that(2)] that(1) by (simp add: grows_def)
  show "names_kept E \<longrightarrow> captured_inv t"
    if "names_kept E \<longrightarrow> captured_inv s" "task \<in> set (tasks s)" "run_state (rotateSaSecret E (taskSare task)) s = (x, t)"
    for E :: "'a env" and task s x t
    using preservesD [OF works_on_reconcile(4) that(3)] that(1,2) by (auto simp: works_on_def captured_inv_def)
  show "names_kept E \<longrightarrow> captured_inv t"
    if "names_kept E \<longrightarrow> captured_inv s" "run_state (Reconcile_Producer E cfg req) s = (r, t)"
    for E :: "'a env" and cfg req s r t
    using preservesD [OF grows_process [OF process_Producer] that(2)] that(1) by (simp add: grows_def)
  show "names_kept E \<longrightarrow> captured_inv t"
    if "names_kept E \<longrightarrow> captured_inv s" "run_state (enqueueRequestsForProducer E obj) s = (reqs, t)"
    for E :: "'a env" and obj s reqs t
    using preservesD [OF grows_process [OF enqueue_process] that(2)] that(1) by (simp add: grows_def)
  show "names_kept E \<longrightarrow> captured_inv (s\<lparr>world := w\<rparr>)" if "names_kept E \<longrightarrow> captured_inv s"
    for E :: "'a env" and s w
    using that by (simp add: captured_inv_def)
qed

text \<open>C21: rotation jobs work on objects of their own. In every reachable state every task has captured an object that is allocated, and the runner registered under a key rotates an object with this key. A reconcile changes no object that existed when it started, so it never touches what a job has captured; and a job changes no object but its own. (For an API server that never changes the name and namespace of an object.)\<close>
theorem captured_objects:
  assumes "names_kept E" and "reachable E cfg s"
  shows "(\<forall>task \<in> set (tasks s). taskSare task < next_ptr s) \<and>
    (\<forall>k r. map_of (watchers s) k = Some r \<longrightarrow> r < length (tasks s) \<and>
       namespacedName (heap s (taskSare (tasks s ! r))) = k) \<and>
    (\<forall>req r t. run_state (Reconcile E cfg req) s = (r, t) \<longrightarrow> (\<forall>p < next_ptr s. heap t p = heap s p)) \<and>
    (\<forall>p x t. run_state (rotateSaSecret E p) s = (x, t) \<longrightarrow> (\<forall>q. q \<noteq> p \<longrightarrow> heap t q = heap s q))"
proof (intro conjI allI impI, goal_cases)
  case 1
  from ci.reachable_holds [OF assms(2)] assms(1) show ?case by (simp add: captured_inv_def)
next
  case (2 k r)
  with ci.reachable_holds [OF assms(2)] assms(1) show ?case by (simp add: captured_inv_def)
next
  case (3 k r)
  with ci.reachable_holds [OF assms(2)] assms(1) show ?case by (simp add: captured_inv_def)
next
  case (4 req r t p)
  from preservesD [OF grows_Reconcile [OF assms(1)] 4(1)] 4(2) show ?case by (simp add: grows_def)
next
  case (5 p x t q)
  from preservesD [OF works_on_reconcile(4) [OF assms(1)] 5(1)] 5(2) show ?case by (simp add: works_on_def)
qed

section \<open>Secrets over whole runs\<close>

lemma view_producer:
  assumes "secret_laws E V" "others_keep_secrets E V" "producer_keeps_secrets E V"
  shows "preserves (keeps_view V) (Reconcile_Producer E cfg req)"
    "preserves (keeps_view V) (enqueueRequestsForProducer E obj)"
  using assms by (auto simp: enqueueRequestsForProducer_def listSares_def intro!: view_Producer frame_rules keeps_view_io)

text \<open>The steps that may change a secret which no SARE controls: a step of others; and a rotation job
  which has found the secret of its SARE under one name, and whose status patch was answered with an
  object that names this secret.\<close>

definition strayed_deletion :: "'w env \<Rightarrow> nname \<Rightarrow> 'w st \<Rightarrow> 'w st \<Rightarrow> bool" where
  "strayed_deletion E k s t \<longleftrightarrow> (\<exists>sare x y err answered a.
     new_calls s t = [Get_Secret (secret_key sare) (Inr x), Patch_Sare_Status sare y (err, answered), Delete_Secret k a] \<and>
     e_is_controlled_by E x sare \<and> k = secret_key answered \<and> k \<noteq> secret_key sare)"

lemma rotation_strays:
  assumes laws: "secret_laws E V" "others_keep_secrets E V" and run: "run_state (rotateSaSecret E p) s = (r, t)"
    and x: "V (world s) k = Some x" "\<forall>sare. \<not> e_is_controlled_by E x sare"
  shows "V (world t) k = Some x \<or> strayed_deletion E k s t"
proof -
  let ?k = "secret_key (heap s p)" let ?ans = "fst (e_get_secret E ?k (world s))"
  note job = rotation_job_outcome [OF laws run]
  show ?thesis
  proof (cases "\<exists>y. ?ans = Inr y \<and> e_is_controlled_by E y (heap s p)")
    case False
    with job x(1) show ?thesis by auto
  next
    case True
    then obtain y where y: "?ans = Inr y" "e_is_controlled_by E y (heap s p)" by blast
    then have "k \<noteq> ?k" using read_lawD(2) [OF secret_lawsD(1) [OF laws(1)] y(1)] x by auto
    moreover obtain err z where z: "fst (e_patch_sare_status E (heap s p) (rotating_sare E (heap s p))
        (snd (e_get_secret E ?k (world s)))) = (err, z)" by fastforce
    ultimately show ?thesis using job True y x(1) unfolding strayed_deletion_def z by (cases "k = secret_key z") auto
  qed
qed

lemma unowned_step:
  assumes laws: "secret_laws E V" "others_keep_secrets E V" "producer_keeps_secrets E V"
    and step: "op_step E cfg s t" and x: "V (world s) k = Some x" "\<forall>sare. \<not> e_is_controlled_by E x sare"
  shows "V (world t) k = Some x \<or> (\<exists>w. t = s\<lparr>world := w\<rparr>) \<or> strayed_deletion E k s t"
  using step
proof cases
  case (Step_Reconcile req r)
  with unowned_Reconcile [OF laws(1,2) _ x] show ?thesis by blast
next
  case (Step_Rotate task y)
  from rotation_strays [OF laws(1,2) Step_Rotate(2) x] show ?thesis by blast
next
  case (Step_Producer req r)
  from preservesD [OF view_producer(1) [OF laws] this] x(1) show ?thesis by (simp add: keeps_view_def)
next
  case (Step_Event obj reqs)
  from preservesD [OF view_producer(2) [OF laws] this] x(1) show ?thesis by (simp add: keeps_view_def)
next
  case (Step_World w)
  then show ?thesis by blast
qed


text \<open>No answer to a status patch changes the name of the secret; the history of deletions says what
  follows then.\<close>

definition secret_key_kept :: "'w env \<Rightarrow> bool" where
  "secret_key_kept E \<longleftrightarrow> (\<forall>b x w. secret_key (snd (fst (e_patch_sare_status E b x w))) = secret_key x)"

section \<open>Witnesses\<close>

lemma sim_names: "names_kept simE" "secret_key_kept simE"
  by (simp_all add: names_kept_def same_name_def secret_key_kept_def sim_put_sare_def)

lemma sim_producer_keeps: "producer_keeps_secrets simE sim_secret"
  by (auto simp: producer_keeps_secrets_def kept_def sim_delete_netpol_def sim_upsert_netpol_def Let_def sim_secret_def
      fun_eq_iff split: option.splits sum.splits)

theorem captured_objects_witness:
  "map_of (watchers started) ''r-ns'' = Some 0 \<and> namespacedName (heap started (taskSare (tasks started ! 0))) = ''r-ns''"
proof -
  note started_facts(2)
  with captured_objects [OF sim_names(1) started_reachable] show ?thesis by blast
qed

text \<open>The API key is deleted by somebody after the first reconcile.\<close>

definition key_deleted :: "sim st" where
  "key_deleted = started\<lparr>world := (world started)\<lparr>simSecrets := []\<rparr>\<rparr>"


end
