(* ===== verification/Operator_Schedule.thy ===== *)
theory Operator_Schedule
  imports Operator_System
begin

text \<open>
  What the watcher map, the cron tasks and the calls to the cron library add up to: a schedule,
  which maps the key of a SARE to the expression its secret is rotated by. The operator refines
  an abstract process on schedules (an instance of \<open>operator_refinement\<close>), and the reconcile that
  succeeds has made the schedule what the spec asks for.
\<close>

section \<open>The abstract schedule\<close>

type_synonym rotation_schedule = "string \<Rightarrow> string option"

text \<open>Which expression the operator rotates a key by: that of the live runner registered under it.\<close>

definition schedule :: "'w st \<Rightarrow> rotation_schedule" where
  "schedule s k = (case map_of (watchers s) k of
      None \<Rightarrow> None
    | Some r \<Rightarrow> if live s r then Some (taskExpr (tasks s ! r)) else None)"

text \<open>The expression a SARE asks for, if the cron library accepts it.\<close>

definition valid_expr :: "'w env \<Rightarrow> sare \<Rightarrow> string option" where
  "valid_expr E x = (case rotation_expr x of None \<Rightarrow> None | Some e \<Rightarrow> if e_cron_is_valid E e then Some e else None)"

text \<open>The events of the abstract process, and what each does to the schedule.\<close>

datatype schedule_event =
  Keep
| Follow sare
| Retire string

fun schedule_next :: "'w env \<Rightarrow> schedule_event \<Rightarrow> rotation_schedule \<Rightarrow> rotation_schedule" where
  "schedule_next E Keep v = v"
| "schedule_next E (Follow x) v = v(namespacedName x := valid_expr E x)"
| "schedule_next E (Retire k) v = v(k := None)"

lemma live_grow: "trace t = trace s @ cs \<Longrightarrow> list_all (\<lambda>c. \<not> watcher_call c) cs \<Longrightarrow> live t = live s"
  by (auto simp: live_def list_all_iff fun_eq_iff)

lemma schedule_grow:
  "watchers t = watchers s \<Longrightarrow> tasks t = tasks s \<Longrightarrow> trace t = trace s @ cs \<Longrightarrow> list_all (\<lambda>c. \<not> watcher_call c) cs \<Longrightarrow>
     schedule t = schedule s"
  using live_grow [of t s cs] by (simp add: schedule_def fun_eq_iff split: option.split)

lemma schedule_quiet:
  assumes "preserves same_watchers m" and "preserves (emits (\<lambda>c. \<not> watcher_call c)) m" and "run_state m s = (a, t)"
  shows "schedule t = schedule s"
  using preservesD [OF assms(1,3)] assms(2,3) by (auto simp: same_watchers_def elim!: emitsE intro: schedule_grow)

lemma schedule_deleted:
  assumes "watch_inv s"
  shows "schedule (watcher_deleted p s) = (schedule s)(namespacedName (heap s p) := None)"
proof
  fix k
  let ?k = "namespacedName (heap s p)"
  have "live (watcher_deleted p s) r = live s r" if "map_of (watchers s) k = Some r" "k \<noteq> ?k" for r
    using assms that unfolding watch_inv_def live_def
    by (auto simp: trace_stop_old split: option.split)
  then show "schedule (watcher_deleted p s) k = ((schedule s)(?k := None)) k"
    by (auto simp: schedule_def AList.delete_conv' split: option.split)
qed

lemma schedule_stopped:
  assumes "watch_inv s"
  shows "schedule (stop_old p s) = (schedule s)(namespacedName (heap s p) := None)"
proof
  fix k
  let ?k = "namespacedName (heap s p)"
  have "live (stop_old p s) r = (live s r \<and> k \<noteq> ?k)" if "map_of (watchers s) k = Some r" for r
    using assms that unfolding watch_inv_def live_def
    by (auto simp: trace_stop_old split: option.splits)
  then show "schedule (stop_old p s) k = ((schedule s)(?k := None)) k"
    by (auto simp: schedule_def split: option.split)
qed

lemma schedule_set:
  assumes "watch_inv s"
  shows "schedule (watcher_set e p s) = (schedule s)(namespacedName (heap s p) := Some e)"
proof
  fix k
  let ?k = "namespacedName (heap s p)"
  note inv = assms [unfolded watch_inv_def]
  have new: "live (watcher_set e p s) (length (tasks s))"
  proof -
    have "Stop_Runner (length (tasks s)) \<notin> set (trace s)" using inv by (metis less_irrefl)
    moreover have "map_of (watchers s) ?k \<noteq> Some (length (tasks s))" using inv by (metis less_irrefl)
    ultimately show ?thesis by (auto simp: live_def trace_stop_old split: option.splits)
  qed
  have old: "r < length (tasks s) \<and> live (watcher_set e p s) r = live s r"
    if "map_of (watchers s) k = Some r" "k \<noteq> ?k" for r
  proof
    show r: "r < length (tasks s)" using inv that by blast
    have "map_of (watchers s) ?k \<noteq> Some r" using inv that by blast
    with r show "live (watcher_set e p s) r = live s r" by (auto simp: live_def trace_stop_old split: option.splits)
  qed
  show "schedule (watcher_set e p s) k = ((schedule s)(?k := Some e)) k"
    using new old by (auto simp: schedule_def nth_append split: option.split)
qed

lemma schedule_handle:
  assumes "watch_inv s" and "run_state (handleSaRotationWatcher E p) s = (err, t)"
  shows "schedule t = (schedule s)(namespacedName (heap s p) := valid_expr E (heap s p))"
    and "err = None \<Longrightarrow> valid_expr E (heap s p) = rotation_expr (heap s p)"
  using assms
  by (auto simp: run_handleSaRotationWatcher valid_expr_def schedule_deleted schedule_stopped schedule_set
      split: option.splits if_splits)

section \<open>What the operations do to the schedule\<close>

lemma schedule_update:
  assumes "emits (update_call sare) s t" and "same_process s t"
  shows "schedule t = schedule s"
proof -
  from assms(1) obtain cs where cs: "trace t = trace s @ cs" "list_all (update_call sare) cs" by (auto simp: emits_def)
  moreover have "\<not> watcher_call c" if "update_call sare c" for c using that by (cases c) (auto simp: update_call_def)
  ultimately have "list_all (\<lambda>c. \<not> watcher_call c) cs" by (auto simp: list_all_iff)
  with assms(2) cs(1) show ?thesis by (intro schedule_grow) (auto simp: same_process_def)
qed

lemma schedule_from_producer:
  "run_state (createOrUpdateFromProducer E sare sapr b n) s = (x, t) \<Longrightarrow> schedule t = schedule s"
  "run_state (migrateCredentials E sare sapr) s = (m, t) \<Longrightarrow> schedule t = schedule s"
  by (auto intro!: schedule_update [of sare] intro: preservesD emits_createOrUpdateFromProducer emits_migrateCredentials
      process_createOrUpdateFromProducer process_migrateCredentials)

lemma schedule_getProducer:
  assumes "run_state (getProducerForCreateOrUpdate E p) s = (g, t)"
  shows "schedule t = schedule s"
  by (rule schedule_quiet [OF _ _ assms];
      auto simp: getProducerForCreateOrUpdate_def getProducer_def producerNotFound_def setAndPersist_def mutate_status_def
        call_defs Let_def intro!: frame_rules sm.calls_law)

lemma watch_inv_checked: "watch_inv s \<Longrightarrow> watch_inv (checked E sare s)"
  by (simp add: watch_inv_def)

lemma schedule_checked: "schedule (checked E sare s) = schedule s"
  by (rule schedule_grow) auto

text \<open>Exactly when the secret check passes, the schedule follows the object.\<close>

definition followed :: "'w env \<Rightarrow> sare \<Rightarrow> 'w \<Rightarrow> schedule_event" where
  "followed E x w = (if checked_ok E x (fst (e_get_secret E (secret_key x) w)) then Follow x else Keep)"

lemma check_answer_passed: "snd (snd (check_answer E sare w)) = None \<longleftrightarrow> checked_ok E sare (fst (e_get_secret E (secret_key sare) w))"
  by (auto simp: check_answer_def exists_answer_def checked_ok_def split: sum.splits)

lemma schedule_createOrUpdate:
  assumes inv: "watch_inv s" and run: "run_state (createOrUpdate E p) s = (r, t)"
  defines "x \<equiv> heap s p"
  shows "schedule t = schedule_next E (followed E x (world s)) (schedule s) \<and>
    ((\<exists>y e. r = Returned (y, Some e)) \<or> followed E x (world s) = Follow x \<and> valid_expr E x = rotation_expr x)"
proof -
  have handled: "schedule s2 = (schedule s)(namespacedName x := valid_expr E x)"
    if "run_state (handleSaRotationWatcher E p) (checked E (heap s p) s) = (w, s2)" for w s2
    using schedule_handle(1) [OF watch_inv_checked [OF inv] that] by (simp add: x_def schedule_checked)
  note ok = schedule_handle(2) [OF watch_inv_checked [OF inv]]
  have passed: "followed E x (world s) = Follow x" if "check_answer E (heap s p) (world s) = (b, n, None)" for b n
    using check_answer_passed [of E x "world s"] that by (simp add: followed_def x_def)
  show ?thesis
    using run
  proof (cases rule: createOrUpdateE)
    case (Check_Failed b n e)
    with check_answer_passed [of E x "world s"] have "followed E x (world s) = Keep" by (simp add: followed_def x_def)
    with Check_Failed show ?thesis by (auto simp: schedule_checked)
  next
    case (Watcher_Failed b n e)
    then show ?thesis using handled passed [OF Watcher_Failed(1)] by (auto simp: x_def)
  next
    case (Panic b n s2 m)
    then show ?thesis using handled ok [OF Panic(2)] passed [OF Panic(1)] schedule_getProducer [OF Panic(3)] by (auto simp: x_def)
  next
    case (No_Producer b n s2 e)
    then show ?thesis using handled ok [OF No_Producer(2)] passed [OF No_Producer(1)] schedule_getProducer [OF No_Producer(3)]
      by (auto simp: x_def)
  next
    case (Updated n s2 s3 sapr x)
    then show ?thesis using handled ok [OF Updated(2)] passed [OF Updated(1)] schedule_getProducer [OF Updated(3)]
        schedule_from_producer(1) [OF Updated(4)] by (auto simp: x_def)
  next
    case (Migration_Failed n s2 s3 sapr e)
    then show ?thesis using handled ok [OF Migration_Failed(2)] passed [OF Migration_Failed(1)] schedule_getProducer [OF Migration_Failed(3)]
        schedule_from_producer(2) [OF Migration_Failed(4)] by (auto simp: x_def)
  next
    case (Migrated n s2 s3 sapr name)
    then show ?thesis using handled ok [OF Migrated(2)] passed [OF Migrated(1)] schedule_getProducer [OF Migrated(3)]
        schedule_from_producer(2) [OF Migrated(4)] by (auto simp: x_def)
  next
    case (Created n s2 s3 s4 sapr x)
    then show ?thesis using handled ok [OF Created(2)] passed [OF Created(1)] schedule_getProducer [OF Created(3)]
        schedule_from_producer(2) [OF Created(4)] schedule_from_producer(1) [OF Created(5)] by (auto simp: x_def)
  qed
qed

lemma schedule_reconcileCreateOrUpdate:
  assumes inv: "watch_inv s" and run: "run_state (reconcileCreateOrUpdate E p) s = (r, t)"
  defines "x \<equiv> heap s p"
  shows "schedule t = schedule_next E (followed E x (world s)) (schedule s) \<and>
    ((\<exists>y e. r = Returned (y, Some e)) \<or> followed E x (world s) = Follow x \<and> valid_expr E x = rotation_expr x)"
proof -
  obtain g u where g: "run_state (createOrUpdate E p) s = (g, u)" by fastforce
  have patch: "schedule (patched E p b y w) = schedule w" for b y w by (rule schedule_grow) auto
  have "schedule (clock_st E u) = schedule u" unfolding clock_st_def by (rule schedule_grow) auto
  then have tail: "schedule (success_st E result u) = schedule u" for result by (simp add: success_st_def)
  from schedule_createOrUpdate [OF inv g] run show ?thesis
    unfolding run_reconcileCreateOrUpdate [OF g] x_def
    by (auto simp: Let_def tail patch split: outcome.splits prod.splits option.splits if_splits)
qed

lemma emits_account: "preserves (emits (\<lambda>c. \<not> watcher_call c)) (deleteServiceAccount E sare)"
  unfolding deleteServiceAccount_def getServiceAccountClient_def getProducer_def call_defs Let_def
  by (auto intro!: frame_rules hc.client_emits cf.reader_emits)

lemma schedule_reconcileDelete:
  assumes inv: "watch_inv s" and run: "run_state (reconcileDelete E cfg p ts) s = (r, t)"
  shows "schedule t = (schedule s)(namespacedName (heap s p) := None)"
proof -
  have "\<exists>rest. reconcileDelete E cfg p ts = deleteSaRotationWatcher p \<bind> (\<lambda>_. rest) \<and>
      preserves same_watchers rest \<and> preserves (emits (\<lambda>c. \<not> watcher_call c)) rest"
    unfolding reconcileDelete_def removeFinalizer_def fail_def failWithReason_def serviceAccountFailed_def setAndPersist_def
      readClock_def updateSare_def patchSareStatus_def
    by (intro exI conjI, rule refl)
      (auto intro!: frame_rules watchers_of_process [OF process_deleteServiceAccount]
        emits_account)
  then obtain rest where rest: "reconcileDelete E cfg p ts = deleteSaRotationWatcher p \<bind> (\<lambda>_. rest)"
    "preserves same_watchers rest" "preserves (emits (\<lambda>c. \<not> watcher_call c)) rest" by blast
  from run have "run_state rest (watcher_deleted p s) = (r, t)" by (simp add: rest(1) run_deleteSaRotationWatcher)
  from schedule_quiet [OF rest(2,3) this] schedule_deleted [OF inv] show ?thesis by simp
qed

text \<open>The object of a SARE that is not being deleted, after its finalizer has been taken care of.\<close>

definition current_object :: "'w env \<Rightarrow> nname \<Rightarrow> sare \<Rightarrow> 'w \<Rightarrow> sare" where
  "current_object E req sare w = (case e_add_finalizer E sare finalizer of
      (x, added) \<Rightarrow> if added then snd (fst (e_update_sare E x (snd (e_get_sare E req w)))) else x)"

lemma schedule_got: "schedule (got_sare E req x s) = schedule s" "schedule (added_finalizer E req x s) = schedule s"
proof -
  show "schedule (got_sare E req x s) = schedule s" by (rule schedule_grow) auto
  show "schedule (added_finalizer E req x s) = schedule s" by (rule schedule_grow) auto
qed

lemma inv_got: "watch_inv s \<Longrightarrow> watch_inv (got_sare E req x s)" "watch_inv s \<Longrightarrow> watch_inv (added_finalizer E req x s)"
  by (simp_all add: watch_inv_def)

text \<open>The event a reconcile stands for: what the API server answers to its first calls decides.\<close>

definition reconcile_event :: "'w env \<Rightarrow> nname \<Rightarrow> 'w \<Rightarrow> schedule_event" where
  "reconcile_event E req w =
     (case fst (e_get_sare E req w) of
        Inl err \<Rightarrow> Keep
      | Inr sare \<Rightarrow>
          (case sareDeletionTimestamp sare of
             Some ts \<Rightarrow> Retire (namespacedName sare)
           | None \<Rightarrow>
               (case e_add_finalizer E sare finalizer of
                  (x, added) \<Rightarrow>
                    let w1 = snd (e_get_sare E req w); update = e_update_sare E x w1 in
                    if \<not> added then followed E x w1
                    else if fst (fst update) \<noteq> None then Keep
                    else followed E (snd (fst update)) (snd update))))"

lemma schedule_Reconcile:
  assumes inv: "watch_inv s" and run: "run_state (Reconcile E cfg req) s = (r, t)"
  shows "schedule t = schedule_next E (reconcile_event E req (world s)) (schedule s)"
  using run
proof (cases rule: ReconcileE)
  case (Unread e)
  moreover from this have "schedule t = schedule s" by (auto intro: schedule_grow)
  ultimately show ?thesis by (simp add: reconcile_event_def)
next
  case (Deleting sare ts err)
  with schedule_reconcileDelete [OF inv_got(1) [OF inv] Deleting(3)] show ?thesis
    by (simp add: schedule_got reconcile_event_def Let_def)
next
  case (Not_Added sare y e)
  then show ?thesis by (auto simp: schedule_got reconcile_event_def Let_def)
next
  case (Added sare y)
  from schedule_reconcileCreateOrUpdate [OF inv_got(2) [OF inv] Added(5)] Added(1-4) show ?thesis
    by (auto simp: schedule_got reconcile_event_def Let_def)
next
  case (Present sare y)
  from schedule_reconcileCreateOrUpdate [OF inv_got(1) [OF inv] Present(4)] Present(1-3) show ?thesis
    by (auto simp: schedule_got reconcile_event_def Let_def)
qed

lemma event_of_success:
  assumes inv: "watch_inv s" and run: "run_state (Reconcile E cfg req) s = (Returned (res, None), t)"
    and found: "fst (e_get_sare E req (world s)) = Inr sare"
  defines "x \<equiv> current_object E req sare (world s)"
  shows "case sareDeletionTimestamp sare of
      Some ts \<Rightarrow> reconcile_event E req (world s) = Retire (namespacedName sare)
    | None \<Rightarrow> reconcile_event E req (world s) = Follow x \<and> valid_expr E x = rotation_expr x"
  using run
proof (cases rule: ReconcileE)
  case (Unread e)
  with found show ?thesis by simp
next
  case (Deleting sare' ts err)
  with found show ?thesis by (simp add: reconcile_event_def)
next
  case (Not_Added sare' y e)
  then show ?thesis by auto
next
  case (Added sare' y)
  from schedule_reconcileCreateOrUpdate [OF inv_got(2) [OF inv] Added(5)] Added(1-4) found show ?thesis
    by (auto simp: reconcile_event_def x_def current_object_def Let_def)
next
  case (Present sare' y)
  from schedule_reconcileCreateOrUpdate [OF inv_got(1) [OF inv] Present(4)] Present(1-3) found show ?thesis
    by (auto simp: reconcile_event_def x_def current_object_def Let_def)
qed

text \<open>C19: the schedule follows the spec. In every reachable state of the process, in any environment: when a reconcile of a SARE returns without an error, the schedule differs from the one before at most at the key of that SARE. If the SARE is being deleted, nothing is scheduled under its key any more. If it is not, the live runner under its key has exactly the rotation expression of its current object (the one the API server returned, with the finalizer), or there is none when the spec does not enable rotation.\<close>
theorem schedule_follows_spec:
  assumes "reachable E cfg s" and "run_state (Reconcile E cfg req) s = (Returned (res, None), t)"
    and "fst (e_get_sare E req (world s)) = Inr sare"
  defines "x \<equiv> current_object E req sare (world s)"
  shows "case sareDeletionTimestamp sare of
      None \<Rightarrow> schedule t = (schedule s)(namespacedName x := rotation_expr x)
    | Some ts \<Rightarrow> schedule t = (schedule s)(namespacedName sare := None)"
  using schedule_Reconcile [OF wi.reachable_holds [OF assms(1)] assms(2)]
    event_of_success [OF wi.reachable_holds [OF assms(1)] assms(2,3)] by (auto simp: x_def split: option.splits)

text \<open>The event of any step of the process.\<close>

inductive step_event :: "'w env \<Rightarrow> operator_config \<Rightarrow> 'w st \<Rightarrow> 'w st \<Rightarrow> schedule_event \<Rightarrow> bool" for E cfg s t where
  reconciled: "run_state (Reconcile E cfg req) s = (r, t) \<Longrightarrow> step_event E cfg s t (reconcile_event E req (world s))"
| rotated: "task \<in> set (tasks s) \<Longrightarrow> run_state (rotateSaSecret E (taskSare task)) s = (x, t) \<Longrightarrow> step_event E cfg s t Keep"
| probed: "run_state (Reconcile_Producer E cfg req) s = (r, t) \<Longrightarrow> step_event E cfg s t Keep"
| mapped: "run_state (enqueueRequestsForProducer E obj) s = (reqs, t) \<Longrightarrow> step_event E cfg s t Keep"
| others: "t = s\<lparr>world := w\<rparr> \<Longrightarrow> step_event E cfg s t Keep"

lemma step_event_total: "op_step E cfg s t \<longleftrightarrow> (\<exists>ev. step_event E cfg s t ev)"
proof
  assume "op_step E cfg s t"
  then show "\<exists>ev. step_event E cfg s t ev" by cases (blast intro: step_event.intros)+
next
  assume "\<exists>ev. step_event E cfg s t ev"
  then obtain ev where "step_event E cfg s t ev" ..
  then show "op_step E cfg s t" by cases (blast intro: op_step.intros)+
qed

lemma step_event_schedule:
  assumes reach: "reachable E cfg s" and step: "step_event E cfg s t ev"
  shows "schedule t = schedule_next E ev (schedule s)"
  using step
proof cases
  case (reconciled req r)
  with schedule_Reconcile [OF wi.reachable_holds [OF reach]] show ?thesis by simp
next
  case (rotated task x)
  have "schedule t = schedule s"
    by (rule schedule_quiet [OF _ _ rotated(3)])
      (auto simp: rotateSaSecret_def serviceAccountNotReadyForRotation_def setAndPersist_def mutate_status_def
        call_defs Let_def intro!: frame_rules sm.calls_law)
  then show ?thesis by (simp add: rotated)
next
  case (probed req r)
  have "schedule t = schedule s"
    by (rule schedule_quiet [OF watchers_of_process [OF process_Producer] emits_mono [OF emits_Producer] probed(2)])
      (auto elim!: watcher_call.elims)
  then show ?thesis by (simp add: probed)
next
  case (mapped obj reqs)
  have "schedule t = schedule s"
    by (rule schedule_quiet [OF _ _ mapped(2)])
      (auto simp: enqueueRequestsForProducer_def listSares_def intro!: frame_rules)
  then show ?thesis by (simp add: mapped)
next
  case (others w)
  then have "schedule t = schedule s" by (intro schedule_grow [of _ _ "[]"]) auto
  then show ?thesis by (simp add: others)
qed

text \<open>C20: the operator refines a deterministic abstract process on schedules (maps from keys to rotation expressions). Its events are: keep everything; follow one SARE, which sets the SARE's key to the expression its spec asks for, if the cron library accepts it, and to nothing otherwise; retire one key. In every reachable state the schedule of the operator after a step is exactly what the event of this step makes of the schedule before. Rotation jobs, producer reconciles, event mappings and steps of others keep it. A reconcile, whether it succeeds, fails or panics: retires the key of the SARE it has read if that SARE is being deleted; follows the SARE's current object (with the finalizer, as the API server answered it) if the update that adds the finalizer was not needed or has succeeded and the secret under the SARE's name is its own or absent; and keeps the schedule in all other cases.\<close>
theorem operator_refines_schedule:
  assumes "reachable E cfg s" and "op_step E cfg s t"
  shows "(\<exists>ev. step_event E cfg s t ev) \<and>
    (\<forall>ev. step_event E cfg s t ev \<longrightarrow> schedule t = schedule_next E ev (schedule s))"
  using assms step_event_total step_event_schedule by blast

inductive schedule_step :: "'w env \<Rightarrow> rotation_schedule \<Rightarrow> rotation_schedule \<Rightarrow> bool" for E where
  event: "schedule_step E v (schedule_next E ev v)"

lemma op_step_schedule:
  assumes "reachable E cfg s" and "op_step E cfg s t"
  shows "schedule_step E (schedule s) (schedule t)"
proof -
  from assms(2) obtain ev where "step_event E cfg s t ev" using step_event_total by blast
  from step_event_schedule [OF assms(1) this] show ?thesis by (simp add: event)
qed

interpretation sr: operator_refinement schedule schedule_step "\<lambda>k. None"
proof unfold_locales
  show "schedule (init_st w h) = (\<lambda>k. None)" for w :: 'a and h by (simp add: schedule_def init_st_def fun_eq_iff)
qed (rule op_step_schedule)

text \<open>An invariant of the abstract schedule, carried over to the operator.\<close>

definition all_valid :: "'w env \<Rightarrow> rotation_schedule \<Rightarrow> bool" where
  "all_valid E v \<longleftrightarrow> (\<forall>k e. v k = Some e \<longrightarrow> e_cron_is_valid E e)"

lemma all_valid_next: "all_valid E v \<Longrightarrow> all_valid E (schedule_next E ev v)"
  by (cases ev) (auto simp: all_valid_def valid_expr_def split: if_splits option.splits)

lemma all_valid_step: "schedule_step E v w \<Longrightarrow> all_valid E v \<Longrightarrow> all_valid E w"
  by (auto simp: schedule_step.simps all_valid_next)

lemma all_valid_run: "(schedule_step E)\<^sup>*\<^sup>* v w \<Longrightarrow> all_valid E v \<Longrightarrow> all_valid E w"
  by (induction rule: rtranclp_induct) (auto intro: all_valid_step)

lemma scheduled_valid: "reachable E cfg s \<Longrightarrow> schedule s k = Some e \<Longrightarrow> e_cron_is_valid E e"
  using all_valid_run [OF sr.reachable_refines] by (fastforce simp: all_valid_def)

section \<open>Witnesses\<close>

definition rotating_start :: "sim st" where
  "rotating_start = init_st ((ex_world [] (Inr (ex_response 204 [])))\<lparr>simSares := [(nn ''ns'' ''r'', rotating)]\<rparr>) (\<lambda>n. rotating)"

lemma rotating_run: "run_state (Reconcile simE ex_cfg (nn ''ns'' ''r'')) rotating_start = (Returned (no_result, None), started)"
proof -
  have "fst (run_state (Reconcile simE ex_cfg (nn ''ns'' ''r'')) rotating_start) = Returned (no_result, None)" by code_simp
  then show ?thesis by (simp add: started_def rotating_start_def prod_eq_iff)
qed

lemma rotating_read: "fst (e_get_sare simE (nn ''ns'' ''r'') (world rotating_start)) = Inr rotating"
  by code_simp

lemma rotating_object:
  "sareDeletionTimestamp rotating = None"
  "(let x = current_object simE (nn ''ns'' ''r'') rotating (world rotating_start) in (namespacedName x, rotation_expr x)) =
    (''r-ns'', Some ''e'')"
  by code_simp+

theorem schedule_follows_spec_witness: "schedule rotating_start ''r-ns'' = None \<and> schedule started ''r-ns'' = Some ''e''"
proof -
  have "reachable simE ex_cfg rotating_start" unfolding rotating_start_def by (rule Reach_Init)
  from schedule_follows_spec [OF this rotating_run rotating_read] rotating_object
  show ?thesis by (simp add: Let_def sr.start_refines rotating_start_def)
qed

theorem operator_refines_schedule_witness:
  "schedule started = schedule_next simE (reconcile_event simE (nn ''ns'' ''r'') (world rotating_start)) (\<lambda>k. None)"
proof -
  have reach: "reachable simE ex_cfg rotating_start" unfolding rotating_start_def by (rule Reach_Init)
  have step: "op_step simE ex_cfg rotating_start started" using rotating_run by (rule Step_Reconcile)
  from operator_refines_schedule [OF reach step] reconciled [OF rotating_run] have
    "schedule started = schedule_next simE (reconcile_event simE (nn ''ns'' ''r'') (world rotating_start)) (schedule rotating_start)"
    by blast
  then show ?thesis by (simp add: sr.start_refines rotating_start_def)
qed

end
