(* ===== verification/Go_Duration.thy ===== *)
theory Go_Duration
  imports Go_Std
begin

text \<open>
  \<open>time.ParseDuration\<close>: a signed sequence of decimal numbers with unit suffixes, in
  nanoseconds. A fraction is evaluated exactly and truncated, where Go multiplies two
  float64 values; the digits of a fraction are not limited. Every overflow of the 63-bit
  range is an error, as in Go.
\<close>

definition unit_ns :: "string \<Rightarrow> int option" where
  "unit_ns u =
     (if u = ''ns'' then Some 1
      else if u = ''us'' \<or> u = [char_of (194::int), char_of (181::int), CHR ''s'']
              \<or> u = [char_of (206::int), char_of (188::int), CHR ''s''] then Some 1000
      else if u = ''ms'' then Some 1000000
      else if u = ''s'' then Some 1000000000
      else if u = ''m'' then Some 60000000000
      else if u = ''h'' then Some 3600000000000
      else None)"

definition is_num_char :: "char \<Rightarrow> bool" where
  "is_num_char c \<longleftrightarrow> c = CHR ''.'' \<or> is_digit c"

definition dur_error :: "string \<Rightarrow> string \<Rightarrow> gerr" where
  "dur_error what orig = New_Err (''time: '' @ what @ '' duration '' @ goQuote orig)"

definition int63 :: int where
  "int63 = 2 ^ 63"

text \<open>One number with its unit: what it is worth and the rest of the input.\<close>

definition duration_term :: "string \<Rightarrow> string \<Rightarrow> (int \<times> string) res" where
  "duration_term orig s =
     (if s = [] \<or> \<not> is_num_char (hd s) then Inl (dur_error ''invalid'' orig)
      else let ipart = takeWhile is_digit s;
               s1 = dropWhile is_digit s;
               v = digits_value 0 ipart;
               dot = (s1 \<noteq> [] \<and> hd s1 = CHR ''.'');
               fpart = (if dot then takeWhile is_digit (tl s1) else []);
               s2 = (if dot then dropWhile is_digit (tl s1) else s1);
               u = takeWhile (\<lambda>c. \<not> is_num_char c) s2;
               rest = dropWhile (\<lambda>c. \<not> is_num_char c) s2
           in if v > int63 then Inl (dur_error ''invalid'' orig)
              else if ipart = [] \<and> fpart = [] then Inl (dur_error ''invalid'' orig)
              else if u = [] then Inl (dur_error ''missing unit in'' orig)
              else (case unit_ns u of
                  None \<Rightarrow> Inl (New_Err (''time: unknown unit '' @ goQuote u @ '' in duration '' @ goQuote orig))
                | Some un \<Rightarrow>
                    if v > int63 div un then Inl (dur_error ''invalid'' orig)
                    else let w = v * un + digits_value 0 fpart * un div 10 ^ length fpart in
                      if w > int63 then Inl (dur_error ''invalid'' orig) else Inr (w, rest)))"

lemma duration_term_shorter: "duration_term orig s = Inr (w, rest) \<Longrightarrow> length rest < length s"
proof -
  assume a: "duration_term orig s = Inr (w, rest)"
  define s1 where "s1 = dropWhile is_digit s"
  define s2 where "s2 = (if s1 \<noteq> [] \<and> hd s1 = CHR ''.'' then dropWhile is_digit (tl s1) else s1)"
  from a have r: "rest = dropWhile (\<lambda>c. \<not> is_num_char c) s2"
    and u: "takeWhile (\<lambda>c. \<not> is_num_char c) s2 \<noteq> []"
    by (auto simp: duration_term_def Let_def s1_def s2_def split: if_splits option.splits)
  from u have "s2 \<noteq> []" and "\<not> is_num_char (hd s2)"
    by (auto simp: takeWhile_eq_Nil_iff)
  then have "length rest < length s2"
    unfolding r by (cases s2) (auto simp: length_dropWhile_le le_imp_less_Suc)
  moreover have "length s1 \<le> length s" by (simp add: s1_def length_dropWhile_le)
  moreover have "length s2 \<le> length s1"
    using length_dropWhile_le [of is_digit "tl s1"] by (auto simp: s2_def)
  ultimately show ?thesis by simp
qed

function sum_terms :: "string \<Rightarrow> int \<Rightarrow> string \<Rightarrow> int res" where
  "sum_terms orig d s =
     (if s = [] then Inr d
      else case duration_term orig s of
          Inl e \<Rightarrow> Inl e
        | Inr (w, rest) \<Rightarrow>
            if d + w > int63 then Inl (dur_error ''invalid'' orig) else sum_terms orig (d + w) rest)"
  by pat_completeness auto
termination
  by (relation "measure (\<lambda>(orig, d, s). length s)") (auto dest: duration_term_shorter)

declare sum_terms.simps [simp del]

definition parseDuration :: "string \<Rightarrow> int res" where
  "parseDuration orig =
     (let neg = (orig \<noteq> [] \<and> hd orig = CHR ''-'');
          s = (if orig \<noteq> [] \<and> (hd orig = CHR ''-'' \<or> hd orig = CHR ''+'') then tl orig else orig)
      in if s = ''0'' then Inr 0
         else if s = [] then Inl (dur_error ''invalid'' orig)
         else (case sum_terms orig 0 s of
             Inl e \<Rightarrow> Inl e
           | Inr d \<Rightarrow>
               if neg then Inr (- d)
               else if d > int63 - 1 then Inl (dur_error ''invalid'' orig)
               else Inr d))"

text \<open>
  \<open>Duration.String\<close>: hours, minutes and seconds for a second or more, otherwise the largest
  unit that gives a nonzero whole part; a fraction is written without trailing zeros.
\<close>

fun pad_digits :: "nat \<Rightarrow> int \<Rightarrow> string" where
  "pad_digits 0 n = []"
| "pad_digits (Suc k) n = pad_digits k (n div 10) @ [digit_char (n mod 10)]"

definition fraction :: "nat \<Rightarrow> int \<Rightarrow> string" where
  "fraction k n = (let ds = rev (dropWhile (\<lambda>c. c = CHR ''0'') (rev (pad_digits k n)))
     in if ds = [] then [] else CHR ''.'' # ds)"

definition durationString :: "int \<Rightarrow> string" where
  "durationString d =
     (let u = \<bar>d\<bar>; sign = (if d < 0 then ''-'' else []);
          s = u div 1000000000; m = s div 60; h = m div 60 in
      sign @
      (if u = 0 then ''0s''
       else if u < 1000 then itoa u @ ''ns''
       else if u < 1000000 then itoa (u div 1000) @ fraction 3 (u mod 1000) @ [char_of (194::int), char_of (181::int), CHR ''s'']
       else if u < 1000000000 then itoa (u div 1000000) @ fraction 6 (u mod 1000000) @ ''ms''
       else (if h > 0 then itoa h @ ''h'' else []) @ (if m > 0 then itoa (m mod 60) @ ''m'' else [])
            @ itoa (s mod 60) @ fraction 9 (u mod 1000000000) @ ''s''))"

lemma digits_value_takeWhile: "0 \<le> digits_value 0 (takeWhile is_digit s)"
  using digits_value_mono [of "takeWhile is_digit s" 0] by (auto dest: set_takeWhileD)

lemma unit_ns_nonneg: "unit_ns u = Some un \<Longrightarrow> 0 \<le> un"
  by (auto simp: unit_ns_def split: if_splits)

lemma duration_term_nonneg: "duration_term orig s = Inr (w, rest) \<Longrightarrow> 0 \<le> w"
proof -
  assume a: "duration_term orig s = Inr (w, rest)"
  define f where "f = (if dropWhile is_digit s \<noteq> [] \<and> hd (dropWhile is_digit s) = CHR ''.''
    then takeWhile is_digit (tl (dropWhile is_digit s)) else [])"
  have f: "0 \<le> digits_value 0 f" using digits_value_takeWhile by (simp add: f_def digits_value_takeWhile)
  from a obtain u un where "unit_ns u = Some un"
    and "w = digits_value 0 (takeWhile is_digit s) * un + digits_value 0 f * un div 10 ^ length f"
    unfolding duration_term_def Let_def f_def [symmetric] by (simp split: if_splits option.splits)
  with f digits_value_takeWhile [of s] unit_ns_nonneg show ?thesis
    by (simp add: pos_imp_zdiv_nonneg_iff)
qed

lemma sum_terms_range: "sum_terms orig d s = Inr r \<Longrightarrow> 0 \<le> d \<Longrightarrow> d \<le> int63 \<Longrightarrow> 0 \<le> r \<and> r \<le> int63"
proof (induction orig d s rule: sum_terms.induct)
  case (1 orig d s)
  show ?case
  proof (cases "s = []")
    case True
    with "1.prems" show ?thesis by (simp add: sum_terms.simps)
  next
    case False
    with "1.prems" obtain w rest where t: "duration_term orig s = Inr (w, rest)"
      and le: "\<not> d + w > int63" and r: "sum_terms orig (d + w) rest = Inr r"
      by (subst (asm) sum_terms.simps) (auto split: sum.splits if_splits)
    from t have "0 \<le> w" by (rule duration_term_nonneg)
    with le r False t "1.prems"(2) show ?thesis by (intro "1.IH" [OF False t refl]) auto
  qed
qed

end
