(* ===== verification/Config.thy ===== *)
theory Config
  imports Api_Types Go_Duration
begin

text \<open>
  \<open>internal/config\<close>: the operator's configuration from environment variables
  (\<open>config.go\<close>), the log level (\<open>logger.go\<close>) and the options of the controller manager
  (\<open>controller.go\<close>) from the command-line flags (\<open>flags.go\<close>). The environment is the
  function \<open>lookupEnv\<close>; the YAML parser and zap's level parser are arguments. Logging is
  left out.
\<close>

type_synonym env_vars = "string \<Rightarrow> string option"

definition stageDevelopment :: string where "stageDevelopment = ''development''"
definition stageProduction :: string where "stageProduction = ''production''"

definition getEnvVar :: "env_vars \<Rightarrow> string \<Rightarrow> string res" where
  "getEnvVar lookupEnv name =
     (case lookupEnv name of
        None \<Rightarrow> Inl (New_Err (''environment variable '' @ name @ '' must be set''))
      | Some v \<Rightarrow> Inr v)"

definition get_text :: "string \<Rightarrow> string" where
  "get_text name = ''failed to get env var ['' @ name @ '']: ''"

definition getNamespace :: "env_vars \<Rightarrow> string res" where
  "getNamespace lookupEnv =
     (case getEnvVar lookupEnv ''NAMESPACE'' of
        Inl e \<Rightarrow> Inl (errorf (get_text ''NAMESPACE'') e)
      | Inr v \<Rightarrow> Inr v)"

definition getLogLevel :: "env_vars \<Rightarrow> string res" where
  "getLogLevel lookupEnv =
     (case getEnvVar lookupEnv ''LOG_LEVEL'' of
        Inl e \<Rightarrow> Inl (errorf (get_text ''LOG_LEVEL'') e)
      | Inr v \<Rightarrow> Inr v)"

definition getNetworkPoliciesEnabled :: "env_vars \<Rightarrow> bool res" where
  "getNetworkPoliciesEnabled lookupEnv =
     (case getEnvVar lookupEnv ''NETWORK_POLICIES_ENABLED'' of
        Inl e \<Rightarrow> Inl (errorf (get_text ''NETWORK_POLICIES_ENABLED'') e)
      | Inr v \<Rightarrow>
          (case parseBool v of
             Inl e \<Rightarrow> Inl (errorf ''failed to parse bool from env var [NETWORK_POLICIES_ENABLED]: '' e)
           | Inr b \<Rightarrow> Inr b))"

definition getSelectorLabels :: "(string \<Rightarrow> strmap res) \<Rightarrow> env_vars \<Rightarrow> strmap res" where
  "getSelectorLabels yamlUnmarshal lookupEnv =
     (case getEnvVar lookupEnv ''SELECTOR_LABELS'' of
        Inl e \<Rightarrow> Inl (errorf (get_text ''SELECTOR_LABELS'') e)
      | Inr v \<Rightarrow>
          (case yamlUnmarshal v of
             Inl e \<Rightarrow> Inl (errorf ''failed to unmarshal selector labels: '' e)
           | Inr m \<Rightarrow> Inr m))"

definition duration_text :: "string \<Rightarrow> string \<Rightarrow> string" where
  "duration_text name v = ''failed to parse env var ['' @ name @ ''] with value ['' @ v @ '']: ''"

definition getDeletionTimeout :: "env_vars \<Rightarrow> int res" where
  "getDeletionTimeout lookupEnv =
     (case getEnvVar lookupEnv ''DELETION_TIMEOUT'' of
        Inl e \<Rightarrow> Inl (errorf (get_text ''DELETION_TIMEOUT'') e)
      | Inr v \<Rightarrow>
          (case parseDuration v of
             Inl e \<Rightarrow> Inl (errorf (duration_text ''DELETION_TIMEOUT'' v) e)
           | Inr d \<Rightarrow> Inr d))"

definition getProducerReconcileInterval :: "env_vars \<Rightarrow> int res" where
  "getProducerReconcileInterval lookupEnv =
     (case getEnvVar lookupEnv ''PRODUCER_RECONCILE_INTERVAL'' of
        Inl e \<Rightarrow> Inl (errorf (get_text ''PRODUCER_RECONCILE_INTERVAL'') e)
      | Inr v \<Rightarrow>
          (case parseDuration v of
             Inl e \<Rightarrow> Inl (errorf (duration_text ''PRODUCER_RECONCILE_INTERVAL'' v) e)
           | Inr d \<Rightarrow> Inr d))"

text \<open>\<open>configureStage\<close>: the value of the package variable \<open>Stage\<close> after it.\<close>

definition configureStage :: "env_vars \<Rightarrow> string" where
  "configureStage lookupEnv =
     (case getEnvVar lookupEnv ''STAGE'' of Inl e \<Rightarrow> stageProduction | Inr v \<Rightarrow> v)"

definition isStageDevelopment :: "string \<Rightarrow> bool" where
  "isStageDevelopment stage \<longleftrightarrow> stage = stageDevelopment"

section \<open>Logger\<close>

datatype 'l zap_options = Zap_Options (zapDevelopment: bool) (zapLevel: 'l)

text \<open>\<open>getZapOptions\<close>: an unset or unknown level means the info level.\<close>

definition getZapOptions :: "(string \<Rightarrow> 'l res) \<Rightarrow> 'l \<Rightarrow> env_vars \<Rightarrow> string \<Rightarrow> 'l zap_options" where
  "getZapOptions parseAtomicLevel infoLevel lookupEnv stage =
     (let logLevel =
        (case getLogLevel lookupEnv of
           Inl e \<Rightarrow> infoLevel
         | Inr v \<Rightarrow> (case parseAtomicLevel v of Inl e \<Rightarrow> infoLevel | Inr l \<Rightarrow> l))
      in Zap_Options (isStageDevelopment stage) logLevel)"

section \<open>Flags and manager options\<close>

record flags =
  fMetricsAddr :: string
  fMetricsCertPath :: string
  fMetricsCertName :: string
  fMetricsCertKey :: string
  fWebhookCertPath :: string
  fWebhookCertName :: string
  fWebhookCertKey :: string
  fEnableLeaderElection :: bool
  fProbeAddr :: string
  fSecureMetrics :: bool
  fEnableHTTP2 :: bool

text \<open>The defaults \<open>parseFlags\<close> declares: the flags of an empty command line.\<close>

definition default_flags :: flags where
  "default_flags = \<lparr>fMetricsAddr = ''0'', fMetricsCertPath = [], fMetricsCertName = ''tls.crt'',
     fMetricsCertKey = ''tls.key'', fWebhookCertPath = [], fWebhookCertName = ''tls.crt'',
     fWebhookCertKey = ''tls.key'', fEnableLeaderElection = False, fProbeAddr = '':8081'',
     fSecureMetrics = True, fEnableHTTP2 = False\<rparr>"

text \<open>
  \<open>flag.Parse\<close> on the command line of the process. A flag is a boolean flag or takes a
  string. Flags that imported packages have registered themselves are given by \<open>ext\<close>: whether
  such a flag is boolean, and which values it accepts. The left result is the exit code of
  \<open>flag.ExitOnError\<close>.
\<close>

type_synonym extern_flags = "string \<Rightarrow> (bool \<times> (string \<Rightarrow> bool)) option"

definition set_string_flag :: "string \<Rightarrow> string \<Rightarrow> flags \<Rightarrow> flags option" where
  "set_string_flag name v f =
     (if name = ''metrics-bind-address'' then Some (f\<lparr>fMetricsAddr := v\<rparr>)
      else if name = ''health-probe-bind-address'' then Some (f\<lparr>fProbeAddr := v\<rparr>)
      else if name = ''webhook-cert-path'' then Some (f\<lparr>fWebhookCertPath := v\<rparr>)
      else if name = ''webhook-cert-name'' then Some (f\<lparr>fWebhookCertName := v\<rparr>)
      else if name = ''webhook-cert-key'' then Some (f\<lparr>fWebhookCertKey := v\<rparr>)
      else if name = ''metrics-cert-path'' then Some (f\<lparr>fMetricsCertPath := v\<rparr>)
      else if name = ''metrics-cert-name'' then Some (f\<lparr>fMetricsCertName := v\<rparr>)
      else if name = ''metrics-cert-key'' then Some (f\<lparr>fMetricsCertKey := v\<rparr>)
      else None)"

definition set_bool_flag :: "string \<Rightarrow> bool \<Rightarrow> flags \<Rightarrow> flags option" where
  "set_bool_flag name v f =
     (if name = ''leader-elect'' then Some (f\<lparr>fEnableLeaderElection := v\<rparr>)
      else if name = ''metrics-secure'' then Some (f\<lparr>fSecureMetrics := v\<rparr>)
      else if name = ''enable-http2'' then Some (f\<lparr>fEnableHTTP2 := v\<rparr>)
      else None)"

datatype flag_kind = Bool_Flag | String_Flag

definition flag_kind_of :: "extern_flags \<Rightarrow> string \<Rightarrow> flag_kind option" where
  "flag_kind_of ext name =
     (if set_bool_flag name True default_flags \<noteq> None then Some Bool_Flag
      else if set_string_flag name [] default_flags \<noteq> None then Some String_Flag
      else map_option (\<lambda>x. if fst x then Bool_Flag else String_Flag) (ext name))"

text \<open>\<open>Set\<close> of the flag's value.\<close>

definition set_flag :: "extern_flags \<Rightarrow> string \<Rightarrow> string \<Rightarrow> flags \<Rightarrow> flags option" where
  "set_flag ext name v f =
     (if set_bool_flag name True f \<noteq> None then
        (case parseBool v of Inl e \<Rightarrow> None | Inr b \<Rightarrow> set_bool_flag name b f)
      else if set_string_flag name v f \<noteq> None then set_string_flag name v f
      else (case ext name of
          Some (_, accepts) \<Rightarrow> if accepts v then Some f else None
        | None \<Rightarrow> None))"

fun parse_args :: "extern_flags \<Rightarrow> string list \<Rightarrow> flags \<Rightarrow> int + flags" where
  "parse_args ext [] f = Inr f"
| "parse_args ext (s # args) f =
     (if length s < 2 \<or> hd s \<noteq> CHR ''-'' \<or> s = ''--'' then Inr f
      else
        (let body = drop (if s ! 1 = CHR ''-'' then 2 else 1) s in
         if hd body = CHR ''-'' \<or> hd body = CHR ''='' then Inl 2
         else (case cut (CHR ''='') body of
             (name, given) \<Rightarrow>
               (case flag_kind_of ext name of
                  None \<Rightarrow> Inl (if name = ''help'' \<or> name = ''h'' then 0 else 2)
                | Some Bool_Flag \<Rightarrow>
                    (case set_flag ext name (case given of Some v \<Rightarrow> v | None \<Rightarrow> ''true'') f of
                       None \<Rightarrow> Inl 2
                     | Some f' \<Rightarrow> parse_args ext args f')
                | Some String_Flag \<Rightarrow>
                    (case given of
                       Some v \<Rightarrow>
                         (case set_flag ext name v f of None \<Rightarrow> Inl 2 | Some f' \<Rightarrow> parse_args ext args f')
                     | None \<Rightarrow>
                         (case args of
                            [] \<Rightarrow> Inl 2
                          | v # args' \<Rightarrow>
                              (case set_flag ext name v f of
                                 None \<Rightarrow> Inl 2
                               | Some f' \<Rightarrow> parse_args ext args' f')))))))"

definition parseFlags :: "extern_flags \<Rightarrow> string list \<Rightarrow> int + flags" where
  "parseFlags ext args = parse_args ext args default_flags"

text \<open>A TLS option is a function on \<open>tls.Config\<close>; its \<open>NextProtos\<close> is all that matters here.\<close>

record tls_config =
  nextProtos :: "string list"

definition disableHTTP2 :: "tls_config \<Rightarrow> tls_config" where
  "disableHTTP2 c = c\<lparr>nextProtos := [''http/1.1'']\<rparr>"

definition createTLSOptions :: "flags \<Rightarrow> (tls_config \<Rightarrow> tls_config) list" where
  "createTLSOptions f = (if \<not> fEnableHTTP2 f then [disableHTTP2] else [])"

record server_options =
  soTLSOpts :: "(tls_config \<Rightarrow> tls_config) list"
  soCertDir :: string
  soCertName :: string
  soKeyName :: string

definition createWebhookServer :: "flags \<Rightarrow> (tls_config \<Rightarrow> tls_config) list \<Rightarrow> server_options" where
  "createWebhookServer f tlsOpts =
     (if fWebhookCertPath f \<noteq> [] then
        \<lparr>soTLSOpts = tlsOpts, soCertDir = fWebhookCertPath f, soCertName = fWebhookCertName f,
         soKeyName = fWebhookCertKey f\<rparr>
      else \<lparr>soTLSOpts = tlsOpts, soCertDir = [], soCertName = [], soKeyName = []\<rparr>)"

record metrics_options = server_options +
  moBindAddress :: string
  moSecureServing :: bool
  moAuthFilter :: bool

definition createMetricsServerOptions :: "flags \<Rightarrow> (tls_config \<Rightarrow> tls_config) list \<Rightarrow> metrics_options" where
  "createMetricsServerOptions f tlsOpts =
     (let certs = fMetricsCertPath f \<noteq> [] in
      \<lparr>soTLSOpts = tlsOpts,
       soCertDir = (if certs then fMetricsCertPath f else []),
       soCertName = (if certs then fMetricsCertName f else []),
       soKeyName = (if certs then fMetricsCertKey f else []),
       moBindAddress = fMetricsAddr f,
       moSecureServing = fSecureMetrics f,
       moAuthFilter = fSecureMetrics f\<rparr>)"

record manager_options =
  mgMetrics :: metrics_options
  mgWebhook :: server_options
  mgDefaultNamespaces :: "string list"
  mgProbeAddr :: string
  mgLeaderElection :: bool
  mgLeaderElectionID :: string

text \<open>\<open>getControllerOptions\<close> after its call of \<open>parseFlags\<close>, on the parsed flags.\<close>

definition options_of_flags :: "flags \<Rightarrow> string \<Rightarrow> manager_options" where
  "options_of_flags f namespace =
     (let tlsOpts = createTLSOptions f in
      \<lparr>mgMetrics = createMetricsServerOptions f tlsOpts, mgWebhook = createWebhookServer f tlsOpts,
       mgDefaultNamespaces = [namespace], mgProbeAddr = fProbeAddr f,
       mgLeaderElection = fEnableLeaderElection f,
       mgLeaderElectionID = ''service-account-operator.k8s.cloudogu.com''\<rparr>)"

text \<open>A call that may end the process: \<open>Exited\<close> carries the exit code.\<close>

datatype 'a run = Exited int | Ran 'a

definition getControllerOptions :: "extern_flags \<Rightarrow> string list \<Rightarrow> string \<Rightarrow> manager_options run" where
  "getControllerOptions ext args namespace =
     (case parseFlags ext args of
        Inl exit_code \<Rightarrow> Exited exit_code
      | Inr flagsConfig \<Rightarrow> Ran (options_of_flags flagsConfig namespace))"

section \<open>NewOperatorConfig\<close>

text \<open>In the order of its checks; the command line is parsed last. \<open>ControllerOptions\<close>, a field of
  the Go struct, is the second part of the result.\<close>

definition NewOperatorConfig ::
  "(string \<Rightarrow> strmap res) \<Rightarrow> extern_flags \<Rightarrow> string list \<Rightarrow> env_vars \<Rightarrow>
   (operator_config \<times> manager_options) res run" where
  "NewOperatorConfig yamlUnmarshal ext args lookupEnv =
     (case getNamespace lookupEnv of
        Inl e \<Rightarrow> Ran (Inl (errorf ''failed to read namespace: '' e))
      | Inr namespace \<Rightarrow>
     (case getDeletionTimeout lookupEnv of
        Inl e \<Rightarrow> Ran (Inl (errorf ''failed to read deletion timeout: '' e))
      | Inr deletionTimeout \<Rightarrow>
     (case getProducerReconcileInterval lookupEnv of
        Inl e \<Rightarrow> Ran (Inl (errorf ''failed to read producer reconcile interval: '' e))
      | Inr interval \<Rightarrow>
     (case getNetworkPoliciesEnabled lookupEnv of
        Inl e \<Rightarrow> Ran (Inl (errorf ''failed to read network policies enabled: '' e))
      | Inr enabled \<Rightarrow>
     (case getSelectorLabels yamlUnmarshal lookupEnv of
        Inl e \<Rightarrow> Ran (Inl (errorf ''failed to read selector labels: '' e))
      | Inr labels \<Rightarrow>
     (case getControllerOptions ext args namespace of
        Exited exit_code \<Rightarrow> Exited exit_code
      | Ran options \<Rightarrow>
          Ran (Inr (\<lparr>cfgNamespace = namespace, cfgDeletionTimeout = deletionTimeout,
            cfgReconcileInterval = interval, cfgNetworkPoliciesEnabled = enabled,
            cfgSelectorLabels = labels\<rparr>, options))))))))"

end
