(* ===== verification/Operator_Main.thy ===== *)
theory Operator_Main
  imports Request_Rotation Config
begin

text \<open>
  \<open>cmd/main.go\<close>: start-up and graceful shutdown. What the manager of controller-runtime
  answers is given by arguments: the results of the set-up calls, and what each of the two
  \<open>select\<close> statements of \<open>waitForGracefulShutdown\<close> receives. A process exit is its code.
\<close>

section \<open>Shutdown\<close>

definition gracefulShutdownTimeout :: int where
  "gracefulShutdownTimeout = 15000000000"

text \<open>What the first select sees: the manager has ended, or a signal has come; and the second:
  the manager has ended, or the timer has fired.\<close>

datatype first_event = Manager_Ended "gerr option" | Shutdown_Signal
datatype second_event = Manager_Stopped "gerr option" | Timer_Fired

definition waitForGracefulShutdown ::
  "int \<Rightarrow> first_event \<Rightarrow> second_event \<Rightarrow> ('w, unit) op \<Rightarrow> ('w, gerr option) op" where
  "waitForGracefulShutdown timeout fst_ev snd_ev sareCleanup =
     (case fst_ev of
        Manager_Ended (Some err) \<Rightarrow> ret (Some (errorf ''failed to run manager: '' err))
      | Manager_Ended None \<Rightarrow> ret None
      | Shutdown_Signal \<Rightarrow> do {
          sareCleanup;
          ret (case snd_ev of
              Manager_Stopped (Some err) \<Rightarrow>
                if \<not> errors_is err Ctx_Canceled
                then Some (errorf ''manager stopped with an error during shutdown: '' err) else None
            | Manager_Stopped None \<Rightarrow> None
            | Timer_Fired \<Rightarrow> Some (New_Err (''graceful shutdown timed out after '' @ durationString timeout)))
        })"

section \<open>Start\<close>

record setup_results =
  suManager :: "gerr option"
  suRequestController :: "gerr option"
  suProducerController :: "gerr option"
  suHealthz :: "gerr option"
  suReadyz :: "gerr option"

definition startManager ::
  "setup_results \<Rightarrow> first_event \<Rightarrow> second_event \<Rightarrow> ('w, gerr option) op" where
  "startManager su fst_ev snd_ev =
     (case suManager su of
        Some err \<Rightarrow> ret (Some (errorf ''failed to create manager: '' err))
      | None \<Rightarrow>
     (case suRequestController su of
        Some err \<Rightarrow> ret (Some (errorf ''failed to create service account request controller: '' err))
      | None \<Rightarrow>
     (case suProducerController su of
        Some err \<Rightarrow> ret (Some (errorf ''failed to create service account producer controller: '' err))
      | None \<Rightarrow>
     (case suHealthz su of
        Some err \<Rightarrow> ret (Some (errorf ''failed to set up health check: '' err))
      | None \<Rightarrow>
     (case suReadyz su of
        Some err \<Rightarrow> ret (Some (errorf ''failed to set up ready check: '' err))
      | None \<Rightarrow> waitForGracefulShutdown gracefulShutdownTimeout fst_ev snd_ev cleanup)))))"

text \<open>
  \<open>main\<close>. The package variable \<open>Stage\<close> of \<open>config\<close> starts as the production stage.
  \<open>ConfigureLogger\<close> reads it first; \<open>NewOperatorConfig\<close> sets it by \<open>configureStage\<close>
  before anything else. A run ends with the logger's options, the last value of \<open>Stage\<close>
  and the exit code.
\<close>

definition initialStage :: string where
  "initialStage = stageProduction"

record 'l process_end =
  peLogger :: "'l zap_options"
  peStage :: string
  peExit :: int

definition main ::
  "(string \<Rightarrow> 'l res) \<Rightarrow> 'l \<Rightarrow> (string \<Rightarrow> strmap res) \<Rightarrow> extern_flags \<Rightarrow>
   string list \<Rightarrow> env_vars \<Rightarrow> setup_results \<Rightarrow> first_event \<Rightarrow> second_event \<Rightarrow> ('w, 'l process_end) op" where
  "main parseAtomicLevel infoLevel yamlUnmarshal ext args lookupEnv su fst_ev snd_ev =
     (let logger = getZapOptions parseAtomicLevel infoLevel lookupEnv initialStage;
          stage = configureStage lookupEnv in
      case NewOperatorConfig yamlUnmarshal ext args lookupEnv of
        Exited exit_code \<Rightarrow> ret \<lparr>peLogger = logger, peStage = stage, peExit = exit_code\<rparr>
      | Ran (Inl err) \<Rightarrow> ret \<lparr>peLogger = logger, peStage = stage, peExit = 1\<rparr>
      | Ran (Inr cfg) \<Rightarrow> do {
          e \<leftarrow> startManager su fst_ev snd_ev;
          ret \<lparr>peLogger = logger, peStage = stage, peExit = (case e of Some err \<Rightarrow> 1 | None \<Rightarrow> 0)\<rparr>
        })"

section \<open>Properties\<close>

text \<open>C40: waiting for the shutdown from any reachable state of the controllers, with none of their operations in progress. The cleanup runs exactly when a signal came, and then no rotation runner is alive afterwards; otherwise nothing changes. The result is nil exactly when the manager ended by itself without error, or after a signal without an error other than context.Canceled before the timer fired.\<close>
theorem graceful_shutdown:
  assumes "reachable E cfg s"
    and "run_state (waitForGracefulShutdown timeout fst_ev snd_ev cleanup) s = (r, t)"
  shows "(if fst_ev = Shutdown_Signal then \<forall>x. \<not> live t x else t = s) \<and>
    (r = None \<longleftrightarrow> fst_ev = Manager_Ended None \<or>
       fst_ev = Shutdown_Signal \<and> (snd_ev = Manager_Stopped None \<or>
         (\<exists>e. snd_ev = Manager_Stopped (Some e) \<and> errors_is e Ctx_Canceled)))"
proof (cases fst_ev)
  case (Manager_Ended e)
  with assms(2) show ?thesis by (cases e) (auto simp: waitForGracefulShutdown_def)
next
  case Shutdown_Signal
  obtain u where c: "run_state cleanup s = ((), u)" by (metis old.unit.exhaust prod.exhaust)
  with Shutdown_Signal assms(2) have "t = u" and r: "r = (case snd_ev of
              Manager_Stopped (Some err) \<Rightarrow>
                if \<not> errors_is err Ctx_Canceled
                then Some (errorf ''manager stopped with an error during shutdown: '' err) else None
            | Manager_Stopped None \<Rightarrow> None
            | Timer_Fired \<Rightarrow> Some (New_Err (''graceful shutdown timed out after '' @ durationString timeout)))"
    by (auto simp: waitForGracefulShutdown_def)
  with none_live_after_cleanup [OF assms(1) c] Shutdown_Signal show ?thesis
    by (auto split: second_event.splits option.splits)
qed

text \<open>The exit code of the process. It is that of the command line if parsing it ends the process (2 for an error, 0 for a request for help). Otherwise it is 0 exactly if the configuration can be read, every set-up step succeeds and the wait for the shutdown returns nil, and 1 in every other case.\<close>
theorem main_exit_code:
  "peExit (fst (run_state (main parse info yaml ext args lookupEnv su fst_ev snd_ev) s)) =
     (case NewOperatorConfig yaml ext args lookupEnv of
        Exited n \<Rightarrow> n
      | Ran r \<Rightarrow> if (\<exists>cfg. r = Inr cfg) \<and> suManager su = None \<and> suRequestController su = None \<and>
         suProducerController su = None \<and> suHealthz su = None \<and> suReadyz su = None \<and>
         fst (run_state (waitForGracefulShutdown gracefulShutdownTimeout fst_ev snd_ev cleanup) s) = None
      then 0 else 1)"
  by (auto simp: main_def startManager_def Let_def split: sum.split option.split prod.split run.split)

text \<open>C39: the stage of the environment does not reach the logger. Whatever STAGE is, the process logs in production mode, although at its end \<open>Stage\<close> is what the environment says: the logger is configured before the stage is read. The log level does follow LOG_LEVEL, with info for a level that is missing or unknown.\<close>
theorem stage_never_reaches_logger:
  "\<exists>code. fst (run_state (main parse info yaml ext args lookupEnv su fst_ev snd_ev) s) =
     \<lparr>peLogger = Zap_Options False
        (case lookupEnv ''LOG_LEVEL'' of
           None \<Rightarrow> info
         | Some v \<Rightarrow> (case parse v of Inl e \<Rightarrow> info | Inr l \<Rightarrow> l)),
      peStage = (case lookupEnv ''STAGE'' of None \<Rightarrow> ''production'' | Some v \<Rightarrow> v),
      peExit = code\<rparr>"
proof -
  have "getZapOptions parse info lookupEnv initialStage = Zap_Options False
      (case lookupEnv ''LOG_LEVEL'' of None \<Rightarrow> info | Some v \<Rightarrow> (case parse v of Inl e \<Rightarrow> info | Inr l \<Rightarrow> l))"
    by (simp add: getZapOptions_def getLogLevel_def getEnvVar_def initialStage_def isStageDevelopment_def
        stageDevelopment_def stageProduction_def split: option.split)
  moreover have "configureStage lookupEnv = (case lookupEnv ''STAGE'' of None \<Rightarrow> ''production'' | Some v \<Rightarrow> v)"
    by (simp add: configureStage_def getEnvVar_def stageProduction_def split: option.split)
  ultimately show ?thesis
    by (cases "NewOperatorConfig yaml ext args lookupEnv") (auto simp: main_def Let_def split: sum.split prod.split)
qed

theorem graceful_shutdown_witness:
  "fst (run_state (waitForGracefulShutdown 5 Shutdown_Signal (Manager_Stopped (Some Ctx_Canceled)) cleanup) started) = None \<and>
   \<not> live (snd (run_state (waitForGracefulShutdown 5 Shutdown_Signal (Manager_Stopped (Some Ctx_Canceled)) cleanup) started)) 0"
  using graceful_shutdown [OF started_reachable prod.collapse [symmetric],
      where timeout = 5 and fst_ev = Shutdown_Signal and snd_ev = "Manager_Stopped (Some Ctx_Canceled)"]
  by simp

end
