(* ===== verification/Operator_Shutdown.thy ===== *)
theory Operator_Shutdown
  imports Operator_Schedule Operator_Main
begin

text \<open>
  The process from its start to its exit, as a state machine around the steps of \<open>Operator_Steps\<close>.
  The manager works; a signal makes \<open>waitForGracefulShutdown\<close> call the cleanup while reconciles may
  still be in progress; the process ends when the manager has stopped or the timer has fired. The
  results are those of \<open>waitForGracefulShutdown\<close> itself.
\<close>

datatype phase = Running | Draining | Exited "gerr option"

inductive process_step ::
  "'w env \<Rightarrow> operator_config \<Rightarrow> int \<Rightarrow> phase \<times> 'w st \<Rightarrow> phase \<times> 'w st \<Rightarrow> bool" for E cfg timeout where
  Work: "op_step E cfg s t \<Longrightarrow> process_step E cfg timeout (Running, s) (Running, t)"
| Ended: "run_state (waitForGracefulShutdown timeout (Manager_Ended e) ev cleanup) s = (r, t) \<Longrightarrow>
    process_step E cfg timeout (Running, s) (Exited r, t)"
| Signal: "run_state cleanup s = ((), t) \<Longrightarrow> process_step E cfg timeout (Running, s) (Draining, t)"
| Drain: "op_step E cfg s t \<Longrightarrow> process_step E cfg timeout (Draining, s) (Draining, t)"
| Stopped: "run_state (waitForGracefulShutdown timeout Shutdown_Signal ev (ret ())) s = (r, t) \<Longrightarrow>
    process_step E cfg timeout (Draining, s) (Exited r, t)"

inductive_cases exited_stepE: "process_step E cfg timeout (Exited r, s) (ph, t)"

section \<open>The trace grows\<close>

lemma grows_emits: "preserves (emits P) m \<Longrightarrow> run_state m s = (a, t) \<Longrightarrow> set (trace s) \<subseteq> set (trace t)"
  by (auto dest!: preservesD simp: emits_def)

lemma reconcile_trace:
  assumes "run_state (Reconcile E cfg req) s = (r, t)"
  shows "set (trace s) \<subseteq> set (trace t)"
  using assms
proof (cases rule: ReconcileE)
  case (Deleting sare ts err)
  from grows_emits [OF emits_removal Deleting(3)] show ?thesis by simp
next
  case (Added sare x)
  from grows_emits [OF emits_creation Added(5)] show ?thesis by simp
next
  case (Present sare x)
  from grows_emits [OF emits_creation Present(4)] show ?thesis by simp
qed auto

lemma op_step_trace:
  assumes "op_step E cfg s t"
  shows "set (trace s) \<subseteq> set (trace t)"
  using assms
proof cases
  case (Step_Reconcile req r)
  then show ?thesis by (rule reconcile_trace)
next
  case (Step_Rotate task x)
  show ?thesis by (rule grows_emits [OF emits_rotate [of "\<lambda>c. True"] Step_Rotate(2)]) simp_all
next
  case (Step_Producer req r)
  show ?thesis by (rule grows_emits [OF emits_Producer Step_Producer])
next
  case (Step_Event obj reqs)
  show ?thesis by (rule grows_emits [OF emits_enqueue [of "\<lambda>c. True"] Step_Event]) simp_all
qed simp

section \<open>Runners after the signal\<close>

text \<open>What the cleanup leaves: every task is stopped, and the invariant of the watcher map still holds.\<close>

definition all_stopped :: "nat \<Rightarrow> 'w st \<Rightarrow> bool" where
  "all_stopped n s \<longleftrightarrow> (\<forall>x < n. Stop_Runner x \<in> set (trace s))"

lemma cleanup_stops:
  assumes inv: "watch_inv s" and run: "run_state cleanup s = (u, t)"
  shows "watch_inv t" and "all_stopped (length (tasks s)) t" and "tasks t = tasks s"
proof -
  from run have t: "t = s\<lparr>trace := trace s @ map Stop_Runner (map snd (watchers s))\<rparr>"
    by (simp add: cleanup_def run_stop_all)
  have ran: "\<exists>k. map_of (watchers s) k = Some r" if "r \<in> snd ` set (watchers s)" for r
    using that inv unfolding watch_inv_def by (auto dest!: map_of_is_SomeI)
  then have old: "r < length (tasks s)" if "r \<in> snd ` set (watchers s)" for r
    using that inv unfolding watch_inv_def by blast
  have fields: "watchers t = watchers s" "tasks t = tasks s" "Go_Run r \<in> set (trace t) \<longleftrightarrow> Go_Run r \<in> set (trace s)"
    "Stop_Runner r \<in> set (trace t) \<longleftrightarrow> Stop_Runner r \<in> set (trace s) \<or> r \<in> snd ` set (watchers s)" for r
    by (auto simp: t)
  from inv show "watch_inv t" unfolding watch_inv_def fields using old by blast
  show "all_stopped (length (tasks s)) t"
    unfolding all_stopped_def
  proof (intro allI impI)
    fix x assume x: "x < length (tasks s)"
    have "Stop_Runner x \<in> set (trace s) \<or> registered (watchers s) x" using inv x unfolding watch_inv_def by blast
    then show "Stop_Runner x \<in> set (trace t)"
      unfolding fields registered_def by (auto dest!: map_of_SomeD intro: rev_image_eqI)
  qed
  show "tasks t = tasks s" by (simp add: t)
qed

lemma stopped_old: "watch_inv s \<Longrightarrow> all_stopped n s \<Longrightarrow> live s x \<Longrightarrow> n \<le> x \<and> x < length (tasks s)"
  unfolding watch_inv_def all_stopped_def live_def by (meson not_less)

text \<open>Both survive whatever the process still does.\<close>

lemma draining_invariant:
  assumes "(process_step E cfg timeout)\<^sup>*\<^sup>* (Draining, t0) (ph, s)" and "watch_inv t0" and "all_stopped n t0"
  shows "ph \<noteq> Running \<and> watch_inv s \<and> all_stopped n s"
  using assms(1)
proof (induction "(ph, s)" arbitrary: ph s rule: rtranclp_induct)
  case base
  with assms(2,3) show ?case by simp
next
  case (step y)
  obtain ph' s' where y: "y = (ph', s')" by fastforce
  from step.hyps(3) [OF y] have IH: "ph' \<noteq> Running" "watch_inv s'" "all_stopped n s'" by blast+
  show ?case
  proof (cases ph')
    case Draining
    from step.hyps(2) [unfolded y Draining] IH show ?thesis
    proof cases
      case Drain
      from wi.step_keeps [OF this(2) IH(2)] op_step_trace [OF this(2)] this(1) IH(3) show ?thesis
        by (auto simp: all_stopped_def)
    next
      case (Stopped ev r)
      then have "s = s'" by (auto simp: waitForGracefulShutdown_def)
      with Stopped IH show ?thesis by simp
    qed
  qed (use IH step.hyps(2) y in \<open>auto elim: exited_stepE\<close>)
qed

lemma registered_once: "watch_inv s \<Longrightarrow> live s x \<Longrightarrow> \<exists>!k. map_of (watchers s) k = Some x"
  unfolding watch_inv_def live_def registered_def by metis

text \<open>C22: what the shutdown does to rotation runners. Let a signal come in any reachable state of the process. Whatever is still in progress goes on after the cleanup, and the process may have ended since. Then every runner that is still running was started after the cleanup; it is registered under exactly one key, so a cleanup at this point would leave no runner running. The cleanup of the code comes before the manager has stopped, so such runners may exist when the process reports a graceful end.\<close>
theorem shutdown_runners:
  assumes reach: "reachable E cfg s0" and signal: "run_state cleanup s0 = ((), t0)"
    and run: "(process_step E cfg timeout)\<^sup>*\<^sup>* (Draining, t0) (ph, s)"
  shows "ph \<noteq> Running \<and>
    (\<forall>x. live s x \<longrightarrow> length (tasks s0) \<le> x \<and> x < length (tasks s) \<and> (\<exists>!k. map_of (watchers s) k = Some x)) \<and>
    (\<forall>x. \<not> live (snd (run_state cleanup s)) x)"
proof -
  note t0 = cleanup_stops [OF wi.reachable_holds [OF reach] signal]
  from draining_invariant [OF run t0(1,2)] have s: "ph \<noteq> Running" "watch_inv s" "all_stopped (length (tasks s0)) s" by blast+
  have "\<not> live (snd (run_state cleanup s)) x" for x
    using cleanup_stops [OF s(2) prod.collapse [symmetric]] stopped_old by fastforce
  with s stopped_old [OF s(2,3)] registered_once [OF s(2)] show ?thesis by blast
qed

section \<open>Witness\<close>

text \<open>A signal comes before the first reconcile of a SARE with rotation has returned; the manager then
  stops without an error.\<close>

lemma late_reconcile:
  "(process_step simE ex_cfg 5)\<^sup>*\<^sup>* (Draining, rotating_start) (Exited None, started)"
proof -
  have "process_step simE ex_cfg 5 (Draining, rotating_start) (Draining, started)"
    by (rule Drain, rule Step_Reconcile [OF rotating_run])
  moreover have "process_step simE ex_cfg 5 (Draining, started) (Exited None, started)"
    by (rule Stopped [of _ "Manager_Stopped None"]) (simp add: waitForGracefulShutdown_def)
  ultimately show ?thesis by (simp add: converse_rtranclp_into_rtranclp)
qed

theorem shutdown_runners_witness:
  "process_step simE ex_cfg 5 (Running, rotating_start) (Draining, rotating_start) \<and>
   (process_step simE ex_cfg 5)\<^sup>*\<^sup>* (Draining, rotating_start) (Exited None, started) \<and> live started 0 \<and>
   \<not> live (snd (run_state cleanup started)) 0"
proof -
  have signal: "run_state cleanup rotating_start = ((), rotating_start)"
    by (simp add: cleanup_def rotating_start_def init_st_def)
  have "reachable simE ex_cfg rotating_start" unfolding rotating_start_def by (rule Reach_Init)
  from shutdown_runners [OF this signal late_reconcile] late_reconcile Signal [OF signal] started_facts(1)
  show ?thesis by blast
qed

end
