(* ===== verification/Request_Refinement.thy ===== *)
theory Request_Refinement
  imports Request_Deletion
begin

text \<open>
  An abstract store of secrets and the proof that the request controller refines it.
\<close>

section \<open>The abstract secret store\<close>

definition mine :: "'w env \<Rightarrow> sare \<Rightarrow> secret_view \<Rightarrow> bool" where
  "mine E sare v \<longleftrightarrow> (case v (secret_key sare) of None \<Rightarrow> True | Some x \<Rightarrow> e_is_controlled_by E x sare)"

text \<open>What a service account request may do to the secrets of the cluster.\<close>

inductive secret_step :: "'w env \<Rightarrow> sare \<Rightarrow> secret_view \<Rightarrow> secret_view \<Rightarrow> bool" for E sare where
  Skip: "secret_step E sare v v"
| Drop: "mine E sare v \<Longrightarrow> secret_step E sare v (v(secret_key sare := None))"
| Put: "mine E sare v \<Longrightarrow> e_is_controlled_by E y sare \<Longrightarrow> secret_step E sare v (v(secret_key sare := Some y))"

lemma sm_CreateOrUpdate_step:
  assumes laws: "secret_laws E V" and run: "run_state (sm_CreateOrUpdate E sare c) s = (r, t)"
  shows "secret_step E sare (V (world s)) (V (world t))"
proof -
  define x0 where "x0 = new_secret (sareNamespace sare) (resolveSecretName sare)"
  have key: "nn (secNamespace x0) (secName x0) = secret_key sare"
    by (simp add: x0_def new_secret_def secret_key_def)
  note up = upsert_lawD [OF secret_lawsD(3) [OF laws], of "sm_mutate E sare c" x0 "world s", unfolded key]
  note own = secret_lawsD(4) [OF laws]
  from run have t: "world t = snd (e_create_or_update_secret E x0 (sm_mutate E sare c) (world s))"
    by (auto simp: run_sm_CreateOrUpdate write_call_def x0_def)
  show ?thesis
  proof (cases "sm_mutate E sare c (upsert_base V x0 (world s))")
    case (Inl e)
    with up(1) t show ?thesis by (auto intro: Skip)
  next
    case (Inr y)
    have m: "mine E sare (V (world s))"
    proof (cases "V (world s) (secret_key sare)")
      case None
      then show ?thesis by (simp add: mine_def)
    next
      case (Some x)
      with Inr key have "sm_mutate E sare c x = Inr y" by (simp add: upsert_base_def)
      with sm_mutate_foreign [OF own Some, of sare c] have "e_is_controlled_by E x sare" by auto
      with Some show ?thesis by (simp add: mine_def)
    qed
    from sm_mutate_ok [OF own Inr] have y: "e_is_controlled_by E (persisted rv y) sare" for rv
      by (simp add: owner_lawD(5) [OF own])
    from up(2) [OF Inr] consider "V (world t) = V (world s)"
      | rv where "V (world t) = (V (world s))(secret_key sare := Some (persisted rv y))"
      unfolding t by auto
    then show ?thesis
    proof cases
      case 1
      then show ?thesis by (auto intro: Skip)
    next
      case (2 rv)
      with Put [OF m y, of rv] show ?thesis by simp
    qed
  qed
qed

lemma secret_step_view: "V (world t) = V (world u) \<Longrightarrow> secret_step E sare v (V (world u)) \<Longrightarrow> secret_step E sare v (V (world t))"
  by simp

lemma step_createOrUpdateFromProducer:
  assumes laws: "secret_laws E V" "others_keep_secrets E V"
    and run: "run_state (createOrUpdateFromProducer E sare sapr b n) s = (x, t)"
  shows "secret_step E sare (V (world s)) (V (world t))"
proof -
  obtain r u where r: "run_state (requestCredentials E sare sapr b) s = (r, u)" by fastforce
  have view: "V (world u) = V (world s)"
    using preservesD [OF view_requestCredentials [OF laws] r] by (simp add: keeps_view_def)
  show ?thesis
  proof (cases "\<exists>c. r = Inr (Some c)")
    case False
    with r run view show ?thesis
      by (auto simp: createOrUpdateFromProducer_def intro: Skip split: sum.splits option.splits)
  next
    case True
    then obtain c where c: "r = Inr (Some c)" by blast
    obtain w v where w: "run_state (sm_CreateOrUpdate E sare c) u = (w, v)" by fastforce
    with c r run have "world t = world v"
      by (cases w) (auto simp: createOrUpdateFromProducer_def Let_def run_simps)
    with sm_CreateOrUpdate_step [OF laws(1) w] view show ?thesis by simp
  qed
qed

lemma step_migrateCredentials:
  assumes laws: "secret_laws E V" and run: "run_state (migrateCredentials E sare sapr) s = (m, t)"
  shows "secret_step E sare (V (world s)) (V (world t))"
proof -
  obtain r u where r: "run_state (ms_Credentials E sare sapr) s = (r, u)" by fastforce
  have view: "V (world u) = V (world s)"
    using preservesD [OF view_ms_Credentials [OF laws] r] by (simp add: keeps_view_def)
  show ?thesis
  proof (cases "\<exists>c. r = Inr (Some c)")
    case False
    with r run view show ?thesis
      by (auto simp: migrateCredentials_def run_simps intro: Skip split: sum.splits option.splits prod.splits if_splits)
  next
    case True
    then obtain c where c: "r = Inr (Some c)" by blast
    obtain w v where w: "run_state (sm_CreateOrUpdate E sare c) u = (w, v)" by fastforce
    with c r run have "world t = world v"
      by (cases w) (auto simp: migrateCredentials_def run_simps)
    with sm_CreateOrUpdate_step [OF laws w] view show ?thesis by simp
  qed
qed

lemma checked_mine:
  fixes s :: "'w st"
  assumes "secret_laws E V" and "check_answer E sare (world s) = (b, n, None)"
  shows "mine E sare (V (world s))"
  using checked_not_foreign [OF assms] by (auto simp: mine_def split: option.splits)

lemma step_producer:
  assumes laws: "secret_laws E V" "others_keep_secrets E V"
    and c: "check_answer E (heap s p) (world s) = (b, n, None)"
    and h: "run_state (handleSaRotationWatcher E p) (checked E (heap s p) s) = (None, s2)"
    and g: "run_state (getProducerForCreateOrUpdate E p) s2 = (g, s3)"
  shows "secret_step E (heap s p) (V (world s)) (V (world s3))"
proof -
  have s2: "V (world s2) = V (world s)" "heap s2 p = heap s p"
    using watcher_world [OF h] view_checked [OF laws(1)] by simp_all
  let ?k = "secret_key (heap s p)"
  have del: "V (snd (e_delete_secret E ?k w)) = V w \<or> V (snd (e_delete_secret E ?k w)) = (V w)(?k := None)" for w
    using delete_lawD(3) [OF secret_lawsD(2) [OF laws(1)]] .
  have "V (world s3) = V (world s) \<or> V (world s3) = (V (world s))(?k := None)"
    using g s2 laws(2) del [of "snd (e_get_sapr E (producer_key (heap s p)) (world s2))"]
    by (auto simp: run_getProducerForCreateOrUpdate run_producerNotFound Let_def
        split: sum.splits option.splits if_splits)
  with checked_mine [OF laws(1) c] show ?thesis by (auto intro: Skip Drop)
qed

lemma createOrUpdate_step:
  assumes laws: "secret_laws E V" "others_keep_secrets E V" and named: "sareName (heap s p) \<noteq> []"
    and run: "run_state (createOrUpdate E p) s = (r, t)"
  shows "secret_step E (heap s p) (V (world s)) (V (world t))"
  using run
proof (cases rule: createOrUpdateE)
  case (Check_Failed b n e)
  then show ?thesis using view_checked [OF laws(1), of "heap s p" s] by (auto intro: Skip)
next
  case (Watcher_Failed b n e)
  then have "V (world t) = V (world s)"
    using watcher_world(1) [OF Watcher_Failed(2)] view_checked [OF laws(1)] by simp
  then show ?thesis by (auto intro: Skip)
next
  case (Panic b n s2 m)
  then show ?thesis by (intro step_producer [OF laws])
next
  case (No_Producer b n s2 e)
  then show ?thesis by (intro step_producer [OF laws])
next
  case (Updated n s2 s3 sapr x)
  from course_prefix(1) [OF Updated(2,3) laws] step_createOrUpdateFromProducer [OF laws Updated(4)]
  show ?thesis by simp
next
  case (Migration_Failed n s2 s3 sapr e)
  from course_prefix(1) [OF Migration_Failed(2,3) laws] step_migrateCredentials [OF laws(1) Migration_Failed(4)]
  show ?thesis by simp
next
  case (Migrated n s2 s3 sapr name)
  from course_prefix(1) [OF Migrated(2,3) laws] step_migrateCredentials [OF laws(1) Migrated(4)]
  show ?thesis by simp
next
  case (Created n s2 s3 s4 sapr x)
  from named have "resolveSecretName (heap s p) \<noteq> []" by (auto simp: resolveSecretName_def split: option.splits)
  with migrateCredentials_ok [OF laws(1) Created(4)] course_prefix(1) [OF Created(2,3) laws]
  have "V (world s4) = V (world s)" by simp
  with step_createOrUpdateFromProducer [OF laws Created(5)] show ?thesis by simp
qed

text \<open>C9: refinement. The abstract specification \<open>secret_step\<close> of what a SARE may do to the secrets of a cluster is: nothing, remove its own secret, or write its own secret, the latter two only if its key is free or controlled by it, and what is written is controlled by it. Under the laws of the API server every reconcile that creates or updates for a SARE with a name (which the API server demands of every object) is one such step on the secrets of the cluster, on every path, the panic included.\<close>
theorem reconcile_refines_store:
  assumes laws: "secret_laws E V" "others_keep_secrets E V" and named: "sareName (heap s p) \<noteq> []"
    and run: "run_state (reconcileCreateOrUpdate E p) s = (r, t)"
  shows "secret_step E (heap s p) (V (world s)) (V (world t))"
proof -
  obtain g u where g: "run_state (createOrUpdate E p) s = (g, u)" by fastforce
  from run laws(2) have "V (world t) = V (world u)"
    unfolding run_reconcileCreateOrUpdate [OF g]
    by (auto simp: Let_def view_after_success split: outcome.splits prod.splits option.splits if_splits)
  with createOrUpdate_step [OF laws named g] show ?thesis by simp
qed

theorem reconcile_refines_store_witness:
  "sim_secret (world creates) (nn ''ns'' ''r'') = None \<and>
   secret_step simE (heap creates 0) (sim_secret (world creates))
     (sim_secret (world (snd (run_state (reconcileCreateOrUpdate simE 0) creates))))"
proof -
  have "sareName (heap creates 0) \<noteq> [] \<and> sim_secret (world creates) (nn ''ns'' ''r'') = None" by code_simp
  with reconcile_refines_store [OF sim_laws sim_others _ prod.collapse [symmetric], of creates 0] show ?thesis
    by blast
qed

lemma reconcile_grows:
  assumes run: "run_state (reconcileCreateOrUpdate E p) s = (r, t)"
  shows "\<exists>cs. trace t = trace s @ cs"
proof -
  obtain g u where g: "run_state (createOrUpdate E p) s = (g, u)" by fastforce
  obtain cs where "trace u = trace s @ cs" using createOrUpdate_course [OF g] by blast
  with run show ?thesis
    unfolding run_reconcileCreateOrUpdate [OF g]
    by (auto simp: Let_def success_st_def clock_st_def split: outcome.splits prod.splits option.splits if_splits)
qed

end
