(* ===== verification/Operator_History.thy ===== *)
theory Operator_History
  imports Operator_System Request_Refinement
begin

text \<open>
  What the calls of a whole run say about each other, in every environment: whenever the operator
  changes the finalizer of a SARE, deletes a secret or sends a request, the history of its own
  calls up to that point contains the reason, in the same operation. Each of the three is an
  inductive rule (\<open>finalizer_warrant\<close>, \<open>secret_warrant\<close>, \<open>request_warrant\<close>) and an instance of the
  locale \<open>audit\<close>.
\<close>

section \<open>Finalizers\<close>

text \<open>When the history \<open>h\<close> of calls warrants an update of a SARE: it has just been read without a
  deletion timestamp, and the update adds the finalizer; or it was the last one read, with a deletion
  timestamp, the update removes the finalizer, and since then the clock has shown that the timeout
  is over, or the deletion has been settled at the producer.\<close>

inductive finalizer_warrant :: "'w env \<Rightarrow> operator_config \<Rightarrow> call list \<Rightarrow> call \<Rightarrow> bool" for E cfg where
  adding: "sareDeletionTimestamp sare = None \<Longrightarrow> e_add_finalizer E sare finalizer = (x, True) \<Longrightarrow>
    finalizer_warrant E cfg (g @ [Get_Sare req (Inr sare)]) (Update_Sare x a)"
| expired: "sareDeletionTimestamp sare = Some ts \<Longrightarrow> e_contains_finalizer E sare finalizer \<Longrightarrow>
    list_all (\<lambda>c. \<not> is_sare_read c) seg \<Longrightarrow> Read_Clock now \<in> set seg \<Longrightarrow>
    time_since now ts > cfgDeletionTimeout cfg \<Longrightarrow> filter is_http seg = [] \<Longrightarrow>
    finalizer_warrant E cfg (g @ Get_Sare req (Inr sare) # seg) (Update_Sare (e_remove_finalizer E sare finalizer) a)"
| settled: "sareDeletionTimestamp sare = Some ts \<Longrightarrow> e_contains_finalizer E sare finalizer \<Longrightarrow>
    list_all (\<lambda>c. \<not> is_sare_read c) seg \<Longrightarrow> deletion_settled sare seg True \<Longrightarrow>
    finalizer_warrant E cfg (g @ Get_Sare req (Inr sare) # seg) (Update_Sare (e_remove_finalizer E sare finalizer) a)"
| other: "\<not> is_sare_update c \<Longrightarrow> finalizer_warrant E cfg h c"

inductive_cases finalizer_warrantE: "finalizer_warrant E cfg h (Update_Sare x a)"

lemma finalizer_warrant_earlier: "finalizer_warrant E cfg h c \<Longrightarrow> finalizer_warrant E cfg (g @ h) c"
proof (induction rule: finalizer_warrant.induct)
  case (adding sare x g' req a)
  then show ?case using finalizer_warrant.adding [of sare E x cfg "g @ g'"] by simp
next
  case (expired sare ts seg now g' req a)
  then show ?case using finalizer_warrant.expired [of sare ts E seg now cfg "g @ g'"] by simp
next
  case (settled sare ts seg g' req a)
  then show ?case using finalizer_warrant.settled [of sare ts E seg cfg "g @ g'"] by simp
qed (rule finalizer_warrant.other)

lemma reconcile_finalizer_audited:
  assumes run: "run_state (Reconcile E cfg req) s = (r, t)"
  shows "adds_audited (finalizer_warrant E cfg) s t"
  using run
proof (cases rule: ReconcileE)
  case (Unread e)
  then show ?thesis
    by (intro adds_auditedI [where cs = "[Get_Sare req (Inl e)]"]) (auto simp: Cons_eq_append_conv intro: finalizer_warrant.other)
next
  case (Deleting sare ts err)
  obtain ds where ds: "trace t = trace (got_sare E req sare s) @ ds" "list_all removal_call ds"
    using Deleting(3) by (rule emitsE [OF emits_removal])
  show ?thesis
  proof (rule adds_auditedI)
    show "trace t = trace s @ Get_Sare req (Inr sare) # ds" using ds(1) Deleting(1) by simp
    fix us c vs
    assume split: "Get_Sare req (Inr sare) # ds = us @ c # vs"
    show "finalizer_warrant E cfg us c"
    proof (cases "is_sare_update c")
      case True
      then obtain x a where c: "c = Update_Sare x a" by (rule is_sare_updateE)
      with split obtain us' where us: "us = Get_Sare req (Inr sare) # us'" "ds = us' @ Update_Sare x a # vs"
        by (auto simp: Cons_eq_append_conv)
      have read: "list_all (\<lambda>c. \<not> is_sare_read c) us'" using ds(2) us(2) by (auto simp: list_all_iff removal_call_def)
      from removal_position [OF Deleting(3), of us' x a vs] us(2) ds(1)
      show ?thesis unfolding us(1) c
        by (auto intro: finalizer_warrant.expired [OF Deleting(2) _ read, of E _ cfg "[]", simplified]
            finalizer_warrant.settled [OF Deleting(2) _ read, of E cfg "[]", simplified])
    qed (rule finalizer_warrant.other)
  qed
next
  case (Not_Added sare x e)
  then have "trace t = trace s @ [Get_Sare req (Inr sare), Update_Sare x (fst (e_update_sare E x (snd (e_get_sare E req (world s)))))]" by simp
  then show ?thesis
    by (rule adds_auditedI) (auto simp: Cons_eq_append_conv intro: finalizer_warrant.other
        finalizer_warrant.adding [OF Not_Added(2,3), of cfg "[]", simplified])
next
  case (Added sare x)
  obtain ds where ds: "trace t = trace (added_finalizer E req x s) @ ds" "list_all creation_call ds"
    using Added(5) by (rule emitsE [OF emits_creation])
  then have "trace t = trace s @ Get_Sare req (Inr sare) # Update_Sare x (fst (e_update_sare E x (snd (e_get_sare E req (world s))))) # ds" using Added by simp
  then show ?thesis
    by (rule adds_auditedI) (use ds(2) in \<open>auto simp: Cons_eq_append_conv creation_call_def intro: finalizer_warrant.other
        finalizer_warrant.adding [OF Added(2,3), of cfg "[]", simplified]\<close>)
next
  case (Present sare x)
  obtain ds where ds: "trace t = trace (got_sare E req x s) @ ds" "list_all creation_call ds"
    using Present(4) by (rule emitsE [OF emits_creation])
  then have "trace t = trace s @ Get_Sare req (Inr sare) # ds" using Present by simp
  then show ?thesis
    by (rule adds_auditedI) (use ds(2) in \<open>auto simp: Cons_eq_append_conv creation_call_def intro: finalizer_warrant.other\<close>)
qed

lemma producer_call_kinds:
  "producer_call c \<Longrightarrow> \<not> is_sare_update c \<and> \<not> is_secret_delete c \<and> \<not> is_sare_read c"
  by (cases c) auto

interpretation fa: audit finalizer_warrant
proof unfold_locales
  show "finalizer_warrant E cfg h c \<Longrightarrow> finalizer_warrant E cfg (g @ h) c" for E :: "'a env" and cfg h c g
    by (rule finalizer_warrant_earlier)
qed (auto intro: reconcile_finalizer_audited finalizer_warrant.other
    adds_free [OF emits_rotate [of "\<lambda>c. \<not> is_sare_update c"]] adds_free [OF emits_Producer]
    adds_free [OF emits_enqueue [of "\<lambda>c. \<not> is_sare_update c"]] dest: producer_call_kinds)

text \<open>C6: every change of a finalizer has its reason in the calls before it. In every reachable state of the process, in any environment, any update of a SARE in the trace was preceded by a read of a SARE, with no other SARE read in between. If the object read had no deletion timestamp, the update adds the finalizer to it, and comes directly after the read. If it had one, the object had the finalizer and the update removes it, and since the read either the clock showed that the deletion timeout is over (and nothing was sent to the producer), or the producer was found to be gone or to have no such account, or the account was deleted there successfully.\<close>
theorem finalizer_history:
  assumes "reachable E cfg s" and "trace s = us @ Update_Sare x a # vs"
  shows "\<exists>g req sare seg. us = g @ Get_Sare req (Inr sare) # seg \<and> list_all (\<lambda>c. \<not> is_sare_read c) seg \<and>
    (case sareDeletionTimestamp sare of
       None \<Rightarrow> seg = [] \<and> e_add_finalizer E sare finalizer = (x, True)
     | Some ts \<Rightarrow> e_contains_finalizer E sare finalizer \<and> x = e_remove_finalizer E sare finalizer \<and>
         ((\<exists>now. Read_Clock now \<in> set seg \<and> time_since now ts > cfgDeletionTimeout cfg \<and> filter is_http seg = []) \<or>
          deletion_settled sare seg True))"
  using fa.history [OF assms]
proof (elim finalizer_warrantE, goal_cases)
  case (1 sare g req)
  then show ?case by (intro exI [of _ g] exI [of _ req] exI [of _ sare] exI [of _ "[]"]) simp
next
  case (2 sare ts seg now g req)
  then show ?case by (intro exI [of _ g] exI [of _ req] exI [of _ sare] exI [of _ seg]) auto
next
  case (3 sare ts seg g req)
  then show ?case by (intro exI [of _ g] exI [of _ req] exI [of _ sare] exI [of _ seg]) auto
qed

section \<open>Deletions of secrets\<close>

text \<open>When the history warrants the deletion of a secret: a rotation job has just found it controlled
  by its SARE, and then patched the status; or a reconcile has found it controlled by its SARE or
  absent, and then been told that the producer does not exist.\<close>

inductive secret_warrant :: "'w env \<Rightarrow> call list \<Rightarrow> call \<Rightarrow> bool" for E where
  rotating: "e_is_controlled_by E x sare \<Longrightarrow> k = secret_key z \<Longrightarrow> (secret_key_kept E \<Longrightarrow> k = secret_key sare) \<Longrightarrow>
    secret_warrant E (g @ [Get_Secret (secret_key sare) (Inr x), Patch_Sare_Status b y (d, z)]) (Delete_Secret k a)"
| no_producer: "checked_ok E sare ans \<Longrightarrow> list_all watcher_call ws \<Longrightarrow> is_not_found err \<Longrightarrow>
    secret_warrant E (g @ Get_Secret (secret_key sare) ans # ws @ [Get_Sapr (producer_key sare) (Inl err)])
      (Delete_Secret (secret_key sare) a)"
| other: "\<not> is_secret_delete c \<Longrightarrow> secret_warrant E h c"

inductive_cases secret_warrantE: "secret_warrant E h (Delete_Secret k a)"

lemma secret_warrant_earlier: "secret_warrant E h c \<Longrightarrow> secret_warrant E (g @ h) c"
proof (induction rule: secret_warrant.induct)
  case (rotating x sare k z g' b y d a)
  then show ?case using secret_warrant.rotating [of E x sare k z "g @ g'"] by simp
next
  case (no_producer sare ans ws err g' a)
  then show ?case using secret_warrant.no_producer [of E sare ans ws err "g @ g'"] by simp
qed (rule secret_warrant.other)

lemma secret_free: "(\<And>k a. Delete_Secret k a \<notin> set cs) \<Longrightarrow> audited (secret_warrant E) cs"
  by (rule audited_free, rule secret_warrant.other) (metis is_secret_delete.elims(2))

lemma course_secret_audited:
  assumes "update_course E sare cs"
  shows "audited (secret_warrant E) cs"
  using assms
proof cases
  case (stopped us ans)
  then show ?thesis by (intro secret_free) (simp add: no_delete)
next
  case (full us ans vs)
  note free = secret_warrant.other
  from full(4) show ?thesis
  proof cases
    case (missing err ws d)
    show ?thesis
    proof (rule auditedI)
      fix hs c rest
      assume split: "cs = hs @ c # rest"
      show "secret_warrant E hs c"
      proof (cases "is_secret_delete c")
        case True
        then obtain k a where c: "c = Delete_Secret k a" by (cases c) auto
        with split full missing have "hs = Get_Secret (secret_key sare) ans # us @ [Get_Sapr (producer_key sare) (Inl err)]"
          "k = secret_key sare"
          by (auto simp: Cons_eq_append_conv append_eq_append_conv2 append_eq_Cons_conv list_all_iff)
        with secret_warrant.no_producer [OF full(3,2) missing(2), of "[]"] show ?thesis by (simp add: c)
      qed (rule free)
    qed
  qed (use full in \<open>auto intro!: secret_free simp: no_delete\<close>)
qed


lemma reconcile_tail:
  assumes run: "run_state (reconcileCreateOrUpdate E p) s = (r, t)"
  obtains g u ds where "run_state (createOrUpdate E p) s = (g, u)" "trace t = trace u @ ds"
    "list_all (\<lambda>c. is_status_patch c \<or> (\<exists>n. c = Read_Clock n)) ds"
proof -
  obtain g u where g: "run_state (createOrUpdate E p) s = (g, u)" by fastforce
  from run have "\<exists>ds. trace t = trace u @ ds \<and> list_all (\<lambda>c. is_status_patch c \<or> (\<exists>n. c = Read_Clock n)) ds"
    unfolding run_reconcileCreateOrUpdate [OF g]
    by (auto simp: Let_def success_st_def clock_st_def split: outcome.splits prod.splits option.splits if_splits)
  with g show thesis by (auto intro: that)
qed

lemma creation_secret_audited:
  assumes run: "run_state (reconcileCreateOrUpdate E p) s = (r, t)" and start: "trace s = trace s0 @ us"
    and us: "list_all (\<lambda>c. \<not> is_secret_delete c) us"
  shows "adds_audited (secret_warrant E) s0 t"
proof -
  obtain g u ds where g: "run_state (createOrUpdate E p) s = (g, u)" "trace t = trace u @ ds"
    and ds: "list_all (\<lambda>c. is_status_patch c \<or> (\<exists>n. c = Read_Clock n)) ds" using reconcile_tail [OF run] .
  obtain cs where cs: "trace u = trace s @ cs" "update_course E (heap s p) cs" using createOrUpdate_course [OF g(1)] by blast
  have "audited (secret_warrant E) us" "audited (secret_warrant E) ds"
    using us ds by (auto simp: list_all_iff intro!: secret_free)
  with course_secret_audited [OF cs(2)] have "audited (secret_warrant E) (us @ cs @ ds)"
    by (intro audited_append secret_warrant_earlier)
  with start g(2) cs(1) show ?thesis by (auto simp: adds_audited_def)
qed

lemma reconcile_secret_audited:
  assumes run: "run_state (Reconcile E cfg req) s = (r, t)"
  shows "adds_audited (secret_warrant E) s t"
  using run
proof (cases rule: ReconcileE)
  case (Unread e)
  then show ?thesis
    by (intro adds_auditedI [where cs = "[Get_Sare req (Inl e)]"]) (auto simp: Cons_eq_append_conv intro: secret_warrant.other)
next
  case (Deleting sare ts err)
  obtain ds where ds: "trace t = trace (got_sare E req sare s) @ ds" "list_all removal_call ds"
    using Deleting(3) by (rule emitsE [OF emits_removal])
  then have "trace t = trace s @ Get_Sare req (Inr sare) # ds" using Deleting(1) by simp
  then show ?thesis using ds(2)
    by (auto simp: adds_audited_def list_all_iff removal_call_def intro!: audited_free secret_warrant.other)
next
  case (Not_Added sare x e)
  then have "trace t = trace s @ [Get_Sare req (Inr sare), Update_Sare x (fst (e_update_sare E x (snd (e_get_sare E req (world s)))))]" by simp
  then show ?thesis by (auto simp: adds_audited_def intro!: audited_free secret_warrant.other)
next
  case (Added sare x)
  then show ?thesis by (intro creation_secret_audited [OF Added(5)]) auto
next
  case (Present sare x)
  then show ?thesis by (intro creation_secret_audited [OF Present(4)]) auto
qed

lemma rotate_secret_audited:
  assumes run: "run_state (rotateSaSecret E p) s = (r, t)"
  shows "adds_audited (secret_warrant E) s t"
proof -
  let ?k = "secret_key (heap s p)" and ?ans = "fst (e_get_secret E (secret_key (heap s p)) (world s))"
  obtain b n e where c: "check_answer E (heap s p) (world s) = (b, n, e)" by (cases "check_answer E (heap s p) (world s)")
  show ?thesis
  proof (cases "b \<and> e = None")
    case False
    with run c have "trace t = trace s @ [Get_Secret ?k ?ans]"
      by (auto simp: run_rotateSaSecret split: option.splits bool.splits)
    then show ?thesis by (auto simp: adds_audited_def intro!: audited_free secret_warrant.other)
  next
    case True
    from check_answer_ok [of E "heap s p" "world s" b n] c True obtain x where
      x: "?ans = Inr x" "e_is_controlled_by E x (heap s p)" by (auto split: sum.splits)
    obtain d z where patch: "fst (e_patch_sare_status E (heap s p) (rotating_sare E (heap s p))
        (snd (e_get_secret E ?k (world s)))) = (d, z)" by (cases "fst (e_patch_sare_status E (heap s p)
        (rotating_sare E (heap s p)) (snd (e_get_secret E ?k (world s))))")
    have kept: "secret_key_kept E \<Longrightarrow> secret_key z = ?k"
      using patch unfolding secret_key_kept_def by (metis rotating_key snd_conv)
    from run c True x obtain a where t: "trace t = trace s @
        [Get_Secret ?k (Inr x), Patch_Sare_Status (heap s p) (rotating_sare E (heap s p)) (d, z), Delete_Secret (secret_key z) a]"
      by (auto simp: run_rotateSaSecret Let_def patch)
    show ?thesis using t
      by (rule adds_auditedI) (auto simp: Cons_eq_append_conv intro: secret_warrant.other
          secret_warrant.rotating [OF x(2) refl kept, of "[]", simplified])
  qed
qed

interpretation sa: audit "\<lambda>E cfg. secret_warrant E"
proof unfold_locales
  show "secret_warrant E h c \<Longrightarrow> secret_warrant E (g @ h) c" for E :: "'a env" and h c g
    by (rule secret_warrant_earlier)
qed (auto intro: reconcile_secret_audited rotate_secret_audited secret_warrant.other
    adds_free [OF emits_Producer] adds_free [OF emits_enqueue [of "\<lambda>c. \<not> is_secret_delete c"]] dest: producer_call_kinds)

text \<open>C5: every deletion of a secret has been checked in the calls before it. In every reachable state of the process, in any environment, any deletion of a secret in the trace was preceded by a read of a secret of some SARE. Either a rotation job read a secret that this SARE controls, and its only call in between patched the status; or a reconcile found the secret under that name controlled by the SARE or absent, and its last call before the deletion was told that the producer does not exist, with nothing but starts and stops of cron runners in between. A reconcile deletes the key that was read. A rotation job deletes the key of the SARE that the API server answered to the status patch, which is the one that was read if the server does not change name, namespace and secret name of the SARE in such an answer.\<close>
theorem secret_deletion_history:
  assumes "reachable E cfg s" and "trace s = us @ Delete_Secret k a # vs"
  shows "\<exists>g sare ans seg. us = g @ Get_Secret (secret_key sare) ans # seg \<and>
    ((\<exists>x b y d z. ans = Inr x \<and> e_is_controlled_by E x sare \<and> seg = [Patch_Sare_Status b y (d, z)] \<and>
        k = secret_key z \<and> (secret_key_kept E \<longrightarrow> k = secret_key sare)) \<or>
     (\<exists>ws err. checked_ok E sare ans \<and> k = secret_key sare \<and> is_not_found err \<and> list_all watcher_call ws \<and>
        seg = ws @ [Get_Sapr (producer_key sare) (Inl err)]))"
  using sa.history [OF assms]
proof (elim secret_warrantE, goal_cases)
  case (1 x sare z g b y d)
  then show ?case by (intro exI [of _ g] exI [of _ sare] exI [of _ "Inr x"] exI [of _ "[Patch_Sare_Status b y (d, z)]"]) simp
next
  case (2 sare ans ws err g)
  then show ?case by (intro exI [of _ g] exI [of _ sare] exI [of _ ans]
      exI [of _ "ws @ [Get_Sapr (producer_key sare) (Inl err)]"]) auto
qed

section \<open>Requests\<close>

text \<open>The PUT of a SARE: the secret check has passed, the request goes to the producer that has been looked
  up, with the key in its auth secret, and asks for a rotation exactly when the check found no secret.\<close>

definition put_for :: "'w env \<Rightarrow> sare \<Rightarrow> call list \<Rightarrow> http_request \<Rightarrow> bool" where
  "put_for E x cs q \<longleftrightarrow> (\<exists>ans sapr http secret apiKey.
     Get_Secret (secret_key x) ans \<in> set cs \<and> checked_ok E x ans \<and>
     Get_Sapr (producer_key x) (Inr sapr) \<in> set cs \<and> saprHTTP sapr = Some http \<and>
     Get_Secret (nn (sareNamespace x) (hpAuthSecretName http)) (Inr secret) \<in> set cs \<and>
     map_of (secData secret) (hpAuthSecretKey http) = Some apiKey \<and>
     q = put_request http apiKey x (\<exists>v. ans = Inr v))"

lemma put_for_grow: "put_for E x cs q \<Longrightarrow> put_for E x (us @ cs) q"
  unfolding put_for_def by (elim ex_forward conj_forward) simp_all

text \<open>When the history warrants an HTTP request: a PUT needs a SARE that was the last one read, without
  a deletion timestamp, with the finalizer there or just added; a HEAD for an account or a DELETE needs
  one with a deletion timestamp whose timeout is not over, and the DELETE a HEAD of the same URL with
  the same key, answered 200, as the only request since then; any other HEAD is the probe of a producer
  that was read before.\<close>

inductive request_warrant :: "'w env \<Rightarrow> operator_config \<Rightarrow> call list \<Rightarrow> call \<Rightarrow> bool" for E cfg where
  update: "put_for E x seg q \<Longrightarrow> sareDeletionTimestamp sare = None \<Longrightarrow>
    e_add_finalizer E sare finalizer = (x', added) \<Longrightarrow> (\<not> added \<Longrightarrow> x = x') \<Longrightarrow>
    pre = (if added then [Update_Sare x' (None, x)] else []) \<Longrightarrow>
    list_all creation_call seg \<Longrightarrow> filter is_http seg = [] \<Longrightarrow>
    request_warrant E cfg (g @ Get_Sare req (Inr sare) # pre @ seg) (Http_Do q a)"
| look: "hrMethod q = ''HEAD'' \<Longrightarrow> at_account sare seg q \<Longrightarrow> sareDeletionTimestamp sare = Some ts \<Longrightarrow>
    list_all (\<lambda>c. \<not> is_sare_read c) seg \<Longrightarrow> Read_Clock now \<in> set seg \<Longrightarrow>
    time_since now ts \<le> cfgDeletionTimeout cfg \<Longrightarrow> filter is_http seg = [] \<Longrightarrow>
    request_warrant E cfg (g @ Get_Sare req (Inr sare) # seg) (Http_Do q a)"
| delete: "hrMethod q = ''DELETE'' \<Longrightarrow> at_account sare seg q \<Longrightarrow> sareDeletionTimestamp sare = Some ts \<Longrightarrow>
    list_all (\<lambda>c. \<not> is_sare_read c) seg \<Longrightarrow> Read_Clock now \<in> set seg \<Longrightarrow>
    time_since now ts \<le> cfgDeletionTimeout cfg \<Longrightarrow> respCode resp = 200 \<Longrightarrow>
    filter is_http seg = [Http_Do (q\<lparr>hrMethod := ''HEAD''\<rparr>) (Inr resp)] \<Longrightarrow>
    request_warrant E cfg (g @ Get_Sare req (Inr sare) # seg) (Http_Do q a)"
| probe: "hrMethod q = ''HEAD'' \<Longrightarrow> list_all producer_call seg \<Longrightarrow>
    request_warrant E cfg (g @ Get_Sapr n (Inr sapr) # seg) (Http_Do q a)"
| other: "\<not> is_http c \<Longrightarrow> request_warrant E cfg h c"

inductive_cases request_warrantE: "request_warrant E cfg h (Http_Do q a)"

lemma request_warrant_earlier: "request_warrant E cfg h c \<Longrightarrow> request_warrant E cfg (g @ h) c"
proof (induction rule: request_warrant.induct)
  case (update x seg q sare x' added pre g' req a)
  then show ?case using request_warrant.update [of E x seg q sare x' added pre cfg "g @ g'" req a] by simp
next
  case (look q sare seg ts now g' req a)
  then show ?case using request_warrant.look [of q sare seg ts now cfg E "g @ g'"] by simp
next
  case (delete q sare seg ts now resp g' req a)
  then show ?case using request_warrant.delete [of q sare seg ts now cfg resp E "g @ g'"] by simp
next
  case (probe q seg g' n sapr a)
  then show ?case using request_warrant.probe [of q seg E cfg "g @ g'"] by simp
qed (rule request_warrant.other)

lemma creation_requests:
  assumes run: "run_state (reconcileCreateOrUpdate E p) s = (r, t)"
    and pos: "trace t = trace s @ us @ Http_Do q a # vs"
  shows "put_for E (heap s p) us q \<and> filter is_http us = []"
proof -
  obtain g u ds where g: "run_state (createOrUpdate E p) s = (g, u)" "trace t = trace u @ ds"
    and ds: "list_all (\<lambda>c. is_status_patch c \<or> (\<exists>n. c = Read_Clock n)) ds" using reconcile_tail [OF run] .
  obtain cs where cs: "trace u = trace s @ cs" using createOrUpdate_course [OF g(1)] by blast
  have "list_all (\<lambda>c. \<not> is_http c) ds" using ds by (auto simp: list_all_iff elim!: is_httpE)
  moreover have "cs @ ds = us @ Http_Do q a # vs" using pos g(2) cs by simp
  ultimately obtain vs' where u: "cs = us @ Http_Do q a # vs'"
    by (auto simp: append_eq_append_conv2 Cons_eq_append_conv append_eq_Cons_conv)
  with cs have new: "new_calls s u = us @ Http_Do q a # vs'" by (simp add: new_calls_append)
  have read: "c \<in> set us" if "read_before c (us @ Http_Do q a # vs')" and "\<not> is_http c" for c
    using read_before_request [OF that(1)] that(2) by simp
  define ans where "ans = fst (e_get_secret E (secret_key (heap s p)) (world s))"
  let ?cs = "us @ Http_Do q a # vs'"
  have "filter is_http ?cs \<noteq> []" by simp
  with createOrUpdate_one_request [OF g(1), unfolded new one_request_def, folded ans_def]
  obtain sapr http secret apiKey a' where ok: "checked_ok E (heap s p) ans" "saprHTTP sapr = Some http"
      "map_of (secData secret) (hpAuthSecretKey http) = Some apiKey"
    and before: "read_before (Get_Secret (secret_key (heap s p)) ans) ?cs"
      "read_before (Get_Sapr (producer_key (heap s p)) (Inr sapr)) ?cs"
      "read_before (Get_Secret (nn (sareNamespace (heap s p)) (hpAuthSecretName http)) (Inr secret)) ?cs"
    and sent: "filter is_http ?cs = [Http_Do (put_request http apiKey (heap s p) (\<exists>v. ans = Inr v)) a']" by blast
  from sent have "q = put_request http apiKey (heap s p) (\<exists>v. ans = Inr v)" "filter is_http us = []"
    by (auto simp: append_eq_Cons_conv)
  with ok before [THEN read] show ?thesis unfolding put_for_def
    by (intro conjI exI [of _ ans] exI [of _ sapr] exI [of _ http] exI [of _ secret] exI [of _ apiKey]) simp_all
qed

lemma audit_requests:
  assumes "trace t = trace s @ cs"
    and "\<And>us q a vs. cs = us @ Http_Do q a # vs \<Longrightarrow> request_warrant E cfg us (Http_Do q a)"
  shows "adds_audited (request_warrant E cfg) s t"
proof (rule adds_auditedI [OF assms(1)])
  show "request_warrant E cfg us c" if "cs = us @ c # vs" for us c vs
    using assms(2) [of us _ _ vs] that by (cases "is_http c") (auto elim!: is_httpE intro: request_warrant.other)
qed

lemma creation_request_audited:
  assumes run: "run_state (reconcileCreateOrUpdate E p) s = (r, t)"
    and start: "trace s = trace s0 @ Get_Sare req (Inr sare) # pre"
    and sare: "sareDeletionTimestamp sare = None" and add: "e_add_finalizer E sare finalizer = (x, added)"
    and kept: "\<not> added \<Longrightarrow> heap s p = x" and pre: "pre = (if added then [Update_Sare x (None, heap s p)] else [])"
  shows "adds_audited (request_warrant E cfg) s0 t"
proof -
  obtain ds where ds: "trace t = trace s @ ds" "list_all creation_call ds" using run by (rule emitsE [OF emits_creation])
  show ?thesis
  proof (rule audit_requests)
    show "trace t = trace s0 @ (Get_Sare req (Inr sare) # pre) @ ds" using start ds(1) by simp
    fix us q a vs
    assume "(Get_Sare req (Inr sare) # pre) @ ds = us @ Http_Do q a # vs"
    then obtain us' where us: "us = Get_Sare req (Inr sare) # pre @ us'" "ds = us' @ Http_Do q a # vs"
      using pre by (auto simp: append_eq_append_conv2 Cons_eq_append_conv append_eq_Cons_conv split: if_splits)
    from us(2) ds(2) have "list_all creation_call us'" by simp
    with creation_requests [OF run, of us' q a vs] ds(1) us(2)
      request_warrant.update [OF _ sare add _ pre, of us' q cfg "[]" req a] kept
    show "request_warrant E cfg us (Http_Do q a)" unfolding us(1) by simp
  qed
qed

lemma reconcile_request_audited:
  assumes run: "run_state (Reconcile E cfg req) s = (r, t)"
  shows "adds_audited (request_warrant E cfg) s t"
  using run
proof (cases rule: ReconcileE)
  case (Unread e)
  then have "trace t = trace s @ [Get_Sare req (Inl e)]" by simp
  then show ?thesis by (rule audit_requests) (auto simp: Cons_eq_append_conv)
next
  case (Deleting sare ts err)
  obtain ds where ds: "trace t = trace (got_sare E req sare s) @ ds" "list_all removal_call ds"
    using Deleting(3) by (rule emitsE [OF emits_removal])
  show ?thesis
  proof (rule audit_requests)
    show "trace t = trace s @ Get_Sare req (Inr sare) # ds" using ds(1) Deleting(1) by simp
    fix us q a vs
    assume "Get_Sare req (Inr sare) # ds = us @ Http_Do q a # vs"
    then obtain us' where us: "us = Get_Sare req (Inr sare) # us'" "ds = us' @ Http_Do q a # vs"
      by (auto simp: Cons_eq_append_conv)
    have read: "list_all (\<lambda>c. \<not> is_sare_read c) us'" using ds(2) us(2) by (auto simp: list_all_iff removal_call_def)
    from removal_requests [OF Deleting(3), of us' q a vs] us(2) ds(1)
    show "request_warrant E cfg us (Http_Do q a)" unfolding us(1)
      by (auto intro: request_warrant.look [OF _ _ Deleting(2) read, of q _ cfg E "[]", simplified]
          request_warrant.delete [OF _ _ Deleting(2) read, of q _ cfg _ E "[]", simplified])
  qed
next
  case (Not_Added sare x e)
  then have "trace t = trace s @ [Get_Sare req (Inr sare), Update_Sare x (fst (e_update_sare E x (snd (e_get_sare E req (world s)))))]" by simp
  then show ?thesis by (rule audit_requests) (auto simp: Cons_eq_append_conv)
next
  case (Added sare x)
  then show ?thesis by (intro creation_request_audited [OF Added(5) _ Added(2,3)]) (auto simp: prod_eq_iff)
next
  case (Present sare x)
  then show ?thesis by (intro creation_request_audited [OF Present(4) _ Present(2,3)]) auto
qed

lemma producer_request_audited:
  assumes run: "run_state (Reconcile_Producer E cfg req) s = (r, t)"
  shows "adds_audited (request_warrant E cfg) s t"
proof -
  let ?a = "fst (e_get_sapr E req (world s))"
  have "\<exists>ds. trace t = trace s @ Get_Sapr req ?a # ds \<and> list_all producer_call ds \<and> (\<forall>e. ?a = Inl e \<longrightarrow> ds = [])"
  proof -
    have "\<exists>k. Reconcile_Producer E cfg req = getSapr E req \<bind> k \<and> (\<forall>r. preserves (emits producer_call) (k r)) \<and>
        (\<forall>e. \<exists>x. k (Inl e) = ret x)"
      unfolding Reconcile_Producer_def checkReady_def Let_def
      by (intro exI conjI, rule refl)
        (auto intro!: frame_rules emits_marks emits_ready cf.reader_emits nu.upserter_emits elim!: policy_callE)
    then obtain k where k: "Reconcile_Producer E cfg req = getSapr E req \<bind> k" "\<And>r. preserves (emits producer_call) (k r)"
      "\<And>e. \<exists>x. k (Inl e) = ret x" by blast
    let ?s1 = "io_st (e_get_sapr E req) (Get_Sapr req) s"
    from run k(1) have tail: "run_state (k ?a) ?s1 = (r, t)" by (simp add: getSapr_def run_io)
    then obtain ds where ds: "trace t = trace ?s1 @ ds" "list_all producer_call ds" by (rule emitsE [OF k(2)])
    moreover have "ds = []" if "?a = Inl e" for e
    proof -
      obtain x where "k (Inl e) = ret x" using k(3) by blast
      with tail ds(1) that show ?thesis by simp
    qed
    ultimately show ?thesis by auto
  qed
  then obtain ds where ds: "trace t = trace s @ Get_Sapr req ?a # ds" "list_all producer_call ds"
    "\<And>e. ?a = Inl e \<Longrightarrow> ds = []" by blast
  show ?thesis
  proof (rule audit_requests [OF ds(1)])
    fix us q a vs
    assume "Get_Sapr req ?a # ds = us @ Http_Do q a # vs"
    then obtain us' where us: "us = Get_Sapr req ?a # us'" "ds = us' @ Http_Do q a # vs"
      by (auto simp: Cons_eq_append_conv)
    with ds(3) obtain sapr where "?a = Inr sapr" by (cases ?a) auto
    with us ds(2) request_warrant.probe [of q us' E cfg "[]" req sapr a] show "request_warrant E cfg us (Http_Do q a)"
      by simp
  qed
qed

interpretation ra: audit request_warrant
proof unfold_locales
  show "request_warrant E cfg h c \<Longrightarrow> request_warrant E cfg (g @ h) c" for E :: "'a env" and cfg h c g
    by (rule request_warrant_earlier)
qed (auto intro: reconcile_request_audited producer_request_audited request_warrant.other
    adds_free [OF emits_rotate [of "\<lambda>c. \<not> is_http c"]] adds_free [OF emits_enqueue [of "\<lambda>c. \<not> is_http c"]])


section \<open>Witnesses\<close>

text \<open>A SARE without finalizer is created, its producer answers that nothing has changed.\<close>

definition first_run :: "sim st" where
  "first_run = snd (run_state (Reconcile simE ex_cfg (nn ''ns'' ''r''))
     (init_st ((ex_world [] (Inr (ex_response 204 [])))\<lparr>simSares := [(nn ''ns'' ''r'', ex_sare\<lparr>sareFinalizers := []\<rparr>)]\<rparr>) (\<lambda>n. ex_sare)))"

text \<open>The producer of a SARE does not exist.\<close>

definition orphan_run :: "sim st" where
  "orphan_run = snd (run_state (Reconcile simE ex_cfg (nn ''ns'' ''r''))
     (init_st ((ex_world [] (Inr (ex_response 204 [])))\<lparr>simSapr := []\<rparr>) (\<lambda>n. ex_sare)))"

lemma runs_reachable: "reachable simE ex_cfg first_run" "reachable simE ex_cfg orphan_run"
  unfolding first_run_def orphan_run_def
  by (rule Reach_Step [OF Reach_Init Step_Reconcile [OF prod.collapse [symmetric]]])+

lemma runs_calls: "list_ex is_sare_update (trace first_run)" "list_ex is_http (trace first_run)"
  "list_ex is_secret_delete (trace orphan_run)"
proof -
  have "(let cs = trace first_run in list_ex is_sare_update cs \<and> list_ex is_http cs)" by code_simp
  then show "list_ex is_sare_update (trace first_run)" "list_ex is_http (trace first_run)" by (simp_all add: Let_def)
  show "list_ex is_secret_delete (trace orphan_run)" by code_simp
qed

theorem finalizer_history_witness:
  "\<exists>us x a vs g req sare seg. trace first_run = us @ Update_Sare x a # vs \<and> us = g @ Get_Sare req (Inr sare) # seg"
proof -
  obtain x a where "Update_Sare x a \<in> set (trace first_run)"
    using runs_calls(1) by (auto simp: list_ex_iff elim!: is_sare_updateE)
  then obtain us vs where "trace first_run = us @ Update_Sare x a # vs" by (auto dest: split_list)
  with finalizer_history [OF runs_reachable(1) this] show ?thesis by blast
qed

theorem secret_deletion_history_witness:
  "\<exists>us k a vs g n ans seg. trace orphan_run = us @ Delete_Secret k a # vs \<and> us = g @ Get_Secret n ans # seg"
proof -
  obtain k a where "Delete_Secret k a \<in> set (trace orphan_run)"
    using runs_calls(3) by (auto simp: list_ex_iff elim!: is_secret_deleteE)
  then obtain us vs where "trace orphan_run = us @ Delete_Secret k a # vs" by (auto dest: split_list)
  with secret_deletion_history [OF runs_reachable(2) this] show ?thesis by blast
qed


end
