(* ===== verification/Endpoint_Props.thy ===== *)
theory Endpoint_Props
  imports Producer_Controller
begin

text \<open>
  Which service and port an endpoint names: \<open>url.Parse\<close> on the endpoints of producers, and
  the conversion of the port.
\<close>

section \<open>Parsing endpoints\<close>

lemma split_last_absent: "c \<notin> set s \<Longrightarrow> split_last c s = None"
  by (simp add: split_last_def cut_absent)

lemma split_last_at: "c \<notin> set b \<Longrightarrow> split_last c (a @ c # b) = Some (a, b)"
  by (simp add: split_last_def cut_at)

definition host_char :: "char \<Rightarrow> bool" where
  "host_char c \<longleftrightarrow> is_alnum c \<or> c = CHR ''-'' \<or> c = CHR ''.''"

definition path_char :: "char \<Rightarrow> bool" where
  "path_char c \<longleftrightarrow> is_alnum c \<or> c \<in> set ''-._/''"

lemma alnum_not: "is_alnum c \<Longrightarrow> c \<notin> set ''%#?@:/[*''"
  by (auto simp: is_alnum_def is_digit_def is_lower_def is_upper_def code_def)

lemma alnum_code: "is_alnum c \<Longrightarrow> 32 \<le> code c \<and> code c \<noteq> 127"
  by (auto simp: is_alnum_def is_digit_def is_lower_def is_upper_def)

lemma host_char_not: "host_char c \<Longrightarrow> c \<notin> set ''%#?@:/[*''"
  using alnum_not [of c] by (auto simp: host_char_def)

lemma path_char_not: "path_char c \<Longrightarrow> c \<notin> set ''%#?@:[*''"
  using alnum_not [of c] by (auto simp: path_char_def)

lemma digit_alnum: "is_digit c \<Longrightarrow> is_alnum c"
  by (simp add: is_alnum_def)

lemma unescape_plain:
  "(\<And>c. c \<in> set s \<Longrightarrow> c \<noteq> CHR ''%'' \<and> (m = Encode_Host \<longrightarrow> \<not> should_escape m c)) \<Longrightarrow> unescape m s = Inr s"
  by (induction s) auto

lemma endpoint_scheme:
  obtains sch rest where "endpoint_with_scheme endpoint = sch @ ''://'' @ rest" and "sch = ''http'' \<or> sch = ''https''"
proof -
  consider "hasPrefix endpoint ''http://''" | "hasPrefix endpoint ''https://''"
    | "\<not> hasPrefix endpoint ''http://'' \<and> \<not> hasPrefix endpoint ''https://''" by blast
  then show thesis
  proof cases
    case 1
    then obtain t where "endpoint = ''http://'' @ t" unfolding hasPrefix_iff by blast
    with 1 show thesis by (intro that [of "''http''" t]) (auto simp: endpoint_with_scheme_def)
  next
    case 2
    then obtain t where "endpoint = ''https://'' @ t" unfolding hasPrefix_iff by blast
    with 2 show thesis by (intro that [of "''https''" t]) (auto simp: endpoint_with_scheme_def)
  next
    case 3
    then show thesis by (intro that [of "''http''" endpoint]) (auto simp: endpoint_with_scheme_def)
  qed
qed

lemma get_scheme_prefixed:
  assumes "sch = ''http'' \<or> sch = ''https''"
  shows "get_scheme raw [] (sch @ ''://'' @ s) = Inr (sch, ''//'' @ s)"
  using assms get_scheme_http [of raw s] get_scheme_https [of raw s] by (auto simp del: get_scheme.simps)

lemma parse_nofrag_scheme:
  "parse_nofrag raw = Inr v \<Longrightarrow> get_scheme raw [] raw = Inr (sch, rest0) \<Longrightarrow> raw \<noteq> ''*'' \<Longrightarrow>
     urlScheme v = to_lower sch"
  by (auto simp: parse_nofrag_def Let_def empty_url_def dest!: set_path_scheme
      split: if_splits sum.splits prod.splits)

lemma url_scheme_prefixed:
  assumes "url_parse (endpoint_with_scheme endpoint) = Inr u"
  shows "urlScheme u = ''http'' \<or> urlScheme u = ''https''"
proof -
  obtain sch rest where e: "endpoint_with_scheme endpoint = sch @ ''://'' @ rest" and sch: "sch = ''http'' \<or> sch = ''https''"
    by (rule endpoint_scheme)
  define raw where "raw = fst (cut (CHR ''#'') (endpoint_with_scheme endpoint))"
  have "CHR ''#'' \<notin> set (sch @ ''://'')" using sch by auto
  then have "raw = (sch @ ''://'') @ fst (cut (CHR ''#'') rest)"
    unfolding raw_def e fst_cut by (subst append_assoc [symmetric], subst takeWhile_append2) auto
  then obtain rest' where raw: "raw = sch @ ''://'' @ rest'" by auto
  have g: "get_scheme raw [] raw = Inr (sch, ''//'' @ rest')"
    using get_scheme_prefixed [OF sch] by (subst (2) raw) blast
  have low: "to_lower sch = sch" using sch by (auto simp: to_lower_def is_upper_def code_def)
  from assms obtain v where v: "parse_nofrag raw = Inr v" "urlScheme u = urlScheme v"
    unfolding url_parse_def raw_def by (auto split: prod.splits sum.splits option.splits)
  have "raw \<noteq> ''*''" using raw sch by auto
  from parse_nofrag_scheme [OF v(1) g this] low have "urlScheme v = sch" by simp
  with v(2) sch show ?thesis by simp
qed


text \<open>A plain authority: a host name and maybe a port.\<close>

definition port_suffix :: "string \<Rightarrow> string" where
  "port_suffix port = (if port = [] then [] else CHR '':'' # port)"

lemma parse_authority_plain:
  assumes host: "list_all host_char host" and port: "list_all is_digit port"
  shows "parse_authority (host @ port_suffix port) = Inr (None, host @ port_suffix port)"
proof -
  let ?a = "host @ port_suffix port"
  have chars: "host_char c \<or> c = CHR '':''" if "c \<in> set ?a" for c
    using that host port by (auto simp: port_suffix_def list_all_iff host_char_def digit_alnum split: if_splits)
  have safe: "c \<noteq> CHR ''%'' \<and> c \<noteq> CHR ''['' \<and> c \<noteq> CHR ''@''" if "c \<in> set ?a" for c
    using chars [OF that] host_char_not [of c] by auto
  have un: "unescape Encode_Host ?a = Inr ?a"
  proof (rule unescape_plain)
    fix c assume c: "c \<in> set ?a"
    have "\<not> should_escape Encode_Host c"
      using chars [OF c] by (auto simp: should_escape_def host_char_def)
    with safe [OF c] show "c \<noteq> CHR ''%'' \<and> (Encode_Host = Encode_Host \<longrightarrow> \<not> should_escape Encode_Host c)" by simp
  qed
  have nohd: "\<not> (?a \<noteq> [] \<and> hd ?a = CHR ''['')" and nobr: "CHR ''['' \<notin> set ?a" and noat: "CHR ''@'' \<notin> set ?a"
    using safe by (metis hd_in_set, metis, metis)
  have "CHR '':'' \<notin> set host" using host host_char_not by (fastforce simp: list_all_iff)
  then have "parse_host ?a = Inr ?a"
    using un nohd nobr port
    by (cases "port = []") (auto simp: parse_host_def port_suffix_def cut_absent cut_at check_port_def valid_optional_port_def)
  with noat show ?thesis by (simp add: parse_authority_def split_last_absent)
qed

lemma path_char_escape: "path_char c \<Longrightarrow> \<not> should_escape Encode_Path c"
  by (auto simp: path_char_def should_escape_def)

lemma url_escape_free: "(\<And>c. c \<in> set s \<Longrightarrow> \<not> should_escape m c) \<Longrightarrow> url_escape m s = s"
  by (induction s) (auto simp: url_escape_def)

lemma url_escape_plain: "list_all path_char path \<Longrightarrow> url_escape Encode_Path path = path"
  using path_char_escape by (intro url_escape_free) (auto simp: list_all_iff)

lemma set_path_plain:
  assumes "list_all path_char path"
  shows "set_path path u = Inr (u\<lparr>urlPath := path, urlRawPath := []\<rparr>)"
proof -
  have "unescape Encode_Path path = Inr path"
    using assms path_char_not by (intro unescape_plain) (fastforce simp: list_all_iff)
  with assms show ?thesis by (simp add: set_path_def url_escape_plain)
qed

lemma parse_nofrag_authority:
  assumes "\<not> has_ctl_byte raw" and "raw \<noteq> ''*''" and "get_scheme raw [] raw = Inr (sch, rest)"
    and "to_lower sch = sch" and "sch \<noteq> []" and noq: "CHR ''?'' \<notin> set rest" and rest: "rest = ''//'' @ r"
    and "fst (cut (CHR ''/'') r) = a" and "parse_authority a = Inr (None, host)"
  shows "parse_nofrag raw = set_path (drop (length a) r) (empty_url\<lparr>urlScheme := sch, urlForceQuery := False,
      urlRawQuery := [], urlUser := None, urlHost := host\<rparr>)"
proof -
  have "hasPrefix rest ''/''" "hasPrefix rest ''//''" "drop 2 rest = r" by (simp_all add: rest)
  with assms(1-5,8,9) cut_absent [OF noq] count_notin [OF noq] show ?thesis
    by (simp add: parse_nofrag_def Let_def)
qed

text \<open>The URL of a plain endpoint.\<close>

definition plain_url :: "string \<Rightarrow> string \<Rightarrow> string \<Rightarrow> url" where
  "plain_url sch authority path = empty_url\<lparr>urlScheme := sch, urlHost := authority, urlPath := path\<rparr>"

lemma plain_url_sel [simp]:
  "urlScheme (plain_url sch a p) = sch" "urlHost (plain_url sch a p) = a" "urlPath (plain_url sch a p) = p"
  by (simp_all add: plain_url_def)

lemma url_parse_plain:
  assumes sch: "sch = ''http'' \<or> sch = ''https''"
    and host: "list_all host_char host" and port: "list_all is_digit port"
    and path: "list_all path_char path" "path = [] \<or> hd path = CHR ''/''"
  shows "url_parse (sch @ ''://'' @ host @ port_suffix port @ path) = Inr (plain_url sch (host @ port_suffix port) path)"
proof -
  let ?a = "host @ port_suffix port"
  let ?raw = "sch @ ''://'' @ ?a @ path"
  have chars: "host_char c \<or> c = CHR '':'' \<or> path_char c" if "c \<in> set (?a @ path)" for c
    using that host port path(1) by (auto simp: port_suffix_def list_all_iff host_char_def digit_alnum split: if_splits)
  have ok: "c \<notin> set ''#?'' \<and> 32 \<le> code c \<and> code c \<noteq> 127" if "c \<in> set (?a @ path)" for c
    using chars [OF that] host_char_not [of c] path_char_not [of c] alnum_code [of c]
    by (auto simp: host_char_def path_char_def code_def)
  have ok': "c \<notin> set ''#?'' \<and> 32 \<le> code c \<and> code c \<noteq> 127" if "c \<in> set ?raw" for c
    using that sch ok [of c] by (auto simp: code_def)
  have nohash: "CHR ''#'' \<notin> set ?raw" and noq: "CHR ''?'' \<notin> set (''//'' @ ?a @ path)"
    using ok' [of "CHR ''#''"] ok [of "CHR ''?''"] by auto
  have ctl: "\<not> has_ctl_byte ?raw" using ok' unfolding has_ctl_byte_def list_ex_iff by (metis linorder_not_le)
  have star: "?raw \<noteq> ''*''" using sch by auto
  have g: "get_scheme ?raw [] ?raw = Inr (sch, ''//'' @ ?a @ path)"
    using get_scheme_prefixed [OF sch, of ?raw "?a @ path"] by (simp del: get_scheme.simps)
  have low: "to_lower sch = sch" using sch by (auto simp: to_lower_def is_upper_def code_def)
  have noslash: "CHR ''/'' \<notin> set ?a"
    using host port host_char_not digit_alnum alnum_not by (fastforce simp: port_suffix_def list_all_iff split: if_splits)
  have auth: "fst (cut (CHR ''/'') (?a @ path)) = ?a"
    using path(2) noslash by (cases path) (simp_all add: cut_absent cut_at del: append_assoc)
  have v: "set_path path (empty_url\<lparr>urlScheme := sch, urlForceQuery := False, urlRawQuery := [],
      urlUser := None, urlHost := ?a\<rparr>) = Inr (plain_url sch ?a path)"
    using set_path_plain [OF path(1)] by (simp add: plain_url_def empty_url_def)
  have "sch \<noteq> []" using sch by auto
  from parse_nofrag_authority [OF ctl star g low this noq refl auth parse_authority_plain [OF host port]] v
  have "parse_nofrag ?raw = Inr (plain_url sch ?a path)" by simp
  with cut_absent [OF nohash] show ?thesis by (simp add: url_parse_def del: cut.simps)
qed


section \<open>Ports\<close>

lemma split_host_port_digits: "list_all is_digit (snd (split_host_port hp))"
  by (auto simp: split_host_port_def valid_optional_port_def split: option.splits prod.splits if_splits)

lemma digit_not_sign: "is_digit c \<Longrightarrow> c \<noteq> CHR ''-'' \<and> c \<noteq> CHR ''+''"
  by (auto simp: is_digit_def code_def)

lemma parseInt32_digits:
  assumes "ps \<noteq> []" and "list_all is_digit ps"
  shows "parseInt32 ps = (if digits_value 0 ps < 2 ^ 31 then Inr (digits_value 0 ps)
    else Inl (num_error ''ParseInt'' ps ''value out of range''))"
proof -
  from assms have "is_digit (hd ps)" by (cases ps) auto
  then have hd: "hd ps \<noteq> CHR ''-''" "hd ps \<noteq> CHR ''+''" using digit_not_sign by auto
  have "parse_digits (2 ^ 32 - 1) 0 ps = (if digits_value 0 ps \<le> 2 ^ 32 - 1 then Inr (digits_value 0 ps) else Inl Range_Failure)"
    using assms(2) by (intro parse_digits_eq) (auto simp: list_all_iff)
  with hd assms(1) show ?thesis by (auto simp: parseInt32_def Let_def)
qed

lemma sint_int32_of: "0 \<le> i \<Longrightarrow> i < 2 ^ 31 \<Longrightarrow> sint (int32_of i) = i"
  unfolding int32_of_def by (simp add: sint_sbintrunc' signed_take_bit_int_eq_self)

definition effective_port :: "url \<Rightarrow> int" where
  "effective_port u = (if url_port u = [] then (if urlScheme u = ''https'' then 443 else 80)
     else digits_value 0 (url_port u))"

lemma default_ports: "parseInt32 ''80'' = Inr 80" "parseInt32 ''443'' = Inr 443"
  by code_simp+

lemma effective_port_nonneg: "0 \<le> effective_port u"
  using split_host_port_digits [of "urlHost u"] digits_value_mono [of "url_port u" 0]
  by (auto simp: effective_port_def url_port_def list_all_iff)

text \<open>C33: what \<open>parseServiceNameAndPortFromEndpointUrl\<close> makes of any endpoint. On success the service is the first label of the URL's host and the port is the URL's port, or 80 or 443 by scheme, converted to int32 without loss and never negative. The only errors are a URL that does not parse and a port of 2^31 or more: the branch for an unknown scheme is never taken, and the port error, which the source's comment takes to be impossible, is.\<close>
theorem parse_endpoint_outcome:
  "case parse_endpoint endpoint of
     Inr (service, port) \<Rightarrow> \<exists>u. url_parse (endpoint_with_scheme endpoint) = Inr u \<and>
        service = takeWhile (\<lambda>c. c \<noteq> CHR ''.'') (url_hostname u) \<and>
        sint port = effective_port u \<and> 0 \<le> sint port
   | Inl e \<Rightarrow> (\<exists>e'. url_parse (endpoint_with_scheme endpoint) = Inl e' \<and>
          e = errorf (''parse endpoint url '' @ goQuote (endpoint_with_scheme endpoint) @ '': '') e')
      \<or> (\<exists>u. url_parse (endpoint_with_scheme endpoint) = Inr u \<and> effective_port u \<ge> 2 ^ 31 \<and>
          e = errorf (''parse port '' @ goQuote (url_port u) @ '': '')
                (num_error ''ParseInt'' (url_port u) ''value out of range''))"
proof (cases "url_parse (endpoint_with_scheme endpoint)")
  case (Inl e)
  then show ?thesis by (simp add: parse_endpoint_def Let_def)
next
  case (Inr u)
  note sch = url_scheme_prefixed [OF this]
  show ?thesis
  proof (cases "url_port u = []")
    case True
    with Inr sch show ?thesis
      by (auto simp: parse_endpoint_def Let_def default_port_def default_ports effective_port_def fst_cut sint_int32_of)
  next
    case False
    with parseInt32_digits [OF False] split_host_port_digits [of "urlHost u"]
    have "parseInt32 (url_port u) = (if effective_port u < 2 ^ 31 then Inr (effective_port u)
        else Inl (num_error ''ParseInt'' (url_port u) ''value out of range''))"
      by (simp add: effective_port_def url_port_def)
    with Inr False effective_port_nonneg [of u] show ?thesis
      by (auto simp: parse_endpoint_def Let_def fst_cut sint_int32_of)
  qed
qed

lemma no_scheme_in_plain:
  assumes host: "list_all host_char host" and port: "list_all is_digit port"
    and path: "list_all path_char path" and sch: "sch = ''http'' \<or> sch = ''https''"
  shows "\<not> hasPrefix (host @ port_suffix port @ path) (sch @ ''://'')"
proof
  assume "hasPrefix (host @ port_suffix port @ path) (sch @ ''://'')"
  then obtain t where t: "host @ port_suffix port @ path = sch @ CHR '':'' # CHR ''/'' # CHR ''/'' # t"
    by (auto simp: hasPrefix_iff)
  have c: "CHR '':'' \<notin> set sch" using sch by auto
  have h: "CHR '':'' \<notin> set host" using host host_char_not by (fastforce simp: list_all_iff)
  have p: "CHR '':'' \<notin> set path" using path path_char_not by (fastforce simp: list_all_iff)
  show False
  proof (cases "port = []")
    case True
    with t have "CHR '':'' \<in> set (host @ path)" by (simp add: port_suffix_def)
    with h p show False by simp
  next
    case False
    with t have "cut (CHR '':'') (host @ CHR '':'' # port @ path) = cut (CHR '':'') (sch @ CHR '':'' # CHR ''/'' # CHR ''/'' # t)"
      by (simp add: port_suffix_def)
    then have "port @ path = CHR ''/'' # CHR ''/'' # t" unfolding cut_at [OF h] cut_at [OF c] by simp
    with False port have "is_digit (CHR ''/'')" by (cases port) auto
    then show False by (simp add: is_digit_def code_def)
  qed
qed

lemma split_host_port_plain:
  assumes "list_all host_char host" and "list_all is_digit port"
  shows "split_host_port (host @ port_suffix port) = (host, port)"
proof -
  have h: "CHR '':'' \<notin> set host" and p: "CHR '':'' \<notin> set port"
    using assms host_char_not digit_alnum alnum_not by (fastforce simp: list_all_iff)+
  have b: "\<not> (host \<noteq> [] \<and> hd host = CHR ''['')" using assms(1) host_char_not by (cases host) auto
  show ?thesis
    using h p b assms(2)
    by (cases "port = []") (auto simp: split_host_port_def port_suffix_def split_last_absent split_last_at valid_optional_port_def)
qed

text \<open>Endpoints of the usual shape: a host of letters, digits, dots and dashes, an optional port below 2^31 and a plain path, with http, https or no scheme, parse to the first host label and to the given port, or to 80 (443 for https).\<close>
theorem parse_endpoint_plain:
  assumes pre: "pre = ''http://'' \<or> pre = ''https://'' \<or> pre = []"
    and host: "list_all host_char host" and port: "list_all is_digit port" "digits_value 0 port < 2 ^ 31"
    and path: "list_all path_char path" "path = [] \<or> hd path = CHR ''/''"
  shows "parse_endpoint (pre @ host @ port_suffix port @ path) =
    Inr (takeWhile (\<lambda>c. c \<noteq> CHR ''.'') host,
         int32_of (if port \<noteq> [] then digits_value 0 port else if pre = ''https://'' then 443 else 80))"
proof -
  define sch where "sch = (if pre = ''https://'' then ''https'' else ''http'')"
  have sch: "sch = ''http'' \<or> sch = ''https''" by (simp add: sch_def)
  have e: "endpoint_with_scheme (pre @ host @ port_suffix port @ path) = sch @ ''://'' @ host @ port_suffix port @ path"
  proof (cases "pre = []")
    case True
    with no_scheme_in_plain [OF host port(1) path(1), of "''http''"] no_scheme_in_plain [OF host port(1) path(1), of "''https''"]
    show ?thesis by (simp add: endpoint_with_scheme_def sch_def)
  next
    case False
    with pre show ?thesis by (auto simp: endpoint_with_scheme_def sch_def)
  qed
  define u where "u = plain_url sch (host @ port_suffix port) path"
  have u: "url_parse (sch @ ''://'' @ host @ port_suffix port @ path) = Inr u"
    "urlHost u = host @ port_suffix port" "urlScheme u = sch"
    using url_parse_plain [OF sch host port(1) path] by (simp_all add: u_def)
  have hp: "url_hostname u = host" "url_port u = port"
    using split_host_port_plain [OF host port(1)] u(2) by (simp_all add: url_hostname_def url_port_def)
  have "parseInt32 port = Inr (digits_value 0 port)" if "port \<noteq> []"
    using parseInt32_digits [OF that port(1)] port(2) by simp
  then show ?thesis
    using u(1,3) hp
    by (auto simp: parse_endpoint_def e Let_def default_port_def default_ports fst_cut sch_def simp del: append_assoc)
qed

theorem parse_endpoint_plain_witness:
  "parse_endpoint ''http://svc.ns:8080/sa'' = Inr (''svc'', int32_of 8080)"
proof -
  have "list_all host_char ''svc.ns''" "list_all is_digit ''8080''" "digits_value 0 ''8080'' < 2 ^ 31"
    "list_all path_char ''/sa''" "''/sa'' = [] \<or> hd ''/sa'' = CHR ''/''"
    by code_simp+
  from parse_endpoint_plain [of "''http://''", OF _ this] show ?thesis
    by (simp add: port_suffix_def digit_val_def code_def)
qed

end
