(* ===== verification/Account_Url.thy ===== *)
theory Account_Url
  imports Operator_History Endpoint_Props
begin

text \<open>
  Where the account of a consumer lives: the URL that \<open>url.JoinPath\<close> makes of an endpoint and a
  consumer, and that a deletion reaches no other account.
\<close>

section \<open>Segments\<close>

lemma split_on_nonempty [simp]: "split_on sep s \<noteq> []"
  by (cases s) (auto split: list.splits)

lemma split_on_append: "split_on sep (a @ sep # b) = split_on sep a @ split_on sep b"
  by (induction a) (auto split: list.splits)

lemma split_on_absent: "sep \<notin> set s \<Longrightarrow> split_on sep s = [s]"
  by (induction s) auto

lemma split_on_chars: "w \<in> set (split_on sep s) \<Longrightarrow> set w \<subseteq> set s"
  by (induction s arbitrary: w) (fastforce split: list.splits if_splits)+

lemma clean_append: "clean_segments acc (xs @ ys) = clean_segments (clean_segments acc xs) ys"
  by (induction acc xs rule: clean_segments.induct) auto

lemma clean_subset: "set (clean_segments acc ws) \<subseteq> set acc \<union> set ws"
proof (induction acc ws rule: clean_segments.induct)
  case (2 acc w ws)
  moreover have "set (butlast acc) \<subseteq> set acc" by (auto dest: in_set_butlastD)
  ultimately show ?case by auto
qed simp

definition path_segments :: "string \<Rightarrow> string list" where
  "path_segments path = clean_segments [] (split_on (CHR ''/'') path)"

lemma path_segments_rooted: "path_segments (CHR ''/'' # path) = path_segments path"
  by (simp add: path_segments_def)

lemma path_segments_chars:
  assumes "list_all path_char path" and "w \<in> set (path_segments path)"
  shows "list_all path_char w"
proof -
  from assms(2) have "w \<in> set (split_on (CHR ''/'') path)"
    using clean_subset [of "[]" "split_on (CHR ''/'') path"] by (auto simp: path_segments_def)
  from split_on_chars [OF this] assms(1) show ?thesis by (auto simp: list_all_iff)
qed

text \<open>A consumer that is one path segment.\<close>

definition plain_consumer :: "string \<Rightarrow> bool" where
  "plain_consumer c \<longleftrightarrow> c \<noteq> [] \<and> c \<noteq> ''.'' \<and> c \<noteq> ''..'' \<and> list_all (\<lambda>x. path_char x \<and> x \<noteq> CHR ''/'') c"

lemma plain_consumer_chars: "plain_consumer c \<Longrightarrow> list_all path_char c" "plain_consumer c \<Longrightarrow> CHR ''/'' \<notin> set c"
  by (auto simp: plain_consumer_def list_all_iff)

lemma path_segments_consumer:
  assumes "plain_consumer c"
  shows "path_segments (path @ CHR ''/'' # c) = path_segments path @ [c]"
  using assms plain_consumer_chars(2) [OF assms]
  by (auto simp: path_segments_def split_on_append split_on_absent clean_append plain_consumer_def)

lemma join_snoc: "join sep (ws @ [w]) = concat (map (\<lambda>x. x @ sep) ws) @ w"
  by (induction sep ws rule: join.induct) auto

definition path_base :: "string \<Rightarrow> string" where
  "path_base path = concat (map (\<lambda>x. x @ ''/'') (path_segments path))"

lemma path_base_rooted: "path_base (CHR ''/'' # path) = path_base path"
  by (simp add: path_base_def path_segments_rooted)

lemma path_base_chars: "list_all path_char path \<Longrightarrow> list_all path_char (path_base path)"
  using path_segments_chars by (fastforce simp: path_base_def list_all_iff path_char_def)

lemma path_clean_consumer:
  "plain_consumer c \<Longrightarrow> path_clean_rooted (path @ CHR ''/'' # c) = CHR ''/'' # path_base path @ c"
  by (simp add: path_clean_rooted_def path_segments_consumer path_segments_def [symmetric] join_snoc path_base_def)

section \<open>The joined URL\<close>

text \<open>The parts of a plain endpoint.\<close>

record endpoint_parts =
  epScheme :: string
  epHost :: string
  epPort :: string
  epPath :: string

definition endpoint_text :: "endpoint_parts \<Rightarrow> string" where
  "endpoint_text p = epScheme p @ ''://'' @ epHost p @ port_suffix (epPort p) @ epPath p"

definition plain_parts :: "endpoint_parts \<Rightarrow> bool" where
  "plain_parts p \<longleftrightarrow> (epScheme p = ''http'' \<or> epScheme p = ''https'') \<and> epHost p \<noteq> [] \<and> list_all host_char (epHost p) \<and>
     list_all is_digit (epPort p) \<and> list_all path_char (epPath p) \<and> (epPath p = [] \<or> hd (epPath p) = CHR ''/'')"

definition account_base :: "endpoint_parts \<Rightarrow> string" where
  "account_base p = epScheme p @ ''://'' @ epHost p @ port_suffix (epPort p) @ ''/'' @ path_base (epPath p)"

lemma authority_escape:
  assumes "plain_parts p"
  shows "url_escape Encode_Host (epHost p @ port_suffix (epPort p)) = epHost p @ port_suffix (epPort p)"
proof (rule url_escape_free)
  fix c assume "c \<in> set (epHost p @ port_suffix (epPort p))"
  with assms have "host_char c \<or> c = CHR '':''"
    by (auto simp: plain_parts_def port_suffix_def list_all_iff host_char_def digit_alnum split: if_splits)
  then show "\<not> should_escape Encode_Host c" by (auto simp: should_escape_def host_char_def)
qed

lemma escaped_path_plain:
  assumes "list_all path_char path"
  shows "escaped_path (plain_url sch a path) = path"
proof -
  have "path \<noteq> ''*''" using assms path_char_not by fastforce
  with assms show ?thesis by (simp add: escaped_path_def plain_url_def empty_url_def url_escape_plain)
qed

lemma url_string_plain:
  assumes p: "plain_parts p" and path: "list_all path_char path"
  shows "url_string (plain_url (epScheme p) (epHost p @ port_suffix (epPort p)) path) =
    epScheme p @ ''://'' @ epHost p @ port_suffix (epPort p) @
      (if path \<noteq> [] \<and> hd path \<noteq> CHR ''/'' then ''/'' else []) @ path"
  using escaped_path_plain [OF path] authority_escape [OF p] p
  by (auto simp: url_string_def Let_def plain_parts_def plain_url_def empty_url_def)

lemma url_join_plain:
  assumes p: "plain_parts p" and c: "plain_consumer c"
  shows "url_join_path (endpoint_text p) c = Inr (account_base p @ c)"
proof -
  let ?a = "epHost p @ port_suffix (epPort p)"
  let ?u = "plain_url (epScheme p) ?a (epPath p)"
  let ?p = "if epPath p = [] then c else CHR ''/'' # path_base (epPath p) @ c"
  have chars: "list_all path_char (epPath p)" using p by (simp add: plain_parts_def)
  have parse: "url_parse (endpoint_text p) = Inr ?u"
    using p unfolding endpoint_text_def plain_parts_def by (intro url_parse_plain) auto
  have ok: "list_all path_char ?p"
    using plain_consumer_chars(1) [OF c] path_base_chars [OF chars] by (simp add: path_char_def)
  have lst: "last c \<noteq> CHR ''/''" using c plain_consumer_chars(2) [OF c] by (auto simp: plain_consumer_def dest: last_in_set)
  have full: "path_clean_rooted (path @ ''/'' @ c) = CHR ''/'' # path_base path @ c" for path
    using path_clean_consumer [OF c, of path] by simp
  have root: "path_base ''/'' = []" "path_base [] = []" by (simp_all add: path_base_def path_segments_def)
  have "url_join_path_url ?u c = set_path ?p ?u"
    using p lst full [of "''/''"] full [of "epPath p"] root
    unfolding url_join_path_url_def Let_def escaped_path_plain [OF chars]
    by (cases "epPath p") (auto simp: plain_parts_def)
  also have "\<dots> = Inr (plain_url (epScheme p) ?a ?p)"
    unfolding set_path_plain [OF ok] by (simp add: plain_url_def empty_url_def)
  finally have join: "url_join_path_url ?u c = Inr (plain_url (epScheme p) ?a ?p)" .
  have "hd c \<noteq> CHR ''/''" using c plain_consumer_chars(2) [OF c] by (cases c) (auto simp: plain_consumer_def)
  with c root have "url_string (plain_url (epScheme p) ?a ?p) = account_base p @ c"
    unfolding url_string_plain [OF p ok] account_base_def by (auto simp: plain_consumer_def)
  with parse join show ?thesis by (simp add: url_join_path_def)
qed

text \<open>The URL of an account determines the consumer and where its producer keeps its accounts.\<close>

lemma account_base_slash: "\<exists>b. account_base p = b @ ''/''"
proof (cases "path_segments (epPath p)" rule: rev_cases)
  case Nil
  then show ?thesis by (simp add: account_base_def path_base_def)
next
  case (snoc ws w)
  then show ?thesis by (simp add: account_base_def path_base_def)
qed

lemma account_url_injective:
  assumes "account_base p @ c = account_base p' @ c'" and "plain_consumer c" and "plain_consumer c'"
  shows "account_base p = account_base p' \<and> c = c'"
proof -
  obtain b b' where b: "account_base p = b @ ''/''" "account_base p' = b' @ ''/''" using account_base_slash by blast
  have "split_last (CHR ''/'') (b @ CHR ''/'' # c) = split_last (CHR ''/'') (b' @ CHR ''/'' # c')"
    using assms(1) b by simp
  then show ?thesis
    unfolding split_last_at [OF plain_consumer_chars(2) [OF assms(2)]] split_last_at [OF plain_consumer_chars(2) [OF assms(3)]]
    by (simp add: b)
qed

text \<open>Consumers that are not one plain segment lead elsewhere: to the endpoint itself, to the path above
  it, or to the account of another consumer.\<close>

lemma other_consumers:
  "url_join_path ''http://p:8080/sa'' [] = Inr ''http://p:8080/sa''"
  "url_join_path ''http://p:8080/sa'' ''..'' = Inr ''http://p:8080/''"
  "url_join_path ''http://p:8080/sa'' ''a/../b'' = url_join_path ''http://p:8080/sa'' ''b''"
  by code_simp+

section \<open>Deletions\<close>

definition plain_endpoint :: "string \<Rightarrow> bool" where
  "plain_endpoint e \<longleftrightarrow> (\<exists>p. plain_parts p \<and> e = endpoint_text p)"

lemma deletion_warrant:
  assumes "reachable E cfg s" and "trace s = us @ Http_Do q a # vs" and "hrMethod q = ''DELETE''"
  shows "\<exists>g req sare ts seg. us = g @ Get_Sare req (Inr sare) # seg \<and> sareDeletionTimestamp sare = Some ts \<and>
    at_account sare seg q"
  using ra.history [OF assms(1,2)]
proof (elim request_warrantE, goal_cases)
  case 1
  with assms(3) show ?case by (auto simp: put_for_def put_request_def)
next
  case 3
  then show ?case by blast
qed (use assms(3) in simp_all)

text \<open>C8: no deletion reaches the account of another consumer. Take any reachable state of the process whose SAREs read so far name plain consumers (one path segment of letters, digits, \<open>-._\<close>, not \<open>.\<close> or \<open>..\<close>) and whose producers read so far have plain endpoints (http or https, a host, maybe a port and a plain path). If a DELETE in the trace goes to the URL of the account of a plain consumer \<open>c\<close> at a plain endpoint, then a SARE with a deletion timestamp and with consumer \<open>c\<close> was read before it, and so was the producer that this SARE names, and that producer keeps its accounts at the same base URL.\<close>
theorem deletion_of_own_account:
  assumes reach: "reachable E cfg s" and sent: "trace s = us @ Http_Do q a # vs" "hrMethod q = ''DELETE''"
    and producers: "\<And>n sapr http. Get_Sapr n (Inr sapr) \<in> set us \<Longrightarrow> saprHTTP sapr = Some http \<Longrightarrow> plain_endpoint (hpEndpoint http)"
    and consumers: "\<And>n sare. Get_Sare n (Inr sare) \<in> set us \<Longrightarrow> plain_consumer (srConsumer (sareSpec sare))"
    and url: "plain_consumer c" "hrUrl q = account_base p @ c"
  shows "\<exists>req sare ts sapr http p'. Get_Sare req (Inr sare) \<in> set us \<and> sareDeletionTimestamp sare = Some ts \<and>
    srConsumer (sareSpec sare) = c \<and> Get_Sapr (producer_key sare) (Inr sapr) \<in> set us \<and> saprHTTP sapr = Some http \<and>
    hpEndpoint http = endpoint_text p' \<and> account_base p' = account_base p"
proof -
  obtain g req sare ts seg sapr http where us: "us = g @ Get_Sare req (Inr sare) # seg" and ts: "sareDeletionTimestamp sare = Some ts"
    and sapr: "Get_Sapr (producer_key sare) (Inr sapr) \<in> set seg" "saprHTTP sapr = Some http"
    and join: "url_join_path (hpEndpoint http) (srConsumer (sareSpec sare)) = Inr (hrUrl q)"
    using deletion_warrant [OF reach sent] unfolding at_account_def by blast
  have plain: "plain_consumer (srConsumer (sareSpec sare))" using consumers us by auto
  obtain p' where p': "plain_parts p'" "hpEndpoint http = endpoint_text p'"
    using producers [of "producer_key sare" sapr http] us sapr by (auto simp: plain_endpoint_def)
  from url_join_plain [OF p'(1) plain] join p'(2) url(2)
  have "account_base p' @ srConsumer (sareSpec sare) = account_base p @ c" by simp
  from account_url_injective [OF this plain url(1)] us ts sapr p'(2) show ?thesis
    by (intro exI [of _ req] exI [of _ sare] exI [of _ ts] exI [of _ sapr] exI [of _ http] exI [of _ p']) auto
qed

section \<open>Witness\<close>

text \<open>A SARE is being deleted; its producer has the account and deletes it.\<close>

definition removal_run :: "sim st" where
  "removal_run = snd (run_state (Reconcile simE ex_cfg (nn ''ns'' ''r''))
     (init_st ((ex_world [] (Inr (ex_response 200 [])))\<lparr>simSares := [(nn ''ns'' ''r'', ex_sare\<lparr>sareDeletionTimestamp := Some 1000\<rparr>)]\<rparr>)
       (\<lambda>n. ex_sare)))"

definition ex_parts :: endpoint_parts where
  "ex_parts = \<lparr>epScheme = ''http'', epHost = ''p'', epPort = ''8080'', epPath = ''/sa''\<rparr>"

definition deletes_at :: "string \<Rightarrow> call \<Rightarrow> bool" where
  "deletes_at url c = (case c of Http_Do q a \<Rightarrow> hrMethod q = ''DELETE'' \<and> hrUrl q = url | _ \<Rightarrow> False)"

definition reads_plain :: "call \<Rightarrow> bool" where
  "reads_plain c = (case c of
      Get_Sapr n r \<Rightarrow> (case r of Inl e \<Rightarrow> True
        | Inr sapr \<Rightarrow> (case saprHTTP sapr of None \<Rightarrow> True | Some http \<Rightarrow> hpEndpoint http = endpoint_text ex_parts))
    | Get_Sare n r \<Rightarrow> (case r of Inl e \<Rightarrow> True | Inr sare \<Rightarrow> plain_consumer (srConsumer (sareSpec sare)))
    | _ \<Rightarrow> True)"

lemma removal_calls:
  "list_ex (deletes_at (account_base ex_parts @ srConsumer ex_spec)) (trace removal_run)" "list_all reads_plain (trace removal_run)"
  "plain_parts ex_parts" "plain_consumer (srConsumer ex_spec)"
  by code_simp+

theorem deletion_of_own_account_witness:
  "\<exists>us q a vs req sare. trace removal_run = us @ Http_Do q a # vs \<and> hrMethod q = ''DELETE'' \<and>
     hrUrl q = account_base ex_parts @ srConsumer ex_spec \<and>
     Get_Sare req (Inr sare) \<in> set us \<and> srConsumer (sareSpec sare) = srConsumer ex_spec"
proof -
  have reach: "reachable simE ex_cfg removal_run"
    unfolding removal_run_def by (rule Reach_Step [OF Reach_Init Step_Reconcile [OF prod.collapse [symmetric]]])
  obtain c where c: "c \<in> set (trace removal_run)" "deletes_at (account_base ex_parts @ srConsumer ex_spec) c"
    using removal_calls(1) by (auto simp: list_ex_iff)
  then obtain q a where q: "c = Http_Do q a" "hrMethod q = ''DELETE''" "hrUrl q = account_base ex_parts @ srConsumer ex_spec"
    by (auto simp: deletes_at_def split: call.splits)
  with c obtain us vs where us: "trace removal_run = us @ Http_Do q a # vs" by (auto dest: split_list)
  then have reads: "reads_plain d" if "d \<in> set us" for d using removal_calls(2) that by (auto simp: list_all_iff)
  have "plain_endpoint (hpEndpoint http)" if "Get_Sapr n (Inr sapr) \<in> set us" "saprHTTP sapr = Some http" for n sapr http
    using reads [OF that(1)] that(2) removal_calls(3) by (auto simp: reads_plain_def plain_endpoint_def)
  moreover have "plain_consumer (srConsumer (sareSpec sare))" if "Get_Sare n (Inr sare) \<in> set us" for n sare
    using reads [OF that] by (simp add: reads_plain_def)
  ultimately show ?thesis
    using deletion_of_own_account [OF reach us q(2) _ _ removal_calls(4) q(3)] us q by blast
qed

end
