(* ===== verification/Request_Progress.thy ===== *)
theory Request_Progress
  imports Request_Rotation Request_Refinement
begin

text \<open>
  Progress: what a reconcile achieves when nothing stands in its way. The other properties
  bound what a run may do; these say that in a cluster that answers, with a producer that
  answers, one reconcile is enough, and that a rotation ends with a new secret.
\<close>

section \<open>A cluster that answers\<close>

definition reads_answered :: "'w env \<Rightarrow> ('w \<Rightarrow> secret_view) \<Rightarrow> bool" where
  "reads_answered E V \<longleftrightarrow> (\<forall>n w. case V w n of
      Some x \<Rightarrow> fst (e_get_secret E n w) = Inr x
    | None \<Rightarrow> \<exists>e. fst (e_get_secret E n w) = Inl e \<and> is_not_found e)"

text \<open>An update whose callback succeeds is carried out, and the owner reference can be set on a new
  secret and on one the SARE controls already.\<close>

definition writes_answered :: "'w env \<Rightarrow> ('w \<Rightarrow> secret_view) \<Rightarrow> sare \<Rightarrow> bool" where
  "writes_answered E V sare \<longleftrightarrow>
     (\<forall>x f w y. f (upsert_base V x w) = Inr y \<longrightarrow> (\<exists>z. fst (e_create_or_update_secret E x f w) = Inr z)) \<and>
     (\<forall>x c. secOwners x = [] \<or> e_is_controlled_by E x sare \<longrightarrow>
        (\<exists>y. e_set_controller_reference E sare (x\<lparr>secStringData := c\<rparr>) = Inr y))"

definition patches_answered :: "'w env \<Rightarrow> bool" where
  "patches_answered E \<longleftrightarrow> (\<forall>b x w. fst (e_patch_sare_status E b x w) = (None, x))"

text \<open>The producer the SARE names: its object can be read, its endpoint is a URL, and it answers
  the PUT for this SARE with \<open>resp\<close>.\<close>

definition producer_answers :: "'w env \<Rightarrow> sare \<Rightarrow> http_producer \<Rightarrow> string \<Rightarrow> http_response \<Rightarrow> bool" where
  "producer_answers E sare http apiKey resp \<longleftrightarrow>
     (\<exists>sapr. saprHTTP sapr = Some http \<and> (\<forall>w. fst (e_get_sapr E (producer_key sare) w) = Inr sapr)) \<and>
     (\<exists>u. url_parse (hpEndpoint http) = Inr u) \<and>
     (\<forall>b w. fst (e_http_do E (put_request http apiKey sare b) w) = Inr resp)"

text \<open>What has to be in the cluster: the API key; no secret of somebody else under the SARE's key; no
  migration secret; and an expression that is valid if rotation is on.\<close>

definition api_key :: "secret_view \<Rightarrow> sare \<Rightarrow> http_producer \<Rightarrow> string \<Rightarrow> bool" where
  "api_key v sare http apiKey \<longleftrightarrow>
     (case v (nn (sareNamespace sare) (hpAuthSecretName http)) of
        None \<Rightarrow> False
      | Some auth \<Rightarrow> map_of (secData auth) (hpAuthSecretKey http) = Some apiKey)"

definition no_migration :: "secret_view \<Rightarrow> sare \<Rightarrow> bool" where
  "no_migration v sare \<longleftrightarrow> MigrationSecretName sare = [] \<or>
     v (nn (sareNamespace sare) (MigrationSecretName sare)) = None"

definition prepared :: "'w env \<Rightarrow> secret_view \<Rightarrow> sare \<Rightarrow> http_producer \<Rightarrow> string \<Rightarrow> bool" where
  "prepared E v sare http apiKey \<longleftrightarrow> mine E sare v \<and> api_key v sare http apiKey \<and> no_migration v sare \<and>
     (case rotation_expr sare of None \<Rightarrow> True | Some expr \<Rightarrow> e_cron_is_valid E expr)"

section \<open>The steps succeed\<close>

lemma read_answer:
  assumes "reads_answered E V"
  shows "V w n = Some x \<Longrightarrow> fst (e_get_secret E n w) = Inr x"
    and "V w n = None \<Longrightarrow> \<exists>e. fst (e_get_secret E n w) = Inl e \<and> is_not_found e"
proof -
  have "case V w n of Some x \<Rightarrow> fst (e_get_secret E n w) = Inr x
    | None \<Rightarrow> \<exists>e. fst (e_get_secret E n w) = Inl e \<and> is_not_found e"
    using assms by (simp add: reads_answered_def)
  then show "V w n = Some x \<Longrightarrow> fst (e_get_secret E n w) = Inr x"
    and "V w n = None \<Longrightarrow> \<exists>e. fst (e_get_secret E n w) = Inl e \<and> is_not_found e" by simp_all
qed

lemma check_passes:
  assumes "reads_answered E V" and "mine E sare (V w)"
  shows "check_answer E sare w = (V w (secret_key sare) \<noteq> None, resolveSecretName sare, None)"
  using read_answer [OF assms(1), of w "secret_key sare"] assms(2)
  by (cases "V w (secret_key sare)") (auto simp: check_answer_def exists_answer_def mine_def)

lemma nothing_to_migrate:
  assumes "reads_answered E V" and "no_migration (V (world s)) sare"
    and "run_state (migrateCredentials E sare sapr) s = (m, t)"
  shows "m = Inr []" and "secret_laws E V \<Longrightarrow> V (world t) = V (world s)"
  using assms read_answer [OF assms(1), of "world s" "nn (sareNamespace sare) (MigrationSecretName sare)"]
  by (auto simp: no_migration_def migrateCredentials_def ms_Credentials_def Let_def getSecret_def run_io
      read_lawD(1) [OF secret_lawsD(1)] split: if_splits)

lemma accepted_create_status: "accepted resp c \<Longrightarrow> create_status cl resp = Inr c"
  by (auto simp: accepted_def create_status_def split: if_splits)

lemma request_answered:
  assumes reads: "reads_answered E V" and key: "api_key (V (world s)) sare http apiKey"
    and http: "saprHTTP sapr = Some http" "url_parse (hpEndpoint http) = Inr u"
    and put: "\<And>b w. fst (e_http_do E (put_request http apiKey sare b) w) = Inr resp"
    and ok: "accepted resp answer"
    and run: "run_state (requestCredentials E sare sapr b) s = (r, t)"
  shows "r = Inr answer \<and> (\<exists>n a. trace t = trace s @ [Get_Secret n a, Http_Do (put_request http apiKey sare b) (Inr resp)])"
proof -
  from key obtain auth where "fst (e_get_secret E (nn (sareNamespace sare) (hpAuthSecretName http)) (world s)) = Inr auth"
    and "map_of (secData auth) (hpAuthSecretKey http) = Some apiKey"
    using read_answer(1) [OF reads] by (auto simp: api_key_def split: option.splits)
  with run http put [of b] accepted_create_status [OF ok] show ?thesis
    by (auto simp: requestCredentials_def getServiceAccountClient_def run_simps newRequest_def put_request_def
        apiKeyHeader_def Let_def)
qed

lemma write_succeeds:
  assumes laws: "secret_laws E V" and writes: "writes_answered E V sare" and own: "mine E sare (V (world s))"
    and run: "run_state (sm_CreateOrUpdate E sare c) s = (r, t)"
  shows "r = Inr (resolveSecretName sare)"
proof -
  define x0 where "x0 = new_secret (sareNamespace sare) (resolveSecretName sare)"
  have key: "nn (secNamespace x0) (secName x0) = secret_key sare" and fresh: "secOwners x0 = []" "secResourceVersion x0 = []"
    by (simp_all add: x0_def new_secret_def secret_key_def)
  let ?x = "upsert_base V x0 (world s)"
  have "secOwners ?x = [] \<and> secResourceVersion ?x = [] \<or> e_is_controlled_by E ?x sare"
    using own fresh by (auto simp: upsert_base_def key mine_def split: option.splits)
  then have "\<exists>y. sm_mutate E sare c ?x = Inr y"
    using writes unfolding writes_answered_def sm_mutate_def by auto
  then obtain z where "fst (write_call E sare c (world s)) = Inr z"
    using writes unfolding writes_answered_def write_call_def x0_def [symmetric] by blast
  with run show ?thesis by (simp add: run_sm_CreateOrUpdate)
qed

text \<open>What \<open>createOrUpdate\<close> ends with: the outcome, the one request, and the secret.\<close>

definition outcome_of :: "strmap option \<Rightarrow> create_or_update_outcome" where
  "outcome_of answer = (case answer of None \<Rightarrow> OutcomeUnchanged | Some _ \<Rightarrow> OutcomeRotated)"

definition achieved :: "'w env \<Rightarrow> sare \<Rightarrow> strmap option \<Rightarrow> secret_view \<Rightarrow> secret_view \<Rightarrow> bool" where
  "achieved E sare answer v v' \<longleftrightarrow>
     (case answer of
        None \<Rightarrow> v' = v
      | Some c \<Rightarrow> (\<exists>x. v' (secret_key sare) = Some x \<and> e_is_controlled_by E x sare \<and> serves x c) \<and>
          (\<forall>k. k \<noteq> secret_key sare \<longrightarrow> v' k = v k))"

lemma from_producer_succeeds:
  assumes laws: "secret_laws E V" "others_keep_secrets E V"
    and reads: "reads_answered E V" and writes: "writes_answered E V sare"
    and own: "mine E sare (V (world s))" and key: "api_key (V (world s)) sare http apiKey"
    and http: "saprHTTP sapr = Some http" "url_parse (hpEndpoint http) = Inr u"
    and put: "\<And>b w. fst (e_http_do E (put_request http apiKey sare b) w) = Inr resp"
    and ok: "accepted resp answer"
    and run: "run_state (createOrUpdateFromProducer E sare sapr b (resolveSecretName sare)) s = (x, t)"
  shows "x = (\<lparr>cuSecretName = resolveSecretName sare, cuOutcome = outcome_of answer\<rparr>, None)"
    and "achieved E sare answer (V (world s)) (V (world t))"
    and "filter is_http (new_calls s t) = [Http_Do (put_request http apiKey sare b) (Inr resp)]"
proof -
  obtain r s1 where r: "run_state (requestCredentials E sare sapr b) s = (r, s1)" by fastforce
  from request_answered [OF reads key http put ok r] obtain n a where ra: "r = Inr answer"
    and s1: "trace s1 = trace s @ [Get_Secret n a, Http_Do (put_request http apiKey sare b) (Inr resp)]" by blast
  have v1: "V (world s1) = V (world s)"
    using preservesD [OF view_requestCredentials [OF laws] r] by (simp add: keeps_view_def)
  have "x = (\<lparr>cuSecretName = resolveSecretName sare, cuOutcome = outcome_of answer\<rparr>, None) \<and>
     achieved E sare answer (V (world s)) (V (world t)) \<and>
     filter is_http (new_calls s t) = [Http_Do (put_request http apiKey sare b) (Inr resp)]"
  proof (cases answer)
    case None
    with run r ra s1 v1 show ?thesis
      by (auto simp: createOrUpdateFromProducer_def achieved_def outcome_of_def new_calls_def)
  next
    case (Some c)
    obtain w s2 where w: "run_state (sm_CreateOrUpdate E sare c) s1 = (w, s2)" by fastforce
    have name: "w = Inr (resolveSecretName sare)"
      using write_succeeds [OF laws(1) writes _ w] own v1 by simp
    from w have s2: "\<exists>z. trace s2 = trace s1 @ [Upsert_Secret (secret_key sare) z]" by (auto simp: run_sm_CreateOrUpdate)
    have wf: "wf_map c" using ok Some by (auto simp: accepted_def split: if_splits dest: decode_wf)
    from run r ra Some w name have x: "x = (\<lparr>cuSecretName = resolveSecretName sare, cuOutcome = OutcomeRotated\<rparr>, None)"
      and t: "world t = world s2" "\<exists>ev. trace t = trace s2 @ [Emit_Event ev]"
      by (auto simp: createOrUpdateFromProducer_def Let_def run_simps)
    from sm_CreateOrUpdate_law [OF laws(1) w] name wf v1 have "achieved E sare answer (V (world s)) (V (world t))"
      by (auto simp: achieved_def Some t)
    with x s1 s2 t show ?thesis by (auto simp: outcome_of_def Some new_calls_def)
  qed
  then show "x = (\<lparr>cuSecretName = resolveSecretName sare, cuOutcome = outcome_of answer\<rparr>, None)"
    and "achieved E sare answer (V (world s)) (V (world t))"
    and "filter is_http (new_calls s t) = [Http_Do (put_request http apiKey sare b) (Inr resp)]" by blast+
qed

lemma createOrUpdate_succeeds:
  assumes laws: "secret_laws E V" "others_keep_secrets E V"
    and reads: "reads_answered E V" and writes: "writes_answered E V (heap s p)"
    and producer: "producer_answers E (heap s p) http apiKey resp" and ok: "accepted resp answer"
    and prep: "prepared E (V (world s)) (heap s p) http apiKey"
    and run: "run_state (createOrUpdate E p) s = (r, t)"
  defines "b \<equiv> V (world s) (secret_key (heap s p)) \<noteq> None"
  shows "r = Returned (\<lparr>cuSecretName = resolveSecretName (heap s p), cuOutcome = outcome_of answer\<rparr>, None) \<and>
    achieved E (heap s p) answer (V (world s)) (V (world t)) \<and> heap t p = heap s p \<and>
    filter is_http (new_calls s t) = [Http_Do (put_request http apiKey (heap s p) b) (Inr resp)]"
proof -
  let ?sare = "heap s p" let ?n = "resolveSecretName ?sare"
  from producer obtain sapr u where sapr: "saprHTTP sapr = Some http" "\<And>w. fst (e_get_sapr E (producer_key ?sare) w) = Inr sapr"
    and url: "url_parse (hpEndpoint http) = Inr u"
    and put: "\<And>b w. fst (e_http_do E (put_request http apiKey ?sare b) w) = Inr resp"
    by (auto simp: producer_answers_def)
  from prep have own: "mine E ?sare (V (world s))" and key: "api_key (V (world s)) ?sare http apiKey"
    and mig: "no_migration (V (world s)) ?sare" and expr: "\<forall>e. rotation_expr ?sare = Some e \<longrightarrow> e_cron_is_valid E e"
    by (auto simp: prepared_def split: option.splits)
  have c: "check_answer E ?sare (world s) = (b, ?n, None)"
    using check_passes [OF reads own] by (simp add: b_def)
  obtain we s2 where h: "run_state (handleSaRotationWatcher E p) (checked E ?sare s) = (we, s2)" by fastforce
  have we: "we = None" using watcher_ok [OF h] expr by simp
  note heap2 = watcher_world(2) [OF h, simplified]
  have g: "run_state (getProducerForCreateOrUpdate E p) s2 = (Returned (Inr sapr), get_producer_st E ?sare s2)"
    using sapr(2) by (simp add: run_getProducerForCreateOrUpdate Let_def heap2)
  let ?s3 = "get_producer_st E ?sare s2"
  have v3: "V (world ?s3) = V (world s)"
    using course_prefix(1) [OF h [unfolded we] g laws] .
  have q3: "silent s ?s3"
    using silent_before [OF h] by (auto simp: silent_def)
  have final: ?thesis if run': "run_state (createOrUpdate E p) s = (Returned x, t')" and q: "silent s s4"
    and x: "run_state (createOrUpdateFromProducer E ?sare sapr b ?n) s4 = (x, t')"
    and v: "V (world s4) = V (world s)" and hp: "heap s4 = heap s" for x t' s4
  proof -
    have own4: "mine E ?sare (V (world s4))" "api_key (V (world s4)) ?sare http apiKey" using own key v by simp_all
    note fin = from_producer_succeeds [OF laws reads writes own4 sapr(1) url put ok x]
    obtain cs where "trace t' = trace s4 @ cs"
      using preservesD [OF emits_createOrUpdateFromProducer x] by (auto simp: emits_def)
    with q fin(3) have "filter is_http (new_calls s t') = [Http_Do (put_request http apiKey ?sare b) (Inr resp)]"
      by (auto simp: silent_def new_calls_def)
    moreover have "heap t' p = heap s p"
      using process_of [OF process_createOrUpdateFromProducer x] hp by simp
    ultimately show ?thesis using run run' fin(1,2) v by simp
  qed
  show ?thesis
  proof (cases b)
    case True
    obtain x t' where x: "run_state (createOrUpdateFromProducer E ?sare sapr True ?n) ?s3 = (x, t')" by fastforce
    with True c h we g have "run_state (createOrUpdate E p) s = (Returned x, t')"
      by (simp add: createOrUpdate_def run_load run_checkSecretExists)
    from final [OF this q3 _ v3] x True heap2 show ?thesis by simp
  next
    case False
    obtain m s4 where m: "run_state (migrateCredentials E ?sare sapr) ?s3 = (m, s4)" by fastforce
    have mig3: "no_migration (V (world ?s3)) ?sare" using mig v3 by simp
    note none = nothing_to_migrate [OF reads mig3 m]
    obtain x t' where x: "run_state (createOrUpdateFromProducer E ?sare sapr False ?n) s4 = (x, t')" by fastforce
    with False c h we g m none(1) have "run_state (createOrUpdate E p) s = (Returned x, t')"
      by (simp add: createOrUpdate_def run_load run_checkSecretExists)
    moreover have "silent s s4" using silent_trans [OF q3 silent_migrateCredentials [OF m]] .
    moreover have "V (world s4) = V (world s)" using none(2) [OF laws(1)] v3 by simp
    moreover have "heap s4 = heap s" using process_of [OF process_migrateCredentials m] heap2 by simp
    ultimately show ?thesis using final [of x t' s4] x False by simp
  qed
qed

section \<open>One reconcile is enough\<close>

text \<open>The status of a service account whose secret is there.\<close>

definition reports_ready :: "'w env \<Rightarrow> sare \<Rightarrow> sare \<Rightarrow> bool" where
  "reports_ready E sare x \<longleftrightarrow> ssSecretRef (sareStatus x) = Some (resolveSecretName sare) \<and>
     ssConditions (sareStatus x) = e_set_status_condition E (ssConditions (sareStatus sare))
       \<lparr>condType = typeServiceAccountReady (e_consts E), condStatus = ConditionTrue,
        condReason = reasonReadyCreated (e_consts E), condMessage = [], condObservedGeneration = sareGeneration sare\<rparr>"

lemma reconcile_ready:
  assumes laws: "secret_laws E V" "others_keep_secrets E V"
    and answers: "reads_answered E V" "writes_answered E V (heap s p)" "patches_answered E"
    and producer: "producer_answers E (heap s p) http apiKey resp" and ok: "accepted resp answer"
    and prep: "prepared E (V (world s)) (heap s p) http apiKey"
    and run: "run_state (reconcileCreateOrUpdate E p) s = (r, t)"
  defines "b \<equiv> V (world s) (secret_key (heap s p)) \<noteq> None"
  shows "r = Returned (no_result, None) \<and>
    (\<exists>x. last (trace t) = Patch_Sare_Status (heap s p) x (None, x) \<and> reports_ready E (heap s p) x) \<and>
    achieved E (heap s p) answer (V (world s)) (V (world t)) \<and>
    filter is_http (new_calls s t) = [Http_Do (put_request http apiKey (heap s p) b) (Inr resp)] \<and>
    (\<exists>cs. trace t = trace s @ cs)"
proof -
  obtain g u where g: "run_state (createOrUpdate E p) s = (g, u)" by fastforce
  let ?res = "\<lparr>cuSecretName = resolveSecretName (heap s p), cuOutcome = outcome_of answer\<rparr>"
  note c = createOrUpdate_succeeds [OF laws answers(1,2) producer ok prep g]
  define x where "x = success_sare E ?res (heap s p) (world u)"
  have oc: "cuOutcome ?res \<noteq> OutcomeAborted" by (simp add: outcome_of_def split: option.split)
  from c run run_reconcileCreateOrUpdate [OF g] oc answers(3) have r: "r = Returned (no_result, None)"
    and t: "t = patched E p (heap s p) x (success_st E ?res u)"
    by (auto simp: x_def Let_def patches_answered_def persist_answer_def)
  have "last (trace t) = Patch_Sare_Status (heap s p) x (None, x)" using answers(3) by (simp add: t patches_answered_def)
  moreover have "reports_ready E (heap s p) x"
    by (auto simp: reports_ready_def x_def success_sare_def outcome_of_def ready_sare_def set_condition_def with_status_def
        split: option.split)
  moreover have "V (world t) = V (world u)" using laws(2) t by (simp add: view_after_success)
  moreover obtain cs where cs: "trace u = trace s @ cs" using createOrUpdate_course [OF g] by blast
  then have "filter is_http (new_calls s t) = filter is_http (new_calls s u)" "\<exists>cs. trace t = trace s @ cs"
    by (auto simp: t new_calls_def success_st_def clock_st_def)
  ultimately show ?thesis using r c unfolding b_def by auto
qed

definition updates_answered :: "'w env \<Rightarrow> bool" where
  "updates_answered E \<longleftrightarrow> (\<forall>x w. fst (e_update_sare E x w) = (None, x))"

lemma Reconcile_start:
  assumes laws: "others_keep_secrets E V" and updates: "updates_answered E"
    and found: "fst (e_get_sare E req (world s)) = Inr sare0" "sareDeletionTimestamp sare0 = None"
    and add: "e_add_finalizer E sare0 finalizer = (sare, added)"
  obtains s1 where "run_state (Reconcile E cfg req) s = run_state (reconcileCreateOrUpdate E (next_ptr s)) s1"
    "heap s1 (next_ptr s) = sare" "V (world s1) = V (world s)" "silent s s1"
proof -
  let ?s1 = "s\<lparr>world := snd (e_get_sare E req (world s)), trace := trace s @ [Get_Sare req (Inr sare0)],
      next_ptr := Suc (next_ptr s), heap := (heap s)(next_ptr s := sare)\<rparr>"
  show thesis
  proof (cases added)
    case False
    show thesis
      by (rule that [of ?s1])
        (use found add False laws in \<open>auto simp: Reconcile_def run_simps getSare_def run_io io_st_def silent_def\<close>)
  next
    case True
    show thesis
      by (rule that [of "s\<lparr>next_ptr := Suc (next_ptr s), world := snd (e_update_sare E sare (snd (e_get_sare E req (world s)))),
          trace := trace s @ [Get_Sare req (Inr sare0), Update_Sare sare (None, sare)], heap := (heap s)(next_ptr s := sare)\<rparr>"])
        (use found add True laws updates in \<open>auto simp: Reconcile_def run_simps getSare_def updateSare_def run_io io_st_def
           silent_def updates_answered_def split: prod.splits\<close>)
  qed
qed


text \<open>Everything that has to answer for one reconcile of this SARE.\<close>

definition answering ::
  "'w env \<Rightarrow> ('w \<Rightarrow> secret_view) \<Rightarrow> sare \<Rightarrow> http_producer \<Rightarrow> string \<Rightarrow> http_response \<Rightarrow> bool" where
  "answering E V sare http apiKey resp \<longleftrightarrow> reads_answered E V \<and> writes_answered E V sare \<and> patches_answered E \<and>
     updates_answered E \<and> producer_answers E sare http apiKey resp"

lemma Reconcile_ready:
  assumes laws: "secret_laws E V" "others_keep_secrets E V"
    and answering: "answering E V sare http apiKey resp" and ok: "accepted resp answer"
    and found: "fst (e_get_sare E req (world s)) = Inr sare0" "sareDeletionTimestamp sare0 = None"
    and add: "e_add_finalizer E sare0 finalizer = (sare, added)"
    and prep: "prepared E (V (world s)) sare http apiKey"
    and run: "run_state (Reconcile E cfg req) s = (r, t)"
  defines "b \<equiv> V (world s) (secret_key sare) \<noteq> None"
  shows "r = Returned (no_result, None) \<and>
    (\<exists>x. last (trace t) = Patch_Sare_Status sare x (None, x) \<and> reports_ready E sare x) \<and>
    achieved E sare answer (V (world s)) (V (world t)) \<and>
    filter is_http (new_calls s t) = [Http_Do (put_request http apiKey sare b) (Inr resp)]"
proof -
  from answering have answers: "reads_answered E V" "writes_answered E V sare" "patches_answered E"
    and updates: "updates_answered E" and producer: "producer_answers E sare http apiKey resp"
    by (simp_all add: answering_def)
  obtain s1 where eq: "run_state (Reconcile E cfg req) s = run_state (reconcileCreateOrUpdate E (next_ptr s)) s1"
    and sare: "heap s1 (next_ptr s) = sare" and v: "V (world s1) = V (world s)" and q: "silent s s1"
    using Reconcile_start [OF laws(2) updates found add, of cfg] by blast
  have run1: "run_state (reconcileCreateOrUpdate E (next_ptr s)) s1 = (r, t)" using run eq by simp
  have done1: "r = Returned (no_result, None) \<and>
    (\<exists>x. last (trace t) = Patch_Sare_Status sare x (None, x) \<and> reports_ready E sare x) \<and>
    achieved E sare answer (V (world s)) (V (world t)) \<and>
    filter is_http (new_calls s1 t) = [Http_Do (put_request http apiKey sare b) (Inr resp)] \<and>
    (\<exists>cs. trace t = trace s1 @ cs)"
    unfolding b_def
    by (rule reconcile_ready [OF laws answers(1) _ answers(3) _ ok _ run1, unfolded sare v])
      (use answers(2) producer prep in simp_all)
  then obtain cs where "trace t = trace s1 @ cs" by blast
  with q have "filter is_http (new_calls s t) = filter is_http (new_calls s1 t)"
    by (auto simp: silent_def new_calls_def)
  with done1 show ?thesis by simp
qed

text \<open>C1: one reconcile is enough. Suppose that the API server obeys its laws for secrets (a call about anything else leaves them alone), answers every read of a secret, carries out every update of a secret whose callback succeeds, accepts the SARE as owner of a secret that has no owner or that the SARE controls, and answers every update and every status patch of a SARE with the object it was sent. Suppose that the SARE that is read is not being deleted; that the secret under its name is absent or controlled by it; that there is no secret to migrate from; that its rotation expression is valid if it enables rotation; that the producer it names can be read, has an endpoint that parses and its API key in its auth secret, and answers the PUT for this SARE with 204, or with 200 or 201 and a body that decodes. Then one \<open>Reconcile\<close> returns without an error and without a requeue. It has sent exactly one request, the PUT that asks for a rotation exactly if there was no secret; the secret of the SARE is controlled by it and contains the answered credentials (after a 204 or null no secret has changed); no other secret has changed; and the last call reports the account as ready, with the name of the secret.\<close>
theorem one_reconcile_is_enough:
  assumes laws: "secret_laws E V" "others_keep_secrets E V"
    and answering: "answering E V sare http apiKey resp" and ok: "accepted resp answer"
    and found: "fst (e_get_sare E req (world s)) = Inr sare0" "sareDeletionTimestamp sare0 = None"
    and add: "e_add_finalizer E sare0 finalizer = (sare, added)"
    and prep: "prepared E (V (world s)) sare http apiKey"
    and run: "run_state (Reconcile E cfg req) s = (r, t)"
  shows "r = Returned (no_result, None) \<and>
    (\<exists>x. last (trace t) = Patch_Sare_Status sare x (None, x) \<and> reports_ready E sare x) \<and>
    achieved E sare answer (V (world s)) (V (world t)) \<and>
    filter is_http (new_calls s t) =
      [Http_Do (put_request http apiKey sare (V (world s) (secret_key sare) \<noteq> None)) (Inr resp)]"
  by (rule Reconcile_ready [OF assms])

section \<open>A rotation ends with a new secret\<close>

definition deletes_answered :: "'w env \<Rightarrow> ('w \<Rightarrow> secret_view) \<Rightarrow> bool" where
  "deletes_answered E V \<longleftrightarrow> (\<forall>n w. V w n \<noteq> None \<longrightarrow> fst (e_delete_secret E n w) = None)"

lemma rotation_deletes:
  assumes laws: "secret_laws E V" "others_keep_secrets E V"
    and reads: "reads_answered E V" and deletes: "deletes_answered E V" and patches: "patches_answered E"
    and there: "V (world s) (secret_key (heap s p)) = Some x" and own: "e_is_controlled_by E x (heap s p)"
    and run: "run_state (rotateSaSecret E p) s = (r, t)"
  shows "r = (0, None) \<and> V (world t) = (V (world s))(secret_key (heap s p) := None)"
proof -
  let ?k = "secret_key (heap s p)"
  have c: "check_answer E (heap s p) (world s) = (True, resolveSecretName (heap s p), None)"
    using check_passes [OF reads, of "heap s p" "world s"] there own by (simp add: mine_def)
  define s2 where "s2 = patched E p (heap s p) (rotating_sare E (heap s p)) (checked E (heap s p) s)"
  have v2: "V (world s2) = V (world s)" using laws view_checked [OF laws(1), of "heap s p" s] by (simp add: s2_def read_lawD secret_lawsD)
  have k2: "secret_key (heap s2 p) = ?k" using patches by (simp add: s2_def rotating_key patches_answered_def)
  have d: "fst (e_delete_secret E ?k (world s2)) = None" using deletes there v2 by (simp add: deletes_answered_def)
  from run c d show ?thesis
    using delete_lawD(1) [OF secret_lawsD(2) [OF laws(1)] d] v2
    by (auto simp: run_rotateSaSecret Let_def s2_def [symmetric] k2 delete_answer_def)
qed

lemma prepared_after_rotation:
  assumes "prepared E v sare http apiKey"
    and "nn (sareNamespace sare) (hpAuthSecretName http) \<noteq> secret_key sare"
  shows "prepared E (v(secret_key sare := None)) sare http apiKey"
  using assms by (auto simp: prepared_def mine_def api_key_def no_migration_def)

text \<open>A rotation is completed. Under the same assumptions, if the SARE controls its secret and the API server carries out deletions: a rotation job of the SARE succeeds and removes the secret; and the reconcile that the removal wakes up asks the producer for a rotation and creates the secret anew, with the credentials of the answer, as the only secret that is different from before.\<close>
lemma rotation_cycle:
  assumes laws: "secret_laws E V" "others_keep_secrets E V"
    and answering: "answering E V sare http apiKey resp" and ok: "accepted resp (Some c)"
    and deletes: "deletes_answered E V"
    and prep: "prepared E (V (world s)) sare http apiKey"
    and key: "nn (sareNamespace sare) (hpAuthSecretName http) \<noteq> secret_key sare"
    and there: "V (world s) (secret_key sare) = Some x" and own: "e_is_controlled_by E x (heap s p)"
    and captured: "secret_key (heap s p) = secret_key sare"
    and job: "run_state (rotateSaSecret E p) s = (done_code, s1)"
    and found: "fst (e_get_sare E req (world s1)) = Inr sare0" "sareDeletionTimestamp sare0 = None"
    and add: "e_add_finalizer E sare0 finalizer = (sare, added)"
    and run: "run_state (Reconcile E cfg req) s1 = (r, t)"
  shows "done_code = (0, None) \<and> V (world s1) (secret_key sare) = None \<and>
    r = Returned (no_result, None) \<and>
    filter is_http (new_calls s1 t) = [Http_Do (put_request http apiKey sare False) (Inr resp)] \<and>
    (\<exists>y. V (world t) = (V (world s))(secret_key sare \<mapsto> y) \<and> e_is_controlled_by E y sare \<and> serves y c)"
proof -
  have reads: "reads_answered E V" and patches: "patches_answered E" using answering by (simp_all add: answering_def)
  have gone: "done_code = (0, None) \<and> V (world s1) = (V (world s))(secret_key sare := None)"
    using rotation_deletes [OF laws reads deletes patches _ own job] there captured by simp
  have prep1: "prepared E (V (world s1)) sare http apiKey"
    using prepared_after_rotation [OF prep key] gone by simp
  have done1: "r = Returned (no_result, None) \<and> achieved E sare (Some c) (V (world s1)) (V (world t)) \<and>
    filter is_http (new_calls s1 t) = [Http_Do (put_request http apiKey sare False) (Inr resp)]"
    using Reconcile_ready [OF laws answering ok found add prep1 run] gone by (simp add: fun_upd_def)
  then obtain y where y: "V (world t) (secret_key sare) = Some y" "e_is_controlled_by E y sare" "serves y c"
    and others: "\<forall>k. k \<noteq> secret_key sare \<longrightarrow> V (world t) k = V (world s) k"
    using gone by (auto simp: achieved_def)
  from y(1) others have "V (world t) = (V (world s))(secret_key sare \<mapsto> y)" by (auto simp: fun_eq_iff)
  with y gone done1 show ?thesis by auto
qed

section \<open>Witnesses\<close>

text \<open>The simulated cluster on a day when every call is answered.\<close>


definition calm_response :: http_response where
  "calm_response = ex_response 200 (''{'' @ goQuote ''user'' @ '':'' @ goQuote ''alice'' @ ''}'')"

definition calmE :: "sim env" where
  "calmE = simE\<lparr>e_get_sare := (\<lambda>n w. (Inr ex_sare, w)), e_get_sapr := (\<lambda>n w. (Inr ex_sapr, w)), e_http_do := (\<lambda>r w. (Inr calm_response, w)),
     e_update_sare := (\<lambda>x w. ((None, x), w)), e_patch_sare_status := (\<lambda>b x w. ((None, x), w)),
     e_delete_secret := (\<lambda>n w. sim_delete_secret n (w\<lparr>simDeleteFails := False\<rparr>))\<rparr>"

lemma calmE_fields:
  "e_get_sare calmE = (\<lambda>n w. (Inr ex_sare, w))" "e_list_sares calmE = e_list_sares simE"
  "e_patch_sapr_status calmE = e_patch_sapr_status simE" "e_now calmE = e_now simE"
  "e_get_secret calmE = e_get_secret simE" "e_create_or_update_secret calmE = e_create_or_update_secret simE"
  "e_is_controlled_by calmE = e_is_controlled_by simE"
  "e_set_controller_reference calmE = e_set_controller_reference simE"
  "e_get_sapr calmE = (\<lambda>n w. (Inr ex_sapr, w))" "e_http_do calmE = (\<lambda>r w. (Inr calm_response, w))"
  "e_update_sare calmE = (\<lambda>x w. ((None, x), w))" "e_patch_sare_status calmE = (\<lambda>b x w. ((None, x), w))"
  "e_delete_secret calmE = (\<lambda>n w. sim_delete_secret n (w\<lparr>simDeleteFails := False\<rparr>))"
  by (simp_all add: calmE_def)

lemma calm_delete_law: "delete_law calmE sim_secret"
proof -
  have same: "sim_secret (w\<lparr>simDeleteFails := f\<rparr>) = sim_secret w" for w f by (simp add: sim_secret_def fun_eq_iff)
  have gone: "sim_secret (w\<lparr>simDeleteFails := f, simSecrets := AList.delete n (simSecrets w)\<rparr>) = (sim_secret w)(n := None)" for w n f
    by (rule ext) (simp add: sim_secret_def AList.delete_conv')
  show ?thesis
    by (auto simp: delete_law_def calmE_fields sim_delete_secret_def not_found_def same gone split: option.splits)
qed

lemma calm_laws: "secret_laws calmE sim_secret" "others_keep_secrets calmE sim_secret"
proof -
  show "secret_laws calmE sim_secret"
    using sim_laws calm_delete_law unfolding secret_laws_def read_law_def upsert_law_def owner_law_def calmE_fields by blast
  show "others_keep_secrets calmE sim_secret"
    using sim_others unfolding others_keep_secrets_def calmE_fields by (simp add: kept_def)
qed

definition calm_http :: http_producer where
  "calm_http = the (saprHTTP ex_sapr)"

lemma calm_cluster:
  "reads_answered calmE sim_secret" "writes_answered calmE sim_secret sare" "patches_answered calmE" "updates_answered calmE"
proof -
  show "reads_answered calmE sim_secret"
    by (auto simp: reads_answered_def calmE_fields sim_get_secret_def not_found_def split: option.splits)
  show "writes_answered calmE sim_secret sare"
    unfolding writes_answered_def calmE_fields
    by (auto simp: sim_upsert_secret_def upsert_base_def Let_def sim_set_controller_reference_def controller_of_def
        sim_is_controlled_by_def split: option.splits sum.splits)
  show "patches_answered calmE" "updates_answered calmE"
    by (simp_all add: patches_answered_def updates_answered_def calmE_fields)
qed

lemma calm_url: "\<exists>u. url_parse (hpEndpoint calm_http) = Inr u"
  by (rule exI) code_simp

lemma calm_answering: "answering calmE sim_secret ex_sare calm_http ''K'' calm_response"
proof -
  have "producer_answers calmE ex_sare calm_http ''K'' calm_response"
    using calm_url by (auto simp: producer_answers_def calmE_fields calm_http_def ex_sapr_def)
  with calm_cluster show ?thesis by (simp add: answering_def)
qed

text \<open>The service account request \<open>ns/r\<close>, with no secret yet and with one that is to be rotated.\<close>

definition calm_st :: "(nname \<times> secret) list \<Rightarrow> sim st" where
  "calm_st secrets = ex_st (ex_world secrets (Inr calm_response))"

definition calm_old :: "sim st" where
  "calm_old = calm_st [(nn ''ns'' ''r'', ex_secret ''u1'' [(''user'', ''old'')])]"

lemma calm_prepared: "prepared calmE (sim_secret (world (calm_st []))) ex_sare calm_http ''K''"
  "prepared calmE (sim_secret (world calm_old)) ex_sare calm_http ''K''"
  by code_simp+

lemma calm_found: "e_add_finalizer calmE ex_sare finalizer = (ex_sare, False)" "sareDeletionTimestamp ex_sare = None"
  by code_simp+

theorem one_reconcile_is_enough_witness:
  "\<exists>x. sim_secret (world (snd (run_state (Reconcile calmE ex_cfg (nn ''ns'' ''r'')) (calm_st [])))) (nn ''ns'' ''r'') = Some x \<and>
     serves x [(''user'', ''alice'')]"
proof -
  have ok: "accepted calm_response (Some [(''user'', ''alice'')])" by code_simp
  have found: "fst (e_get_sare calmE (nn ''ns'' ''r'') (world (calm_st []))) = Inr ex_sare" by (simp add: calmE_fields)
  have key: "secret_key ex_sare = nn ''ns'' ''r''"
    by (simp add: secret_key_def resolveSecretName_def ex_sare_def ex_spec_def)
  from one_reconcile_is_enough [OF calm_laws calm_answering ok found calm_found(2,1) calm_prepared(1) prod.collapse [symmetric]]
  show ?thesis by (auto simp: achieved_def key)
qed

end
