(* ===== verification/Request_Fleet.thy ===== *)
theory Request_Fleet
  imports Request_Progress
begin

text \<open>
  Many service accounts at once: the work queue hands out requests in any order and as often as it
  likes, and the accounts do not disturb each other.
\<close>

text \<open>An account: the request in the queue, a version of its SARE, and what its producer answers.\<close>

record account =
  acReq :: nname
  acSare :: sare
  acHttp :: http_producer
  acApiKey :: string
  acResp :: http_response
  acCreds :: strmap

abbreviation account_key :: "account \<Rightarrow> nname" where
  "account_key a \<equiv> secret_key (acSare a)"

text \<open>Versions of one SARE: the status, the finalizers and the generation may differ.\<close>

definition same_identity :: "sare \<Rightarrow> sare \<Rightarrow> bool" where
  "same_identity x y \<longleftrightarrow> sareName x = sareName y \<and> sareNamespace x = sareNamespace y \<and> sareUID x = sareUID y \<and>
     sareLabels x = sareLabels y \<and> sareSpec x = sareSpec y"

text \<open>\<open>metav1.IsControlledBy\<close> compares UIDs.\<close>

definition control_by_uid :: "'w env \<Rightarrow> bool" where
  "control_by_uid E \<longleftrightarrow> (\<forall>s x y. sareUID x = sareUID y \<longrightarrow> e_is_controlled_by E s x = e_is_controlled_by E s y)"

definition answers_account :: "'w env \<Rightarrow> ('w \<Rightarrow> secret_view) \<Rightarrow> account \<Rightarrow> bool" where
  "answers_account E V a \<longleftrightarrow> accepted (acResp a) (Some (acCreds a)) \<and>
     (\<forall>x. same_identity x (acSare a) \<longrightarrow> answering E V x (acHttp a) (acApiKey a) (acResp a)) \<and>
     (\<forall>w. \<exists>x0 x added. fst (e_get_sare E (acReq a) w) = Inr x0 \<and> sareDeletionTimestamp x0 = None \<and>
        e_add_finalizer E x0 finalizer = (x, added) \<and> same_identity x (acSare a))"

text \<open>The secrets an account only reads.\<close>

definition account_inputs :: "account \<Rightarrow> nname set" where
  "account_inputs a = {nn (sareNamespace (acSare a)) (hpAuthSecretName (acHttp a)),
     nn (sareNamespace (acSare a)) (MigrationSecretName (acSare a))}"

definition apart :: "account list \<Rightarrow> bool" where
  "apart as \<longleftrightarrow> (\<forall>a \<in> set as. \<forall>b \<in> set as. account_key b \<notin> account_inputs a \<and> (account_key a = account_key b \<longrightarrow> a = b))"

definition account_prepared :: "'w env \<Rightarrow> secret_view \<Rightarrow> account \<Rightarrow> bool" where
  "account_prepared E v a \<longleftrightarrow> prepared E v (acSare a) (acHttp a) (acApiKey a)"

definition served :: "'w env \<Rightarrow> secret_view \<Rightarrow> account \<Rightarrow> bool" where
  "served E v a \<longleftrightarrow> (\<exists>x. v (account_key a) = Some x \<and> e_is_controlled_by E x (acSare a) \<and> serves x (acCreds a))"

text \<open>The queue hands out the requests one by one.\<close>

fun reconcile_each ::
  "'w env \<Rightarrow> operator_config \<Rightarrow> nname list \<Rightarrow> ('w, (ctrl_result \<times> gerr option) outcome list) op" where
  "reconcile_each E cfg [] = ret []"
| "reconcile_each E cfg (req # reqs) = do {
     r \<leftarrow> Reconcile E cfg req;
     rs \<leftarrow> reconcile_each E cfg reqs;
     ret (r # rs)
   }"

section \<open>One account\<close>

lemma identity_fields:
  assumes "same_identity x y"
  shows "secret_key x = secret_key y" "rotation_expr x = rotation_expr y" "MigrationSecretName x = MigrationSecretName y"
    "sareNamespace x = sareNamespace y" "sareUID x = sareUID y"
  using assms by (simp_all add: same_identity_def secret_key_def resolveSecretName_def rotation_expr_def MigrationSecretName_def
      split: option.split)

lemma controlled_identity:
  "control_by_uid E \<Longrightarrow> same_identity x y \<Longrightarrow> e_is_controlled_by E s x = e_is_controlled_by E s y"
  unfolding control_by_uid_def using identity_fields(5) by blast

lemma prepared_identity:
  assumes "control_by_uid E" and "same_identity x y" and "prepared E v y http apiKey"
  shows "prepared E v x http apiKey"
  using assms(3) controlled_identity [OF assms(1,2)]
  by (simp add: prepared_def mine_def api_key_def no_migration_def identity_fields [OF assms(2)] split: option.splits)

text \<open>Being prepared depends on the own secret and the inputs only.\<close>

lemma prepared_elsewhere:
  assumes "account_prepared E v a" and "\<forall>k \<in> account_inputs a. v' k = v k"
    and "v' (account_key a) = v (account_key a) \<or> served E v' a"
  shows "account_prepared E v' a"
  using assms
  by (auto simp: account_prepared_def prepared_def mine_def api_key_def no_migration_def account_inputs_def served_def
      split: option.splits)

lemma account_reconciled:
  assumes laws: "secret_laws E V" "others_keep_secrets E V" and uid: "control_by_uid E"
    and a: "answers_account E V a" "account_prepared E (V (world s)) a"
    and run: "run_state (Reconcile E cfg (acReq a)) s = (r, t)"
  shows "r = Returned (no_result, None) \<and> served E (V (world t)) a \<and>
    (\<forall>k. k \<noteq> account_key a \<longrightarrow> V (world t) k = V (world s) k)"
proof -
  from a(1) obtain x0 x added where found: "fst (e_get_sare E (acReq a) (world s)) = Inr x0" "sareDeletionTimestamp x0 = None"
    and add: "e_add_finalizer E x0 finalizer = (x, added)" and x: "same_identity x (acSare a)"
    unfolding answers_account_def by blast
  have answers: "answering E V x (acHttp a) (acApiKey a) (acResp a)" "accepted (acResp a) (Some (acCreds a))"
    using a(1) x by (auto simp: answers_account_def)
  have prep: "prepared E (V (world s)) x (acHttp a) (acApiKey a)"
    using prepared_identity [OF uid x] a(2) by (simp add: account_prepared_def)
  from Reconcile_ready [OF laws answers found add prep run] show ?thesis
    using controlled_identity [OF uid x] by (auto simp: achieved_def served_def identity_fields [OF x])
qed

section \<open>All accounts\<close>

lemma served_elsewhere: "served E v a \<Longrightarrow> v' (account_key a) = v (account_key a) \<Longrightarrow> served E v' a"
  by (simp add: served_def)

lemma fleet_step:
  assumes laws: "secret_laws E V" "others_keep_secrets E V" and uid: "control_by_uid E"
    and answers: "\<forall>a \<in> set as. answers_account E V a" and apart: "apart as" and a: "a \<in> set as"
    and prep: "\<forall>b \<in> set as. account_prepared E (V (world s)) b"
    and run: "run_state (Reconcile E cfg (acReq a)) s = (r, t)"
  shows "\<forall>b \<in> set as. account_prepared E (V (world t)) b"
    and "\<forall>b \<in> set as. served E (V (world s)) b \<longrightarrow> served E (V (world t)) b"
proof -
  note one = account_reconciled [OF laws uid _ _ run] answers a prep
  then have r: "served E (V (world t)) a" "\<forall>k. k \<noteq> account_key a \<longrightarrow> V (world t) k = V (world s) k" by blast+
  have key: "account_key b = account_key a \<longrightarrow> b = a" and inputs: "account_key a \<notin> account_inputs b" if "b \<in> set as" for b
    using apart a that unfolding apart_def by blast+
  show "\<forall>b \<in> set as. account_prepared E (V (world t)) b"
  proof
    fix b assume b: "b \<in> set as"
    show "account_prepared E (V (world t)) b"
    proof (rule prepared_elsewhere)
      show "account_prepared E (V (world s)) b" using prep b by blast
      show "\<forall>k \<in> account_inputs b. V (world t) k = V (world s) k" using inputs [OF b] r(2) by metis
      show "V (world t) (account_key b) = V (world s) (account_key b) \<or> served E (V (world t)) b"
        using key [OF b] r by metis
    qed
  qed
  show "\<forall>b \<in> set as. served E (V (world s)) b \<longrightarrow> served E (V (world t)) b"
    using key r served_elsewhere by metis
qed

lemma fleet_run:
  assumes laws: "secret_laws E V" "others_keep_secrets E V" and uid: "control_by_uid E"
    and answers: "\<forall>a \<in> set as. answers_account E V a" and apart: "apart as"
  shows "set bs \<subseteq> set as \<Longrightarrow> \<forall>b \<in> set as. account_prepared E (V (world s)) b \<Longrightarrow>
    run_state (reconcile_each E cfg (map acReq bs)) s = (rs, t) \<Longrightarrow>
      rs = replicate (length bs) (Returned (no_result, None)) \<and>
      (\<forall>b \<in> set as. b \<in> set bs \<or> served E (V (world s)) b \<longrightarrow> served E (V (world t)) b) \<and>
      (\<forall>k. k \<notin> account_key ` set bs \<longrightarrow> V (world t) k = V (world s) k)"
proof (induction bs arbitrary: s rs)
  case (Cons a bs)
  obtain r u where r: "run_state (Reconcile E cfg (acReq a)) s = (r, u)" by fastforce
  obtain rs' where rs: "run_state (reconcile_each E cfg (map acReq bs)) u = (rs', t)" "rs = r # rs'"
    using Cons.prems(3) r by (auto split: prod.splits)
  from Cons.prems(1) have a: "a \<in> set as" "set bs \<subseteq> set as" by auto
  note step = fleet_step [OF laws uid answers apart a(1) Cons.prems(2) r]
  have one: "r = Returned (no_result, None) \<and> served E (V (world u)) a \<and>
      (\<forall>k. k \<noteq> account_key a \<longrightarrow> V (world u) k = V (world s) k)"
    using account_reconciled [OF laws uid _ _ r] answers Cons.prems(2) a(1) by blast
  note IH = Cons.IH [OF a(2) step(1) rs(1)]
  show ?case using one IH step(2) rs(2) by auto
qed auto

text \<open>C4: the accounts do not disturb each other. Let any number of SAREs be given in a cluster whose API server obeys its laws for secrets (a call about anything else leaves them alone), answers every read of a secret, carries out every update of a secret whose callback succeeds, accepts a SARE as owner of a secret that has no owner or that the SARE controls, answers every update and status patch of a SARE with the object it was sent, and decides control by the UID. For each SARE suppose: the API server always returns a version of it that is not being deleted, with the same name, namespace, UID, labels and spec, which adding the finalizer does not change; the secret under its name is at the start absent or controlled by it; there is no secret to migrate from; its rotation expression is valid if it enables rotation; the producer it names can be read, has an endpoint that parses and its API key in its auth secret, and answers each of its PUTs with the same credentials. And suppose that no two of them have the same secret, and that the secret of none is the auth secret or the migration secret of one of them. Then, in whatever order and however often the queue hands out their requests, every reconcile succeeds, in the end the secret of each SARE that had its turn is controlled by it and contains the credentials its producer answered, and no other secret has changed.\<close>
theorem every_account_served:
  assumes laws: "secret_laws E V" "others_keep_secrets E V" and uid: "control_by_uid E"
    and answers: "\<forall>a \<in> set as. answers_account E V a" and apart: "apart as"
    and prep: "\<forall>a \<in> set as. account_prepared E (V (world s)) a"
    and run: "run_state (reconcile_each E cfg (map acReq as)) s = (rs, t)"
  shows "rs = replicate (length as) (Returned (no_result, None)) \<and> (\<forall>a \<in> set as. served E (V (world t)) a) \<and>
    (\<forall>k. k \<notin> account_key ` set as \<longrightarrow> V (world t) k = V (world s) k)"
  using fleet_run [OF laws uid answers apart subset_refl prep run] by blast

section \<open>Witness\<close>

text \<open>Two SAREs of one producer, with different answers; the first has its turn twice.\<close>

definition second_sare :: sare where
  "second_sare = ex_sare\<lparr>sareName := ''s'', sareUID := ''u9'', sareSpec := ex_spec\<lparr>srConsumer := ''d''\<rparr>\<rparr>"

definition second_response :: http_response where
  "second_response = ex_response 200 (''{'' @ goQuote ''user'' @ '':'' @ goQuote ''bob'' @ ''}'')"

definition second_bodies :: "string list" where
  "second_bodies = map (\<lambda>b. hrBody (put_request calm_http ''K'' second_sare b)) [False, True]"

definition pairE :: "sim env" where
  "pairE = calmE\<lparr>e_get_sare := (\<lambda>n w. (Inr (if nnName n = ''s'' then second_sare else ex_sare), w)),
     e_http_do := (\<lambda>r w. (Inr (if hrBody r \<in> set second_bodies then second_response else calm_response), w))\<rparr>"

lemma pairE_fields:
  "e_get_sare pairE = (\<lambda>n w. (Inr (if nnName n = ''s'' then second_sare else ex_sare), w))"
  "e_http_do pairE = (\<lambda>r w. (Inr (if hrBody r \<in> set second_bodies then second_response else calm_response), w))"
  "e_list_sares pairE = e_list_sares calmE" "e_get_sapr pairE = e_get_sapr calmE"
  "e_patch_sapr_status pairE = e_patch_sapr_status calmE" "e_now pairE = e_now calmE"
  "e_get_secret pairE = e_get_secret calmE" "e_create_or_update_secret pairE = e_create_or_update_secret calmE"
  "e_is_controlled_by pairE = e_is_controlled_by calmE"
  "e_set_controller_reference pairE = e_set_controller_reference calmE"
  "e_update_sare pairE = e_update_sare calmE" "e_patch_sare_status pairE = e_patch_sare_status calmE"
  "e_delete_secret pairE = e_delete_secret calmE"
  by (simp_all add: pairE_def)

lemma pair_laws: "secret_laws pairE sim_secret" "others_keep_secrets pairE sim_secret" "control_by_uid pairE"
proof -
  show "secret_laws pairE sim_secret"
    using calm_laws(1) unfolding secret_laws_def read_law_def delete_law_def upsert_law_def owner_law_def pairE_fields .
  show "others_keep_secrets pairE sim_secret"
    using calm_laws(2) unfolding others_keep_secrets_def pairE_fields by (simp add: kept_def calmE_fields)
  show "control_by_uid pairE"
    unfolding control_by_uid_def pairE_fields calmE_fields by (simp add: sim_is_controlled_by_def split: option.split)
qed

definition first_account :: account where
  "first_account = \<lparr>acReq = nn ''ns'' ''r'', acSare = ex_sare, acHttp = calm_http, acApiKey = ''K'',
     acResp = calm_response, acCreds = [(''user'', ''alice'')]\<rparr>"

definition second_account :: account where
  "second_account = \<lparr>acReq = nn ''ns'' ''s'', acSare = second_sare, acHttp = calm_http, acApiKey = ''K'',
     acResp = second_response, acCreds = [(''user'', ''bob'')]\<rparr>"

lemma put_identity: "same_identity x y \<Longrightarrow> put_request http apiKey x b = put_request http apiKey y b"
  by (simp add: same_identity_def put_request_def)

lemma pair_answering:
  assumes "same_identity x (acSare a)" and "a = first_account \<or> a = second_account"
  shows "answering pairE sim_secret x (acHttp a) (acApiKey a) (acResp a)"
proof -
  have "\<forall>b. hrBody (put_request calm_http ''K'' ex_sare b) \<notin> set second_bodies"
    "\<forall>b. hrBody (put_request calm_http ''K'' second_sare b) \<in> set second_bodies" by code_simp+
  then have "producer_answers pairE x (acHttp a) (acApiKey a) (acResp a)"
    using assms(2) calm_url unfolding producer_answers_def put_identity [OF assms(1)]
    by (auto simp: pairE_fields calmE_fields calm_http_def ex_sapr_def first_account_def second_account_def)
  with calm_cluster(1,3,4) calm_cluster(2) [of x] show ?thesis
    unfolding answering_def reads_answered_def writes_answered_def patches_answered_def updates_answered_def pairE_fields by simp
qed

lemma pair_facts:
  "\<forall>a \<in> set [first_account, second_account]. accepted (acResp a) (Some (acCreds a)) \<and>
     account_prepared pairE (sim_secret (world (calm_st []))) a \<and>
     fst (e_get_sare pairE (acReq a) (world (calm_st []))) = Inr (acSare a) \<and>
     sareDeletionTimestamp (acSare a) = None \<and> e_add_finalizer pairE (acSare a) finalizer = (acSare a, False)"
  "apart [first_account, second_account, first_account]"
  by code_simp+

lemma pair_answers: "\<forall>a \<in> set [first_account, second_account]. answers_account pairE sim_secret a"
proof
  fix a assume a: "a \<in> set [first_account, second_account]"
  have "\<forall>w. fst (e_get_sare pairE (acReq a) w) = Inr (acSare a)"
    using a by (auto simp: pairE_fields first_account_def second_account_def)
  with a pair_facts(1) pair_answering [of _ a] show "answers_account pairE sim_secret a"
    unfolding answers_account_def by (auto simp: same_identity_def)
qed

theorem every_account_served_witness:
  "let t = snd (run_state (reconcile_each pairE ex_cfg [nn ''ns'' ''r'', nn ''ns'' ''s'', nn ''ns'' ''r'']) (calm_st []))
   in served pairE (sim_secret (world t)) first_account \<and> served pairE (sim_secret (world t)) second_account"
proof -
  let ?as = "[first_account, second_account, first_account]"
  have reqs: "map acReq ?as = [nn ''ns'' ''r'', nn ''ns'' ''s'', nn ''ns'' ''r'']"
    by (simp add: first_account_def second_account_def)
  have "\<forall>a \<in> set ?as. answers_account pairE sim_secret a"
    "\<forall>a \<in> set ?as. account_prepared pairE (sim_secret (world (calm_st []))) a" using pair_answers pair_facts(1) by simp_all
  from every_account_served [OF pair_laws this(1) pair_facts(2) this(2) prod.collapse [symmetric], of ex_cfg]
  show ?thesis unfolding reqs Let_def by simp
qed

end
