(* ===== verification/Request_Migration.thy ===== *)
theory Request_Migration
  imports Request_Report
begin

text \<open>
  The credentials of a migrated dogu: what is taken from its migration secret and when the
  migration counts as incomplete.
\<close>

section \<open>Reading the migration secret\<close>

lemma collect_credentials_map:
  "wf_map data \<Longrightarrow> map_of (collect_credentials prefix data m) k =
     (case map_of data (prefix @ k) of Some v \<Rightarrow> Some v | None \<Rightarrow> map_of m k)"
proof (induction prefix data m rule: collect_credentials.induct)
  case (1 prefix credentials)
  then show ?case by simp
next
  case (2 prefix key v data credentials)
  then have wf: "wf_map data" and key: "key \<notin> fst ` set data" by (simp_all add: wf_map_def)
  show ?case
  proof (cases "cutPrefix key prefix")
    case None
    then have "key \<noteq> prefix @ k" by (auto simp: cutPrefix_None hasPrefix_iff)
    with None 2 wf show ?thesis by simp
  next
    case (Some attribute)
    then have key': "key = prefix @ attribute" by (simp add: cutPrefix_Some)
    with key have "map_of data (prefix @ attribute) = None" by (simp add: map_of_eq_None_iff)
    with Some 2 wf key' show ?thesis by (auto split: option.splits)
  qed
qed

lemma collect_empty_iff:
  "wf_map data \<Longrightarrow> collect_credentials prefix data [] = [] \<longleftrightarrow> (\<forall>k. map_of data (prefix @ k) = None)"
proof -
  assume wf: "wf_map data"
  have "collect_credentials prefix data [] = [] \<longleftrightarrow> (\<forall>k. map_of (collect_credentials prefix data []) k = None)"
    by (metis map_of_eq_empty_iff ext map_of.simps(1))
  with collect_credentials_map [OF wf] show ?thesis by (simp split: option.splits) 
qed

lemma collect_missing_iff:
  "set (collect_missing prefix attributes credentials missing) =
     set missing \<union> {prefix @ a | a. a \<in> set attributes \<and> map_of credentials a = None}"
  by (induction prefix attributes credentials missing rule: collect_missing.induct) (auto split: option.splits)

text \<open>C24: what \<open>Credentials\<close> makes of a migration secret. Without a key for the producer there is nothing to migrate. With keys but a declared attribute missing the error is the incomplete-migration error. Otherwise the credentials are exactly the producer's entries with the prefix removed, at least one, all declared attributes among them.\<close>
theorem migrated_credentials_decision:
  assumes "wf_map data"
  shows "case migrated_credentials name prefix attributes data of
      Inl e \<Rightarrow> errors_is e Incomplete_Migration \<and> (\<exists>k. map_of data (prefix @ k) \<noteq> None) \<and>
        (\<exists>a \<in> set attributes. map_of data (prefix @ a) = None)
    | Inr None \<Rightarrow> \<forall>k. map_of data (prefix @ k) = None
    | Inr (Some c) \<Rightarrow> (\<forall>k. map_of c k = map_of data (prefix @ k)) \<and> c \<noteq> [] \<and>
        (\<forall>a \<in> set attributes. map_of c a \<noteq> None)"
proof -
  note c = collect_credentials_map [OF assms, of prefix "[]", simplified]
  have e: "collect_credentials prefix data [] = [] \<longleftrightarrow> (\<forall>k. map_of data (prefix @ k) = None)"
    by (rule collect_empty_iff [OF assms])
  have m: "collect_missing prefix attributes (collect_credentials prefix data []) [] = [] \<longleftrightarrow>
      (\<forall>a \<in> set attributes. map_of data (prefix @ a) \<noteq> None)"
    using collect_missing_iff [of prefix attributes "collect_credentials prefix data []" "[]"] c
    by (auto simp: set_empty [symmetric] simp del: set_empty split: option.splits)
  show ?thesis
    using e m c by (auto simp: migrated_credentials_def Let_def split: option.splits)
qed


lemma collect_missing_cong:
  "map_of c = map_of c' \<Longrightarrow> collect_missing prefix attributes c missing = collect_missing prefix attributes c' missing"
  by (induction prefix attributes c missing rule: collect_missing.induct) (auto split: option.splits)

lemma set_of_map_of: "wf_map m \<Longrightarrow> wf_map m' \<Longrightarrow> map_of m = map_of m' \<Longrightarrow> set m = set m'"
  by (simp add: wf_map_def map_of_inject_set)


lemma collect_skip:
  "list_all (\<lambda>kv. \<not> hasPrefix (fst kv) prefix) extra \<Longrightarrow>
     collect_credentials prefix (data @ extra) m = collect_credentials prefix data m"
proof (induction prefix data m rule: collect_credentials.induct)
  case (1 prefix credentials)
  then show ?case
  proof (induction extra)
    case (Cons kv extra)
    then show ?case by (cases kv) (auto simp: cutPrefix_None [symmetric])
  qed simp
qed (auto split: option.splits)

lemma prefix_until_separator:
  assumes "CHR ''_'' \<notin> set p" and "hasPrefix key (p @ ''_'')"
  shows "takeWhile (\<lambda>c. c \<noteq> CHR ''_'') key = p"
proof -
  from assms(2) obtain t where "key = p @ CHR ''_'' # t" by (auto simp: hasPrefix_iff)
  with assms(1) show ?thesis by (auto simp: takeWhile_append)
qed

text \<open>Producers whose names contain no underscore cannot read each other's entries of a shared migration secret: adding entries of another producer changes nothing. (Kubernetes names contain no underscore; without that, producer a would see the keys of producer a_b.)\<close>
theorem migration_keys_separate:
  assumes "CHR ''_'' \<notin> set (srProducer (sareSpec sare))" and "CHR ''_'' \<notin> set (srProducer (sareSpec other))"
    and "srProducer (sareSpec sare) \<noteq> srProducer (sareSpec other)"
    and "list_all (\<lambda>kv. hasPrefix (fst kv) (migration_prefix other)) keys"
  shows "migrated_credentials name (migration_prefix sare) attributes (data @ keys) =
    migrated_credentials name (migration_prefix sare) attributes data"
proof -
  have "list_all (\<lambda>kv. \<not> hasPrefix (fst kv) (migration_prefix sare)) keys"
    using assms prefix_until_separator unfolding migration_prefix_def migrationKeySeparator_def list_all_iff
    by metis
  then show ?thesis by (simp add: migrated_credentials_def collect_skip)
qed

theorem migrated_credentials_decision_witness:
  "errors_is (projl (migrated_credentials ''m'' ''p_'' [''a'', ''b''] [(''p_a'', ''1'')])) Incomplete_Migration"
proof -
  have "isl (migrated_credentials ''m'' ''p_'' [''a'', ''b''] [(''p_a'', ''1'')])" by code_simp
  with migrated_credentials_decision [where data = "[(''p_a'', ''1'')]" and name = "''m''" and prefix = "''p_''"
      and attributes = "[''a'', ''b'']"] show ?thesis
    by (auto simp: wf_map_def isl_def)
qed


theorem migration_keys_separate_witness:
  "migrated_credentials ''m'' (migration_prefix ex_sare) [''a''] ([(''p_a'', ''1'')] @ [(''q_a'', ''2'')]) =
     migrated_credentials ''m'' (migration_prefix ex_sare) [''a''] [(''p_a'', ''1'')]"
proof -
  let ?other = "ex_sare\<lparr>sareSpec := ex_spec\<lparr>srProducer := ''q''\<rparr>\<rparr>"
  have "CHR ''_'' \<notin> set (srProducer (sareSpec ex_sare))" "CHR ''_'' \<notin> set (srProducer (sareSpec ?other))"
    "srProducer (sareSpec ex_sare) \<noteq> srProducer (sareSpec ?other)"
    "list_all (\<lambda>kv. hasPrefix (fst kv) (migration_prefix ?other)) [(''q_a'', ''2'')]"
    by code_simp+
  then show ?thesis by (rule migration_keys_separate)
qed

end
