(* ===== verification/Request_Events.thy ===== *)
theory Request_Events
  imports Request_Deletion
begin

text \<open>
  The watcher keys, the enqueueing of requests on producer events, and the classification of
  the producers' answers.
\<close>

section \<open>Keys, events, statuses\<close>

lemma watcher_key_eq:
  assumes "sareNamespace a = sareNamespace b \<or>
    CHR ''-'' \<notin> set (sareNamespace a) \<and> CHR ''-'' \<notin> set (sareNamespace b)"
  shows "namespacedName a = namespacedName b \<longleftrightarrow> sareName a = sareName b \<and> sareNamespace a = sareNamespace b"
proof (cases "sareNamespace a = sareNamespace b")
  case True
  then show ?thesis by (simp add: namespacedName_def)
next
  case False
  with assms have d: "CHR ''-'' \<notin> set (rev (sareNamespace a))" "CHR ''-'' \<notin> set (rev (sareNamespace b))" by simp_all
  have "rev (sareNamespace a) = rev (sareNamespace b)" if "namespacedName a = namespacedName b"
  proof -
    from that have "cut (CHR ''-'') (rev (sareNamespace a) @ CHR ''-'' # rev (sareName a)) =
        cut (CHR ''-'') (rev (sareNamespace b) @ CHR ''-'' # rev (sareName b))"
      by (metis append_Cons append_Nil append_assoc namespacedName_def rev.simps(2) rev_append rev_rev_ident)
    then show ?thesis unfolding cut_at [OF d(1)] cut_at [OF d(2)] by simp
  qed
  with False show ?thesis by auto
qed

text \<open>C38: the key of the watcher map separates two SAREs whenever they are in the same namespace, or neither namespace contains a dash. In general it does not: there are SAREs of different namespaces with the same key, although the comment of \<open>namespacedName\<close> promises a key that is unique across namespaces.\<close>
theorem watcher_key:
  "(\<forall>a b. sareNamespace a = sareNamespace b \<or>
      CHR ''-'' \<notin> set (sareNamespace a) \<and> CHR ''-'' \<notin> set (sareNamespace b) \<longrightarrow>
      (namespacedName a = namespacedName b \<longleftrightarrow> sareName a = sareName b \<and> sareNamespace a = sareNamespace b)) \<and>
   (\<exists>a b. sareNamespace a \<noteq> sareNamespace b \<and> namespacedName a = namespacedName b)"
proof
  show "\<forall>a b. sareNamespace a = sareNamespace b \<or>
      CHR ''-'' \<notin> set (sareNamespace a) \<and> CHR ''-'' \<notin> set (sareNamespace b) \<longrightarrow>
      (namespacedName a = namespacedName b \<longleftrightarrow> sareName a = sareName b \<and> sareNamespace a = sareNamespace b)"
    using watcher_key_eq by blast
  have "namespacedName (ex_sare\<lparr>sareName := ''a'', sareNamespace := ''b-c''\<rparr>) =
      namespacedName (ex_sare\<lparr>sareName := ''a-b'', sareNamespace := ''c''\<rparr>)"
    by (simp add: namespacedName_def)
  then show "\<exists>a b. sareNamespace a \<noteq> sareNamespace b \<and> namespacedName a = namespacedName b"
    by (intro exI [of _ "ex_sare\<lparr>sareName := ''a'', sareNamespace := ''b-c''\<rparr>"]
        exI [of _ "ex_sare\<lparr>sareName := ''a-b'', sareNamespace := ''c''\<rparr>"]) simp
qed

theorem watcher_key_witness:
  "namespacedName (ex_sare\<lparr>sareName := ''a''\<rparr>) \<noteq> namespacedName (ex_sare\<lparr>sareName := ''b''\<rparr>)"
  using watcher_key [THEN conjunct1, rule_format, of "ex_sare\<lparr>sareName := ''a''\<rparr>" "ex_sare\<lparr>sareName := ''b''\<rparr>"]
  by simp

lemma requests_for_filter:
  "requests_for producer sares =
     map (\<lambda>x. nn (sareNamespace x) (sareName x)) (filter (\<lambda>x. srProducer (sareSpec x) = producer) sares)"
  by (induction producer sares rule: requests_for.induct) auto

text \<open>When a producer changes, exactly the SAREs of its namespace that name it as their producer are enqueued, in the order of the listing and by their own names; a failed listing enqueues none. The one call made is the listing.\<close>
theorem enqueue_exact:
  "run_state (enqueueRequestsForProducer E obj) s =
     ((case fst (e_list_sares E (nnNamespace obj) (world s)) of
         Inl err \<Rightarrow> []
       | Inr sares \<Rightarrow> map (\<lambda>x. nn (sareNamespace x) (sareName x))
           (filter (\<lambda>x. srProducer (sareSpec x) = nnName obj) sares)),
      io_st (e_list_sares E (nnNamespace obj)) (List_Sares (nnNamespace obj)) s)"
  by (simp add: enqueueRequestsForProducer_def listSares_def run_io requests_for_filter split: sum.split)

text \<open>How the four operations of the client classify the producer's answers. Exists: 200 is true, 404 is false. CreateOrUpdate: no change exactly for 204 and for a null body, credentials exactly for a 200 or 201 whose body decodes to them. Ready: anything but 401 below 500. Delete: 2xx and 404. Everything else is an error.\<close>
theorem status_classification:
  "(exists_status c resp = Inr True \<longleftrightarrow> respCode resp = 200) \<and>
   (exists_status c resp = Inr False \<longleftrightarrow> respCode resp = 404) \<and>
   (create_status c resp = Inr None \<longleftrightarrow> respCode resp = 204 \<or>
      respCode resp \<in> {200, 201} \<and> decode_strmap (respBody resp) (respReadErr resp) = Inr None) \<and>
   (create_status c resp = Inr (Some m) \<longleftrightarrow>
      respCode resp \<in> {200, 201} \<and> decode_strmap (respBody resp) (respReadErr resp) = Inr (Some m)) \<and>
   (ready_status c resp = None \<longleftrightarrow> respCode resp \<noteq> 401 \<and> respCode resp < 500) \<and>
   (delete_status c url resp = None \<longleftrightarrow> respCode resp = 404 \<or> 200 \<le> respCode resp \<and> respCode resp < 300)"
  by (auto simp: exists_status_def create_status_def ready_status_def delete_status_def split: sum.split)

end
