(* ===== verification/Request_Lifecycle.thy ===== *)
theory Request_Lifecycle
  imports Request_Progress Request_Deletion
begin

text \<open>
  The rest of a service account's life when nothing stands in its way: reconciles that find
  nothing to do, and the deletion.
\<close>

section \<open>Reconciles that find nothing to do\<close>

text \<open>A version of the SARE that is settled: it has the finalizer and its secret.\<close>

definition settled_sare ::
  "'w env \<Rightarrow> ('w \<Rightarrow> secret_view) \<Rightarrow> secret_view \<Rightarrow> http_producer \<Rightarrow> http_response \<Rightarrow> string \<Rightarrow> sare \<Rightarrow> bool" where
  "settled_sare E V v http resp apiKey x \<longleftrightarrow> sareDeletionTimestamp x = None \<and>
     e_add_finalizer E x finalizer = (x, False) \<and> answering E V x http apiKey resp \<and>
     prepared E v x http apiKey \<and> v (secret_key x) \<noteq> None"

fun reconcile_times :: "'w env \<Rightarrow> operator_config \<Rightarrow> nname \<Rightarrow> nat \<Rightarrow> 'w st \<Rightarrow> 'w st" where
  "reconcile_times E cfg req 0 s = s"
| "reconcile_times E cfg req (Suc n) s = reconcile_times E cfg req n (snd (run_state (Reconcile E cfg req) s))"

text \<open>A PUT that does not ask for a rotation, for a version of the SARE that satisfies \<open>P\<close>.\<close>

definition quiet_put :: "(sare \<Rightarrow> bool) \<Rightarrow> http_producer \<Rightarrow> http_response \<Rightarrow> string \<Rightarrow> call \<Rightarrow> bool" where
  "quiet_put P http resp apiKey c \<longleftrightarrow> (\<exists>x. P x \<and> c = Http_Do (put_request http apiKey x True) (Inr resp))"

lemma Reconcile_settled:
  assumes laws: "secret_laws E V" "others_keep_secrets E V" and ok: "accepted resp None"
    and found: "fst (e_get_sare E req (world s)) = Inr x" and x: "settled_sare E V (V (world s)) http resp apiKey x"
    and run: "run_state (Reconcile E cfg req) s = (r, t)"
  shows "V (world t) = V (world s) \<and>
    (\<exists>cs. trace t = trace s @ cs \<and> filter is_http cs = [Http_Do (put_request http apiKey x True) (Inr resp)])"
proof -
  from x have a: "answering E V x http apiKey resp" "sareDeletionTimestamp x = None" "e_add_finalizer E x finalizer = (x, False)"
    "prepared E (V (world s)) x http apiKey" "V (world s) (secret_key x) \<noteq> None" by (simp_all add: settled_sare_def)
  note done1 = Reconcile_ready [OF laws a(1) ok found a(2,3,4) run]
  obtain s1 where eq: "run_state (Reconcile E cfg req) s = run_state (reconcileCreateOrUpdate E (next_ptr s)) s1"
    and q: "silent s s1"
    using Reconcile_start [OF laws(2) _ found a(2,3), of cfg] a(1) by (auto simp: answering_def)
  from run eq obtain cs where "trace t = trace s1 @ cs" using reconcile_grows by metis
  with q have "\<exists>cs. trace t = trace s @ cs" by (auto simp: silent_def)
  with done1 a(5) show ?thesis by (auto simp: achieved_def new_calls_def)
qed

text \<open>C17: a settled service account stays settled. Suppose that the API server obeys its laws for secrets (a call about anything else leaves them alone), answers every read of a secret, carries out every update of a secret whose callback succeeds, accepts the SARE as owner of a secret that has no owner or that the SARE controls, and answers every update and status patch of a SARE with the object it was sent. Suppose that every version of the SARE that the API server ever returns for the request is not being deleted, has the finalizer, has a rotation expression that is valid if it enables rotation, and controls the secret under its name, which is there; that there is no migration secret for it; and that the producer it names can be read, has an endpoint that parses and its API key in its auth secret, and answers the PUT with 204 or null. Then any number of reconciles of this request leaves every secret of the cluster as it is, and each of them sends exactly one request, a PUT that does not ask for a rotation.\<close>
theorem settled_stays_settled:
  assumes laws: "secret_laws E V" "others_keep_secrets E V" and ok: "accepted resp None"
    and found: "\<forall>w. \<exists>x. fst (e_get_sare E req w) = Inr x \<and> settled_sare E V v http resp apiKey x"
    and start: "V (world s) = v"
  shows "V (world (reconcile_times E cfg req n s)) = v \<and>
    (\<exists>cs. trace (reconcile_times E cfg req n s) = trace s @ cs \<and> length (filter is_http cs) = n \<and>
       list_all (quiet_put (settled_sare E V v http resp apiKey) http resp apiKey) (filter is_http cs))"
  using start
proof (induction n arbitrary: s)
  case 0
  then show ?case by simp
next
  case (Suc n)
  let ?t = "snd (run_state (Reconcile E cfg req) s)"
  obtain x where x: "fst (e_get_sare E req (world s)) = Inr x" "settled_sare E V v http resp apiKey x" using found by blast
  from Reconcile_settled [OF laws ok x(1) _ prod.collapse [symmetric]] x(2) Suc.prems
  obtain cs where v: "V (world ?t) = v" and cs: "trace ?t = trace s @ cs"
    "filter is_http cs = [Http_Do (put_request http apiKey x True) (Inr resp)]" by blast
  from Suc.IH [OF v] obtain ds where ds: "V (world (reconcile_times E cfg req n ?t)) = v"
    "trace (reconcile_times E cfg req n ?t) = trace ?t @ ds" "length (filter is_http ds) = n"
    "list_all (quiet_put (settled_sare E V v http resp apiKey) http resp apiKey) (filter is_http ds)" by blast
  have "quiet_put (settled_sare E V v http resp apiKey) http resp apiKey (Http_Do (put_request http apiKey x True) (Inr resp))"
    using x(2) by (auto simp: quiet_put_def)
  with ds cs show ?case by (intro conjI exI [of _ "cs @ ds"]) simp_all
qed

section \<open>The deletion\<close>

text \<open>The producer answers every HEAD with \<open>h\<close> and every DELETE with \<open>d\<close>.\<close>

definition deletes_at_producer :: "'w env \<Rightarrow> sare \<Rightarrow> http_producer \<Rightarrow> http_response \<Rightarrow> http_response \<Rightarrow> bool" where
  "deletes_at_producer E sare http h d \<longleftrightarrow>
     (\<exists>sapr. saprHTTP sapr = Some http \<and> (\<forall>w. fst (e_get_sapr E (producer_key sare) w) = Inr sapr)) \<and>
     (\<exists>url u. url_join_path (hpEndpoint http) (srConsumer (sareSpec sare)) = Inr url \<and> url_parse url = Inr u) \<and>
     (\<forall>r w. hrMethod r = ''HEAD'' \<longrightarrow> fst (e_http_do E r w) = Inr h) \<and>
     (\<forall>r w. hrMethod r = ''DELETE'' \<longrightarrow> fst (e_http_do E r w) = Inr d)"

definition deletion_answered :: "http_response \<Rightarrow> http_response \<Rightarrow> bool" where
  "deletion_answered h d \<longleftrightarrow> respCode h = 404 \<or>
     respCode h = 200 \<and> (respCode d = 404 \<or> 200 \<le> respCode d \<and> respCode d < 300)"

lemma deleteServiceAccount_done:
  assumes reads: "reads_answered E V" and key: "api_key (V (world s)) sare http apiKey"
    and laws: "secret_laws E V" "others_keep_secrets E V"
    and producer: "deletes_at_producer E sare http h d" and ok: "deletion_answered h d"
    and run: "run_state (deleteServiceAccount E sare) s = (r, t)"
  shows "r = None \<and> V (world t) = V (world s)"
proof -
  from producer obtain sapr url u where sapr: "saprHTTP sapr = Some http" "\<And>w. fst (e_get_sapr E (producer_key sare) w) = Inr sapr"
    and url: "url_join_path (hpEndpoint http) (srConsumer (sareSpec sare)) = Inr url" "url_parse url = Inr u"
    and http: "\<And>r w. hrMethod r = ''HEAD'' \<Longrightarrow> fst (e_http_do E r w) = Inr h"
      "\<And>r w. hrMethod r = ''DELETE'' \<Longrightarrow> fst (e_http_do E r w) = Inr d" by (auto simp: deletes_at_producer_def)
  let ?s1 = "get_producer_st E sare s"
  have v1: "V (world ?s1) = V (world s)" using laws(2) by simp
  from key obtain auth where auth: "fst (e_get_secret E (nn (sareNamespace sare) (hpAuthSecretName http)) (world ?s1)) = Inr auth"
    "map_of (secData auth) (hpAuthSecretKey http) = Some apiKey"
    using read_answer(1) [OF reads, of "world ?s1"] v1 by (auto simp: api_key_def split: option.splits)
  have "r = None"
    using run sapr url http auth ok
    by (auto simp: deleteServiceAccount_def Let_def run_simps producer_key_def [symmetric] get_producer_st_def
        getServiceAccountClient_def newRequest_def exists_status_def delete_status_def deletion_answered_def
        readClock_def patchSaprStatus_def split: if_splits prod.splits)
  moreover have "V (world t) = V (world s)"
    using preservesD [OF view_deleteServiceAccount [OF laws] run] by (simp add: keeps_view_def)
  ultimately show ?thesis by blast
qed

text \<open>C16: a deletion that nobody hinders is completed in one reconcile. The API server obeys its laws for secrets, answers every read of a secret and carries out every update of a SARE. The SARE has a deletion timestamp and the finalizer, the deletion timeout has not passed, its producer can be read with its API key, and the producer answers the HEAD with 404, or with 200 and then the DELETE with 2xx or 404. Then the reconcile returns without error; the account is settled at the producer by the requests of this run; the last call is the successful update that removes the finalizer; the rotation runner of the SARE's key is no longer registered; and no secret has changed (the SARE's own goes with its owner).\<close>
theorem deletion_completes:
  assumes laws: "secret_laws E V" "others_keep_secrets E V" and reads: "reads_answered E V" and updates: "updates_answered E"
    and found: "fst (e_get_sare E req (world s)) = Inr sare" "sareDeletionTimestamp sare = Some ts"
    and fin: "e_contains_finalizer E sare finalizer"
    and early: "\<forall>w. time_since (fst (e_now E w)) ts \<le> cfgDeletionTimeout cfg"
    and key: "api_key (V (world s)) sare http apiKey"
    and producer: "deletes_at_producer E sare http h d" and ok: "deletion_answered h d"
    and run: "run_state (Reconcile E cfg req) s = (r, t)"
  shows "r = Returned (no_result, None) \<and> deletion_settled sare (new_calls s t) True \<and>
    last (trace t) = Update_Sare (e_remove_finalizer E sare finalizer) (None, e_remove_finalizer E sare finalizer) \<and>
    map_of (watchers t) (namespacedName sare) = None \<and> V (world t) = V (world s)"
proof -
  let ?p = "next_ptr s"
  let ?s1 = "s\<lparr>world := snd (e_get_sare E req (world s)), trace := trace s @ [Get_Sare req (Inr sare)],
      heap := (heap s)(next_ptr s := sare), next_ptr := Suc (next_ptr s)\<rparr>"
  let ?s2 = "delete_clock E ?p ?s1"
  obtain a u where a: "run_state (deleteServiceAccount E sare) ?s2 = (a, u)" by fastforce
  have "V (world ?s2) = V (world s)" using laws(2) by simp
  with deleteServiceAccount_done [OF reads _ laws producer ok a] key have a': "a = None" and v: "V (world u) = V (world s)"
    by simp_all
  have hp: "heap u ?p = sare" using process_of [OF process_deleteServiceAccount a] by simp
  have ws: "watchers u = watchers ?s2"
    using preservesD [OF process_deleteServiceAccount a] by (simp add: same_process_def)
  obtain cs where cs: "trace u = trace ?s2 @ cs" "deletion_settled sare cs True"
    using deleteServiceAccount_settled [OF a] a' by auto
  obtain us where us: "trace ?s2 = trace ?s1 @ us" "filter is_http us = []" using trace_delete_clock [of E ?p ?s1] by blast
  let ?x = "e_remove_finalizer E sare finalizer"
  have upd: "fst (e_update_sare E ?x w) = (None, ?x)" for w using updates by (simp add: updates_answered_def)
  have rf: "run_state (removeFinalizer E ?p) u = (None, u\<lparr>world := snd (e_update_sare E ?x (world u)),
      trace := trace u @ [Update_Sare ?x (None, ?x)], heap := (heap u)(?p := ?x)\<rparr>)"
    using fin by (simp add: run_removeFinalizer hp Let_def upd)
  have "\<not> time_since (fst (e_now E (world ?s1))) ts > cfgDeletionTimeout cfg" using early by (simp add: not_less)
  with fin a a' rf have rd: "run_state (reconcileDelete E cfg ?p ts) ?s1 = (None, u\<lparr>world := snd (e_update_sare E ?x (world u)),
      trace := trace u @ [Update_Sare ?x (None, ?x)], heap := (heap u)(?p := ?x)\<rparr>)"
    by (simp add: run_reconcileDelete)
  have "run_state (Reconcile E cfg req) s = (case run_state (reconcileDelete E cfg ?p ts) ?s1 of
      (err, v) \<Rightarrow> (Returned (no_result, err), v))"
    using found by (simp add: Reconcile_def getSare_def run_simps io_st_def split: prod.split)
  with run rd have r: "r = Returned (no_result, None)" and t: "t = u\<lparr>world := snd (e_update_sare E ?x (world u)),
      trace := trace u @ [Update_Sare ?x (None, ?x)], heap := (heap u)(?p := ?x)\<rparr>" by simp_all
  have "new_calls s t = Get_Sare req (Inr sare) # us @ cs @ [Update_Sare ?x (None, ?x)]"
    using cs(1) us(1) by (simp add: t new_calls_def)
  moreover have "deletion_settled sare ((Get_Sare req (Inr sare) # us) @ cs @ [Update_Sare ?x (None, ?x)]) True"
    by (rule settled_grow [OF cs(2)]) (use us(2) in simp_all)
  ultimately have "deletion_settled sare (new_calls s t) True" by simp
  moreover have "map_of (watchers t) (namespacedName sare) = None"
    by (simp add: t ws delete_clock_def clock_st_def AList.delete_conv')
  ultimately show ?thesis using r v laws(2) by (simp add: t)
qed

section \<open>Witnesses\<close>

text \<open>A producer that answers every PUT with 204.\<close>

definition idleE :: "sim env" where
  "idleE = calmE\<lparr>e_http_do := (\<lambda>r w. (Inr (ex_response 204 []), w))\<rparr>"

lemma idleE_fields:
  "e_get_sare idleE = e_get_sare calmE" "e_list_sares idleE = e_list_sares calmE" "e_get_sapr idleE = e_get_sapr calmE"
  "e_patch_sapr_status idleE = e_patch_sapr_status calmE" "e_now idleE = e_now calmE"
  "e_get_secret idleE = e_get_secret calmE" "e_create_or_update_secret idleE = e_create_or_update_secret calmE"
  "e_is_controlled_by idleE = e_is_controlled_by calmE"
  "e_set_controller_reference idleE = e_set_controller_reference calmE"
  "e_update_sare idleE = e_update_sare calmE" "e_patch_sare_status idleE = e_patch_sare_status calmE"
  "e_delete_secret idleE = e_delete_secret calmE" "e_http_do idleE = (\<lambda>r w. (Inr (ex_response 204 []), w))"
  by (simp_all add: idleE_def)

lemma idle_laws: "secret_laws idleE sim_secret" "others_keep_secrets idleE sim_secret"
proof -
  show "secret_laws idleE sim_secret"
    using calm_laws(1) unfolding secret_laws_def read_law_def delete_law_def upsert_law_def owner_law_def idleE_fields .
  show "others_keep_secrets idleE sim_secret"
    using calm_laws(2) unfolding others_keep_secrets_def idleE_fields by (simp add: kept_def)
qed

lemma idle_settled:
  "settled_sare idleE sim_secret (sim_secret (world calm_old)) calm_http (ex_response 204 []) ''K'' ex_sare"
proof -
  have "answering idleE sim_secret ex_sare calm_http ''K'' (ex_response 204 [])"
    using calm_answering
    unfolding answering_def reads_answered_def writes_answered_def patches_answered_def updates_answered_def
      producer_answers_def idleE_fields by simp
  moreover have "sareDeletionTimestamp ex_sare = None \<and> e_add_finalizer idleE ex_sare finalizer = (ex_sare, False) \<and>
      prepared idleE (sim_secret (world calm_old)) ex_sare calm_http ''K'' \<and>
      sim_secret (world calm_old) (secret_key ex_sare) \<noteq> None" by code_simp
  ultimately show ?thesis by (simp add: settled_sare_def)
qed

theorem settled_stays_settled_witness:
  "sim_secret (world (reconcile_times idleE ex_cfg (nn ''ns'' ''r'') 7 calm_old)) = sim_secret (world calm_old)"
proof -
  have ok: "accepted (ex_response 204 []) None" by (simp add: accepted_def ex_response_def)
  have found: "\<forall>w. \<exists>x. fst (e_get_sare idleE (nn ''ns'' ''r'') w) = Inr x \<and>
      settled_sare idleE sim_secret (sim_secret (world calm_old)) calm_http (ex_response 204 []) ''K'' x"
    using idle_settled by (simp add: idleE_fields calmE_fields)
  from settled_stays_settled [OF idle_laws ok found refl] show ?thesis by simp
qed

text \<open>The SARE is being deleted and the producer does not know the account any more.\<close>

definition leaving :: sare where
  "leaving = ex_sare\<lparr>sareDeletionTimestamp := Some 900\<rparr>"

definition leaveE :: "sim env" where
  "leaveE = calmE\<lparr>e_get_sare := (\<lambda>n w. (Inr leaving, w)), e_http_do := (\<lambda>r w. (Inr (ex_response 404 []), w)),
     e_now := (\<lambda>w. (1000, w))\<rparr>"

lemma leaveE_fields:
  "e_get_sare leaveE = (\<lambda>n w. (Inr leaving, w))" "e_list_sares leaveE = e_list_sares calmE" "e_get_sapr leaveE = e_get_sapr calmE"
  "e_patch_sapr_status leaveE = e_patch_sapr_status calmE" "e_now leaveE = (\<lambda>w. (1000, w))"
  "e_get_secret leaveE = e_get_secret calmE" "e_create_or_update_secret leaveE = e_create_or_update_secret calmE"
  "e_is_controlled_by leaveE = e_is_controlled_by calmE"
  "e_set_controller_reference leaveE = e_set_controller_reference calmE"
  "e_update_sare leaveE = e_update_sare calmE" "e_patch_sare_status leaveE = e_patch_sare_status calmE"
  "e_delete_secret leaveE = e_delete_secret calmE" "e_http_do leaveE = (\<lambda>r w. (Inr (ex_response 404 []), w))"
  by (simp_all add: leaveE_def)

lemma leave_laws: "secret_laws leaveE sim_secret" "others_keep_secrets leaveE sim_secret"
proof -
  show "secret_laws leaveE sim_secret"
    using calm_laws(1) unfolding secret_laws_def read_law_def delete_law_def upsert_law_def owner_law_def leaveE_fields .
  show "others_keep_secrets leaveE sim_secret"
    using calm_laws(2) unfolding others_keep_secrets_def leaveE_fields by (simp add: kept_def)
qed

theorem deletion_completes_witness:
  "fst (run_state (Reconcile leaveE ex_cfg (nn ''ns'' ''r'')) (calm_st [])) = Returned (no_result, None)"
proof -
  have reads: "reads_answered leaveE sim_secret" and updates: "updates_answered leaveE"
    using calm_answering unfolding answering_def reads_answered_def updates_answered_def leaveE_fields by simp_all
  have found: "fst (e_get_sare leaveE (nn ''ns'' ''r'') (world (calm_st []))) = Inr leaving"
    by (simp add: leaveE_fields)
  have ts: "sareDeletionTimestamp leaving = Some 900" by (simp add: leaving_def)
  have concrete: "e_contains_finalizer leaveE leaving finalizer \<and> time_since 1000 900 \<le> cfgDeletionTimeout ex_cfg \<and>
      api_key (sim_secret (world (calm_st []))) leaving calm_http ''K'' \<and>
      deletion_answered (ex_response 404 []) (ex_response 404 [])" by code_simp
  have early: "\<forall>w. time_since (fst (e_now leaveE w)) 900 \<le> cfgDeletionTimeout ex_cfg"
    using concrete by (simp add: leaveE_fields)
  have "deletes_at_producer leaveE leaving calm_http (ex_response 404 []) (ex_response 404 [])"
  proof -
    have "url_join_path (hpEndpoint calm_http) (srConsumer (sareSpec leaving)) = Inr ''http://p:8080/sa/c''" by code_simp
    moreover have "\<exists>u. url_parse ''http://p:8080/sa/c'' = Inr u" by (rule exI) code_simp
    ultimately show ?thesis
      by (auto simp: deletes_at_producer_def leaveE_fields calmE_fields calm_http_def ex_sapr_def)
  qed
  from deletion_completes [OF leave_laws reads updates found ts _ early _ this] concrete
  show ?thesis by (metis prod.collapse)
qed

end
