(* ===== verification/Producer_Props.thy ===== *)
theory Producer_Props
  imports Producer_Controller Sim_Cluster
begin

text \<open>
  The producer controller: the network policy it keeps and what its status says.
\<close>

section \<open>The network policy\<close>

text \<open>The loop of \<open>getNetworkPolicyTargetPort\<close> finds the target port of the first service port with the wanted number.\<close>
theorem find_target_port_first:
  "find_target_port p ports = map_option svcTargetPort (find (\<lambda>x. svcPort x = p) ports)"
  by (induction p ports rule: find_target_port.induct) auto

definition owner_reference_only :: "'w env \<Rightarrow> bool" where
  "owner_reference_only E \<longleftrightarrow> (\<forall>sapr np np'. e_set_owner_reference E sapr np = Inr np' \<longrightarrow>
     np' = np\<lparr>npOwners := npOwners np'\<rparr>)"

definition service_key :: "sapr \<Rightarrow> string \<Rightarrow> nname" where
  "service_key producer service = nn (saprNamespace producer) service"

text \<open>C31: a generated network policy (for a client library that changes only the owner references when it sets one): it comes from a producer with an HTTP spec whose endpoint parses to a service and port, from exactly one lookup of that service, and it admits exactly TCP to the service's target port for that port, from the pods with the operator's labels in the producer's namespace, to the pods the service selects.\<close>
theorem generated_policy:
  assumes "owner_reference_only E" and "run_state (generate E n name producer) s = (Returned (Inr np), t)"
  shows "\<exists>http service port svc target. saprHTTP producer = Some http \<and>
    parse_endpoint (hpEndpoint http) = Inr (service, port) \<and>
    trace t = trace s @ [Get_Service (service_key producer service) (Inr svc)] \<and>
    find_target_port port (svcPorts svc) = Some target \<and>
    npName np = name \<and> npNamespace np = saprNamespace producer \<and>
    npSpec np = \<lparr>npPodSelector = svcSelector svc, npPolicyTypes = [PolicyIngress],
      npIngress = [\<lparr>irPorts = [\<lparr>npProtocol = TCP, npPort = target\<rparr>],
        irFrom = [\<lparr>peerPodLabels = nuSelectorLabels n,
          peerNamespaceLabels = [(''kubernetes.io/metadata.name'', saprNamespace producer)]\<rparr>]\<rparr>]\<rparr>"
proof (cases "saprHTTP producer")
  case None
  with assms(2) show ?thesis by (simp add: generate_def parseServiceNameAndPortFromEndpointUrl_def)
next
  case (Some http)
  show ?thesis
  proof (cases "parse_endpoint (hpEndpoint http)")
    case (Inl e)
    with Some assms(2) show ?thesis by (simp add: generate_def parseServiceNameAndPortFromEndpointUrl_def)
  next
    case (Inr sp)
    obtain service port where sp: "sp = (service, port)" by (cases sp)
    with Some Inr assms(2) obtain svc target where
      svc: "fst (e_get_service E (service_key producer service) (world s)) = Inr svc"
        "find_target_port port (svcPorts svc) = Some target"
        "e_set_owner_reference E producer (build_netpol n name producer svc \<lparr>npProtocol = TCP, npPort = target\<rparr>) = Inr np"
        "t = io_st (e_get_service E (service_key producer service)) (Get_Service (service_key producer service)) s"
      by (auto simp: generate_def parseServiceNameAndPortFromEndpointUrl_def getService_def run_io service_key_def
          getNetworkPolicyTargetPort_def split: sum.splits option.splits)
    from assms(1) svc(3) have "np = build_netpol n name producer svc \<lparr>npProtocol = TCP, npPort = target\<rparr>\<lparr>npOwners := npOwners np\<rparr>"
      unfolding owner_reference_only_def by blast
    then have "npName np = name" "npNamespace np = saprNamespace producer" "npSpec np = npSpec (build_netpol n name producer svc \<lparr>npProtocol = TCP, npPort = target\<rparr>)"
      by (metis build_netpol_def netpol.select_convs netpol.update_convs)+
    with Some Inr sp svc show ?thesis by (auto simp: build_netpol_def)
  qed
qed

text \<open>With network policies disabled the operator makes exactly one call, the deletion of the producer's policy, and reports an error exactly if that fails with anything but NotFound; the endpoint is not looked at.\<close>
theorem disabled_policy_removed:
  assumes "\<not> nuEnabled n" and "run_state (UpsertNetworkPolicy E n producer) s = (r, t)"
  shows "\<exists>a. trace t = trace s @ [Delete_Netpol (nn (saprNamespace producer) (saprName producer @ ''-sa-manager'')) a] \<and>
    (case a of
       None \<Rightarrow> r = Returned None
     | Some e \<Rightarrow> r = Returned (if is_not_found e then None else Some (errorf ''delete disabled network policy: '' e)))"
  using assms by (auto simp: UpsertNetworkPolicy_def Let_def deleteNetpol_def run_io networkPolicyName_def
      split: option.split)

section \<open>The reconciler\<close>

definition persisted_st :: "'w env \<Rightarrow> sapr \<Rightarrow> condition list \<Rightarrow> 'w st \<Rightarrow> 'w st" where
  "persisted_st E sapr cs s = (let now = fst (e_now E (world s)); w = snd (e_now E (world s));
      x = sapr_with_conditions E sapr cs now in
    s\<lparr>world := snd (e_patch_sapr_status E sapr x w),
      trace := trace s @ [Read_Clock now, Patch_Sapr_Status sapr x (fst (fst (e_patch_sapr_status E sapr x w)))]\<rparr>)"

definition persist_answer_sapr :: "'w env \<Rightarrow> sapr \<Rightarrow> condition list \<Rightarrow> 'w \<Rightarrow> gerr option \<times> sapr" where
  "persist_answer_sapr E sapr cs w = (let now = fst (e_now E w);
      a = fst (e_patch_sapr_status E sapr (sapr_with_conditions E sapr cs now) (snd (e_now E w))) in
    (map_option (errorf ''failed to persist conditions: '') (fst a), snd a))"

lemma run_sapr_setAndPersist:
  "run_state (sapr_setAndPersist E sapr cs) s = (persist_answer_sapr E sapr cs (world s), persisted_st E sapr cs s)"
  by (simp add: sapr_setAndPersist_def readClock_def patchSaprStatus_def run_io persist_answer_sapr_def
      persisted_st_def io_st_def Let_def split: prod.split)

lemmas run_marks = markReady_def markNotReady_def markNetpolUpserted_def markNetpolFailed_def run_sapr_setAndPersist

lemma persisted_st_trace: "trace (persisted_st E sapr cs s) = trace s @ [Read_Clock (fst (e_now E (world s))),
    Patch_Sapr_Status sapr (sapr_with_conditions E sapr cs (fst (e_now E (world s))))
      (fst (fst (e_patch_sapr_status E sapr (sapr_with_conditions E sapr cs (fst (e_now E (world s))))
        (snd (e_now E (world s))))))]"
  by (simp add: persisted_st_def Let_def)

lemma upsert_panics:
  "is_panic (fst (run_state (UpsertNetworkPolicy E n producer) s)) \<longleftrightarrow> nuEnabled n \<and> saprHTTP producer = None"
  by (auto simp: UpsertNetworkPolicy_def generate_def parseServiceNameAndPortFromEndpointUrl_def Let_def call_defs
      run_io split: option.split sum.split prod.split)

text \<open>C32: the producer reconciler panics (nil pointer dereference) exactly when the producer exists, network policies are enabled and the producer has no HTTP spec; the check that would report InvalidConfiguration for it comes too late.\<close>
theorem Reconcile_Producer_panics_iff:
  "is_panic (fst (run_state (Reconcile_Producer E cfg req) s)) \<longleftrightarrow>
     (\<exists>sapr. fst (e_get_sapr E req (world s)) = Inr sapr \<and> cfgNetworkPoliciesEnabled cfg \<and> saprHTTP sapr = None)"
proof (cases "fst (e_get_sapr E req (world s))")
  case (Inl e)
  then show ?thesis by (simp add: Reconcile_Producer_def getSapr_def run_io)
next
  case (Inr sapr)
  obtain u t where u: "run_state (UpsertNetworkPolicy E (upserter_of cfg) sapr) (io_st (e_get_sapr E req) (Get_Sapr req) s) = (u, t)"
    by fastforce
  have "is_panic u \<longleftrightarrow> cfgNetworkPoliciesEnabled cfg \<and> saprHTTP sapr = None"
    using upsert_panics [of E "upserter_of cfg" sapr "io_st (e_get_sapr E req) (Get_Sapr req) s"] u
    by (simp add: upserter_of_def)
  with Inr u show ?thesis
    by (cases u) (auto simp: Reconcile_Producer_def getSapr_def run_io Let_def run_marks split: prod.split option.split)
qed


section \<open>Readiness\<close>

text \<open>A HEAD request to the producer's endpoint that was answered with a status that counts as ready.\<close>

definition ready_call :: "sapr \<Rightarrow> call \<Rightarrow> bool" where
  "ready_call sapr ev \<longleftrightarrow> (\<exists>http apiKey resp. saprHTTP sapr = Some http \<and>
     ev = Http_Do \<lparr>hrMethod = ''HEAD'', hrUrl = hpEndpoint http, hrHeaders = [(''X-CES-SA-API-KEY'', apiKey)],
       hrBody = []\<rparr> (Inr resp) \<and> respCode resp \<noteq> 401 \<and> respCode resp < 500)"

lemma checkReady_calls:
  assumes "run_state (checkReady E sapr) s = (c, t)"
  shows "\<exists>cs. trace t = trace s @ cs \<and> (c = None \<longleftrightarrow> list_ex (ready_call sapr) cs) \<and>
    (saprHTTP sapr = None \<longrightarrow> cs = [] \<and>
       c = Some (reasonInvalidConfiguration (e_consts E), New_Err ''producer has no HTTP spec configured''))"
proof (cases "saprHTTP sapr")
  case None
  with assms show ?thesis by (auto simp: checkReady_def)
next
  case (Some http)
  with assms show ?thesis
    by (auto simp: checkReady_def run_NewForProducer run_hc_Ready newRequest_Inr ready_status_def ready_call_def
        apiKeyHeader_def split: sum.splits option.splits if_splits)
qed

lemma upsert_calls:
  assumes "run_state (UpsertNetworkPolicy E n producer) s = (u, t)"
  shows "\<exists>cs. trace t = trace s @ cs \<and> list_all (\<lambda>c. \<not> is_http c) cs"
proof -
  have "preserves (emits (\<lambda>c. \<not> is_http c)) (UpsertNetworkPolicy E n producer)"
    unfolding UpsertNetworkPolicy_def generate_def call_defs Let_def by (auto intro!: frame_rules)
  from preservesD [OF this assms] show ?thesis by (simp add: emits_def)
qed

lemma not_ready_call: "\<not> is_http c \<Longrightarrow> \<not> ready_call x c"
  by (auto simp: ready_call_def)

lemma producer_report:
  assumes found: "fst (e_get_sapr E req (world s)) = Inr sapr0"
    and run: "run_state (Reconcile_Producer E cfg req) s = (Returned (res, None), t)"
  shows "res = \<lparr>requeueAfter = cfgReconcileInterval cfg\<rparr> \<and>
    (\<exists>base k now. last (new_calls s t) = Patch_Sapr_Status base (sapr_with_conditions E base [k] now) None \<and>
       last (butlast (new_calls s t)) = Read_Clock now \<and> condType k = typeReady (e_consts E) \<and>
       condStatus k = (if list_ex (ready_call base) (new_calls s t) then ConditionTrue else ConditionFalse))"
proof -
  let ?s1 = "io_st (e_get_sapr E req) (Get_Sapr req) s"
  obtain u s2 where u: "run_state (UpsertNetworkPolicy E (upserter_of cfg) sapr0) ?s1 = (u, s2)" by fastforce
  from u obtain us where us: "trace s2 = trace ?s1 @ us" "list_all (\<lambda>c. \<not> is_http c) us"
    using upsert_calls by blast
  from found run u have u': "u = Returned None"
    by (cases u) (auto simp: Reconcile_Producer_def getSapr_def run_io Let_def run_marks
        split: option.splits prod.splits)
  let ?up = "[mk_condition conditionTypeNetworkPolicyUpserted ConditionTrue reasonNetworkPolicyUpserted []]"
  define s3 where "s3 = persisted_st E sapr0 ?up s2"
  define sapr1 where "sapr1 = snd (persist_answer_sapr E sapr0 ?up (world s2))"
  obtain c s4 where c: "run_state (checkReady E sapr1) s3 = (c, s4)" by fastforce
  obtain cs where cs: "trace s4 = trace s3 @ cs" "c = None \<longleftrightarrow> list_ex (ready_call sapr1) cs"
    using checkReady_calls [OF c] by blast
  define k where "k = (case c of None \<Rightarrow> mk_condition (typeReady (e_consts E)) ConditionTrue reasonProducerReady []
      | Some (reason, err) \<Rightarrow> mk_condition (typeReady (e_consts E)) ConditionFalse reason (err_msg err))"
  have t: "t = persisted_st E sapr1 [k] s4" and ok: "fst (persist_answer_sapr E sapr1 [k] (world s4)) = None"
    and res: "res = \<lparr>requeueAfter = cfgReconcileInterval cfg\<rparr>"
    using found run u u' c
    by (auto simp: Reconcile_Producer_def getSapr_def run_io run_marks s3_def sapr1_def k_def
        split: option.splits prod.splits)
  let ?now = "fst (e_now E (world s4))"
  have patch: "fst (fst (e_patch_sapr_status E sapr1 (sapr_with_conditions E sapr1 [k] ?now) (snd (e_now E (world s4))))) = None"
    using ok by (simp add: persist_answer_sapr_def Let_def)
  have calls: "new_calls s t = Get_Sapr req (Inr sapr0) # us @ [Read_Clock (fst (e_now E (world s2))),
      Patch_Sapr_Status sapr0 (sapr_with_conditions E sapr0 ?up (fst (e_now E (world s2))))
        (fst (fst (e_patch_sapr_status E sapr0 (sapr_with_conditions E sapr0 ?up (fst (e_now E (world s2))))
          (snd (e_now E (world s2))))))] @ cs @ [Read_Clock ?now,
      Patch_Sapr_Status sapr1 (sapr_with_conditions E sapr1 [k] ?now) None]"
    using t us(1) cs(1) found patch by (simp add: new_calls_def persisted_st_trace s3_def)
  have "list_ex (ready_call sapr1) (new_calls s t) \<longleftrightarrow> c = None"
    using us(2) cs(2) unfolding calls by (auto simp: list_ex_iff list_all_iff ready_call_def)
  then show ?thesis
    using res by (intro conjI exI [of _ sapr1] exI [of _ k] exI [of _ ?now])
      (auto simp: calls k_def mk_condition_def butlast_append split: option.splits)
qed

text \<open>C30: a producer reconcile that finds the producer and ends without error asks for a requeue after the configured interval, and its last call is a successful status patch whose Ready condition, for the object's generation, is True exactly if this reconcile has sent a HEAD request with an API key to the endpoint and got a status other than 401 and below 500.\<close>
theorem producer_ready_condition:
  assumes found: "fst (e_get_sapr E req (world s)) = Inr sapr0"
    and run: "run_state (Reconcile_Producer E cfg req) s = (Returned (res, None), t)"
  shows "res = \<lparr>requeueAfter = cfgReconcileInterval cfg\<rparr> \<and>
    (\<exists>base x c. last (new_calls s t) = Patch_Sapr_Status base x None \<and>
       psConditions (saprStatus x) = e_set_status_condition E (psConditions (saprStatus base)) c \<and>
       condType c = typeReady (e_consts E) \<and> condObservedGeneration c = saprGeneration base \<and>
       condStatus c = (if list_ex (ready_call base) (new_calls s t) then ConditionTrue else ConditionFalse))"
proof -
  from producer_report [OF assms] obtain base k now where res: "res = \<lparr>requeueAfter = cfgReconcileInterval cfg\<rparr>"
    and k: "last (new_calls s t) = Patch_Sapr_Status base (sapr_with_conditions E base [k] now) None"
      "condType k = typeReady (e_consts E)"
      "condStatus k = (if list_ex (ready_call base) (new_calls s t) then ConditionTrue else ConditionFalse)" by blast
  then show ?thesis
    by (intro conjI exI [of _ base] exI [of _ "sapr_with_conditions E base [k] now"]
        exI [of _ "k\<lparr>condObservedGeneration := saprGeneration base\<rparr>"]) (simp_all add: sapr_with_conditions_def)
qed

section \<open>Witnesses\<close>

definition ex_service :: service where
  "ex_service = \<lparr>svcName = ''p'', svcSelector = [(''app'', ''p'')],
     svcPorts = [\<lparr>svcPort = 8080, svcTargetPort = IntPort 80\<rparr>]\<rparr>"

definition with_service :: "sim st" where
  "with_service = ex_st ((ex_world [] (Inr (ex_response 200 [])))\<lparr>simServices := [(nn ''ns'' ''p'', ex_service)]\<rparr>)"

definition ex_upserter :: "bool \<Rightarrow> netpol_upserter" where
  "ex_upserter b = \<lparr>nuEnabled = b, nuSelectorLabels = [(''app'', ''op'')]\<rparr>"

fun generated :: "netpol res outcome \<Rightarrow> bool" where
  "generated (Returned (Inr np)) = True"
| "generated x = False"

fun_cases generatedE: "generated x"

theorem generated_policy_witness:
  "\<exists>np t. run_state (generate simE (ex_upserter True) ''n'' ex_sapr) with_service = (Returned (Inr np), t) \<and>
     npPolicyTypes (npSpec np) = [PolicyIngress]"
proof -
  have law: "owner_reference_only simE" by (auto simp: owner_reference_only_def)
  have "generated (fst (run_state (generate simE (ex_upserter True) ''n'' ex_sapr) with_service))" by code_simp
  then obtain np where "fst (run_state (generate simE (ex_upserter True) ''n'' ex_sapr) with_service) = Returned (Inr np)"
    by (auto elim!: generatedE)
  then have run: "run_state (generate simE (ex_upserter True) ''n'' ex_sapr) with_service =
      (Returned (Inr np), snd (run_state (generate simE (ex_upserter True) ''n'' ex_sapr) with_service))"
    by (simp add: prod_eq_iff)
  from generated_policy [OF law run] show ?thesis using run by auto
qed

theorem disabled_policy_removed_witness:
  "\<exists>a. trace (snd (run_state (UpsertNetworkPolicy simE (ex_upserter False) ex_sapr) with_service)) =
     [Delete_Netpol (nn ''ns'' ''p-sa-manager'') a]"
proof -
  have "\<not> nuEnabled (ex_upserter False)" by (simp add: ex_upserter_def)
  from disabled_policy_removed [OF this prod.collapse [symmetric], of simE ex_sapr with_service] show ?thesis
    by (auto simp: with_service_def ex_sapr_def)
qed

fun produced :: "(ctrl_result \<times> gerr option) outcome \<Rightarrow> bool" where
  "produced (Returned (res, None)) = True"
| "produced x = False"

fun_cases producedE: "produced x"

theorem producer_ready_condition_witness:
  "fst (run_state (Reconcile_Producer simE ex_cfg (nn ''ns'' ''p'')) with_service) =
     Returned (\<lparr>requeueAfter = 60\<rparr>, None)"
proof -
  let ?run = "run_state (Reconcile_Producer simE ex_cfg (nn ''ns'' ''p'')) with_service"
  have "produced (fst ?run)" by code_simp
  then obtain res where "fst ?run = Returned (res, None)" by (auto elim!: producedE)
  then have run: "?run = (Returned (res, None), snd ?run)" by (simp add: prod_eq_iff)
  have found: "fst (e_get_sapr simE (nn ''ns'' ''p'') (world with_service)) = Inr ex_sapr" by code_simp
  have "cfgReconcileInterval ex_cfg = 60" by (simp add: ex_cfg_def)
  with producer_ready_condition [OF found run] \<open>fst ?run = Returned (res, None)\<close> show ?thesis by simp
qed

end
