(* ===== verification/Event_Wiring.thy ===== *)
theory Event_Wiring
  imports Request_Events Producer_Props
begin

text \<open>
  What wakes the two controllers: the \<open>SetupWithManager\<close> of \<open>request/controller.go\<close> and of
  \<open>producer/controller.go\<close>, with their predicates. The calls to the builder are a list of
  watches. What controller-runtime does with them, and the pieces of it that the code
  combines, are the fields of the record \<open>runtime\<close>, an argument; their documented behaviour is
  \<open>runtime_laws\<close>.
\<close>

section \<open>Events\<close>

datatype client_object = Object_Sare sare | Object_Sapr sapr | Object_Secret secret | Object_Netpol netpol

datatype object_kind = Kind_Sare | Kind_Sapr | Kind_Secret | Kind_Netpol

fun kind_of :: "client_object \<Rightarrow> object_kind" where
  "kind_of (Object_Sare x) = Kind_Sare"
| "kind_of (Object_Sapr x) = Kind_Sapr"
| "kind_of (Object_Secret x) = Kind_Secret"
| "kind_of (Object_Netpol x) = Kind_Netpol"

fun object_key :: "client_object \<Rightarrow> nname" where
  "object_key (Object_Sare x) = nn (sareNamespace x) (sareName x)"
| "object_key (Object_Sapr x) = nn (saprNamespace x) (saprName x)"
| "object_key (Object_Secret x) = nn (secNamespace x) (secName x)"
| "object_key (Object_Netpol x) = nn (npNamespace x) (npName x)"

text \<open>The records of the two custom resources leave the owner references out; no watch asks for them.\<close>

fun object_owners :: "client_object \<Rightarrow> owner_ref list" where
  "object_owners (Object_Secret x) = secOwners x"
| "object_owners (Object_Netpol x) = npOwners x"
| "object_owners x = []"

text \<open>The objects of an update event are interface values and may be nil (\<open>None\<close>).\<close>

datatype watch_event =
    CreateEvent client_object
  | DeleteEvent client_object
  | UpdateEvent "client_object option" "client_object option"
  | GenericEvent client_object

fun event_objects :: "watch_event \<Rightarrow> client_object list" where
  "event_objects (CreateEvent x) = [x]"
| "event_objects (DeleteEvent x) = [x]"
| "event_objects (UpdateEvent old new) =
     (case old of None \<Rightarrow> [] | Some x \<Rightarrow> [x]) @ (case new of None \<Rightarrow> [] | Some x \<Rightarrow> [x])"
| "event_objects (GenericEvent x) = [x]"

section \<open>What controller-runtime provides\<close>

text \<open>\<open>predicate.Funcs\<close>: a nil function is \<open>None\<close>.\<close>

record predicate_funcs =
  pfCreate :: "(client_object \<Rightarrow> bool) option"
  pfDelete :: "(client_object \<Rightarrow> bool) option"
  pfUpdate :: "(client_object option \<Rightarrow> client_object option \<Rightarrow> bool) option"
  pfGeneric :: "(client_object \<Rightarrow> bool) option"

text \<open>A watch: the kind of object, the predicate on its events, and the handler.\<close>

datatype 'w watch_handler = For_Object | For_Owner string | From_Map "nname \<Rightarrow> ('w, nname list) op"

record 'w watch =
  watchKind :: object_kind
  watchPredicate :: "watch_event \<Rightarrow> bool"
  watchHandler :: "'w watch_handler"

text \<open>
  \<open>GenerationChangedPredicate\<close>, \<open>predicate.Funcs\<close> as a predicate, \<open>predicate.Or\<close>, the requests
  of \<open>EnqueueRequestForObject\<close>, and those of \<open>EnqueueRequestForOwner\<close> as \<open>Owns\<close> sets it up:
  for the owner's kind, the object's namespace and its owner references. \<open>rtEnqueued\<close> is what
  the manager puts into the work queue of a controller with these watches when it sees an
  event; the queue holds a request once, so it is a set.
\<close>

record 'w runtime =
  rtGenerationChanged :: "watch_event \<Rightarrow> bool"
  rtFuncs :: "predicate_funcs \<Rightarrow> watch_event \<Rightarrow> bool"
  rtOr :: "(watch_event \<Rightarrow> bool) list \<Rightarrow> watch_event \<Rightarrow> bool"
  rtForObject :: "client_object \<Rightarrow> nname list"
  rtForOwner :: "string \<Rightarrow> string \<Rightarrow> owner_ref list \<Rightarrow> nname list"
  rtEnqueued :: "'w watch list \<Rightarrow> watch_event \<Rightarrow> 'w st \<Rightarrow> nname set"

definition unset_or :: "'a option \<Rightarrow> ('a \<Rightarrow> bool) \<Rightarrow> bool" where
  "unset_or f P = (case f of None \<Rightarrow> True | Some g \<Rightarrow> P g)"

fun funcs_answer :: "predicate_funcs \<Rightarrow> watch_event \<Rightarrow> bool" where
  "funcs_answer p (CreateEvent x) = unset_or (pfCreate p) (\<lambda>f. f x)"
| "funcs_answer p (DeleteEvent x) = unset_or (pfDelete p) (\<lambda>f. f x)"
| "funcs_answer p (UpdateEvent old new) = unset_or (pfUpdate p) (\<lambda>f. f old new)"
| "funcs_answer p (GenericEvent x) = unset_or (pfGeneric p) (\<lambda>f. f x)"

text \<open>The metadata generation, of the objects whose record has it.\<close>

fun generation_differs :: "client_object \<Rightarrow> client_object \<Rightarrow> bool \<Rightarrow> bool" where
  "generation_differs (Object_Sare x) (Object_Sare y) b = (b = (sareGeneration x \<noteq> sareGeneration y))"
| "generation_differs (Object_Sapr x) (Object_Sapr y) b = (b = (saprGeneration x \<noteq> saprGeneration y))"
| "generation_differs x y b = True"

text \<open>\<open>metav1.GetControllerOf\<close>: the first reference that is marked as the controller.\<close>

definition controller_ref :: "owner_ref list \<Rightarrow> owner_ref option" where
  "controller_ref rs = find orController rs"

text \<open>
  The documentation of the builder: an event goes to every watch of its kind; if the predicate
  accepts it, the handler answers with requests for its objects.
\<close>

fun map_op :: "('a \<Rightarrow> ('w, 'b list) op) \<Rightarrow> 'a list \<Rightarrow> ('w, 'b list) op" where
  "map_op f [] = ret []"
| "map_op f (x # xs) = do { a \<leftarrow> f x; b \<leftarrow> map_op f xs; ret (a @ b) }"

fun handle :: "'w runtime \<Rightarrow> 'w watch_handler \<Rightarrow> client_object \<Rightarrow> ('w, nname list) op" where
  "handle rt For_Object x = ret (rtForObject rt x)"
| "handle rt (For_Owner k) x = ret (rtForOwner rt k (nnNamespace (object_key x)) (object_owners x))"
| "handle rt (From_Map f) x = f (object_key x)"

definition serve_watch :: "'w runtime \<Rightarrow> 'w watch \<Rightarrow> watch_event \<Rightarrow> ('w, nname list) op" where
  "serve_watch rt w ev =
     (if list_ex (\<lambda>x. kind_of x = watchKind w) (event_objects ev) \<and> watchPredicate w ev
      then map_op (handle rt (watchHandler w)) (event_objects ev)
      else ret [])"

definition dispatch :: "'w runtime \<Rightarrow> 'w watch list \<Rightarrow> watch_event \<Rightarrow> ('w, nname list) op" where
  "dispatch rt ws ev = map_op (\<lambda>w. serve_watch rt w ev) ws"

text \<open>
  The documented behaviour: the generation predicate accepts an update exactly if the
  generation has changed, and every other event; a function that is not set accepts; \<open>Or\<close> is
  the disjunction; \<open>For\<close> enqueues the object's own name; \<open>Owns\<close> reconciles only the controller
  among the owners, if it is of the controller's kind, in the object's namespace; and what is
  enqueued is what the watches answer.
\<close>

definition runtime_laws :: "'w runtime \<Rightarrow> bool" where
  "runtime_laws rt \<longleftrightarrow>
     (\<forall>x y. generation_differs x y (rtGenerationChanged rt (UpdateEvent (Some x) (Some y)))) \<and>
     (\<forall>x. rtGenerationChanged rt (CreateEvent x) \<and> rtGenerationChanged rt (DeleteEvent x) \<and>
       rtGenerationChanged rt (GenericEvent x)) \<and>
     (\<forall>p ev. rtFuncs rt p ev = funcs_answer p ev) \<and>
     (\<forall>ps ev. rtOr rt ps ev = list_ex (\<lambda>p. p ev) ps) \<and>
     (\<forall>x. rtForObject rt x = [object_key x]) \<and>
     (\<forall>k ns rs. rtForOwner rt k ns rs = (case controller_ref rs of
         None \<Rightarrow> []
       | Some r \<Rightarrow> if orKind r = k then [nn ns (orName r)] else [])) \<and>
     (\<forall>ws ev s. rtEnqueued rt ws ev s = set (fst (run_state (dispatch rt ws ev) s)))"

section \<open>The code's predicates and watches\<close>

text \<open>The type assertion to a producer, with its nil check.\<close>

fun as_producer :: "client_object option \<Rightarrow> sapr option" where
  "as_producer (Some (Object_Sapr x)) = Some x"
| "as_producer x = None"

definition producerGotReadyPredicate :: "'w env \<Rightarrow> predicate_funcs" where
  "producerGotReadyPredicate E = \<lparr>pfCreate = None, pfDelete = None,
     pfUpdate = Some (\<lambda>old new. producerGotReady E (as_producer old) (as_producer new)), pfGeneric = None\<rparr>"

definition wasDeletedPredicate :: predicate_funcs where
  "wasDeletedPredicate = \<lparr>pfCreate = Some (\<lambda>x. False), pfDelete = Some (\<lambda>x. True),
     pfUpdate = Some (\<lambda>old new. False), pfGeneric = Some (\<lambda>x. False)\<rparr>"

definition sareKind :: string where
  "sareKind = ''ServiceAccountRequest''"

definition saprKind :: string where
  "saprKind = ''ServiceAccountProducer''"

definition SetupWithManager :: "'w env \<Rightarrow> 'w runtime \<Rightarrow> 'w watch list" where
  "SetupWithManager E rt =
     [\<lparr>watchKind = Kind_Sare, watchPredicate = rtGenerationChanged rt, watchHandler = For_Object\<rparr>,
      \<lparr>watchKind = Kind_Secret, watchPredicate = rtFuncs rt wasDeletedPredicate, watchHandler = For_Owner sareKind\<rparr>,
      \<lparr>watchKind = Kind_Sapr,
       watchPredicate = rtOr rt [rtGenerationChanged rt, rtFuncs rt (producerGotReadyPredicate E)],
       watchHandler = From_Map (enqueueRequestsForProducer E)\<rparr>]"

text \<open>The producer controller; \<open>For\<close> without predicates accepts every event.\<close>

definition SetupWithManager_Producer :: "'w runtime \<Rightarrow> 'w watch list" where
  "SetupWithManager_Producer rt =
     [\<lparr>watchKind = Kind_Sapr, watchPredicate = (\<lambda>ev. True), watchHandler = For_Object\<rparr>,
      \<lparr>watchKind = Kind_Netpol, watchPredicate = rtGenerationChanged rt, watchHandler = For_Owner saprKind\<rparr>]"

section \<open>What wakes the controllers\<close>

text \<open>The SAREs that name a producer, as the listing shows them.\<close>

definition naming :: "'w env \<Rightarrow> nname \<Rightarrow> 'w \<Rightarrow> nname list" where
  "naming E obj w = (case fst (e_list_sares E (nnNamespace obj) w) of
      Inl err \<Rightarrow> []
    | Inr sares \<Rightarrow> map (\<lambda>x. nn (sareNamespace x) (sareName x)) (filter (\<lambda>x. srProducer (sareSpec x) = nnName obj) sares))"

lemma run_enqueueRequestsForProducer:
  "run_state (enqueueRequestsForProducer E obj) s =
     (naming E obj (world s), io_st (e_list_sares E (nnNamespace obj)) (List_Sares (nnNamespace obj)) s)"
  by (simp add: enqueueRequestsForProducer_def listSares_def run_io requests_for_filter naming_def split: sum.split)

lemma runtime_lawsD:
  assumes "runtime_laws rt"
  shows "rtGenerationChanged rt (UpdateEvent (Some (Object_Sare x)) (Some (Object_Sare y))) = (sareGeneration x \<noteq> sareGeneration y)"
    and "rtGenerationChanged rt (UpdateEvent (Some (Object_Sapr v)) (Some (Object_Sapr w))) = (saprGeneration v \<noteq> saprGeneration w)"
    and "rtGenerationChanged rt (CreateEvent z)" "rtGenerationChanged rt (DeleteEvent z)" "rtGenerationChanged rt (GenericEvent z)"
    and "rtFuncs rt p ev = funcs_answer p ev" "rtOr rt ps ev = list_ex (\<lambda>p. p ev) ps" "rtForObject rt z = [object_key z]"
    and "rtForOwner rt k ns rs = (case controller_ref rs of None \<Rightarrow> []
       | Some r \<Rightarrow> if orKind r = k then [nn ns (orName r)] else [])"
    and "rtEnqueued rt ws ev s = set (fst (run_state (dispatch rt ws ev) s))"
proof -
  have g: "generation_differs x y (rtGenerationChanged rt (UpdateEvent (Some x) (Some y)))" for x y
    using assms by (simp add: runtime_laws_def)
  from g [of "Object_Sare x" "Object_Sare y"] g [of "Object_Sapr v" "Object_Sapr w"]
  show "rtGenerationChanged rt (UpdateEvent (Some (Object_Sare x)) (Some (Object_Sare y))) = (sareGeneration x \<noteq> sareGeneration y)"
    "rtGenerationChanged rt (UpdateEvent (Some (Object_Sapr v)) (Some (Object_Sapr w))) = (saprGeneration v \<noteq> saprGeneration w)"
    by simp_all
qed (use assms in \<open>simp_all add: runtime_laws_def\<close>)

lemmas wiring_defs = dispatch_def serve_watch_def SetupWithManager_def SetupWithManager_Producer_def
  wasDeletedPredicate_def producerGotReadyPredicate_def unset_or_def

lemma sapr_update_wakes:
  assumes "runtime_laws rt"
  shows "rtEnqueued rt (SetupWithManager E rt) (UpdateEvent (Some (Object_Sapr v)) (Some (Object_Sapr w))) s =
      (if saprGeneration v \<noteq> saprGeneration w \<or> producerGotReady E (Some v) (Some w)
       then set (naming E (nn (saprNamespace v) (saprName v)) (world s)) \<union>
         set (naming E (nn (saprNamespace w) (saprName w)) (snd (e_list_sares E (saprNamespace v) (world s))))
       else {})"
  by (simp add: wiring_defs runtime_lawsD [OF assms] run_enqueueRequestsForProducer)

text \<open>C26: what wakes the request controller (for the documented behaviour of controller-runtime). A SARE that is created, deleted or whose generation changes wakes its own reconcile; an update that keeps the generation, as a status patch does, wakes nothing. The creation and the updates of a secret wake nothing, so the operator's own writes and the edits of others go unnoticed; the deletion of a secret wakes the SARE that is its controller, if one is. An update of a producer wakes exactly the listed SAREs of its namespace that name it, if its generation has changed or its Ready condition has gone from False to True, and nothing otherwise. Network policies wake nothing.\<close>
theorem request_controller_wakeups:
  fixes E :: "'w env"
  assumes "runtime_laws rt"
  defines "wake \<equiv> rtEnqueued rt (SetupWithManager E rt)"
  shows "wake (UpdateEvent (Some (Object_Sare x)) (Some (Object_Sare y))) s =
      (if sareGeneration x \<noteq> sareGeneration y
       then {nn (sareNamespace x) (sareName x), nn (sareNamespace y) (sareName y)} else {}) \<and>
    wake (CreateEvent (Object_Sare x)) s = {nn (sareNamespace x) (sareName x)} \<and>
    wake (DeleteEvent (Object_Sare x)) s = {nn (sareNamespace x) (sareName x)} \<and>
    wake (CreateEvent (Object_Secret a)) s = {} \<and>
    wake (UpdateEvent (Some (Object_Secret a)) (Some (Object_Secret b))) s = {} \<and>
    wake (DeleteEvent (Object_Secret a)) s =
      (case controller_ref (secOwners a) of
         None \<Rightarrow> {}
       | Some r \<Rightarrow> if orKind r = ''ServiceAccountRequest'' then {nn (secNamespace a) (orName r)} else {}) \<and>
    wake (UpdateEvent (Some (Object_Sapr v)) (Some (Object_Sapr w))) s =
      (if saprGeneration v \<noteq> saprGeneration w \<or> producerGotReady E (Some v) (Some w)
       then set (naming E (nn (saprNamespace v) (saprName v)) (world s)) \<union>
         set (naming E (nn (saprNamespace w) (saprName w)) (snd (e_list_sares E (saprNamespace v) (world s))))
       else {}) \<and>
    (\<forall>ev. list_all (\<lambda>z. kind_of z = Kind_Netpol) (event_objects ev) \<longrightarrow> wake ev s = {})"
proof (intro conjI allI impI, goal_cases)
  case 7
  show ?case unfolding wake_def by (rule sapr_update_wakes [OF assms(1)])
next
  case (8 ev)
  then have "\<not> list_ex (\<lambda>z. kind_of z = k) (event_objects ev)" if "k \<noteq> Kind_Netpol" for k
    using that by (auto simp: list_ex_iff list_all_iff)
  then show ?case by (simp add: wake_def wiring_defs runtime_lawsD(10) [OF assms(1)])
qed (simp_all add: wake_def wiring_defs runtime_lawsD [OF assms(1)] sareKind_def split: option.split)

section \<open>The two controllers together\<close>

text \<open>\<open>SetStatusCondition\<close> sets what \<open>IsStatusConditionTrue\<close> and \<open>IsStatusConditionFalse\<close> read.\<close>

definition condition_law :: "'w env \<Rightarrow> bool" where
  "condition_law E \<longleftrightarrow> (\<forall>cs c. e_is_status_condition E (e_set_status_condition E cs c) (condType c) (condStatus c))"

definition is_ready :: "'w env \<Rightarrow> sapr \<Rightarrow> cond_status \<Rightarrow> bool" where
  "is_ready E sapr b \<longleftrightarrow> e_is_status_condition E (psConditions (saprStatus sapr)) (typeReady (e_consts E)) b"

lemma conditions_key: "saprName (sapr_with_conditions E x cs now) = saprName x"
  "saprNamespace (sapr_with_conditions E x cs now) = saprNamespace x"
  "saprGeneration (sapr_with_conditions E x cs now) = saprGeneration x"
  "psLastExecution (saprStatus (sapr_with_conditions E x cs now)) = Some now"
  by (simp_all add: sapr_with_conditions_def)

lemma conditions_ready:
  assumes "condition_law E" and "condType k = typeReady (e_consts E)"
  shows "is_ready E (sapr_with_conditions E base [k] now) (condStatus k)"
proof -
  let ?k = "k\<lparr>condObservedGeneration := saprGeneration base\<rparr>"
  have "e_is_status_condition E (e_set_status_condition E (psConditions (saprStatus base)) ?k) (condType ?k) (condStatus ?k)"
    using assms(1) unfolding condition_law_def by blast
  with assms(2) show ?thesis by (simp add: is_ready_def sapr_with_conditions_def)
qed

text \<open>C27: a producer that becomes reachable wakes its service accounts. A producer reconcile that finds the object and ends without error has patched the producer's status last; if the condition Ready was False before the patch and this reconcile's HEAD request was answered well, then the update event of the patch wakes, in the request controller, every listed SARE of the namespace that names the producer, and no others.\<close>
theorem ready_producer_wakes_requests:
  assumes laws: "runtime_laws rt" "condition_law E"
    and found: "fst (e_get_sapr E req (world s)) = Inr sapr0"
    and run: "run_state (Reconcile_Producer E cfg req) s = (Returned (res, None), t)"
  shows "\<exists>base x. last (new_calls s t) = Patch_Sapr_Status base x None \<and>
    (is_ready E base ConditionFalse \<and> list_ex (ready_call base) (new_calls s t) \<longrightarrow>
      (\<forall>u. rtEnqueued rt (SetupWithManager E rt) (UpdateEvent (Some (Object_Sapr base)) (Some (Object_Sapr x))) u =
        set (naming E (nn (saprNamespace base) (saprName base)) (world u)) \<union>
        set (naming E (nn (saprNamespace base) (saprName base)) (snd (e_list_sares E (saprNamespace base) (world u))))))"
proof -
  from producer_report [OF found run] obtain base k now where
    k: "last (new_calls s t) = Patch_Sapr_Status base (sapr_with_conditions E base [k] now) None"
      "condType k = typeReady (e_consts E)"
      "condStatus k = (if list_ex (ready_call base) (new_calls s t) then ConditionTrue else ConditionFalse)" by blast
  have "producerGotReady E (Some base) (Some (sapr_with_conditions E base [k] now))"
    if "is_ready E base ConditionFalse" "list_ex (ready_call base) (new_calls s t)"
    using that conditions_ready [OF laws(2) k(2), of base now] k(3) by (simp add: producerGotReady_def is_ready_def)
  with k(1) show ?thesis
    by (intro exI [of _ base] exI [of _ "sapr_with_conditions E base [k] now"])
      (auto simp: sapr_update_wakes [OF laws(1)] conditions_key)
qed

text \<open>C28: the producer controller wakes itself. A producer reconcile that finds the object and ends without error ends with a status patch that writes the time it has read from the clock into LastExecution, so the object changes whenever that is a new time; and since the controller watches producers without a predicate, the update event of this patch wakes the reconcile of the same producer. The wait for the configured interval is not what limits the rate of reconciles.\<close>
theorem producer_wakes_itself:
  assumes laws: "runtime_laws rt"
    and found: "fst (e_get_sapr E req (world s)) = Inr sapr0"
    and run: "run_state (Reconcile_Producer E cfg req) s = (Returned (res, None), t)"
  shows "\<exists>base x now. last (new_calls s t) = Patch_Sapr_Status base x None \<and>
    last (butlast (new_calls s t)) = Read_Clock now \<and>
    (psLastExecution (saprStatus base) \<noteq> Some now \<longrightarrow> x \<noteq> base) \<and>
    (\<forall>u. rtEnqueued rt (SetupWithManager_Producer rt) (UpdateEvent (Some (Object_Sapr base)) (Some (Object_Sapr x))) u =
       {nn (saprNamespace base) (saprName base)})"
proof -
  from producer_report [OF found run] obtain base k now where
    k: "last (new_calls s t) = Patch_Sapr_Status base (sapr_with_conditions E base [k] now) None"
      "last (butlast (new_calls s t)) = Read_Clock now" by blast
  moreover have "sapr_with_conditions E base [k] now \<noteq> base" if "psLastExecution (saprStatus base) \<noteq> Some now"
    using that conditions_key(4) by metis
  ultimately show ?thesis
    by (intro exI [of _ base] exI [of _ "sapr_with_conditions E base [k] now"] exI [of _ now])
      (auto simp: wiring_defs runtime_lawsD [OF laws] conditions_key)
qed

text \<open>
  \<open>controllerutil.SetOwnerReference\<close> declares a dependency \<open>without specifying it as a controller\<close>:
  it leaves the controller of the object as it is.
\<close>

definition plain_owner_reference :: "'w env \<Rightarrow> bool" where
  "plain_owner_reference E \<longleftrightarrow> (\<forall>sapr np np'. e_set_owner_reference E sapr np = Inr np' \<longrightarrow>
     controller_ref (npOwners np') = controller_ref (npOwners np))"

lemma generated_owners:
  assumes "plain_owner_reference E" and "run_state (generate E n name producer) s = (Returned (Inr np), t)"
  shows "controller_ref (npOwners np) = None"
proof -
  from assms(2) obtain svc port where "e_set_owner_reference E producer (build_netpol n name producer svc port) = Inr np"
    by (auto simp: generate_def parseServiceNameAndPortFromEndpointUrl_def getService_def run_io
        split: sum.splits option.splits)
  then have "controller_ref (npOwners np) = controller_ref (npOwners (build_netpol n name producer svc port))"
    using assms(1) by (auto simp: plain_owner_reference_def)
  then show ?thesis by (simp add: build_netpol_def controller_ref_def)
qed

text \<open>C29: changes to a generated network policy go unnoticed. The policy is written with the owner references of \<open>SetOwnerReference\<close>, which name no controller, while \<open>Owns\<close> reconciles only the controller among the owners: whatever is done to a stored policy that has kept the references the operator wrote, its deletion included, does not wake the producer controller.\<close>
theorem policy_changes_unnoticed:
  assumes laws: "runtime_laws rt" "plain_owner_reference E"
    and run: "run_state (generate E n name producer) s = (Returned (Inr np), t)"
    and stored: "netpol_mutate np target = Inr written"
    and event: "\<forall>z \<in> set (event_objects ev). \<exists>x. z = Object_Netpol x \<and> npOwners x = npOwners written"
  shows "rtEnqueued rt (SetupWithManager_Producer rt) ev u = {}"
proof -
  have none: "controller_ref (npOwners written) = None"
    using generated_owners [OF laws(2) run] stored by (auto simp: netpol_mutate_def)
  have "rtForOwner rt saprKind ns (object_owners z) = []" if "z \<in> set (event_objects ev)" for z ns
    using event that none by (auto simp: runtime_lawsD(9) [OF laws(1)])
  then have empty: "run_state (map_op (handle rt (For_Owner saprKind)) zs) v = ([], v)"
    if "set zs \<subseteq> set (event_objects ev)" for zs v
    using that by (induction zs arbitrary: v) auto
  have "\<not> list_ex (\<lambda>z. kind_of z = Kind_Sapr) (event_objects ev)" using event by (auto simp: list_ex_iff)
  then show ?thesis using empty [of "event_objects ev"] by (simp add: wiring_defs runtime_lawsD(10) [OF laws(1)])
qed

section \<open>Witnesses\<close>

fun sim_generation :: "watch_event \<Rightarrow> bool" where
  "sim_generation (UpdateEvent (Some (Object_Sare x)) (Some (Object_Sare y))) = (sareGeneration x \<noteq> sareGeneration y)"
| "sim_generation (UpdateEvent (Some (Object_Sapr x)) (Some (Object_Sapr y))) = (saprGeneration x \<noteq> saprGeneration y)"
| "sim_generation ev = True"

definition sim_handlers :: "sim runtime" where
  "sim_handlers = \<lparr>rtGenerationChanged = sim_generation, rtFuncs = funcs_answer,
     rtOr = (\<lambda>ps ev. list_ex (\<lambda>p. p ev) ps), rtForObject = (\<lambda>x. [object_key x]),
     rtForOwner = (\<lambda>k ns rs. case controller_ref rs of None \<Rightarrow> []
       | Some r \<Rightarrow> if orKind r = k then [nn ns (orName r)] else []), rtEnqueued = (\<lambda>ws ev s. {})\<rparr>"

definition sim_runtime :: "sim runtime" where
  "sim_runtime = sim_handlers\<lparr>rtEnqueued := (\<lambda>ws ev s. set (fst (run_state (dispatch sim_handlers ws ev) s)))\<rparr>"

lemma sim_runtime_laws: "runtime_laws sim_runtime"
proof -
  have "generation_differs x y (sim_generation (UpdateEvent (Some x) (Some y)))" for x y
    by (cases x; cases y) simp_all
  moreover have "handle sim_runtime h = handle sim_handlers h" for h
    by (rule ext, cases h) (simp_all add: sim_runtime_def)
  then have "dispatch sim_runtime ws ev = dispatch sim_handlers ws ev" for ws ev
    by (simp add: dispatch_def serve_watch_def cong: if_cong)
  ultimately show ?thesis by (simp add: runtime_laws_def sim_runtime_def sim_handlers_def)
qed

lemma sim_condition_law: "condition_law simE"
  by (simp add: condition_law_def sim_set_status_condition_def)

lemma sim_plain_owner: "plain_owner_reference simE"
  by (auto simp: plain_owner_reference_def controller_ref_def find_append split: option.split)

theorem request_controller_wakeups_witness:
  "rtEnqueued sim_runtime (SetupWithManager simE sim_runtime) (DeleteEvent (Object_Secret (ex_secret ''u1'' []))) (ex_st (ex_world [] (Inl not_found))) =
     {nn ''ns'' ''r''}"
  using request_controller_wakeups [OF sim_runtime_laws, of simE ex_sare ex_sare "ex_st (ex_world [] (Inl not_found))" "ex_secret ''u1'' []"
      "ex_secret ''u1'' []" ex_sapr ex_sapr]
  by (simp add: ex_secret_def controller_ref_def)

text \<open>A producer that was not reachable.\<close>

definition down_sapr :: sapr where
  "down_sapr = ex_sapr\<lparr>saprStatus := \<lparr>psConditions = [mk_condition ''Ready'' ConditionFalse ''ConnectionFailed'' []],
     psLastExecution = None\<rparr>\<rparr>"

definition recovering :: "sim st" where
  "recovering = ex_st ((ex_world [] (Inr (ex_response 200 [])))
     \<lparr>simServices := [(nn ''ns'' ''p'', ex_service)], simSapr := [(nn ''ns'' ''p'', down_sapr)]\<rparr>)"

fun patched_base :: "call \<Rightarrow> sapr" where
  "patched_base (Patch_Sapr_Status b x a) = b"
| "patched_base c = ex_sapr"

abbreviation recovered :: "sim st" where
  "recovered \<equiv> snd (run_state (Reconcile_Producer simE ex_cfg (nn ''ns'' ''p'')) recovering)"

definition head_call :: call where
  "head_call = Http_Do \<lparr>hrMethod = ''HEAD'', hrUrl = ''http://p:8080/sa'', hrHeaders = [(''X-CES-SA-API-KEY'', ''K'')],
     hrBody = []\<rparr> (Inr (ex_response 200 []))"

lemma recovering_facts:
  "produced (fst (run_state (Reconcile_Producer simE ex_cfg (nn ''ns'' ''p'')) recovering))"
  "is_ready simE (patched_base (last (new_calls recovering recovered))) ConditionFalse"
  "saprHTTP (patched_base (last (new_calls recovering recovered))) = saprHTTP ex_sapr"
  "object_key (Object_Sapr (patched_base (last (new_calls recovering recovered)))) = nn ''ns'' ''p''"
  "head_call \<in> set (new_calls recovering recovered)"
proof -
  have "(let r = run_state (Reconcile_Producer simE ex_cfg (nn ''ns'' ''p'')) recovering; cs = new_calls recovering (snd r) in
      (produced (fst r), is_ready simE (patched_base (last cs)) ConditionFalse,
       saprHTTP (patched_base (last cs)) = saprHTTP ex_sapr,
       object_key (Object_Sapr (patched_base (last cs))) = nn ''ns'' ''p'', head_call \<in> set cs)) =
    (True, True, True, True, True)" by code_simp
  then show "produced (fst (run_state (Reconcile_Producer simE ex_cfg (nn ''ns'' ''p'')) recovering))"
    "is_ready simE (patched_base (last (new_calls recovering recovered))) ConditionFalse"
    "saprHTTP (patched_base (last (new_calls recovering recovered))) = saprHTTP ex_sapr"
    "object_key (Object_Sapr (patched_base (last (new_calls recovering recovered)))) = nn ''ns'' ''p''"
    "head_call \<in> set (new_calls recovering recovered)"
    by (simp_all add: Let_def)
qed

lemma recovering_run:
  "\<exists>res. run_state (Reconcile_Producer simE ex_cfg (nn ''ns'' ''p'')) recovering = (Returned (res, None), recovered)"
  "fst (e_get_sapr simE (nn ''ns'' ''p'') (world recovering)) = Inr down_sapr"
proof -
  show "\<exists>res. run_state (Reconcile_Producer simE ex_cfg (nn ''ns'' ''p'')) recovering = (Returned (res, None), recovered)"
    using recovering_facts(1) by (auto elim!: producedE simp: prod_eq_iff)
  show "fst (e_get_sapr simE (nn ''ns'' ''p'') (world recovering)) = Inr down_sapr"
    by (simp add: recovering_def ex_world_def find_or_not_found_def)
qed

lemma naming_ex: "naming simE (nn ''ns'' ''p'') (world recovering) = [nn ''ns'' ''r'']"
  by code_simp

theorem ready_producer_wakes_requests_witness:
  "\<exists>base x. last (new_calls recovering recovered) = Patch_Sapr_Status base x None \<and>
     rtEnqueued sim_runtime (SetupWithManager simE sim_runtime) (UpdateEvent (Some (Object_Sapr base)) (Some (Object_Sapr x)))
       recovering = {nn ''ns'' ''r''}"
proof -
  obtain res where run: "run_state (Reconcile_Producer simE ex_cfg (nn ''ns'' ''p'')) recovering = (Returned (res, None), recovered)"
    using recovering_run(1) by blast
  from ready_producer_wakes_requests [OF sim_runtime_laws sim_condition_law recovering_run(2) run]
  obtain base x where last: "last (new_calls recovering recovered) = Patch_Sapr_Status base x None"
    and wakes: "is_ready simE base ConditionFalse \<Longrightarrow> list_ex (ready_call base) (new_calls recovering recovered) \<Longrightarrow>
      rtEnqueued sim_runtime (SetupWithManager simE sim_runtime) (UpdateEvent (Some (Object_Sapr base)) (Some (Object_Sapr x))) recovering =
        set (naming simE (nn (saprNamespace base) (saprName base)) (world recovering)) \<union>
        set (naming simE (nn (saprNamespace base) (saprName base)) (snd (e_list_sares simE (saprNamespace base) (world recovering))))"
    by blast
  have base: "patched_base (last (new_calls recovering recovered)) = base" by (simp add: last)
  have "ready_call base head_call"
    using recovering_facts(3) by (simp add: base ready_call_def head_call_def ex_sapr_def ex_response_def)
  then have "list_ex (ready_call base) (new_calls recovering recovered)"
    using recovering_facts(5) by (auto simp: list_ex_iff)
  from wakes [OF recovering_facts(2) [unfolded base] this] last recovering_facts(4) naming_ex show ?thesis by (auto simp: base)
qed

theorem producer_wakes_itself_witness:
  "\<exists>base x. last (new_calls recovering recovered) = Patch_Sapr_Status base x None \<and>
    rtEnqueued sim_runtime (SetupWithManager_Producer sim_runtime) (UpdateEvent (Some (Object_Sapr base)) (Some (Object_Sapr x)))
      recovering = {nn (saprNamespace base) (saprName base)}"
proof -
  obtain res where run: "run_state (Reconcile_Producer simE ex_cfg (nn ''ns'' ''p'')) recovering = (Returned (res, None), recovered)"
    using recovering_run(1) by blast
  from producer_wakes_itself [OF sim_runtime_laws recovering_run(2) run] show ?thesis by blast
qed

theorem policy_changes_unnoticed_witness:
  "\<exists>np. rtEnqueued sim_runtime (SetupWithManager_Producer sim_runtime) (DeleteEvent (Object_Netpol np)) with_service = {}"
proof -
  have "generated (fst (run_state (generate simE (ex_upserter True) ''n'' ex_sapr) with_service))" by code_simp
  then obtain np where run: "run_state (generate simE (ex_upserter True) ''n'' ex_sapr) with_service =
     (Returned (Inr np), snd (run_state (generate simE (ex_upserter True) ''n'' ex_sapr) with_service))"
    by (auto elim!: generatedE simp: prod_eq_iff)
  obtain written where stored: "netpol_mutate np (empty_netpol ''ns'' ''n'') = Inr written" by (simp add: netpol_mutate_def)
  have "\<forall>z \<in> set (event_objects (DeleteEvent (Object_Netpol written))). \<exists>x. z = Object_Netpol x \<and> npOwners x = npOwners written"
    by simp
  from policy_changes_unnoticed [OF sim_runtime_laws sim_plain_owner run stored this] show ?thesis by blast
qed

end
