(* ===== verification/Rotation_Loop.thy ===== *)
theory Rotation_Loop
  imports Event_Wiring Request_Progress
begin

text \<open>
  The rotation as a loop through the cluster: the job of \<open>Request_Controller\<close> deletes the secret, the
  watches of \<open>Event_Wiring\<close> turn the deletion into a request, and the reconcile of this request
  creates the secret anew.
\<close>

text \<open>The owner reference of a secret names the SARE as its controller.\<close>

definition owner_named :: "secret \<Rightarrow> sare \<Rightarrow> bool" where
  "owner_named x sare \<longleftrightarrow> secNamespace x = sareNamespace sare \<and>
     (case controller_ref (secOwners x) of None \<Rightarrow> False | Some r \<Rightarrow> orKind r = sareKind \<and> orName r = sareName sare)"

lemma secret_wakes:
  assumes "runtime_laws rt"
  shows "owner_named x sare \<Longrightarrow> rtEnqueued rt (SetupWithManager E rt) (DeleteEvent (Object_Secret x)) s =
      {nn (sareNamespace sare) (sareName sare)}"
    and "rtEnqueued rt (SetupWithManager E rt) (CreateEvent (Object_Secret x)) s = {}"
  by (auto simp: owner_named_def wiring_defs runtime_lawsD [OF assms] split: option.splits)


section \<open>Witness\<close>


end
