(* ===== verification/Json_Props.thy ===== *)
theory Json_Props
  imports Http_Client
begin

text \<open>
  The JSON the operator writes and reads: the scanner's fuel, and round trips through it.
\<close>

section \<open>The fuel of the scanner is enough\<close>

lemma skip_ws_length: "length (skip_ws s) \<le> length s"
  by (simp add: skip_ws_def length_dropWhile_le)

lemma hex4_length: "hex4 s = Some (r, rest) \<Longrightarrow> length rest < length s"
  by (induction s rule: hex4.induct) (auto split: option.splits)

lemma unicode_escape_length: "unicode_escape s = Some (t, rest) \<Longrightarrow> length rest < length s"
proof -
  assume a: "unicode_escape s = Some (t, rest)"
  then obtain r rest1 where h: "hex4 s = Some (r, rest1)" by (auto simp: unicode_escape_def split: option.splits)
  with a have "length rest \<le> length rest1"
    using hex4_length [of "drop 2 rest1"]
    by (fastforce simp: unicode_escape_def split: option.splits if_splits)
  with hex4_length [OF h] show ?thesis by simp
qed

lemma scan_string_length: "scan_string n s = Some (t, rest) \<Longrightarrow> length rest < length s"
proof (induction n s arbitrary: t rest rule: scan_string.induct)
  case (3 n c cs)
  then show ?case
    by (fastforce split: if_splits list.splits option.splits nat.splits dest: unicode_escape_length)
qed simp_all

lemma scan_exponent_length: "scan_exponent s = Some rest \<Longrightarrow> length rest \<le> length s"
  by (auto simp: scan_exponent_def span_digits_def Let_def split: list.splits if_splits
      intro: le_trans [OF length_dropWhile_le] le_SucI)

definition scan_int :: "string \<Rightarrow> string option" where
  "scan_int t = (case t of
      [] \<Rightarrow> None
    | c # cs \<Rightarrow> if c = CHR ''0'' then Some cs else if is_digit c then Some (dropWhile is_digit cs) else None)"

lemma scan_int_length: "scan_int t = Some u \<Longrightarrow> length u < length t"
  by (auto simp: scan_int_def le_imp_less_Suc length_dropWhile_le split: list.splits if_splits)

lemma scan_number_length: "scan_number s = Some rest \<Longrightarrow> length rest \<le> length s"
proof -
  assume a: "scan_number s = Some rest"
  define t where "t = (case s of c # cs \<Rightarrow> if c = CHR ''-'' then cs else s | [] \<Rightarrow> [])"
  have "length t \<le> length s" by (auto simp: t_def split: list.splits)
  moreover from a obtain u where u: "scan_int t = Some u"
    unfolding scan_number_def t_def [symmetric] scan_int_def [symmetric] Let_def by (auto split: option.splits)
  moreover from a u have "length rest \<le> length u"
    unfolding scan_number_def t_def [symmetric] scan_int_def [symmetric] Let_def
    by (auto simp: span_digits_def split: list.splits if_splits dest!: scan_exponent_length)
      (use length_dropWhile_le le_trans le_Suc_eq in blast)
  ultimately show ?thesis using scan_int_length [OF u] by simp
qed

lemma cutPrefix_length: "cutPrefix s p = Some t \<Longrightarrow> length t \<le> length s"
  by (auto simp: cutPrefix_Some)

lemma skip_ws_Cons: "skip_ws s = c # cs \<Longrightarrow> length cs < length s"
  using skip_ws_length [of s] by simp

lemma scan_length:
  "scan_value n s = Some (v, rest) \<Longrightarrow> length rest \<le> length s"
  "scan_elements n s = Some (vs, rest) \<Longrightarrow> length rest \<le> length s"
  "scan_members n s = Some (ms, rest) \<Longrightarrow> length rest \<le> length s"
proof (induction n s and n s and n s arbitrary: v rest and vs rest and ms rest
    rule: scan_value_scan_elements_scan_members.induct)
  case (2 n s)
  then show ?case
    by (fastforce split: list.splits if_splits option.splits dest!: skip_ws_Cons scan_string_length
        scan_number_length cutPrefix_length)
next
  case (4 n s)
  then show ?case
    by (fastforce split: list.splits if_splits option.splits prod.splits dest!: skip_ws_Cons)
next
  case (6 n s)
  then show ?case
    by (fastforce split: list.splits if_splits option.splits prod.splits dest!: skip_ws_Cons scan_string_length)
qed simp_all


lemma scan_more_step:
  "(\<forall>s. 2 * length s < n \<longrightarrow> scan_value (Suc n) s = scan_value n s) \<and>
   (\<forall>s. 2 * length s + 1 < n \<longrightarrow> scan_elements (Suc n) s = scan_elements n s) \<and>
   (\<forall>s. 2 * length s + 1 < n \<longrightarrow> scan_members (Suc n) s = scan_members n s)"
proof (induction n)
  case 0
  then show ?case by simp
next
  case (Suc n)
  note IH = Suc.IH [THEN conjunct1, rule_format] Suc.IH [THEN conjunct2, THEN conjunct1, rule_format]
    Suc.IH [THEN conjunct2, THEN conjunct2, rule_format]
  have vals: "scan_value (Suc (Suc n)) s = scan_value (Suc n) s" if "2 * length s < Suc n" for s
  proof (cases "skip_ws s")
    case Nil
    then show ?thesis by simp
  next
    case (Cons c cs)
    from skip_ws_Cons [OF this] that have "2 * length cs + 1 < n" by linarith
    from IH(2,3) [OF this] Cons show ?thesis
      by (simp add: scan_value.simps(2) [of "Suc n" s] scan_value.simps(2) [of n s]
          del: scan_elements.simps scan_members.simps scan_value.simps cutPrefix.simps split: list.split)
  qed
  have elements: "scan_elements (Suc (Suc n)) s = scan_elements (Suc n) s" if l: "2 * length s + 1 < Suc n" for s
  proof -
    from l have v: "scan_value (Suc n) s = scan_value n s" by (intro IH(1)) linarith
    show ?thesis
    proof (cases "scan_value n s")
      case None
      with v show ?thesis by (simp only: scan_elements.simps option.case)
    next
      case (Some x)
      obtain w rest where x: "x = (w, rest)" by (cases x)
      have "scan_elements (Suc n) ds = scan_elements n ds" if "skip_ws rest = d # ds" for d ds
        using skip_ws_Cons [OF that] scan_length(1) [OF Some [unfolded x]] l by (intro IH(2)) linarith
      with v Some x show ?thesis
        by (simp only: scan_elements.simps(2) option.case prod.case) (simp del: scan_elements.simps split: list.split)
    qed
  qed
  have members: "scan_members (Suc (Suc n)) s = scan_members (Suc n) s" if l: "2 * length s + 1 < Suc n" for s
  proof -
    have v: "scan_value (Suc n) r2 = scan_value n r2" if "length r2 \<le> length s" for r2
      using that l by (intro IH(1)) linarith
    have m: "scan_members (Suc n) ds = scan_members n ds" if "length ds < length s" for ds
      using that l by (intro IH(3)) linarith
    show ?thesis
    proof (cases "skip_ws s")
      case Nil
      then show ?thesis by simp
    next
      case q: (Cons q qs)
      show ?thesis
      proof (cases "scan_string (length qs) qs")
        case None
        with q show ?thesis by simp
      next
        case str: (Some x)
        obtain k rest where x: "x = (k, rest)" by (cases x)
        show ?thesis
        proof (cases "skip_ws rest")
          case Nil
          with q str x show ?thesis by simp
        next
          case col: (Cons col r2)
          have r2: "length r2 < length s"
            using skip_ws_Cons [OF q] scan_string_length [OF str [unfolded x]] skip_ws_Cons [OF col] by linarith
          show ?thesis
          proof (cases "scan_value n r2")
            case None
            with q str x col v [of r2] r2 show ?thesis
              by (simp only: scan_members.simps list.case option.case prod.case)
          next
            case val: (Some y)
            obtain w r3 where y: "y = (w, r3)" by (cases y)
            have "scan_members (Suc n) ds = scan_members n ds" if "skip_ws r3 = d # ds" for d ds
              using skip_ws_Cons [OF that] scan_length(1) [OF val [unfolded y]] r2 by (intro m) linarith
            with q str x col v [of r2] r2 val y show ?thesis
              by (simp only: scan_members.simps(2) list.case option.case prod.case)
                (simp del: scan_members.simps scan_value.simps split: list.split)
          qed
        qed
      qed
    qed
  qed
  from vals elements members show ?case by blast
qed

text \<open>Twice the length of the input plus one gives the result of any larger fuel, so no input is rejected for lack of it.\<close>
lemma scan_fuel_enough:
  "scan_value (2 * length s + 1 + extra) s = scan_value (2 * length s + 1) s"
proof (induction extra)
  case 0
  then show ?case by simp
next
  case (Suc extra)
  have "scan_value (Suc (2 * length s + 1 + extra)) s = scan_value (2 * length s + 1 + extra) s"
    using scan_more_step [of "2 * length s + 1 + extra"] by simp
  with Suc show ?case by simp
qed


section \<open>What is written can be read\<close>

lemma code_range: "0 \<le> code c \<and> code c < 256"
  by (simp add: code_def of_char_def)

lemma char_of_code [simp]: "char_of (code c) = c"
  by (simp add: code_def)

lemma code_eqI: "code c = n \<Longrightarrow> c = char_of n"
  by auto

lemma code_char_of [simp]: "code (char_of n) = n mod 256"
  by (simp add: code_def)

lemma hex_digit_hex_char: "0 \<le> k \<Longrightarrow> k < 16 \<Longrightarrow> hex_digit (hex_char k) = Some k"
  by (simp add: hex_char_def is_digit_def)

lemma json_u_read:
  assumes "0 \<le> k" "k < 128"
  shows "unicode_escape ([CHR ''0'', CHR ''0'', hex_char (k div 16), hex_char (k mod 16)] @ r) = Some ([char_of k], r)"
proof -
  have d: "hex_digit (hex_char (k div 16)) = Some (k div 16)" "hex_digit (hex_char (k mod 16)) = Some (k mod 16)"
    using assms by (simp_all add: hex_digit_hex_char del: hex_digit.simps)
  have z: "hex_digit (CHR ''0'') = Some 0" by code_simp
  have "hex4 ([CHR ''0'', CHR ''0'', hex_char (k div 16), hex_char (k mod 16)] @ r) = Some (k, r)"
    using d z by (simp del: hex_digit.simps)
  with assms show ?thesis by (simp add: unicode_escape_def is_surrogate_def utf8_def)
qed

lemma code_literals [simp]:
  "code (CHR 0x5C) = 92" "code (CHR 0x22) = 34" "code (CHR ''u'') = 117" "code (CHR ''b'') = 98"
  "code (CHR ''f'') = 102" "code (CHR ''n'') = 110" "code (CHR ''r'') = 114" "code (CHR ''t'') = 116"
  by (simp_all add: code_def)

lemma escape_pair:
  "e \<noteq> CHR ''u'' \<Longrightarrow> simple_escape e = Some d \<Longrightarrow>
     scan_string (Suc n) (CHR 0x5C # e # r) = map_option (map_prod (Cons d) id) (scan_string n r)"
  by simp

lemma simple_escapes:
  "simple_escape (CHR ''b'') = Some (char_of (8::int))" "simple_escape (CHR ''f'') = Some (char_of (12::int))"
  "simple_escape (CHR ''n'') = Some (char_of (10::int))" "simple_escape (CHR ''r'') = Some (char_of (13::int))"
  "simple_escape (CHR ''t'') = Some (char_of (9::int))"
  "code c = 34 \<or> code c = 92 \<Longrightarrow> simple_escape c = Some c"
  by (auto simp: simple_escape_def)

lemma scan_json_byte:
  "code c < 128 \<Longrightarrow> scan_string (Suc n) (json_byte c @ r) = map_option (map_prod (Cons c) id) (scan_string n r)"
proof -
  assume ascii: "code c < 128"
  consider (quote) "code c = 34 \<or> code c = 92" | (b) "code c = 8" | (f) "code c = 12" | (n) "code c = 10"
    | (r) "code c = 13" | (t) "code c = 9"
    | (u) "code c \<notin> {34, 92, 8, 12, 10, 13, 9}" "code c < 32 \<or> code c = 60 \<or> code c = 62 \<or> code c = 38"
    | (plain) "code c \<notin> {34, 92}" "\<not> code c < 32" "code c \<noteq> 60" "code c \<noteq> 62" "code c \<noteq> 38"
    by auto
  then show ?thesis
  proof cases
    case quote
    moreover from this have "c \<noteq> CHR ''u''" by auto
    ultimately show ?thesis using escape_pair [of c c n r] simple_escapes(6) [of c]
      by (simp add: json_byte_def Let_def del: scan_string.simps)
  next
    case b
    with escape_pair [OF _ simple_escapes(1)] code_eqI [OF b] show ?thesis
      by (simp add: json_byte_def Let_def del: scan_string.simps)
  next
    case f
    with escape_pair [OF _ simple_escapes(2)] code_eqI [OF f] show ?thesis
      by (simp add: json_byte_def Let_def del: scan_string.simps)
  next
    case n
    with escape_pair [OF _ simple_escapes(3)] code_eqI [OF n] show ?thesis
      by (simp add: json_byte_def Let_def del: scan_string.simps)
  next
    case r
    with escape_pair [OF _ simple_escapes(4)] code_eqI [OF r] show ?thesis
      by (simp add: json_byte_def Let_def del: scan_string.simps)
  next
    case t
    with escape_pair [OF _ simple_escapes(5)] code_eqI [OF t] show ?thesis
      by (simp add: json_byte_def Let_def del: scan_string.simps)
  next
    case u
    then have "code c < 128" by auto
    with json_u_read [of "code c" r] code_range [of c] u show ?thesis
      by (auto simp: json_byte_def json_u_def Let_def option.map_comp comp_def map_prod_def split_def)
  next
    case plain
    then have "json_byte c = [c]"
      by (auto simp: json_byte_def Let_def)
    with plain ascii show ?thesis by simp
  qed
qed

lemma rune_length_Suc:
  assumes "rune_length (c # cs) = Suc k"
  shows "k \<le> length cs" "rune_length (c # take k cs @ r) = Suc k"
  using assms
  by (auto simp: rune_length_def split: if_splits list.splits)

lemma rune_length_high:
  "rune_length (c # cs) = Suc k \<Longrightarrow> \<not> code c < 128 \<Longrightarrow> 0 < k"
  by (auto simp: rune_length_def split: if_splits list.splits)

lemma utf8_literals:
  "utf8 8232 = [CHR 0xE2, CHR 0x80, CHR 0xA8]" "utf8 8233 = [CHR 0xE2, CHR 0x80, CHR 0xA9]"
  "utf8 65533 = [CHR 0xEF, CHR 0xBF, CHR 0xBD]"
  by code_simp+

lemma scan_rune:
  assumes "rune_length (c # cs) = Suc k" and "\<not> code c < 128"
  shows "scan_string (Suc n) (json_rune (c # take k cs) @ r) =
    map_option (map_prod (append (c # take k cs)) id) (scan_string n r)"
proof -
  have e: "unicode_escape (''2028'' @ r) = Some ([CHR 0xE2, CHR 0x80, CHR 0xA8], r)"
    "unicode_escape (''2029'' @ r) = Some ([CHR 0xE2, CHR 0x80, CHR 0xA9], r)"
    by (simp_all add: unicode_escape_def is_surrogate_def utf8_literals code_def is_digit_def)
  show ?thesis
    using e assms(2) rune_length_Suc [OF assms(1)]
    by (simp add: json_rune_def min_absorb2)
qed

lemma scan_invalid:
  "scan_string (Suc n) (CHR 0x5C # ''ufffd'' @ r) = map_option (map_prod (append rune_error) id) (scan_string n r)"
proof -
  have "unicode_escape (''fffd'' @ r) = Some (rune_error, r)"
    by (simp add: unicode_escape_def is_surrogate_def utf8_literals code_def is_digit_def rune_error_def)
  then show ?thesis by simp
qed

lemma scan_json_string:
  "length s < n \<Longrightarrow> scan_string n (json_chars s @ CHR 0x22 # r) = Some (to_valid s, r)"
proof (induction s arbitrary: n rule: json_chars.induct)
  case 1
  then show ?case by (cases n) simp_all
next
  case (2 c cs)
  then obtain m where n: "n = Suc m" "length cs < m" by (cases n) auto
  show ?case
  proof (cases "code c < 128")
    case True
    then have "rune_length (c # cs) = Suc 0" by (simp add: rune_length_def)
    with 2(1) [OF True n(2)] True show ?thesis
      by (simp add: n scan_json_byte del: scan_string.simps)
  next
    case False
    show ?thesis
    proof (cases "rune_length (c # cs)")
      case 0
      with 2(2) [OF False 0 n(2)] False scan_invalid [of m] show ?thesis
        by (simp add: n del: scan_string.simps)
    next
      case (Suc k)
      have "length (drop k cs) < m" using n(2) by simp
      with 2(3) [OF False Suc this] False scan_rune [OF Suc False] Suc show ?thesis
        by (simp add: n del: scan_string.simps)
    qed
  qed
qed

declare to_valid.simps [simp del]

lemma skip_ws_quote [simp]: "skip_ws (CHR 0x22 # s) = CHR 0x22 # s"
  by (simp add: skip_ws_def json_ws_def)

lemma skip_ws_literals [simp]:
  "skip_ws (CHR '':'' # s) = CHR '':'' # s" "skip_ws (CHR '','' # s) = CHR '','' # s"
  "skip_ws (CHR ''{'' # s) = CHR ''{'' # s" "skip_ws (CHR ''}'' # s) = CHR ''}'' # s"
  by (simp_all add: skip_ws_def json_ws_def code_def)

lemma json_byte_length: "1 \<le> length (json_byte c)"
  by (simp add: json_byte_def json_u_def Let_def)

lemma json_bytes_length: "length s \<le> length (json_chars s)"
proof (induction s rule: json_chars.induct)
  case (2 c cs)
  show ?case
  proof (cases "code c < 128")
    case True
    with 2(1) [OF True] json_byte_length [of c] show ?thesis by simp
  next
    case False
    show ?thesis
    proof (cases "rune_length (c # cs)")
      case 0
      with 2(2) [OF False 0] False show ?thesis by simp
    next
      case (Suc k)
      have "length (c # take k cs) \<le> length (json_rune (c # take k cs))"
        by (auto simp: json_rune_def dest: arg_cong [where f = length])
      with 2(3) [OF False Suc] False Suc rune_length_Suc(1) [OF Suc] show ?thesis by simp
    qed
  qed
qed simp

lemma scan_quoted:
  "scan_string (length (json_chars s @ CHR 0x22 # r)) (json_chars s @ CHR 0x22 # r) = Some (to_valid s, r)"
  using json_bytes_length [of s] by (intro scan_json_string) simp

lemma scan_value_string: "scan_value (Suc n) (json_string s @ r) = Some (JStr (to_valid s), r)"
  using scan_quoted [of s r]
  by (simp add: json_string_def del: scan_string.simps)

lemma scan_members_member:
  assumes "scan_value n (v @ d # ds) = Some (j, d # ds)" and "skip_ws (d # ds) = d # ds"
  shows "scan_members (Suc n) (json_string k @ CHR '':'' # v @ d # ds) =
    (if d = CHR '','' then map_option (map_prod (Cons (to_valid k, j)) id) (scan_members n ds)
     else if d = CHR ''}'' then Some ([(to_valid k, j)], ds) else None)"
  using assms scan_quoted [of k "CHR '':'' # v @ d # ds"]
  by (simp add: json_string_def del: scan_string.simps scan_value.simps)

text \<open>A member of a string map as it is read back.\<close>

definition valid_member :: "string \<times> string \<Rightarrow> string \<times> json" where
  "valid_member kv = (to_valid (fst kv), JStr (to_valid (snd kv)))"

lemma scan_members_strmap:
  "kvs \<noteq> [] \<Longrightarrow> length kvs < n \<Longrightarrow>
     scan_members n (join '','' (map json_member kvs) @ CHR ''}'' # r) = Some (map valid_member kvs, r)"
proof (induction kvs arbitrary: n)
  case Nil
  then show ?case by simp
next
  case (Cons kv kvs)
  obtain m where n: "n = Suc (Suc m)" using Cons.prems by (cases n; cases "n - 1") auto
  show ?case
  proof (cases kvs)
    case Nil
    then show ?thesis
      using scan_members_member [of "Suc m" "json_string (snd kv)" "CHR ''}''" r "JStr (to_valid (snd kv))" "fst kv"]
        scan_value_string [of m "snd kv" "CHR ''}'' # r"]
      by (simp add: n json_member_def valid_member_def del: scan_value.simps scan_members.simps)
  next
    case (Cons kv' kvs')
    let ?rest = "join '','' (map json_member kvs) @ CHR ''}'' # r"
    have "scan_members (Suc m) ?rest = Some (map valid_member kvs, r)"
      using Cons.IH [of "Suc m"] Cons.prems n Cons by simp
    moreover have "join '','' (map json_member (kv # kvs)) @ CHR ''}'' # r =
        json_string (fst kv) @ CHR '':'' # json_string (snd kv) @ CHR '','' # ?rest"
      by (simp add: Cons json_member_def)
    ultimately show ?thesis
      using scan_members_member [of "Suc m" "json_string (snd kv)" "CHR '',''" ?rest "JStr (to_valid (snd kv))" "fst kv"]
        scan_value_string [of m "snd kv" "CHR '','' # ?rest"]
      by (simp add: n valid_member_def del: scan_value.simps scan_members.simps)
  qed
qed

lemma json_string_hd: "\<exists>t. json_string s @ r = CHR 0x22 # t"
  by (simp add: json_string_def)

lemma scan_value_strmap:
  assumes "length m < n"
  shows "scan_value (Suc n) (json_strmap m @ r) = Some (JObj (map valid_member (sort_key fst m)), r)"
proof (cases "m = []")
  case True
  then show ?thesis by (simp add: json_strmap_def)
next
  case False
  then obtain kv kvs where kvs: "sort_key fst m = kv # kvs"
    by (metis length_0_conv length_sort list.exhaust)
  let ?cs = "join '','' (map json_member (sort_key fst m)) @ CHR ''}'' # r"
  obtain t where t: "?cs = CHR 0x22 # t"
    using json_string_hd [of "fst kv"] by (cases kvs) (auto simp: kvs json_member_def)
  have "scan_members n ?cs = Some (map valid_member (sort_key fst m), r)"
    using assms kvs length_sort [of fst m] by (intro scan_members_strmap) (simp_all del: length_sort)
  then show ?thesis
    by (simp add: json_strmap_def t del: scan_members.simps)
qed


lemma store_members_strings:
  "store_members (map valid_member kvs) m = Inr (merge_map m (map (map_prod to_valid to_valid) kvs))"
  by (induction kvs arbitrary: m) (auto simp: valid_member_def)

lemma wf_sort: "wf_map m \<Longrightarrow> wf_map (sort_key fst m)"
  by (simp add: wf_map_def distinct_map)

lemma members_length: "length kvs \<le> length (join '','' (map json_member kvs))"
proof (induction kvs)
  case (Cons kv kvs)
  then show ?case by (cases kvs) (auto simp: json_member_def json_string_def)
qed simp

lemma strmap_length: "length m < length (json_strmap m)"
  using members_length [of "sort_key fst m"] by (simp add: json_strmap_def)

lemma decode_written:
  "decode_strmap (json_strmap m @ after) err = Inr (Some (merge_map [] (map (map_prod to_valid to_valid) (sort_key fst m))))"
proof -
  have "scan_value (2 * length (json_strmap m @ after) + 1) (json_strmap m @ after) =
      Some (JObj (map valid_member (sort_key fst m)), after)"
    using scan_value_strmap [of m "2 * length (json_strmap m @ after)" after] strmap_length [of m] by simp
  then show ?thesis by (simp add: decode_strmap_def store_members_strings split: option.split del: scan_value.simps)
qed

text \<open>A string map of valid UTF-8.\<close>

definition valid_strmap :: "strmap \<Rightarrow> bool" where
  "valid_strmap m \<longleftrightarrow> wf_map m \<and> list_all (\<lambda>kv. to_valid (fst kv) = fst kv \<and> to_valid (snd kv) = snd kv) m"

text \<open>C35: a producer that answers 200 or 201 with a string map written by the JSON encoder (valid UTF-8, as JSON demands) hands exactly that map to the operator, whatever characters need escaping in it and whatever follows it in the body.\<close>
theorem credentials_round_trip:
  assumes "valid_strmap m" and "respCode resp \<in> {200, 201}" and "respBody resp = json_strmap m @ after"
  shows "\<exists>credentials. create_status c resp = Inr (Some credentials) \<and> map_of credentials = map_of m"
proof -
  have wf: "wf_map m" using assms(1) by (simp add: valid_strmap_def)
  have "map (map_prod to_valid to_valid) (sort_key fst m) = sort_key fst m"
    using assms(1) by (intro map_idI) (auto simp: valid_strmap_def list_all_iff)
  then have "create_status c resp = Inr (Some (merge_map [] (sort_key fst m)))"
    using assms(2,3) by (auto simp: create_status_def decode_written)
  moreover have "map_of (merge_map [] (sort_key fst m)) = map_of m"
  proof -
    have "map_of (sort_key fst m) = map_of m" using wf by (intro map_of_perm wf_sort) auto
    then show ?thesis using map_of_merge [OF wf_sort [OF wf], of "[]"] by (auto simp: fun_eq_iff split: option.splits)
  qed
  ultimately show ?thesis by blast
qed

theorem credentials_round_trip_witness:
  "\<exists>credentials. create_status \<lparr>hcEndpoint = ''http://svc'', hcApiKey = ''k''\<rparr>
     \<lparr>respCode = 201, respStatus = ''201 Created'', respBody = json_strmap [(''user'', [CHR 0xC3, CHR 0xA9, CHR 0x22])] @ [],
      respReadErr = None\<rparr> = Inr (Some credentials) \<and> map_of credentials ''user'' = Some [CHR 0xC3, CHR 0xA9, CHR 0x22]"
proof -
  have "valid_strmap [(''user'', [CHR 0xC3, CHR 0xA9, CHR 0x22])]" by code_simp
  from credentials_round_trip [OF this, where after = "[]" and c = "\<lparr>hcEndpoint = ''http://svc'', hcApiKey = ''k''\<rparr>"
      and resp = "\<lparr>respCode = 201, respStatus = ''201 Created'',
        respBody = json_strmap [(''user'', [CHR 0xC3, CHR 0xA9, CHR 0x22])] @ [], respReadErr = None\<rparr>"]
  show ?thesis by auto
qed

text \<open>The members of the body of a PUT request.\<close>

definition body_members :: "request_body \<Rightarrow> (string \<times> json) list" where
  "body_members b = [(''consumer'', JStr (to_valid (rbConsumer b)))]
     @ (if rbParams b = [] then [] else [(''params'', JObj (map valid_member (sort_key fst (rbParams b))))])
     @ (if bpRotateServiceAccountNow (rbBehaviorParams b)
        then [(''behaviorParams'', JObj [(''rotateServiceAccountNow'', JBool True)])] else [])"

text \<open>A written value reads back, whatever follows it.\<close>

definition reads_as :: "nat \<Rightarrow> string \<Rightarrow> json \<Rightarrow> bool" where
  "reads_as n v j \<longleftrightarrow> (\<forall>r. scan_value n (v @ r) = Some (j, r))"

lemma valid_names:
  "to_valid ''consumer'' = ''consumer''" "to_valid ''params'' = ''params''"
  "to_valid ''behaviorParams'' = ''behaviorParams''"
  "to_valid ''rotateServiceAccountNow'' = ''rotateServiceAccountNow''"
  "to_valid ''credentials'' = ''credentials''"
  by code_simp+

lemma scan_members_fields:
  "fs \<noteq> [] \<Longrightarrow> length fs + k \<le> n \<Longrightarrow> (\<forall>f \<in> set fs. \<forall>m \<ge> k. reads_as m (fst (snd f)) (snd (snd f))) \<Longrightarrow>
     scan_members n (join '','' (map (\<lambda>f. json_key (fst f) (fst (snd f))) fs) @ CHR ''}'' # r) =
       Some (map (\<lambda>f. (to_valid (fst f), snd (snd f))) fs, r)"
proof (induction fs arbitrary: n)
  case Nil
  then show ?case by simp
next
  case (Cons f fs)
  obtain name v j where f: "f = (name, v, j)" by (cases f)
  obtain m where n: "n = Suc m" and m: "k \<le> m" "length fs + k \<le> m" using Cons.prems by (cases n) auto
  have val: "scan_value m (v @ q) = Some (j, q)" for q
    using Cons.prems(3) f m(1) by (simp add: reads_as_def)
  show ?case
  proof (cases fs)
    case Nil
    then show ?thesis
      using scan_members_member [OF val, of "CHR ''}''" r name] n f
      by (simp add: json_key_def del: scan_value.simps scan_members.simps)
  next
    case (Cons f' fs')
    let ?rest = "join '','' (map (\<lambda>f. json_key (fst f) (fst (snd f))) fs) @ CHR ''}'' # r"
    have IH: "scan_members m ?rest = Some (map (\<lambda>f. (to_valid (fst f), snd (snd f))) fs, r)"
      using Cons.IH [OF _ m(2)] Cons.prems(3) Cons by simp
    have "join '','' (map (\<lambda>f. json_key (fst f) (fst (snd f))) (f # fs)) @ CHR ''}'' # r =
        json_string name @ CHR '':'' # v @ CHR '','' # ?rest"
      by (simp add: Cons json_key_def f)
    then show ?thesis
      using scan_members_member [OF val, of "CHR '',''" ?rest name] IH n f
      by (simp del: scan_value.simps scan_members.simps)
  qed
qed


lemma scan_value_object:
  assumes "scan_members n (t @ CHR ''}'' # r) = Some (ms, r)" and "\<exists>u. t = CHR 0x22 # u"
  shows "scan_value (Suc n) (CHR ''{'' # t @ CHR ''}'' # r) = Some (JObj ms, r)"
  using assms by (auto simp del: scan_members.simps)

lemma reads_string: "0 < n \<Longrightarrow> reads_as n (json_string s) (JStr (to_valid s))"
  unfolding reads_as_def using scan_value_string by (cases n) (simp_all del: scan_value.simps)

lemma reads_strmap:
  "length m + 1 < n \<Longrightarrow> reads_as n (json_strmap m) (JObj (map valid_member (sort_key fst m)))"
  unfolding reads_as_def using scan_value_strmap [of m] by (cases n) (simp_all del: scan_value.simps)

lemma reads_true: "0 < n \<Longrightarrow> reads_as n ''true'' (JBool True)"
  by (cases n) (simp_all add: reads_as_def skip_ws_def json_ws_def code_def is_digit_def)

lemma reads_behavior:
  assumes "3 < n"
  shows "reads_as n (marshal_behavior \<lparr>bpRotateServiceAccountNow = True\<rparr>) (JObj [(''rotateServiceAccountNow'', JBool True)])"
  unfolding reads_as_def
proof
  fix r
  obtain m where n: "n = Suc m" "2 < m" using assms by (cases n) auto
  let ?f = "(''rotateServiceAccountNow'', ''true'', JBool True)"
  have "scan_members m (json_key ''rotateServiceAccountNow'' ''true'' @ CHR ''}'' # r) =
      Some ([(''rotateServiceAccountNow'', JBool True)], r)"
    using scan_members_fields [of "[?f]" 1 m r] n(2) reads_true by (simp add: valid_names)
  then show "scan_value n (marshal_behavior \<lparr>bpRotateServiceAccountNow = True\<rparr> @ r) =
      Some (JObj [(''rotateServiceAccountNow'', JBool True)], r)"
    using scan_value_object [of m "json_key ''rotateServiceAccountNow'' ''true''" r] n(1)
    by (simp add: marshal_behavior_def comma_fields_def json_key_def json_string_def del: scan_value.simps scan_members.simps)
qed

lemma json_string_length: "length s + 2 \<le> length (json_string s)"
  using json_bytes_length [of s] by (simp add: json_string_def)

lemma join_length: "x \<in> set xs \<Longrightarrow> length x \<le> length (join sep xs)"
  by (induction sep xs rule: join.induct) auto

text \<open>C34: the body of a PUT request is one JSON object that reads back as: the consumer, the params when there are any, and behaviorParams with rotateServiceAccountNow true exactly when rotation is asked for. Bytes that are no valid UTF-8 read back as U+FFFD.\<close>
theorem request_body_reads_back:
  "scan_value (2 * length (marshal_body b) + 1) (marshal_body b) = Some (JObj (body_members b), [])"
proof -
  define fs where "fs = [(''consumer'', json_string (rbConsumer b), JStr (to_valid (rbConsumer b)))]
     @ (if rbParams b = [] then [] else [(''params'', json_strmap (rbParams b),
          JObj (map valid_member (sort_key fst (rbParams b))))])
     @ (if bpRotateServiceAccountNow (rbBehaviorParams b)
        then [(''behaviorParams'', marshal_behavior (rbBehaviorParams b), JObj [(''rotateServiceAccountNow'', JBool True)])] else [])"
  define t where "t = join '','' (map (\<lambda>f. json_key (fst f) (fst (snd f))) fs)"
  have body: "marshal_body b = CHR ''{'' # t @ ''}''"
    by (simp add: marshal_body_def comma_fields_def t_def fs_def)
  have bp: "rbBehaviorParams b = \<lparr>bpRotateServiceAccountNow = True\<rparr>" if "bpRotateServiceAccountNow (rbBehaviorParams b)"
    using that by (cases "rbBehaviorParams b") simp
  have beh: "reads_as m (marshal_behavior (rbBehaviorParams b)) (JObj [(''rotateServiceAccountNow'', JBool True)])"
    if "bpRotateServiceAccountNow (rbBehaviorParams b)" "3 < m" for m
    unfolding bp [OF that(1)] using that(2) by (rule reads_behavior)
  have vals: "\<forall>f \<in> set fs. \<forall>m \<ge> length (rbParams b) + 5. reads_as m (fst (snd f)) (snd (snd f))"
    using beh reads_string reads_strmap [of "rbParams b"] by (auto simp: fs_def)
  have "length (rbParams b) \<le> length t" "10 \<le> length t"
  proof -
    have mem: "length (json_key (fst f) (fst (snd f))) \<le> length t" if "f \<in> set fs" for f
      unfolding t_def using that by (intro join_length) auto
    have "10 \<le> length (json_key ''consumer'' v)" for v
      using json_string_length [of "''consumer''"] by (simp add: json_key_def)
    also have "length (json_key ''consumer'' (json_string (rbConsumer b))) \<le> length t"
      using mem [of "(''consumer'', json_string (rbConsumer b), JStr (to_valid (rbConsumer b)))"] by (simp add: fs_def)
    finally show "10 \<le> length t" .
    show "length (rbParams b) \<le> length t"
    proof (cases "rbParams b = []")
      case False
      then have "length (json_key ''params'' (json_strmap (rbParams b))) \<le> length t"
        using mem [of "(''params'', json_strmap (rbParams b), JObj (map valid_member (sort_key fst (rbParams b))))"]
        by (simp add: fs_def)
      with strmap_length [of "rbParams b"] show ?thesis by (simp add: json_key_def)
    qed simp
  qed
  moreover have "length fs \<le> 3" by (simp add: fs_def)
  ultimately have fuel: "length fs + (length (rbParams b) + 5) \<le> 2 * length (marshal_body b)"
    by (simp add: body)
  have "scan_members (2 * length (marshal_body b)) (t @ CHR ''}'' # []) = Some (map (\<lambda>f. (to_valid (fst f), snd (snd f))) fs, [])"
    using scan_members_fields [OF _ fuel vals] by (simp add: t_def fs_def)
  moreover have "\<exists>u. t = CHR 0x22 # u" by (auto simp: t_def fs_def json_key_def json_string_def)
  moreover have "map (\<lambda>f. (to_valid (fst f), snd (snd f))) fs = body_members b"
    by (simp add: fs_def body_members_def valid_names)
  ultimately show ?thesis
    using scan_value_object [of "2 * length (marshal_body b)" t "[]"] by (simp add: body del: scan_value.simps scan_members.simps)
qed

text \<open>C36: an answer in the form the API document of the repository describes, the credentials nested under the key \<open>credentials\<close>, is rejected by the client as undecodable, whatever the credentials are.\<close>
theorem documented_answer_rejected:
  assumes "respCode resp \<in> {200, 201}"
    and "respBody resp = comma_fields [json_key ''credentials'' (json_strmap m)] @ after"
  shows "\<exists>e. create_status c resp = Inl (errorf ''failed to decode producer response: '' e)"
proof -
  let ?t = "json_key ''credentials'' (json_strmap m)"
  let ?n = "2 * length (respBody resp)"
  let ?f = "(''credentials'', json_strmap m, JObj (map valid_member (sort_key fst m)))"
  have body: "respBody resp = CHR ''{'' # ?t @ CHR ''}'' # after"
    using assms(2) by (simp add: comma_fields_def)
  have "Suc (length m + 2) \<le> ?n"
    using strmap_length [of m] by (simp add: body json_key_def)
  moreover have "\<forall>f \<in> set [?f]. \<forall>k \<ge> length m + 2. reads_as k (fst (snd f)) (snd (snd f))"
    using reads_strmap [of m] by simp
  ultimately have "scan_members ?n (?t @ CHR ''}'' # after) =
      Some ([(''credentials'', JObj (map valid_member (sort_key fst m)))], after)"
    using scan_members_fields [of "[?f]" "length m + 2" ?n after] by (simp add: valid_names)
  then have "scan_value (2 * length (respBody resp) + 1) (respBody resp) =
      Some (JObj [(''credentials'', JObj (map valid_member (sort_key fst m)))], after)"
    using scan_value_object [of ?n ?t after] by (simp add: body json_key_def json_string_def del: scan_value.simps scan_members.simps)
  then have "\<exists>e. decode_strmap (respBody resp) (respReadErr resp) = Inl e"
    by (simp add: decode_strmap_def split: option.split del: scan_value.simps)
  with assms(1) show ?thesis by (auto simp: create_status_def)
qed

theorem documented_answer_rejected_witness:
  "\<exists>e. create_status \<lparr>hcEndpoint = ''http://svc'', hcApiKey = ''k''\<rparr>
     \<lparr>respCode = 200, respStatus = ''200 OK'',
      respBody = comma_fields [json_key ''credentials'' (json_strmap [(''apiKey'', ''secretApiKey'')])] @ [],
      respReadErr = None\<rparr> = Inl (errorf ''failed to decode producer response: '' e)"
  by (rule documented_answer_rejected [where after = "[]" and m = "[(''apiKey'', ''secretApiKey'')]"]) simp_all

end
