(* ===== verification/Config_Props.thy ===== *)
theory Config_Props
  imports Config
begin

text \<open>
  When the configuration can be read, and what its values mean where they are used.
\<close>

section \<open>Configuration\<close>

lemma parseDuration_range: "parseDuration v = Inr d \<Longrightarrow> min_duration \<le> d \<and> d \<le> max_duration"
proof -
  assume a: "parseDuration v = Inr d"
  have r: "0 \<le> x \<and> x \<le> int63" if "sum_terms v 0 s = Inr x" for s x
    using sum_terms_range [OF that] by (simp add: int63_def)
  from a show ?thesis
    by (auto simp: parseDuration_def Let_def min_duration_def max_duration_def int63_def
        dest!: r split: if_splits sum.splits)
qed

text \<open>\<open>NewOperatorConfig\<close> succeeds exactly if the five environment variables are set and parse and the command line parses, and then the configuration holds what they say.\<close>
theorem config_success:
  "NewOperatorConfig yaml ext args env = Ran (Inr (cfg, options)) \<longleftrightarrow>
     env ''NAMESPACE'' = Some (cfgNamespace cfg) \<and>
     (\<exists>v. env ''DELETION_TIMEOUT'' = Some v \<and> parseDuration v = Inr (cfgDeletionTimeout cfg)) \<and>
     (\<exists>v. env ''PRODUCER_RECONCILE_INTERVAL'' = Some v \<and> parseDuration v = Inr (cfgReconcileInterval cfg)) \<and>
     (\<exists>v. env ''NETWORK_POLICIES_ENABLED'' = Some v \<and> parseBool v = Inr (cfgNetworkPoliciesEnabled cfg)) \<and>
     (\<exists>v. env ''SELECTOR_LABELS'' = Some v \<and> yaml v = Inr (cfgSelectorLabels cfg)) \<and>
     (\<exists>f. parseFlags ext args = Inr f \<and> options = options_of_flags f (cfgNamespace cfg))"
  by (cases cfg) (auto simp: NewOperatorConfig_def getNamespace_def getDeletionTimeout_def
      getProducerReconcileInterval_def getNetworkPoliciesEnabled_def getSelectorLabels_def getEnvVar_def
      getControllerOptions_def split: option.splits sum.splits)

text \<open>\<open>time.Since\<close> saturates, but with a deletion timeout below the largest duration the deadline test comes out as that of the true difference.\<close>
lemma config_deadline_exact:
  assumes "NewOperatorConfig yaml ext args env = Ran (Inr (cfg, options))" and "cfgDeletionTimeout cfg < max_duration"
  shows "time_since now ts > cfgDeletionTimeout cfg \<longleftrightarrow> now - ts > cfgDeletionTimeout cfg"
proof (rule time_since_gt)
  show "cfgDeletionTimeout cfg < max_duration" by (rule assms(2))
  from assms(1) obtain v where "parseDuration v = Inr (cfgDeletionTimeout cfg)"
    unfolding NewOperatorConfig_def getDeletionTimeout_def
    by (auto split: sum.splits run.splits)
  then show "min_duration \<le> cfgDeletionTimeout cfg" using parseDuration_range by blast
qed

definition apply_tls :: "(tls_config \<Rightarrow> tls_config) list \<Rightarrow> tls_config \<Rightarrow> tls_config" where
  "apply_tls opts c = fold (\<lambda>f. f) opts c"

text \<open>The TLS options of both servers restrict the protocols to HTTP/1.1 unless HTTP/2 is enabled by flag, the manager's cache is restricted to the operator's namespace, and the metrics endpoint is authenticated exactly if it is served securely.\<close>
theorem http2_off_by_default:
  "nextProtos (apply_tls (soTLSOpts (mgMetrics (options_of_flags f ns))) c) =
     (if fEnableHTTP2 f then nextProtos c else [''http/1.1'']) \<and>
   nextProtos (apply_tls (soTLSOpts (mgWebhook (options_of_flags f ns))) c) =
     (if fEnableHTTP2 f then nextProtos c else [''http/1.1'']) \<and>
   mgDefaultNamespaces (options_of_flags f ns) = [ns] \<and>
   (moSecureServing (mgMetrics (options_of_flags f ns)) \<longleftrightarrow> moAuthFilter (mgMetrics (options_of_flags f ns)))"
  by (simp add: options_of_flags_def createMetricsServerOptions_def createWebhookServer_def createTLSOptions_def
      apply_tls_def disableHTTP2_def Let_def)

section \<open>The command line\<close>

lemma parse_arg_given:
  assumes "set_flag ext name v f = Some f'" and "flag_kind_of ext name \<noteq> None"
    and "name \<noteq> []" "hd name \<noteq> CHR ''-''" "CHR ''='' \<notin> set name"
  shows "parse_args ext ((''--'' @ name @ CHR ''='' # v) # args) f = parse_args ext args f'"
  using assms cut_at [OF assms(5), of v]
  by (cases name) (auto simp del: cut.simps split: flag_kind.splits)

text \<open>A command line that sets every flag of the operator.\<close>

definition bool_text :: "bool \<Rightarrow> string" where
  "bool_text b = (if b then ''true'' else ''false'')"

definition render_flags :: "flags \<Rightarrow> string list" where
  "render_flags f = map (\<lambda>(name, v). ''--'' @ name @ CHR ''='' # v)
     [(''metrics-bind-address'', fMetricsAddr f), (''metrics-cert-path'', fMetricsCertPath f),
      (''metrics-cert-name'', fMetricsCertName f), (''metrics-cert-key'', fMetricsCertKey f),
      (''webhook-cert-path'', fWebhookCertPath f), (''webhook-cert-name'', fWebhookCertName f),
      (''webhook-cert-key'', fWebhookCertKey f), (''leader-elect'', bool_text (fEnableLeaderElection f)),
      (''health-probe-bind-address'', fProbeAddr f), (''metrics-secure'', bool_text (fSecureMetrics f)),
      (''enable-http2'', bool_text (fEnableHTTP2 f))]"

lemma parseBool_text: "parseBool (bool_text b) = Inr b"
  by (cases b) (simp_all add: bool_text_def parseBool_def)

lemmas flag_defs = set_flag_def set_bool_flag_def set_string_flag_def flag_kind_of_def

text \<open>A command line that names every flag of the operator with a value is parsed to exactly these values, whatever flags the imported packages have registered.\<close>
theorem command_line_round_trip:
  "parseFlags ext (render_flags f) = Inr f"
  by (simp add: parseFlags_def render_flags_def parse_arg_given flag_defs parseBool_text)

definition ex_env :: env_vars where
  "ex_env v = (if v = ''NAMESPACE'' then Some ''ns''
     else if v = ''DELETION_TIMEOUT'' then Some ''1h30m''
     else if v = ''PRODUCER_RECONCILE_INTERVAL'' then Some ''5m''
     else if v = ''NETWORK_POLICIES_ENABLED'' then Some ''true''
     else if v = ''SELECTOR_LABELS'' then Some ''a: b'' else None)"

definition ex_config :: operator_config where
  "ex_config = \<lparr>cfgNamespace = ''ns'', cfgDeletionTimeout = 5400000000000, cfgReconcileInterval = 300000000000,
     cfgNetworkPoliciesEnabled = True, cfgSelectorLabels = []\<rparr>"

lemma ex_configured:
  "NewOperatorConfig (\<lambda>v. Inr []) (\<lambda>n. None) [''--leader-elect''] ex_env =
      Ran (Inr (ex_config, options_of_flags (default_flags\<lparr>fEnableLeaderElection := True\<rparr>) ''ns''))"
proof -
  have env: "getNamespace ex_env = Inr ''ns''" "getDeletionTimeout ex_env = Inr 5400000000000"
    "getProducerReconcileInterval ex_env = Inr 300000000000" "getNetworkPoliciesEnabled ex_env = Inr True"
    "getSelectorLabels (\<lambda>v. Inr []) ex_env = Inr []"
    and args: "parseFlags (\<lambda>n. None) [''--leader-elect''] = Inr (default_flags\<lparr>fEnableLeaderElection := True\<rparr>)"
    by code_simp+
  show ?thesis
    by (simp add: NewOperatorConfig_def getControllerOptions_def env args ex_config_def)
qed

end
