(* ===== verification/Config_Deadline.thy ===== *)
theory Config_Deadline
  imports Config_Props Request_Deletion
begin

text \<open>
  The deletion timeout from the environment variable to the decision it makes: what a SARE that is
  being deleted waits for.
\<close>

text \<open>The producer has been looked up, which is the first call of \<open>deleteServiceAccount\<close>.\<close>

definition looked_up :: "sare \<Rightarrow> call list \<Rightarrow> bool" where
  "looked_up sare cs \<longleftrightarrow> (\<exists>a. Get_Sapr (producer_key sare) a \<in> set cs)"

lemma settled_looked_up: "deletion_settled sare cs b \<Longrightarrow> looked_up sare cs"
  by (auto simp: deletion_settled_def looked_up_def read_before_def)

lemma quiet_not_looked_up: "trace (delete_clock E p s) = trace s @ us \<Longrightarrow> \<not> looked_up sare us"
  by (auto simp: delete_clock_def clock_st_def trace_stop_old looked_up_def split: option.splits)

lemma removal_after_deadline:
  assumes fin: "e_contains_finalizer E (heap s p) finalizer"
    and late: "time_since (fst (e_now E (world s))) ts > cfgDeletionTimeout cfg"
    and run: "run_state (reconcileDelete E cfg p ts) s = (r, t)"
  shows "\<not> looked_up (heap s p) (new_calls s t) \<and>
    (\<exists>a. last (new_calls s t) = Update_Sare (e_remove_finalizer E (heap s p) finalizer) a)"
proof -
  obtain us where us: "trace (delete_clock E p s) = trace s @ us" using trace_delete_clock by blast
  from run fin late have "trace t = trace (delete_clock E p s) @
      [Update_Sare (e_remove_finalizer E (heap s p) finalizer) (fst (e_update_sare E (e_remove_finalizer E (heap s p) finalizer)
        (world (delete_clock E p s))))]"
    by (auto simp: run_reconcileDelete run_removeFinalizer Let_def)
  with us quiet_not_looked_up [OF us] show ?thesis by (auto simp: new_calls_def looked_up_def)
qed

lemma removal_before_deadline:
  assumes fin: "e_contains_finalizer E (heap s p) finalizer"
    and early: "time_since (fst (e_now E (world s))) ts \<le> cfgDeletionTimeout cfg"
    and run: "run_state (reconcileDelete E cfg p ts) s = (r, t)"
  shows "looked_up (heap s p) (new_calls s t) \<and>
    (\<forall>x a. Update_Sare x a \<in> set (new_calls s t) \<longrightarrow> deletion_settled (heap s p) (butlast (new_calls s t)) True)"
  using run
proof (cases rule: reconcileDeleteE)
  case No_Finalizer
  with fin show ?thesis by simp
next
  case (Late ws a)
  with early show ?thesis by simp
next
  case (Failed ws cs b y a)
  then have "new_calls s t = ws @ cs @ [Patch_Sare_Status b y a]" by (simp add: new_calls_def)
  with Failed settled_looked_up [OF Failed(5)] show ?thesis
    by (auto simp: looked_up_def quiet_until_def filter_empty_conv)
next
  case (Done ws cs a)
  then have "new_calls s t = (ws @ cs) @ [Update_Sare (e_remove_finalizer E (heap s p) finalizer) a]" by (simp add: new_calls_def)
  with Done settled_looked_up [OF Done(5)] settled_grow [OF Done(5), of ws "[]"] show ?thesis
    by (auto simp: looked_up_def quiet_until_def butlast_append)
qed

text \<open>C37: the deletion timeout decides as it was configured. Let the configuration have been read from the environment, with a timeout below the largest duration (about 292 years), and let a SARE with the finalizer be reconciled that has been marked for deletion at \<open>ts\<close>. The timeout is what \<open>DELETION_TIMEOUT\<close> says. If the time from \<open>ts\<close> to the clock reading of this reconcile, as an exact difference of nanoseconds, is greater than the timeout, then the producer is not even looked up and the last call is the update that removes the finalizer. If it is not greater (equality included), then the producer is looked up, and the finalizer is removed only after the deletion has been settled there. (The code's own test uses \<open>time.Since\<close>, which saturates at 64 bits.)\<close>
theorem configured_deadline:
  assumes cfg: "NewOperatorConfig yaml ext args env = Ran (Inr (cfg, options))" "cfgDeletionTimeout cfg < max_duration"
    and fin: "e_contains_finalizer E (heap s p) finalizer"
    and run: "run_state (reconcileDelete E cfg p ts) s = (r, t)"
  defines "now \<equiv> fst (e_now E (world s))"
  shows "(\<exists>v. env ''DELETION_TIMEOUT'' = Some v \<and> parseDuration v = Inr (cfgDeletionTimeout cfg)) \<and>
    (if now - ts > cfgDeletionTimeout cfg
     then \<not> looked_up (heap s p) (new_calls s t) \<and>
       (\<exists>a. last (new_calls s t) = Update_Sare (e_remove_finalizer E (heap s p) finalizer) a)
     else looked_up (heap s p) (new_calls s t) \<and>
       (\<forall>x a. Update_Sare x a \<in> set (new_calls s t) \<longrightarrow> deletion_settled (heap s p) (butlast (new_calls s t)) True))"
proof -
  have "\<exists>v. env ''DELETION_TIMEOUT'' = Some v \<and> parseDuration v = Inr (cfgDeletionTimeout cfg)"
    using cfg(1) unfolding config_success by blast
  moreover note config_deadline_exact [OF cfg, of now ts]
  ultimately show ?thesis
    using removal_after_deadline [OF fin _ run] removal_before_deadline [OF fin _ run] by (auto simp: now_def not_less)
qed

section \<open>Witness\<close>

text \<open>At exactly the configured hour and a half the producer is still asked.\<close>

definition leaving_at :: "int \<Rightarrow> sim st" where
  "leaving_at now = ex_st ((ex_world [] (Inr (ex_response 500 [])))\<lparr>simNow := now\<rparr>)"

theorem configured_deadline_witness:
  "looked_up ex_sare (new_calls (leaving_at 5400000000000) (snd (run_state (reconcileDelete simE ex_config 0 0) (leaving_at 5400000000000)))) \<and>
   \<not> looked_up ex_sare (new_calls (leaving_at 5400000000001) (snd (run_state (reconcileDelete simE ex_config 0 0) (leaving_at 5400000000001))))"
proof -
  have small: "cfgDeletionTimeout ex_config < max_duration" by code_simp
  have fin: "e_contains_finalizer simE (heap (leaving_at n) 0) finalizer" for n
    by (simp add: leaving_at_def ex_sare_def finalizer_def)
  have now: "fst (e_now simE (world (leaving_at n))) = n" for n by (simp add: leaving_at_def)
  have obj: "heap (leaving_at n) 0 = ex_sare" for n by (simp add: leaving_at_def)
  have timeout: "cfgDeletionTimeout ex_config = 5400000000000" by (simp add: ex_config_def)
  note at = configured_deadline [OF ex_configured small fin prod.collapse [symmetric], where ts = 0, unfolded now obj timeout]
  from at [of 5400000000000] at [of 5400000000001] show ?thesis by simp
qed

end
