(* ===== verification/Spec2Isabelle.thy ===== *)
theory Spec2Isabelle
  imports Operator_Shutdown Account_Url Request_Fleet Request_Migration Request_Events Request_Lifecycle
    Rotation_Loop Producer_Props Json_Props Config_Deadline
begin

text \<open>
  The service account operator: a Kubernetes operator that provides consumers with service
  accounts at producers.

  \<^bold>\<open>The program.\<close> A \<open>ServiceAccountRequest\<close> (SARE) names a producer and a consumer. The request
  controller (\<open>src/internal/controller/request\<close>) asks the producer's HTTP endpoint for
  credentials, stores them in a secret the SARE controls, and reports in the SARE's status.
  With rotation enabled it keeps a cron runner per SARE whose job deletes the secret; the
  deletion event wakes the controller, which asks for new credentials. Deleting a SARE deletes
  the account at the producer, guarded by a finalizer and a deadline. The producer controller
  (\<open>src/internal/controller/producer\<close>) keeps a network policy for each
  \<open>ServiceAccountProducer\<close> (SAPR) and probes its endpoint; a producer that becomes ready wakes the
  SAREs that name it. \<open>src/internal/config\<close> reads the environment and the flags, and
  \<open>src/cmd/main.go\<close> starts the manager and shuts it down.

  \<^bold>\<open>How it is modelled.\<close> Every operation is a state computation (\<open>HOL-Library.State_Monad\<close>)
  on the process state \<open>st\<close> of \<open>World\<close>: the world outside, the heap of SARE objects, the watcher
  map, the cron tasks, and the trace of all outside calls with their full answers (an update or a status
  patch of a SARE is answered with an error or not, and with the object as the server then has it). A Go pointer to a
  SARE is a heap address, because a rotation job keeps the object of the reconcile that started
  it. Errors are the datatype \<open>gerr\<close> of \<open>Go_Std\<close>, with wrapping, \<open>errors.Is\<close> and the message text
  as in Go; a result is \<open>gerr + 'a\<close>, and a run-time panic is a value of \<open>outcome\<close>. Everything that
  is not under \<open>src/\<close> is a field of the record \<open>env\<close>, an argument of the definitions: it may
  answer anything, and differently from call to call. Theorems that need more than that name a
  law (\<open>Cluster_Laws\<close>), which states documented behaviour; the simulated cluster of \<open>Sim_Cluster\<close>
  obeys all of them, and the witnesses run on it.

  \<^bold>\<open>Foundations.\<close>
  \<^item> \<open>Prelude\<close>: the state computations, frame conditions (\<open>preserves\<close>, with the collection
    \<open>frame_rules\<close>) and evaluation rules (\<open>run_simps\<close>).
  \<^item> \<open>Go_Std\<close>, \<open>Go_Url\<close>, \<open>Go_Json\<close>, \<open>Go_Duration\<close>: what the source uses of Go's standard library:
    errors, strings, \<open>strconv\<close>, \<open>url.Parse\<close>, \<open>encoding/json\<close> with UTF-8, \<open>time.ParseDuration\<close> with its
    wrap-around.
  \<^item> \<open>Api_Types\<close>, \<open>World\<close>, \<open>Cluster_Laws\<close>: the Kubernetes objects, the environment and its laws.
  \<^item> \<open>Secret_Store\<close>, \<open>Secret_Reader\<close>, \<open>Http_Client\<close>, \<open>Network_Policy\<close>: the interfaces of the Go code as
    locales. \<open>secret_store\<close> is what the request controller relies on in its secret manager,
    \<open>secret_reader\<close> what both controllers rely on in the client factory and the migration source,
    \<open>service_account_client\<close> the producer's client, \<open>network_policy_upserter\<close> the policies of the
    producer controller. Each is interpreted on the model of the code that provides it.

  \<^bold>\<open>Components.\<close> Definitions have the names of the Go functions.
  \<^item> \<open>Secret_Manager\<close>, \<open>Migration\<close>: \<open>serviceaccount/secret_manager.go\<close>, \<open>migration.go\<close>.
  \<^item> \<open>Http_Client\<close>: \<open>producer/http_client.go\<close> and \<open>producer_client_factory.go\<close>.
  \<^item> \<open>Rotation_Cron\<close>, \<open>Request_Status\<close>, \<open>Request_Controller\<close>: \<open>controller/request\<close>, with \<open>cron/cron.go\<close>
    and \<open>status_conditions.go\<close>.
  \<^item> \<open>Network_Policy\<close>, \<open>Producer_Status\<close>, \<open>Producer_Controller\<close>: \<open>controller/producer\<close>.
  \<^item> \<open>Event_Wiring\<close>: both \<open>SetupWithManager\<close>, their predicates and what wakes each controller.
  \<^item> \<open>Config\<close>, \<open>Operator_Main\<close>: \<open>config\<close> and \<open>cmd/main.go\<close>.

  \<^bold>\<open>What is proved.\<close>
  \<^item> \<open>Request_Eval\<close>, \<open>Request_Frames\<close>: each step of the request controller as an equation, and what
    it leaves alone.
  \<^item> \<open>Request_Secrets\<close>, \<open>Request_Refinement\<close>: the possible courses of a reconcile's calls; it never
    touches a foreign secret; on the secrets of the cluster it refines an abstract store with
    the steps skip, drop and put.
  \<^item> \<open>Request_Outcome\<close>, \<open>Request_Report\<close>: what success means for the content of the secret (the values of
    the answer are written over what it held), the exact condition of the panic, the
    one request that is sent, and what the status says.
  \<^item> \<open>Request_Deletion\<close>: the finalizer goes only when the account is gone, or at the deadline.
  \<^item> \<open>Request_Rotation\<close>: no runner leaks in any reachable state; a rotation job checks the secret that its
    SARE names and deletes the one that the API server's answer to the status patch names.
  \<^item> \<open>Request_Progress\<close>, \<open>Request_Lifecycle\<close>: with a cluster and a producer that answer, and a SARE
    that is ready to be served (\<open>prepared\<close> lists the conditions), one reconcile
    is enough, a settled account stays as it is, and a deletion is completed.
  \<^item> \<open>Request_Fleet\<close>: many accounts at once. Whatever the order in which the work queue hands out
    requests, an account once handed out has its secret from then on; the accounts do not disturb each other.
  \<^item> \<open>Rotation_Loop\<close>: a rotation ends with new credentials, through the event that the deleted secret
    causes.
  \<^item> \<open>Operator_Steps\<close>: the process as a step relation over both controllers, jobs, event mappings and
    changes by others, and three contracts on its runs as locales: \<open>process_invariant\<close> (a property
    every operation keeps), \<open>audit\<close> (a rule every outside call obeys, given the calls before it; it is
    a sublocale of the first) and \<open>operator_refinement\<close> (an abstract process the operator refines).
  \<^item> \<open>Operator_System\<close>: in any run, objects in memory stay apart, and a secret that no SARE controls
    survives, unless a rotation job strays to it because the server's answer names another secret than the
    one it has checked.
  \<^item> \<open>Operator_History\<close>: three audits. Whenever a run changes a finalizer, deletes a secret or sends a
    request, its calls up to that point contain the reason.
  \<^item> \<open>Account_Url\<close>: what \<open>url.JoinPath\<close> makes of an endpoint and a consumer. A deletion reaches the
    account of its own consumer only, as long as consumers are plain path segments.
  \<^item> \<open>Operator_Schedule\<close>: watcher map, tasks and runner calls add up to a map from keys to rotation
    expressions. The operator refines a deterministic abstract process on such maps (each step has one event,
    computed from the answers of the API server, and the event determines the next map), and a reconcile that
    succeeds has set the key of its SARE to what the spec asks for.
  \<^item> \<open>Operator_Shutdown\<close>: the process from its start to its exit, as a state machine around the steps of
    \<open>Operator_Steps\<close>, in which operations go on after the cleanup; which rotation runners may outlive it.
  \<^item> \<open>Request_Migration\<close>, \<open>Request_Events\<close>, \<open>Producer_Props\<close>, \<open>Endpoint_Props\<close>, \<open>Json_Props\<close>,
    \<open>Config_Props\<close>, \<open>Config_Deadline\<close>: the decision of the migration, keys and mappings, policy and readiness of a
    producer, parsing of endpoints, JSON round trips, the configuration and how its deletion timeout
    decides a reconcile.

  \<^bold>\<open>Bounds.\<close> The only fuel is that of the JSON scanner: twice the length of the input plus one.
  \<open>Json_Props\<close> shows that any larger bound gives the same result. Every other recursion is
  structural or has a termination proof. Durations are 64-bit and ports 32-bit, with the
  wrap-around of the code. Unbounded integers stand for HTTP status codes, generations and times.

  \<^bold>\<open>Not modelled.\<close> Logging; contexts and their cancellation, except as errors an environment may
  answer; the text of JSON and YAML errors; the transport of HTTP requests and its timeout; the
  YAML parser; the scheduling of cron runners and of work queues (the steps of the process may come in any
  order, but one ends before the next begins; what others do during a step is covered as far as an
  answer of the environment may differ from call to call; so the watcher map has no data race here, which
  the code does not exclude between the cleanup and a reconcile); the objects the configuration builds for the web servers, beyond their options;
  interface declarations for mocks, tests, the Helm chart and the registration of API types.
\<close>

end
